(* ===== verification/Fleet_Prelude.thy ===== *)
theory Fleet_Prelude
  imports Main "HOL-Library.Word" "HOL-Library.Char_ord" "HOL-Library.List_Lexorder"
    "HOL-Library.Multiset" "HOL-Library.Signed_Division"
begin

text \<open>
  The prelude of the robot-fleet development: the result type of the Rust code and its
  \<open>?\<close> operator, the machine integers, the \<open>tonic::Status\<close> values the gRPC
  handlers return, and the generic lemmas on lists the component theories share.
\<close>

named_theorems fleet_defs \<open>definitions of the operations of a component\<close>
named_theorems result_simps \<open>rewriting of results through the question-mark operator\<close>

section \<open>Machine integers\<close>

type_synonym u8 = "8 word"
type_synonym u32 = "32 word"
type_synonym u64 = "64 word"

text \<open>
  An \<open>i64\<close> that is only stored and compared is an \<^typ>\<open>int\<close>. Where the code computes
  on it or casts it, the two's complement wrap-around is written out.
\<close>

definition wrap_i64 :: "int \<Rightarrow> int" where
  "wrap_i64 x = (x + 2 ^ 63) mod 2 ^ 64 - 2 ^ 63"

definition in_i64 :: "int \<Rightarrow> bool" where
  "in_i64 x \<longleftrightarrow> - (2 ^ 63) \<le> x \<and> x < 2 ^ 63"

lemma wrap_i64_id [simp]: "in_i64 x \<Longrightarrow> wrap_i64 x = x"
  by (simp add: wrap_i64_def in_i64_def)

lemma wrap_i64_range: "in_i64 (wrap_i64 x)"
  by (simp add: wrap_i64_def in_i64_def)

text \<open>The casts \<open>x as i64\<close> of a \<open>u64\<close> and \<open>x as u64\<close> of an \<open>i64\<close>.\<close>

definition u64_as_i64 :: "u64 \<Rightarrow> int" where
  "u64_as_i64 w = sint w"

definition i64_as_u64 :: "int \<Rightarrow> u64" where
  "i64_as_u64 x = word_of_int x"

lemma u64_i64_round_trip [simp]: "i64_as_u64 (u64_as_i64 w) = w"
  by (simp add: i64_as_u64_def u64_as_i64_def)

lemma u64_as_i64_range: "in_i64 (u64_as_i64 w)"
  using sint_range_size [of w] by (simp add: u64_as_i64_def in_i64_def word_size)

section \<open>Results\<close>

text \<open>
  A Rust function returns \<open>Ok\<close> of a value, \<open>Err\<close> of an error of its crate, or it
  panics. The three are the values of \<open>('e, 'a) result\<close>; a panic unwinds through
  \<open>?\<close> and \<open>map_err\<close> unchanged.
\<close>

datatype 'e failure = Fail 'e | Panic

type_synonym ('e, 'a) result = "'e failure + 'a"

abbreviation Ok :: "'a \<Rightarrow> ('e, 'a) result" where
  "Ok a \<equiv> Inr a"

abbreviation Err :: "'e \<Rightarrow> ('e, 'a) result" where
  "Err e \<equiv> Inl (Fail e)"

abbreviation Panicked :: "('e, 'a) result" where
  "Panicked \<equiv> Inl Panic"

definition is_ok :: "('e, 'a) result \<Rightarrow> bool" where
  "is_ok r = (case r of Inl _ \<Rightarrow> False | Inr _ \<Rightarrow> True)"

lemma is_ok_simps [simp]: "is_ok (Inr a)" "\<not> is_ok (Inl f)"
  by (simp_all add: is_ok_def)

lemma is_ok_iff: "is_ok r \<longleftrightarrow> (\<exists>a. r = Inr a)"
  by (cases r) simp_all

text \<open>\<open>Result::map_err\<close>, and the \<open>?\<close> operator over a result paired with the state.\<close>

primrec map_err :: "('e \<Rightarrow> 'f) \<Rightarrow> ('e, 'a) result \<Rightarrow> ('f, 'a) result" where
  "map_err f (Inl e) = Inl (map_failure f e)"
| "map_err f (Inr a) = Inr a"

definition map_err_st :: "('e \<Rightarrow> 'f) \<Rightarrow> ('e, 'a) result \<times> 's \<Rightarrow> ('f, 'a) result \<times> 's" where
  "map_err_st f r = (map_err f (fst r), snd r)"

lemma map_err_st_pair [simp]: "map_err_st f (r, s) = (map_err f r, s)"
  by (simp add: map_err_st_def)

fun try_bind :: "('e, 'a) result \<times> 's \<Rightarrow> ('a \<Rightarrow> 's \<Rightarrow> ('e, 'b) result \<times> 's) \<Rightarrow> ('e, 'b) result \<times> 's"
where
  "try_bind (Inl f, s) k = (Inl f, s)"
| "try_bind (Inr a, s) k = k a s"

primrec try_pure :: "('e, 'a) result \<Rightarrow> ('a \<Rightarrow> ('e, 'b) result) \<Rightarrow> ('e, 'b) result" where
  "try_pure (Inl f) k = Inl f"
| "try_pure (Inr a) k = k a"

lemma map_failure_eq_Panic [simp]: "map_failure f e = Panic \<longleftrightarrow> e = Panic"
  by (cases e) simp_all

lemma map_err_eq_Inr [simp]: "map_err f r = Inr a \<longleftrightarrow> r = Inr a"
  by (cases r) simp_all

lemma map_err_eq_Fail: "map_err f r = Inl (Fail e) \<longleftrightarrow> (\<exists>e'. r = Inl (Fail e') \<and> e = f e')"
proof (cases r)
  case (Inl x)
  then show ?thesis by (cases x) auto
qed simp

lemma map_err_eq_Panic: "map_err f r = Inl Panic \<longleftrightarrow> r = Inl Panic"
proof (cases r)
  case (Inl x)
  then show ?thesis by (cases x) auto
qed simp

lemma is_ok_map_err [simp]: "is_ok (map_err f r) = is_ok r"
  by (cases r) simp_all

lemma fst_map_err_st [simp]: "fst (map_err_st f r) = map_err f (fst r)"
  and snd_map_err_st [simp]: "snd (map_err_st f r) = snd r"
  by (simp_all add: map_err_st_def)

lemma try_bind_eq_Inr:
  "try_bind m k = (Inr b, s') \<longleftrightarrow> (\<exists>a s. m = (Inr a, s) \<and> k a s = (Inr b, s'))"
  by (cases "(m, k)" rule: try_bind.cases) auto

lemma try_bind_eq_Inl:
  "try_bind m k = (Inl f, s') \<longleftrightarrow>
     m = (Inl f, s') \<or> (\<exists>a s. m = (Inr a, s) \<and> k a s = (Inl f, s'))"
  by (cases "(m, k)" rule: try_bind.cases) auto

lemma try_pure_eq_Inr: "try_pure r k = Inr b \<longleftrightarrow> (\<exists>a. r = Inr a \<and> k a = Inr b)"
  by (cases r) auto

lemma try_pure_eq_Inl: "try_pure r k = Inl f \<longleftrightarrow> r = Inl f \<or> (\<exists>a. r = Inr a \<and> k a = Inl f)"
  by (cases r) auto

lemma snd_try_bind_cases:
  "snd (try_bind m k) = (case fst m of Inl _ \<Rightarrow> snd m | Inr a \<Rightarrow> snd (k a (snd m)))"
  by (cases "(m, k)" rule: try_bind.cases) auto

lemma try_bind_pure: "try_bind (r, s) k = (case r of Inl f \<Rightarrow> (Inl f, s) | Inr a \<Rightarrow> k a s)"
  by (cases r) simp_all

lemmas result_inv [result_simps] =
  try_bind_eq_Inr try_bind_eq_Inl try_pure_eq_Inr try_pure_eq_Inl map_err_eq_Fail map_err_eq_Panic

text \<open>\<open>collect\<close> of an iterator of results: the first error, or all values.\<close>

fun collect_results :: "('e, 'a) result list \<Rightarrow> ('e, 'a list) result" where
  "collect_results [] = Ok []"
| "collect_results (r # rs) = try_pure r (\<lambda>x. try_pure (collect_results rs) (\<lambda>xs. Ok (x # xs)))"

lemma collect_results_Inr: "collect_results rs = Inr xs \<longleftrightarrow> rs = map Inr xs"
  by (induction rs arbitrary: xs) (auto simp: try_pure_eq_Inr)

text \<open>\<open>Option::unwrap_or_default\<close> for strings, and \<open>ok_or\<close>.\<close>

definition unwrap_or_default :: "string option \<Rightarrow> string" where
  "unwrap_or_default x = (case x of None \<Rightarrow> [] | Some s \<Rightarrow> s)"

definition ok_or :: "'e \<Rightarrow> 'a option \<Rightarrow> ('e, 'a) result" where
  "ok_or e x = (case x of None \<Rightarrow> Err e | Some a \<Rightarrow> Ok a)"

lemma ok_or_simps [simp]: "ok_or e None = Err e" "ok_or e (Some a) = Ok a"
  by (simp_all add: ok_or_def)

text \<open>A request field that is empty when it was not given.\<close>

definition non_empty :: "string \<Rightarrow> string option" where
  "non_empty s = (if s = [] then None else Some s)"

section \<open>gRPC status values\<close>

datatype code = NotFoundCode | AlreadyExists | FailedPrecondition | InvalidArgument
  | Unauthenticated | PermissionDenied | Unavailable | Internal

record status =
  st_code :: code
  st_message :: string

abbreviation status_of :: "code \<Rightarrow> string \<Rightarrow> status" where
  "status_of c m \<equiv> \<lparr>st_code = c, st_message = m\<rparr>"

text \<open>\<open>prost_types::Timestamp\<close>.\<close>

record timestamp =
  ts_seconds :: int
  ts_nanos :: int

section \<open>Lists keyed by a field\<close>

text \<open>
  A table is the list of its rows in insertion order. \<open>row_with k x xs\<close> is the row whose
  key is \<open>x\<close>, \<open>set_row\<close> the rewriting of the rows with that key.
\<close>

definition row_with :: "('r \<Rightarrow> 'k) \<Rightarrow> 'k \<Rightarrow> 'r list \<Rightarrow> 'r option" where
  "row_with key x rows = find (\<lambda>r. key r = x) rows"

definition set_rows :: "('r \<Rightarrow> bool) \<Rightarrow> ('r \<Rightarrow> 'r) \<Rightarrow> 'r list \<Rightarrow> 'r list" where
  "set_rows p f rows = map (\<lambda>r. if p r then f r else r) rows"

lemma row_with_Nil [simp]: "row_with key x [] = None"
  by (simp add: row_with_def)

lemma row_with_Cons [simp]:
  "row_with key x (r # rs) = (if key r = x then Some r else row_with key x rs)"
  by (simp add: row_with_def)

lemma row_with_append:
  "row_with key x (rs @ qs) =
     (case row_with key x rs of None \<Rightarrow> row_with key x qs | Some r \<Rightarrow> Some r)"
  by (induction rs) auto

lemma row_with_None: "row_with key x rows = None \<longleftrightarrow> x \<notin> key ` set rows"
  by (induction rows) auto

lemma row_with_snoc:
  "x \<notin> key ` set rows \<Longrightarrow> key r = x \<Longrightarrow> row_with key x (rows @ [r]) = Some r"
  by (induction rows) auto

lemma row_with_SomeD: "row_with key x rows = Some r \<Longrightarrow> r \<in> set rows \<and> key r = x"
  by (induction rows) (auto split: if_splits)

lemma row_with_key: "row_with key x rows = Some r \<Longrightarrow> key r = x"
  by (drule row_with_SomeD) simp

lemma row_with_in_set: "row_with key x rows = Some r \<Longrightarrow> r \<in> set rows"
  by (drule row_with_SomeD) simp

lemma row_with_distinct:
  "distinct (map key rows) \<Longrightarrow> row_with key x rows = Some r \<longleftrightarrow> r \<in> set rows \<and> key r = x"
  by (induction rows) (auto split: if_splits)

lemma row_with_ex: "x \<in> key ` set rows \<Longrightarrow> \<exists>r. row_with key x rows = Some r"
  by (cases "row_with key x rows") (auto simp: row_with_None)

lemma set_rows_Nil [simp]: "set_rows p f [] = []"
  by (simp add: set_rows_def)

lemma set_rows_Cons [simp]:
  "set_rows p f (r # rs) = (if p r then f r else r) # set_rows p f rs"
  by (simp add: set_rows_def)

lemma length_set_rows [simp]: "length (set_rows p f rows) = length rows"
  by (simp add: set_rows_def)

lemma set_set_rows: "set (set_rows p f rows) = (\<lambda>r. if p r then f r else r) ` set rows"
  by (simp add: set_rows_def)

lemma map_key_set_rows: "(\<And>r. p r \<Longrightarrow> key (f r) = key r) \<Longrightarrow> map key (set_rows p f rows) = map key rows"
  by (induction rows) auto

lemma image_key_set_rows:
  "(\<And>r. key (f r) = key r) \<Longrightarrow> key ` set (set_rows p f rows) = key ` set rows"
  using map_key_set_rows [of p key f rows] by (metis list.set_map)

lemma set_rows_id: "(\<And>r. r \<in> set rows \<Longrightarrow> \<not> p r) \<Longrightarrow> set_rows p f rows = rows"
  by (induction rows) auto

lemma row_with_set_rows:
  assumes "\<And>r. p r \<Longrightarrow> key (f r) = key r"
  shows "row_with key x (set_rows p f rows) =
     map_option (\<lambda>r. if p r then f r else r) (row_with key x rows)"
  using assms by (induction rows) auto

lemma row_with_set_rows_key:
  assumes "\<And>r. key (f r) = key r"
  shows "row_with key y (set_rows (\<lambda>r. key r = x) f rows) =
     (if y = x then map_option f (row_with key x rows) else row_with key y rows)"
  using assms by (induction rows) auto

lemma row_with_NoneD:
  "row_with key x rows = None \<Longrightarrow> filter (\<lambda>r. key r = x) rows = []"
  "row_with key x rows = None \<Longrightarrow> set_rows (\<lambda>r. key r = x) f rows = rows"
  by (induction rows) (auto split: if_splits)

lemma row_with_SomeD2: "row_with key x rows = Some r \<Longrightarrow> filter (\<lambda>r. key r = x) rows \<noteq> []"
  by (induction rows) (auto split: if_splits)

lemma filter_set_rows_false:
  "(\<And>r. q r \<Longrightarrow> \<not> p r) \<Longrightarrow> (\<And>r. p r \<Longrightarrow> \<not> q (f r)) \<Longrightarrow> filter q (set_rows p f rows) = filter q rows"
  by (induction rows) auto

end
