(* ===== verification/Sqlite_Model.thy ===== *)
theory Sqlite_Model
  imports Fleet_Prelude
begin

text \<open>
  The three services keep their state in SQLite, reached through one
  \<open>Mutex<rusqlite::Connection>\<close> each. The SQL statements are part of the source and are
  translated where they occur; this theory holds what they share: the connection with its
  transaction, and the engine, a parameter of every store operation, which says for each
  call whether the engine carried the statement out or reported an error.

  A store operation locks the mutex for its whole duration, so operations of one service
  never overlap: each is one function on the connection.
\<close>

section \<open>Errors of the database library\<close>

text \<open>
  Of \<open>rusqlite::Error\<close> the source distinguishes \<open>SqliteFailure\<close> with the code
  \<open>ConstraintViolation\<close>, \<open>QueryReturnedNoRows\<close>, the value \<open>InvalidQuery\<close> it
  builds itself for a poisoned mutex, and everything else.
\<close>

datatype error_code = ConstraintViolation | OtherCode int

datatype rusqlite_error =
    SqliteFailure error_code
  | QueryReturnedNoRows
  | InvalidQuery
  | OtherError string

section \<open>The connection and its transaction\<close>

text \<open>
  \<open>tabs\<close> is what statements on the connection see and change. While a transaction is open,
  \<open>saved\<close> holds the contents at its \<open>BEGIN\<close>, which \<open>ROLLBACK\<close> restores and which
  are what the database file holds until \<open>COMMIT\<close>.
\<close>

record 't conn =
  tabs :: 't
  saved :: "'t option"

definition committed :: "'t conn \<Rightarrow> 't" where
  "committed c = (case saved c of None \<Rightarrow> tabs c | Some t \<Rightarrow> t)"

definition idle :: "'t conn \<Rightarrow> bool" where
  "idle c \<longleftrightarrow> saved c = None"

definition open_conn :: "'t \<Rightarrow> 't conn" where
  "open_conn t = \<lparr>tabs = t, saved = None\<rparr>"

lemma open_conn_simps [simp]:
  "tabs (open_conn t) = t" "saved (open_conn t) = None" "idle (open_conn t)"
  by (simp_all add: open_conn_def idle_def)

lemma committed_idle [simp]: "idle c \<Longrightarrow> committed c = tabs c"
  by (simp add: idle_def committed_def)

definition roll_back :: "'t conn \<Rightarrow> 't conn" where
  "roll_back c = (case saved c of None \<Rightarrow> c | Some t \<Rightarrow> c\<lparr>tabs := t, saved := None\<rparr>)"

lemma committed_roll_back [simp]: "committed (roll_back c) = committed c"
  by (simp add: roll_back_def committed_def split: option.split)

lemma idle_roll_back [simp]: "idle (roll_back c)"
  by (simp add: roll_back_def idle_def split: option.split)

section \<open>The engine\<close>

text \<open>
  The call sites of an operation are numbered in the order of the source text.
  \<open>fault eng i\<close> is the answer of the engine at call site \<open>i\<close>: \<open>None\<close> when the statement is carried out, \<open>Some (e, b)\<close> when it fails with
  \<open>e\<close> and without effect; \<open>b\<close> says that SQLite also rolled the open transaction back
  by itself, as it may on some errors. \<open>lock_poisoned\<close> is the state of the mutex,
  \<open>err_display\<close> the text of an error of the library.
\<close>

record engine =
  lock_poisoned :: bool
  fault :: "nat \<Rightarrow> (rusqlite_error \<times> bool) option"
  err_display :: "rusqlite_error \<Rightarrow> string"

definition no_fault :: "engine \<Rightarrow> bool" where
  "no_fault eng \<longleftrightarrow> \<not> lock_poisoned eng \<and> fault eng = (\<lambda>_. None)"

lemma no_fault_simps [simp]: "no_fault eng \<Longrightarrow> \<not> lock_poisoned eng" "no_fault eng \<Longrightarrow> fault eng i = None"
  by (simp_all add: no_fault_def)

definition reliable :: engine where
  "reliable = \<lparr>lock_poisoned = False, fault = (\<lambda>_. None), err_display = (\<lambda>_. ''sqlite'')\<rparr>"

lemma reliable_simps [simp]:
  "lock_poisoned reliable = False" "fault reliable i = None" "no_fault reliable"
  by (simp_all add: reliable_def no_fault_def)

text \<open>An engine that fails one call site.\<close>

definition failing_at :: "nat \<Rightarrow> rusqlite_error \<Rightarrow> bool \<Rightarrow> engine" where
  "failing_at n e b = reliable\<lparr>fault := (\<lambda>i. if i = n then Some (e, b) else None)\<rparr>"

lemma failing_at_simps [simp]:
  "lock_poisoned (failing_at n e b) = False" "fault (failing_at n e b) i = (if i = n then Some (e, b) else None)"
  by (simp_all add: failing_at_def reliable_def)

definition sql :: "engine \<Rightarrow> nat \<Rightarrow> ('t \<Rightarrow> (rusqlite_error, 'a) result \<times> 't) \<Rightarrow> 't conn
    \<Rightarrow> (rusqlite_error, 'a) result \<times> 't conn" where
  "sql eng i stmt c =
     (case fault eng i of
        Some (e, b) \<Rightarrow> (Err e, if b then roll_back c else c)
      | None \<Rightarrow> (case stmt (tabs c) of (r, t) \<Rightarrow> (r, c\<lparr>tabs := t\<rparr>)))"

text \<open>\<open>BEGIN IMMEDIATE\<close>, \<open>COMMIT\<close> and \<open>ROLLBACK\<close>: SQLite has no nested
  transactions, and ending one that is not open is an error.\<close>

definition begin_immediate :: "engine \<Rightarrow> nat \<Rightarrow> 't conn \<Rightarrow> (rusqlite_error, unit) result \<times> 't conn" where
  "begin_immediate eng i c =
     (case fault eng i of
        Some (e, b) \<Rightarrow> (Err e, if b then roll_back c else c)
      | None \<Rightarrow> if idle c then (Ok (), c\<lparr>saved := Some (tabs c)\<rparr>)
                else (Err (SqliteFailure (OtherCode 1)), c))"

definition commit :: "engine \<Rightarrow> nat \<Rightarrow> 't conn \<Rightarrow> (rusqlite_error, unit) result \<times> 't conn" where
  "commit eng i c =
     (case fault eng i of
        Some (e, b) \<Rightarrow> (Err e, if b then roll_back c else c)
      | None \<Rightarrow> if idle c then (Err (SqliteFailure (OtherCode 1)), c)
                else (Ok (), c\<lparr>saved := None\<rparr>))"

definition rollback :: "engine \<Rightarrow> nat \<Rightarrow> 't conn \<Rightarrow> (rusqlite_error, unit) result \<times> 't conn" where
  "rollback eng i c =
     (case fault eng i of
        Some (e, b) \<Rightarrow> (Err e, if b then roll_back c else c)
      | None \<Rightarrow> if idle c then (Err (SqliteFailure (OtherCode 1)), c)
                else (Ok (), roll_back c))"

text \<open>
  The shape of the two transactional operations of the device store: \<open>BEGIN IMMEDIATE\<close>,
  the closure, then \<open>COMMIT\<close> with its error returned, or \<open>ROLLBACK\<close> with its error
  ignored and the closure's error returned. The closure has the call sites
  \<open>1 \<dots> n - 1\<close>, \<open>COMMIT\<close> is site \<open>n\<close> and \<open>ROLLBACK\<close> site \<open>n + 1\<close>.
\<close>

definition transaction :: "engine \<Rightarrow> nat \<Rightarrow> (rusqlite_error \<Rightarrow> 'e)
    \<Rightarrow> ('t conn \<Rightarrow> ('e, 'a) result \<times> 't conn) \<Rightarrow> 't conn \<Rightarrow> ('e, 'a) result \<times> 't conn" where
  "transaction eng n db body c =
     try_bind (map_err_st db (begin_immediate eng 0 c)) (\<lambda>_ c1.
       (case body c1 of
          (Inr a, c2) \<Rightarrow> try_bind (map_err_st db (commit eng n c2)) (\<lambda>_ c3. (Ok a, c3))
        | (Inl f, c2) \<Rightarrow> (Inl f, snd (rollback eng (Suc n) c2))))"

text \<open>\<open>lock().map_err(..)?\<close> at the start of an operation.\<close>

definition with_lock :: "engine \<Rightarrow> 'e failure \<Rightarrow> ('t conn \<Rightarrow> ('e, 'a) result \<times> 't conn) \<Rightarrow> 't conn
    \<Rightarrow> ('e, 'a) result \<times> 't conn" where
  "with_lock eng poison body c = (if lock_poisoned eng then (Inl poison, c) else body c)"

section \<open>Statements\<close>

text \<open>
  \<open>SELECT .. WHERE key = ?\<close> through \<open>query_row\<close>, \<open>UPDATE .. WHERE\<close> with the number of
  rows changed, \<open>SELECT\<close> of many rows, and \<open>LIMIT\<close> (no bound when negative). Their
  table is given by its field and, for an update, the field's update function.
\<close>

definition query_row :: "('t \<Rightarrow> 'r list) \<Rightarrow> ('r \<Rightarrow> 'k) \<Rightarrow> 'k \<Rightarrow> 't \<Rightarrow> (rusqlite_error, 'r) result \<times> 't" where
  "query_row table key x t = (ok_or QueryReturnedNoRows (row_with key x (table t)), t)"

definition update_where :: "(('r list \<Rightarrow> 'r list) \<Rightarrow> 't \<Rightarrow> 't) \<Rightarrow> ('t \<Rightarrow> 'r list) \<Rightarrow> ('r \<Rightarrow> bool) \<Rightarrow> ('r \<Rightarrow> 'r)
    \<Rightarrow> 't \<Rightarrow> (rusqlite_error, nat) result \<times> 't" where
  "update_where upd table p f t = (Ok (length (filter p (table t))), upd (set_rows p f) t)"

definition query :: "('t \<Rightarrow> 'a) \<Rightarrow> 't \<Rightarrow> (rusqlite_error, 'a) result \<times> 't" where
  "query f t = (Ok (f t), t)"

definition limit_rows :: "int \<Rightarrow> 'r list \<Rightarrow> 'r list" where
  "limit_rows n rows = (if n < 0 then rows else take (nat n) rows)"

lemma sql_query_tabs:
  "fault eng i = None \<Longrightarrow> sql eng i (query f) c = (Ok (f (tabs c)), c)"
  "fault eng i = None \<Longrightarrow> sql eng i (query_row table key x) c =
     (ok_or QueryReturnedNoRows (row_with key x (table (tabs c))), c)"
  by (simp_all add: sql_def query_def query_row_def)

text \<open>
  \<open>ORDER BY\<close> leaves rows with equal keys in an order SQL does not fix: it depends on the
  query plan, a permutation \<open>plan\<close> of the rows that is a parameter of the query.
\<close>

definition is_plan :: "('r list \<Rightarrow> 'r list) \<Rightarrow> bool" where
  "is_plan plan \<longleftrightarrow> (\<forall>rows. mset (plan rows) = mset rows)"

definition order_asc :: "('r list \<Rightarrow> 'r list) \<Rightarrow> ('r \<Rightarrow> 'k::linorder) \<Rightarrow> 'r list \<Rightarrow> 'r list" where
  "order_asc plan key rows = sort_key key (plan rows)"

definition order_desc :: "('r list \<Rightarrow> 'r list) \<Rightarrow> ('r \<Rightarrow> 'k::linorder) \<Rightarrow> 'r list \<Rightarrow> 'r list" where
  "order_desc plan key rows = rev (sort_key key (plan rows))"

text \<open>
  Stepping through the rows of a query: the fault at a call site ends the iteration with one
  error item. \<open>ok_items\<close> is \<open>filter_map(|r| r.ok())\<close>.
\<close>

fun step_rows :: "engine \<Rightarrow> nat \<Rightarrow> 'r list \<Rightarrow> (rusqlite_error, 'r) result list" where
  "step_rows eng i [] = (case fault eng i of None \<Rightarrow> [] | Some (e, _) \<Rightarrow> [Err e])"
| "step_rows eng i (r # rows) =
     (case fault eng i of None \<Rightarrow> Ok r # step_rows eng (Suc i) rows | Some (e, _) \<Rightarrow> [Err e])"

definition ok_items :: "('e, 'a) result list \<Rightarrow> 'a list" where
  "ok_items items = List.map_filter (\<lambda>r. case r of Inl _ \<Rightarrow> None | Inr a \<Rightarrow> Some a) items"

lemma ok_items_simps [simp]:
  "ok_items [] = []" "ok_items (Inr a # rs) = a # ok_items rs" "ok_items (Inl f # rs) = ok_items rs"
  by (simp_all add: ok_items_def List.map_filter_def)

lemma ok_items_step_rows: "no_fault eng \<Longrightarrow> ok_items (step_rows eng i rows) = rows"
  by (induction rows arbitrary: i) simp_all

lemma ok_items_step_rows_prefix: "\<exists>n. ok_items (step_rows eng i rows) = take n rows"
proof (induction rows arbitrary: i)
  case Nil
  then show ?case by (auto split: option.split)
next
  case (Cons r rows)
  from Cons.IH [of "Suc i"] obtain n where "ok_items (step_rows eng (Suc i) rows) = take n rows" by blast
  then show ?case
    by (cases "fault eng i") (auto intro: exI [of _ "Suc n"] exI [of _ 0])
qed

lemma set_plan: "is_plan plan \<Longrightarrow> set (plan rows) = set rows"
  by (metis is_plan_def set_mset_mset)

lemma length_plan: "is_plan plan \<Longrightarrow> length (plan rows) = length rows"
  by (metis is_plan_def size_mset)

lemma is_plan_id [simp]: "is_plan (\<lambda>rows. rows)" and is_plan_rev [simp]: "is_plan rev"
  by (simp_all add: is_plan_def)

lemma set_order [simp]:
  "is_plan plan \<Longrightarrow> set (order_asc plan key rows) = set rows"
  "is_plan plan \<Longrightarrow> set (order_desc plan key rows) = set rows"
  by (simp_all add: order_asc_def order_desc_def set_plan)

lemma order_desc_sorted: "sorted_wrt (\<ge>) (map key (order_desc plan key rows))"
  by (simp add: order_desc_def rev_map [symmetric] sorted_wrt_rev)

lemma order_asc_sorted: "sorted (map key (order_asc plan key rows))"
  by (simp add: order_asc_def)

lemma mset_order:
  "is_plan plan \<Longrightarrow> mset (order_asc plan key rows) = mset rows"
  "is_plan plan \<Longrightarrow> mset (order_desc plan key rows) = mset rows"
  by (simp_all add: order_asc_def order_desc_def is_plan_def)

text \<open>With distinct keys the plan does not matter, and filtering commutes with ordering.\<close>

lemma order_desc_filter:
  assumes "is_plan plan" and "distinct (map key rows)"
  shows "order_desc plan key (filter p rows) = filter p (order_desc plan key rows)"
proof -
  have "sort_key key (plan (filter p rows)) = filter p (sort_key key (plan rows))"
  proof (rule sort_key_inj_key_eq)
    show "mset (plan (filter p rows)) = mset (filter p (sort_key key (plan rows)))"
      using assms(1) by (simp add: is_plan_def)
    show "inj_on key (set (plan (filter p rows)))"
      using assms by (auto simp: set_plan distinct_map intro: inj_on_subset)
    show "sorted (map key (filter p (sort_key key (plan rows))))"
      by (rule sorted_filter) simp
  qed
  then show ?thesis by (simp add: order_desc_def rev_filter)
qed

lemma order_desc_strict:
  assumes "is_plan plan" and "distinct (map key rows)"
  shows "sorted_wrt (>) (map key (order_desc plan key rows))"
proof -
  have "distinct (map key (order_desc plan key rows))"
    using assms by (metis mset_order(2) mset_map mset_eq_imp_distinct_iff)
  then have "sorted_wrt (<) (map key (rev (order_desc plan key rows)))"
    by (simp add: strict_sorted_iff order_desc_def rev_map [symmetric])
  then show ?thesis by (simp add: rev_map [symmetric] sorted_wrt_rev)
qed

subsection \<open>Call sites without fault\<close>

lemma sql_Inr:
  "sql eng i stmt c = (Inr a, c') \<longleftrightarrow> fault eng i = None \<and> (\<exists>t. stmt (tabs c) = (Inr a, t) \<and> c' = c\<lparr>tabs := t\<rparr>)"
  by (auto simp: sql_def split: option.split prod.split)

lemma map_err_st_Inr: "map_err_st f m = (Inr a, c) \<longleftrightarrow> m = (Inr a, c)"
  by (cases m) simp

lemma ok_or_Inr: "ok_or e x = Inr a \<longleftrightarrow> x = Some a"
  by (cases x) simp_all

lemmas inr_simps = try_bind_eq_Inr map_err_st_Inr sql_Inr query_row_def update_where_def
  query_def ok_or_Inr

lemma sql_fault_free [simp]:
  "fault eng i = None \<Longrightarrow> sql eng i stmt c = (case stmt (tabs c) of (r, t) \<Rightarrow> (r, c\<lparr>tabs := t\<rparr>))"
  by (simp add: sql_def)

lemma conn_tabs_id [simp]: "c\<lparr>tabs := tabs c\<rparr> = (c :: 't conn)"
  by simp

lemma begin_no_fault [simp]:
  "fault eng i = None \<Longrightarrow> idle c \<Longrightarrow> begin_immediate eng i c = (Ok (), c\<lparr>saved := Some (tabs c)\<rparr>)"
  by (simp add: begin_immediate_def)

lemma commit_no_fault [simp]:
  "fault eng i = None \<Longrightarrow> saved c = Some t \<Longrightarrow> commit eng i c = (Ok (), c\<lparr>saved := None\<rparr>)"
  by (simp add: commit_def idle_def)

lemma rollback_no_fault [simp]:
  "fault eng i = None \<Longrightarrow> saved c = Some t \<Longrightarrow>
     rollback eng i c = (Ok (), c\<lparr>tabs := t, saved := None\<rparr>)"
  by (simp add: rollback_def idle_def roll_back_def)

text \<open>What is committed changes only by a successful \<open>COMMIT\<close> or outside a transaction.\<close>

lemma committed_saved: "saved c = Some t \<Longrightarrow> committed c = t"
  by (simp add: committed_def)

lemma roll_back_idle [simp]: "idle c \<Longrightarrow> roll_back c = c"
  by (simp add: roll_back_def idle_def)

lemma committed_begin [simp]: "idle c \<Longrightarrow> committed (c\<lparr>saved := Some (tabs c)\<rparr>) = tabs c"
  by (simp add: committed_def)

lemma begin_committed [simp]: "committed (snd (begin_immediate eng i c)) = committed c"
  by (auto simp: begin_immediate_def split: option.split)

lemma begin_Inr:
  "begin_immediate eng i c = (Inr u, c') \<Longrightarrow> idle c \<and> c' = c\<lparr>saved := Some (tabs c)\<rparr>"
  by (auto simp: begin_immediate_def split: option.splits if_splits)

lemma rollback_committed [simp]: "committed (snd (rollback eng i c)) = committed c"
  by (auto simp: rollback_def split: option.split)

lemma commit_Inl: "commit eng i c = (Inl f, c') \<Longrightarrow> committed c' = committed c"
  by (auto simp: commit_def split: option.splits if_splits)

lemma commit_Inr: "commit eng i c = (Inr u, c') \<Longrightarrow> c' = c\<lparr>saved := None\<rparr>"
  by (auto simp: commit_def split: option.splits if_splits)

text \<open>
  \<open>tx_ok t m\<close>: a step inside the transaction opened on \<open>t\<close> leaves \<open>t\<close> committed, and
  the transaction open if it succeeds.
\<close>

definition tx_ok :: "'t \<Rightarrow> ('e, 'a) result \<times> 't conn \<Rightarrow> bool" where
  "tx_ok t m \<longleftrightarrow> committed (snd m) = t \<and> (is_ok (fst m) \<longrightarrow> saved (snd m) = Some t)"

lemma tx_ok_sql: "saved c = Some t \<Longrightarrow> tx_ok t (sql eng i stmt c)"
  by (auto simp: tx_ok_def sql_def committed_def roll_back_def split: option.split prod.split)

lemma tx_ok_map_err: "tx_ok t m \<Longrightarrow> tx_ok t (map_err_st f m)"
  by (simp add: tx_ok_def)

lemma tx_ok_pair: "saved c = Some t \<Longrightarrow> tx_ok t (r, c)"
  by (simp add: tx_ok_def committed_saved)

lemma tx_ok_bind:
  assumes "tx_ok t m" and "\<And>a c. saved c = Some t \<Longrightarrow> tx_ok t (k a c)"
  shows "tx_ok t (try_bind m k)"
  using assms by (cases "(m, k)" rule: try_bind.cases) (auto simp: tx_ok_def)

lemmas tx_ok_intros = tx_ok_bind tx_ok_map_err tx_ok_sql tx_ok_pair

section \<open>The contract of a transaction body\<close>

text \<open>
  \<open>commit_safe n eng\<close>: when the engine fails the \<open>COMMIT\<close> (statement \<open>n\<close>) or the
  \<open>ROLLBACK\<close> (statement \<open>n + 1\<close>) it ends the transaction by itself. Without it a failed
  \<open>COMMIT\<close> leaves the transaction open, since the code returns at the \<open>?\<close>.
\<close>

definition commit_safe :: "nat \<Rightarrow> engine \<Rightarrow> bool" where
  "commit_safe n eng \<longleftrightarrow> (\<forall>e. fault eng n \<noteq> Some (e, False)) \<and> (\<forall>e. fault eng (Suc n) \<noteq> Some (e, False))"

lemma commit_safe_no_fault [simp]: "no_fault eng \<Longrightarrow> commit_safe n eng"
  by (simp add: commit_safe_def)

lemma saved_roll_back [simp]: "saved (roll_back c) = None"
  by (simp add: roll_back_def split: option.split)

lemma commit_idle: "commit_safe n eng \<Longrightarrow> idle (snd (commit eng n c))"
  by (auto simp: commit_def commit_safe_def idle_def split: option.split)

lemma rollback_idle: "commit_safe n eng \<Longrightarrow> idle (snd (rollback eng (Suc n) c))"
  by (auto simp: rollback_def commit_safe_def split: option.split)

text \<open>
  The interface between the transaction bracket and the closure it runs: inside the open
  transaction the closure leaves the committed contents alone, and when it succeeds the
  transaction is still open.
\<close>

locale tx_body =
  fixes body :: "engine \<Rightarrow> 'x \<Rightarrow> 't conn \<Rightarrow> ('e, 'a) result \<times> 't conn"
  assumes body_tx_ok: "saved c = Some t \<Longrightarrow> tx_ok t (body eng x c)"
begin

lemma body_committed: "saved c = Some t \<Longrightarrow> committed (snd (body eng x c)) = t"
  using body_tx_ok [of c t eng x] by (simp add: tx_ok_def)

lemma tx_error_keeps_committed:
  assumes "transaction eng n db (body eng x) c = (Inl f, c')"
  shows "committed c' = committed c"
proof -
  obtain r c1 where b: "begin_immediate eng 0 c = (r, c1)" by fastforce
  show ?thesis
  proof (cases r)
    case (Inl g)
    with assms b show ?thesis
      using begin_committed [of eng 0 c] by (simp add: transaction_def)
  next
    case (Inr u)
    with b have c1: "idle c" "c1 = c\<lparr>saved := Some (tabs c)\<rparr>" by (auto dest: begin_Inr)
    obtain q c2 where q: "body eng x c1 = (q, c2)" by fastforce
    have c2: "committed c2 = tabs c"
      using body_committed [of c1 "tabs c" eng x] c1 q by simp
    show ?thesis
    proof (cases q)
      case (Inl g)
      with assms b Inr q c1 c2 show ?thesis
        using rollback_committed [of eng "Suc n" c2] by (auto simp: transaction_def)
    next
      case q': (Inr a)
      obtain v c3 where v: "commit eng n c2 = (v, c3)" by fastforce
      with assms b Inr q q' obtain g where "v = Inl g" "c3 = c'"
        by (cases v) (auto simp: transaction_def)
      with v c1 c2 show ?thesis by (auto dest: commit_Inl)
    qed
  qed
qed

lemma tx_success:
  assumes "transaction eng n db (body eng x) c = (Inr a, c')"
  shows "idle c" and "idle c'"
    and "\<exists>c2. body eng x (c\<lparr>saved := Some (tabs c)\<rparr>) = (Inr a, c2) \<and> c' = c2\<lparr>saved := None\<rparr>"
proof -
  obtain c1 where b: "begin_immediate eng 0 c = (Inr (), c1)"
    using assms by (cases "begin_immediate eng 0 c", cases "fst (begin_immediate eng 0 c)")
      (auto simp: transaction_def)
  then have c1: "idle c" "c1 = c\<lparr>saved := Some (tabs c)\<rparr>" by (auto dest: begin_Inr)
  obtain q c2 where q: "body eng x c1 = (q, c2)" by fastforce
  have "q = Inr a \<and> commit eng n c2 = (Inr (), c')"
    using assms b q
    by (cases q; cases "commit eng n c2"; cases "fst (commit eng n c2)")
      (auto simp: transaction_def)
  then have "q = Inr a" "c' = c2\<lparr>saved := None\<rparr>" by (auto dest: commit_Inr)
  with c1 q show "idle c" and "idle c'"
    and "\<exists>c2. body eng x (c\<lparr>saved := Some (tabs c)\<rparr>) = (Inr a, c2) \<and> c' = c2\<lparr>saved := None\<rparr>"
    by (auto simp: idle_def)
qed

lemma tx_stays_idle:
  assumes "idle c" and "commit_safe n eng"
  shows "idle (snd (transaction eng n db (body eng x) c))"
proof -
  obtain r c1 where b: "begin_immediate eng 0 c = (r, c1)" by fastforce
  show ?thesis
  proof (cases r)
    case (Inl g)
    with assms b show ?thesis
      by (auto simp: transaction_def begin_immediate_def split: option.splits if_splits)
  next
    case (Inr u)
    obtain q c2 where q: "body eng x c1 = (q, c2)" by fastforce
    show ?thesis
      using Inr b q commit_idle [OF assms(2), of c2] rollback_idle [OF assms(2), of c2]
      by (cases q; cases "commit eng n c2"; cases "fst (commit eng n c2)")
        (auto simp: transaction_def)
  qed
qed

end

section \<open>Predicates of the rows that every statement keeps\<close>

text \<open>
  \<open>conn_all P c\<close>: \<open>P\<close> holds of the visible rows and of the rows a rollback would restore.
  A statement that keeps \<open>P\<close> keeps \<open>conn_all P\<close>, whatever the engine answers.
\<close>

definition conn_all :: "('t \<Rightarrow> bool) \<Rightarrow> 't conn \<Rightarrow> bool" where
  "conn_all P c \<longleftrightarrow> P (tabs c) \<and> (\<forall>t. saved c = Some t \<longrightarrow> P t)"

lemma conn_all_tabs: "conn_all P c \<Longrightarrow> P (tabs c)"
  by (simp add: conn_all_def)

lemma conn_all_committed: "conn_all P c \<Longrightarrow> P (committed c)"
  by (auto simp: conn_all_def committed_def split: option.split)

lemma conn_all_open [simp]: "conn_all P (open_conn t) = P t"
  by (simp add: conn_all_def)

lemma conn_all_roll_back: "conn_all P c \<Longrightarrow> conn_all P (roll_back c)"
  by (auto simp: conn_all_def roll_back_def split: option.split)

lemma conn_all_sql:
  "conn_all P c \<Longrightarrow> (\<And>t. P t \<Longrightarrow> P (snd (stmt t))) \<Longrightarrow> conn_all P (snd (sql eng i stmt c))"
  using conn_all_roll_back [of P c]
  by (auto simp: sql_def conn_all_def split: option.split prod.split) (metis snd_conv)+

lemma conn_all_reads:
  "conn_all P c \<Longrightarrow> conn_all P (snd (sql eng i (query f) c))"
  "conn_all P c \<Longrightarrow> conn_all P (snd (sql eng i (query_row table key x) c))"
  by (auto intro!: conn_all_sql simp: query_def query_row_def)

lemma conn_all_begin: "conn_all P c \<Longrightarrow> conn_all P (snd (begin_immediate eng i c))"
  using conn_all_roll_back [of P c]
  by (auto simp: begin_immediate_def conn_all_def split: option.split)

lemma conn_all_commit: "conn_all P c \<Longrightarrow> conn_all P (snd (commit eng i c))"
  using conn_all_roll_back [of P c]
  by (auto simp: commit_def conn_all_def split: option.split)

lemma conn_all_rollback: "conn_all P c \<Longrightarrow> conn_all P (snd (rollback eng i c))"
  using conn_all_roll_back [of P c]
  by (auto simp: rollback_def split: option.split)

lemma conn_all_try_bind:
  assumes "conn_all P (snd m)" and "\<And>a c. m = (Inr a, c) \<Longrightarrow> conn_all P c \<Longrightarrow> conn_all P (snd (k a c))"
  shows "conn_all P (snd (try_bind m k))"
  using assms by (cases "(m, k)" rule: try_bind.cases) auto

lemma conn_all_transaction:
  assumes "conn_all P c" and "\<And>c. conn_all P c \<Longrightarrow> conn_all P (snd (body c))"
  shows "conn_all P (snd (transaction eng n db body c))"
  unfolding transaction_def
proof (rule conn_all_try_bind)
  show "conn_all P (snd (map_err_st db (begin_immediate eng 0 c)))"
    using assms(1) by (simp add: conn_all_begin)
next
  fix c1 assume "conn_all P c1"
  then have b: "conn_all P (snd (body c1))" by (rule assms(2))
  show "conn_all P (snd (case body c1 of
          (Inr a, c2) \<Rightarrow> try_bind (map_err_st db (commit eng n c2)) (\<lambda>_ c3. (Ok a, c3))
        | (Inl f, c2) \<Rightarrow> (Inl f, snd (rollback eng (Suc n) c2))))"
    using b by (auto split: prod.split sum.split intro!: conn_all_rollback conn_all_try_bind
        simp: conn_all_commit)
qed

lemma conn_all_with_lock:
  "conn_all P c \<Longrightarrow> (\<And>c. conn_all P c \<Longrightarrow> conn_all P (snd (body c))) \<Longrightarrow>
     conn_all P (snd (with_lock eng poison body c))"
  by (simp add: with_lock_def)

lemmas conn_all_intros =
  conn_all_with_lock conn_all_transaction conn_all_try_bind conn_all_sql

text \<open>
  The interface between a store and what relies on its schema: an operation keeps the
  constraints of the tables under any engine. Clients run operations in sequence.
\<close>

locale schema_store =
  fixes step :: "engine \<Rightarrow> 'op \<Rightarrow> 't conn \<Rightarrow> 't conn" and wf :: "'t \<Rightarrow> bool"
  assumes step_wf: "conn_all wf c \<Longrightarrow> conn_all wf (step eng op c)"
begin

lemma run_wf: "conn_all wf c \<Longrightarrow> conn_all wf (fold (\<lambda>(eng, op). step eng op) ops c)"
  by (induction ops arbitrary: c) (auto intro: step_wf)

lemma run_committed_wf:
  "wf t \<Longrightarrow> wf (committed (fold (\<lambda>(eng, op). step eng op) ops (open_conn t)))"
  by (rule conn_all_committed, rule run_wf) simp

end

section \<open>One-shot claims\<close>

text \<open>
  The contract of an operation that hands something out once per key: it succeeds only on
  a key that is not taken, takes it, and never gives a taken key back.
\<close>

primrec claim_results :: "('x \<Rightarrow> 's \<Rightarrow> ('e, 'a) result \<times> 's) \<Rightarrow> 'x list \<Rightarrow> 's \<Rightarrow> ('x \<times> ('e, 'a) result) list" where
  "claim_results claim [] s = []"
| "claim_results claim (x # xs) s = (x, fst (claim x s)) # claim_results claim xs (snd (claim x s))"

definition claim_wins :: "('x \<Rightarrow> 's \<Rightarrow> ('e, 'a) result \<times> 's) \<Rightarrow> ('x \<Rightarrow> 'k) \<Rightarrow> 'k \<Rightarrow> 'x list \<Rightarrow> 's \<Rightarrow> nat" where
  "claim_wins claim key k xs s = length (filter (\<lambda>(x, r). key x = k \<and> is_ok r) (claim_results claim xs s))"

locale one_shot =
  fixes claim :: "'x \<Rightarrow> 's \<Rightarrow> ('e, 'a) result \<times> 's" and key :: "'x \<Rightarrow> 'k"
    and taken :: "'s \<Rightarrow> 'k \<Rightarrow> bool"
  assumes claim_fresh: "claim x s = (Inr a, s') \<Longrightarrow> \<not> taken s (key x)"
    and claim_takes: "claim x s = (Inr a, s') \<Longrightarrow> taken s' (key x)"
    and taken_stays: "taken s k \<Longrightarrow> taken (snd (claim x s)) k"
begin

lemma taken_no_win: "taken s k \<Longrightarrow> claim_wins claim key k xs s = 0"
proof (induction xs arbitrary: s)
  case Nil
  then show ?case by (simp add: claim_wins_def)
next
  case (Cons x xs)
  have "\<not> is_ok (fst (claim x s))" if "key x = k"
    using claim_fresh [of x s] Cons.prems that
    by (cases "claim x s"; cases "fst (claim x s)") auto
  with Cons.IH [OF taken_stays [OF Cons.prems]] show ?case by (auto simp: claim_wins_def)
qed

lemma at_most_one_win: "claim_wins claim key k xs s \<le> 1"
proof (induction xs arbitrary: s)
  case Nil
  then show ?case by (simp add: claim_wins_def)
next
  case (Cons x xs)
  show ?case
  proof (cases "key x = k \<and> is_ok (fst (claim x s))")
    case True
    then have "taken (snd (claim x s)) k"
      using claim_takes [of x s] by (cases "claim x s"; cases "fst (claim x s)") auto
    then have "claim_wins claim key k xs (snd (claim x s)) = 0" by (rule taken_no_win)
    with True show ?thesis by (simp add: claim_wins_def)
  next
    case False
    with Cons.IH [of "snd (claim x s)"] show ?thesis by (auto simp: claim_wins_def)
  qed
qed

end

end
