(* ===== verification/Rust_Strings.thy ===== *)
theory Rust_Strings
  imports Fleet_Prelude
begin

text \<open>
  The string functions of the Rust standard library the components use: \<open>trim\<close>, \<open>split\<close>,
  \<open>splitn\<close>, \<open>lines\<close>, \<open>split_whitespace\<close>, \<open>starts_with\<close> and \<open>parse\<close> of unsigned
  integers, with the decimal rendering that \<open>parse\<close> inverts. Strings are their bytes; of the
  white space of Unicode the ASCII characters are modelled.
\<close>

section \<open>Trimming and splitting\<close>

definition is_space :: "char \<Rightarrow> bool" where
  "is_space c \<longleftrightarrow> (let n = (of_char c :: nat) in n = 32 \<or> (9 \<le> n \<and> n \<le> 13))"

definition trim :: "string \<Rightarrow> string" where
  "trim s = rev (dropWhile is_space (rev (dropWhile is_space s)))"

fun split_on :: "char \<Rightarrow> string \<Rightarrow> string list" where
  "split_on c [] = [[]]"
| "split_on c (x # xs) =
     (if x = c then [] # split_on c xs
      else (case split_on c xs of w # ws \<Rightarrow> (x # w) # ws | [] \<Rightarrow> [[x]]))"

fun splitn :: "nat \<Rightarrow> char \<Rightarrow> string \<Rightarrow> string list" where
  "splitn 0 c s = []"
| "splitn (Suc 0) c s = [s]"
| "splitn (Suc (Suc n)) c s =
     (if c \<in> set s then takeWhile (\<lambda>x. x \<noteq> c) s # splitn (Suc n) c (tl (dropWhile (\<lambda>x. x \<noteq> c) s))
      else [s])"

definition starts_with :: "string \<Rightarrow> string \<Rightarrow> bool" where
  "starts_with p s \<longleftrightarrow> take (length p) s = p"

text \<open>
  \<open>str::lines\<close>: a line ends with a line feed, which is removed with a carriage return before it;
  text after the last line feed is a line unless it is empty.
\<close>

definition strip_cr :: "string \<Rightarrow> string" where
  "strip_cr l = (if l \<noteq> [] \<and> last l = CHR 0x0D then butlast l else l)"

definition str_lines :: "string \<Rightarrow> string list" where
  "str_lines s =
     (let ls = split_on (CHR 0x0A) s
      in map strip_cr (butlast ls) @ (if last ls = [] then [] else [last ls]))"

text \<open>\<open>split_whitespace\<close>: the maximal runs of other characters.\<close>

fun ws_words :: "string \<Rightarrow> string \<Rightarrow> string list" where
  "ws_words w [] = (if w = [] then [] else [w])"
| "ws_words w (c # s) =
     (if is_space c then (if w = [] then ws_words [] s else w # ws_words [] s) else ws_words (w @ [c]) s)"

definition split_whitespace :: "string \<Rightarrow> string list" where
  "split_whitespace s = ws_words [] s"

text \<open>\<open>Iterator::nth\<close>.\<close>

definition iter_nth :: "nat \<Rightarrow> 'a list \<Rightarrow> 'a option" where
  "iter_nth i xs = (if i < length xs then Some (xs ! i) else None)"

section \<open>Unsigned integers\<close>

definition digit_val :: "char \<Rightarrow> nat option" where
  "digit_val c = (let n = (of_char c :: nat) in if 48 \<le> n \<and> n \<le> 57 then Some (n - 48) else None)"

fun digits_val :: "nat \<Rightarrow> string \<Rightarrow> nat option" where
  "digits_val acc [] = Some acc"
| "digits_val acc (c # s) = (case digit_val c of None \<Rightarrow> None | Some d \<Rightarrow> digits_val (acc * 10 + d) s)"

text \<open>
  \<open>parse\<close> to an unsigned integer of \<open>bits\<close> bits: one leading plus sign is allowed, at least one
  digit is required, and a value that does not fit is an error.
\<close>

definition parse_uint :: "nat \<Rightarrow> string \<Rightarrow> nat option" where
  "parse_uint bits s =
     (let ds = (case s of [] \<Rightarrow> [] | c # cs \<Rightarrow> if c = CHR ''+'' then cs else s)
      in if ds = [] then None
         else (case digits_val 0 ds of None \<Rightarrow> None | Some n \<Rightarrow> if n < 2 ^ bits then Some n else None))"

definition parse_u64 :: "string \<Rightarrow> u64 option" where
  "parse_u64 s = map_option of_nat (parse_uint 64 s)"

definition parse_u32 :: "string \<Rightarrow> u32 option" where
  "parse_u32 s = map_option of_nat (parse_uint 32 s)"

definition digit_char :: "nat \<Rightarrow> char" where
  "digit_char d = char_of (48 + d)"

fun show_nat :: "nat \<Rightarrow> string" where
  "show_nat n = (if n < 10 then [digit_char n] else show_nat (n div 10) @ [digit_char (n mod 10)])"

declare show_nat.simps [simp del]

definition show_int :: "int \<Rightarrow> string" where
  "show_int n = (if n < 0 then CHR ''-'' # show_nat (nat (- n)) else show_nat (nat n))"

section \<open>Text and environment\<close>

text \<open>\<open>String::from_utf8\<close>: the well-formed byte sequences of UTF-8, without overlong forms and surrogates.\<close>

definition byte_in :: "nat \<Rightarrow> nat \<Rightarrow> char \<Rightarrow> bool" where
  "byte_in lo hi c \<longleftrightarrow> (let n = (of_char c :: nat) in lo \<le> n \<and> n \<le> hi)"

definition lead2 :: "char \<Rightarrow> bool" where
  "lead2 b \<longleftrightarrow> byte_in 0xC2 0xDF b"

definition lead3 :: "char \<Rightarrow> char \<Rightarrow> bool" where
  "lead3 b c \<longleftrightarrow>
     (byte_in 0xE0 0xE0 b \<and> byte_in 0xA0 0xBF c) \<or> (byte_in 0xE1 0xEC b \<and> byte_in 0x80 0xBF c) \<or>
     (byte_in 0xED 0xED b \<and> byte_in 0x80 0x9F c) \<or> (byte_in 0xEE 0xEF b \<and> byte_in 0x80 0xBF c)"

definition lead4 :: "char \<Rightarrow> char \<Rightarrow> bool" where
  "lead4 b c \<longleftrightarrow>
     (byte_in 0xF0 0xF0 b \<and> byte_in 0x90 0xBF c) \<or> (byte_in 0xF1 0xF3 b \<and> byte_in 0x80 0xBF c) \<or>
     (byte_in 0xF4 0xF4 b \<and> byte_in 0x80 0x8F c)"

fun utf8_valid :: "string \<Rightarrow> bool" where
  "utf8_valid [] = True"
| "utf8_valid (b # s) =
     (if byte_in 0 0x7F b then utf8_valid s
      else (case s of
          c # s2 \<Rightarrow>
            if lead2 b then byte_in 0x80 0xBF c \<and> utf8_valid s2
            else (case s2 of
                d # s3 \<Rightarrow>
                  if lead3 b c then byte_in 0x80 0xBF d \<and> utf8_valid s3
                  else (case s3 of
                      e # s4 \<Rightarrow> lead4 b c \<and> byte_in 0x80 0xBF d \<and> byte_in 0x80 0xBF e \<and> utf8_valid s4
                    | [] \<Rightarrow> False)
              | [] \<Rightarrow> False)
        | [] \<Rightarrow> False))"

text \<open>\<open>std::env::var(key).unwrap_or_else(..)\<close>.\<close>

definition env_or :: "(string \<Rightarrow> string option) \<Rightarrow> string \<Rightarrow> string \<Rightarrow> string" where
  "env_or env key dflt = (case env key of Some v \<Rightarrow> v | None \<Rightarrow> dflt)"

section \<open>Lemmas\<close>

text \<open>ASCII characters of a literal are dropped one by one; the general equations are not for rewriting.\<close>

declare utf8_valid.simps(2) [simp del]

lemma utf8_valid_ascii [simp]: "of_char c \<le> (127 :: nat) \<Longrightarrow> utf8_valid (c # s) = utf8_valid s"
  by (simp add: utf8_valid.simps byte_in_def)

lemma utf8_ascii: "\<forall>c \<in> set s. byte_in 0 0x7F c \<Longrightarrow> utf8_valid s"
  by (induction s) (auto simp: byte_in_def)

fun join_with :: "char \<Rightarrow> string list \<Rightarrow> string" where
  "join_with c [] = []"
| "join_with c [w] = w"
| "join_with c (w # ws) = w @ c # join_with c ws"

lemma split_on_append: "c \<notin> set w \<Longrightarrow> split_on c (w @ c # s) = w # split_on c s"
  by (induction w) (auto split: list.split)

lemma split_on_none: "c \<notin> set w \<Longrightarrow> split_on c w = [w]"
  by (induction w) auto

lemma split_on_not_Nil [simp]: "split_on c s \<noteq> []"
  by (cases s) (auto split: list.split)

lemma split_join: "ws \<noteq> [] \<Longrightarrow> \<forall>w \<in> set ws. c \<notin> set w \<Longrightarrow> split_on c (join_with c ws) = ws"
  by (induction c ws rule: join_with.induct) (auto simp: split_on_append split_on_none)

lemma takeWhile_stop: "c \<notin> set w \<Longrightarrow> takeWhile (\<lambda>x. x \<noteq> c) (w @ c # s) = w"
  and dropWhile_stop: "c \<notin> set w \<Longrightarrow> dropWhile (\<lambda>x. x \<noteq> c) (w @ c # s) = c # s"
  by (induction w) auto

lemma dropWhile_hd: "s = [] \<or> \<not> P (hd s) \<Longrightarrow> dropWhile P s = s"
  by (cases s) auto

subsection \<open>Lines and words\<close>

lemma strip_cr_clean [simp]: "CHR 0x0D \<notin> set l \<Longrightarrow> strip_cr l = l"
  by (auto simp: strip_cr_def) (metis last_in_set)

lemma split_on_lines:
  "\<forall>l \<in> set ls. c \<notin> set l \<Longrightarrow> split_on c (concat (map (\<lambda>l. l @ [c]) ls)) = ls @ [[]]"
  by (induction ls) (auto simp: split_on_append)

lemma str_lines_unlines:
  assumes "\<forall>l \<in> set ls. CHR 0x0A \<notin> set l \<and> CHR 0x0D \<notin> set l"
  shows "str_lines (concat (map (\<lambda>l. l @ [CHR 0x0A]) ls)) = ls"
proof -
  have "map strip_cr ls = ls" using assms by (intro map_idI) simp
  then show ?thesis using assms by (simp add: str_lines_def split_on_lines Let_def)
qed

lemma ws_words_append:
  "\<forall>c \<in> set w. \<not> is_space c \<Longrightarrow> ws_words v (w @ s) = ws_words (v @ w) s"
  by (induction w arbitrary: v) auto

lemma split_whitespace_word:
  assumes "\<forall>c \<in> set w. \<not> is_space c" and "w \<noteq> []" and "is_space c"
  shows "split_whitespace (w @ c # s) = w # split_whitespace s"
  using assms by (simp add: split_whitespace_def ws_words_append)

lemma split_whitespace_space: "is_space c \<Longrightarrow> split_whitespace (c # s) = split_whitespace s"
  by (simp add: split_whitespace_def)

lemma split_whitespace_last: "\<forall>c \<in> set w. \<not> is_space c \<Longrightarrow> w \<noteq> [] \<Longrightarrow> split_whitespace w = [w]"
  using ws_words_append [of w "[]" "[]"] by (simp add: split_whitespace_def)

lemma split_whitespace_Nil [simp]: "split_whitespace [] = []"
  by (simp add: split_whitespace_def)

subsection \<open>Decimal numbers\<close>

lemma of_char_digit [simp]: "d < 10 \<Longrightarrow> (of_char (digit_char d) :: nat) = 48 + d"
  by (simp add: digit_char_def)

lemma digit_val_char [simp]: "d < 10 \<Longrightarrow> digit_val (digit_char d) = Some d"
  by (simp add: digit_val_def)

lemma digits_val_append:
  "digits_val acc (s @ t) = (case digits_val acc s of None \<Rightarrow> None | Some n \<Rightarrow> digits_val n t)"
  by (induction acc s rule: digits_val.induct) (auto split: option.split)

lemma digits_val_show: "digits_val 0 (show_nat n) = Some n"
proof (induction n rule: show_nat.induct)
  case (1 n)
  then show ?case by (subst show_nat.simps) (auto simp: digits_val_append)
qed

lemma show_nat_not_Nil [simp]: "show_nat n \<noteq> []"
  by (subst show_nat.simps) simp

lemma set_show_nat: "c \<in> set (show_nat n) \<Longrightarrow> \<exists>d < 10. c = digit_char d"
proof (induction n rule: show_nat.induct)
  case (1 n)
  have m: "\<exists>d < 10. digit_char (n mod 10) = digit_char d" by (rule exI [of _ "n mod 10"]) simp
  from 1 show ?case by (subst (asm) show_nat.simps) (auto simp: m split: if_splits)
qed

lemma show_nat_class:
  assumes "c \<in> set (show_nat n)"
  shows "\<not> is_space c" and "c \<noteq> CHR ''+'' " and "c \<noteq> CHR 0x0A" and "c \<noteq> CHR 0x0D"
proof -
  obtain d where d: "d < 10" "c = digit_char d" using set_show_nat [OF assms] by blast
  then have n: "(of_char c :: nat) = 48 + d" by simp
  show "\<not> is_space c" using n by (simp add: is_space_def)
  show "c \<noteq> CHR ''+''" "c \<noteq> CHR 0x0A" "c \<noteq> CHR 0x0D" using n by auto
qed

lemma parse_uint_show: "parse_uint bits (show_nat n) = (if n < 2 ^ bits then Some n else None)"
proof -
  obtain c cs where s: "show_nat n = c # cs" by (cases "show_nat n") auto
  have "c \<noteq> CHR ''+''" using show_nat_class(2) [of c n] s by simp
  then show ?thesis using digits_val_show [of n] by (simp add: parse_uint_def s)
qed

lemma parse_u64_show [simp]: "n < 2 ^ 64 \<Longrightarrow> parse_u64 (show_nat n) = Some (of_nat n)"
  by (simp add: parse_u64_def parse_uint_show)

lemma parse_u32_show: "parse_u32 (show_nat n) = (if n < 2 ^ 32 then Some (of_nat n) else None)"
  by (simp add: parse_u32_def parse_uint_show)

lemma parse_uint_bound: "parse_uint bits s = Some n \<Longrightarrow> n < 2 ^ bits"
  by (auto simp: parse_uint_def Let_def split: option.splits if_splits)

end
