(* ===== verification/Host_Fs.thy ===== *)
theory Host_Fs
  imports Rust_Strings
begin

text \<open>
  The file system of the robot as the agent and the PKI crate use it: whole files by path,
  with their permission bits. \<open>io_fault io i\<close> is the outcome of the \<open>i\<close>-th call of an
  operation: \<open>Some (e, n)\<close> when it fails with error \<open>e\<close> after \<open>n\<close> bytes were written
  (\<open>n\<close> matters for writes only; a failed open writes nothing).
\<close>

record fs_file =
  contents :: string
  file_mode :: nat

type_synonym fs = "string \<Rightarrow> fs_file option"

record io =
  io_fault :: "nat \<Rightarrow> (string \<times> nat) option"

definition io_reliable :: io where
  "io_reliable = \<lparr>io_fault = (\<lambda>_. None)\<rparr>"

lemma io_reliable_simps [simp]: "io_fault io_reliable i = None"
  by (simp add: io_reliable_def)

text \<open>
  \<open>OpenOptions::write(true).create(true).truncate(true).mode(m).open(path)\<close>: the file is
  emptied; the mode is given to a file that is created, an existing file keeps its own.
\<close>

definition open_truncate :: "io \<Rightarrow> nat \<Rightarrow> nat \<Rightarrow> string \<Rightarrow> fs \<Rightarrow> (string, unit) result \<times> fs" where
  "open_truncate io i m path f =
     (case io_fault io i of
        Some (e, _) \<Rightarrow> (Err e, f)
      | None \<Rightarrow> (Ok (), f(path \<mapsto>
          (case f path of None \<Rightarrow> \<lparr>contents = [], file_mode = m\<rparr> | Some x \<Rightarrow> x\<lparr>contents := []\<rparr>))))"

text \<open>\<open>write_all\<close> on the file just opened: on failure a prefix may have been written.\<close>

definition write_all :: "io \<Rightarrow> nat \<Rightarrow> string \<Rightarrow> string \<Rightarrow> fs \<Rightarrow> (string, unit) result \<times> fs" where
  "write_all io i path bytes f =
     (let put = (\<lambda>bs. f(path := map_option (\<lambda>x. x\<lparr>contents := contents x @ bs\<rparr>) (f path))) in
      case io_fault io i of
        Some (e, n) \<Rightarrow> (Err e, put (take n bytes))
      | None \<Rightarrow> (Ok (), put bytes))"

text \<open>\<open>std::fs::write\<close> (mode \<open>0o666\<close> before the umask, here \<open>0o644\<close>), \<open>std::fs::read\<close>,
  \<open>std::fs::read_to_string\<close>, which refuses contents that are no UTF-8, and \<open>Path::exists\<close>.\<close>

definition fs_write :: "io \<Rightarrow> nat \<Rightarrow> string \<Rightarrow> string \<Rightarrow> fs \<Rightarrow> (string, unit) result \<times> fs" where
  "fs_write io i path bytes f =
     try_bind (open_truncate io i 420 path f) (\<lambda>_ f1. write_all io (Suc i) path bytes f1)"

definition fs_read :: "io \<Rightarrow> nat \<Rightarrow> string \<Rightarrow> fs \<Rightarrow> (string, string) result" where
  "fs_read io i path f =
     (case io_fault io i of
        Some (e, _) \<Rightarrow> Err e
      | None \<Rightarrow> (case f path of None \<Rightarrow> Err ''No such file or directory'' | Some x \<Rightarrow> Ok (contents x)))"

definition fs_read_to_string :: "io \<Rightarrow> nat \<Rightarrow> string \<Rightarrow> fs \<Rightarrow> (string, string) result" where
  "fs_read_to_string io i path f =
     try_pure (fs_read io i path f) (\<lambda>bytes.
       if utf8_valid bytes then Ok bytes else Err ''stream did not contain valid UTF-8'')"

definition fs_exists :: "string \<Rightarrow> fs \<Rightarrow> bool" where
  "fs_exists path f \<longleftrightarrow> f path \<noteq> None"

text \<open>
  \<open>std::fs::remove_file\<close>, and \<open>UnixListener::bind\<close>, which creates the socket file (mode \<open>0o777\<close>
  before the umask) and fails when the path is taken.
\<close>

definition fs_remove :: "io \<Rightarrow> nat \<Rightarrow> string \<Rightarrow> fs \<Rightarrow> (string, unit) result \<times> fs" where
  "fs_remove io i path f =
     (case io_fault io i of
        Some (e, _) \<Rightarrow> (Err e, f)
      | None \<Rightarrow> if fs_exists path f then (Ok (), f(path := None)) else (Err ''No such file or directory'', f))"

definition bind_socket :: "io \<Rightarrow> nat \<Rightarrow> string \<Rightarrow> fs \<Rightarrow> (string, unit) result \<times> fs" where
  "bind_socket io i path f =
     (case io_fault io i of
        Some (e, _) \<Rightarrow> (Err e, f)
      | None \<Rightarrow> if fs_exists path f then (Err ''Address already in use'', f)
                else (Ok (), f(path \<mapsto> \<lparr>contents = [], file_mode = 493\<rparr>)))"

lemma open_truncate_other: "p \<noteq> path \<Longrightarrow> snd (open_truncate io i m path f) p = f p"
  by (simp add: open_truncate_def split: option.split prod.split)

lemma write_all_other: "p \<noteq> path \<Longrightarrow> snd (write_all io i path bs f) p = f p"
  by (simp add: write_all_def Let_def split: option.split prod.split)

lemma fs_write_other [simp]: "p \<noteq> path \<Longrightarrow> snd (fs_write io i path bs f) p = f p"
  by (simp add: fs_write_def snd_try_bind_cases open_truncate_other write_all_other split: sum.split)

lemma open_truncate_Inr:
  "open_truncate io i m path f = (Inr u, f') \<Longrightarrow>
     \<exists>x. f' path = Some x \<and> contents x = [] \<and> file_mode x = (case f path of None \<Rightarrow> m | Some y \<Rightarrow> file_mode y)"
  by (auto simp: open_truncate_def split: option.splits)

lemma write_all_Inr:
  "write_all io i path bs f = (Inr u, f') \<Longrightarrow> f path = Some x \<Longrightarrow>
     f' path = Some (x\<lparr>contents := contents x @ bs\<rparr>)"
  by (auto simp: write_all_def Let_def split: option.splits)

lemma fs_write_Inr:
  assumes "fs_write io i path bs f = (Inr u, f')"
  shows "map_option contents (f' path) = Some bs"
proof -
  from assms obtain f1 where o: "open_truncate io i 420 path f = (Inr (), f1)"
    and w: "write_all io (Suc i) path bs f1 = (Inr u, f')"
    by (auto simp: fs_write_def try_bind_eq_Inr)
  from open_truncate_Inr [OF o] obtain x where "f1 path = Some x" "contents x = []" by blast
  with w show ?thesis by (auto dest: write_all_Inr)
qed

lemma fs_write_exists:
  "fs_exists path f \<Longrightarrow> fs_exists path (snd (fs_write io i path bs f))"
  by (auto simp: fs_exists_def fs_write_def open_truncate_def write_all_def Let_def
      split: option.split prod.split)

text \<open>A write whose file was opened has created it, even when the write itself fails.\<close>

lemma fs_write_opened: "io_fault io i = None \<Longrightarrow> fs_exists path (snd (fs_write io i path bs f))"
  by (auto simp: fs_exists_def fs_write_def open_truncate_def write_all_def Let_def split: option.split prod.split)

lemma fs_write_fault:
  "io_fault io i \<noteq> None \<or> io_fault io (Suc i) \<noteq> None \<Longrightarrow> \<exists>e. fst (fs_write io i path bs f) = Err e"
  by (auto simp: fs_write_def open_truncate_def write_all_def Let_def split: option.split prod.split)

lemma fs_write_unopened: "io_fault io i \<noteq> None \<Longrightarrow> snd (fs_write io i path bs f) = f"
  by (auto simp: fs_write_def open_truncate_def)

lemma fs_write_calm: "fst (fs_write io i path bs f) = Inl x \<Longrightarrow> \<exists>e. x = Fail e"
  by (auto simp: fs_write_def open_truncate_def write_all_def Let_def split: option.splits prod.splits)

section \<open>Without faults\<close>

definition put_file :: "nat \<Rightarrow> string \<Rightarrow> string \<Rightarrow> fs \<Rightarrow> fs" where
  "put_file m path bytes f = f(path \<mapsto> \<lparr>contents = bytes,
     file_mode = (case f path of None \<Rightarrow> m | Some x \<Rightarrow> file_mode x)\<rparr>)"

lemma put_file_same: "map_option contents (put_file m path bytes f path) = Some bytes"
  and put_file_other [simp]: "p \<noteq> path \<Longrightarrow> put_file m path bytes f p = f p"
  and put_file_exists [simp]: "fs_exists p (put_file m path bytes f) \<longleftrightarrow> p = path \<or> fs_exists p f"
  by (auto simp: put_file_def fs_exists_def)

lemma fs_write_reliable [simp]: "fs_write io_reliable i path bytes f = (Ok (), put_file 420 path bytes f)"
  by (auto simp: fs_write_def open_truncate_def write_all_def put_file_def Let_def split: option.split)

lemma fs_read_put_file [simp]:
  "fs_read io_reliable i path (put_file m path bytes f) = Ok bytes"
  "p \<noteq> path \<Longrightarrow> fs_read io_reliable i p (put_file m path bytes f) = fs_read io_reliable i p f"
  by (simp_all add: fs_read_def put_file_def)

lemma fs_read_to_string_put_file [simp]:
  "utf8_valid bytes \<Longrightarrow> fs_read_to_string io_reliable i path (put_file m path bytes f) = Ok bytes"
  "p \<noteq> path \<Longrightarrow> fs_read_to_string io_reliable i p (put_file m path bytes f) = fs_read_to_string io_reliable i p f"
  by (simp_all add: fs_read_to_string_def)

lemma fs_read_to_string_Inr: "fs_read_to_string io i path f = Inr x \<longleftrightarrow> fs_read io i path f = Inr x \<and> utf8_valid x"
  by (auto simp: fs_read_to_string_def try_pure_eq_Inr)

end
