(* ===== verification/Pki.thy ===== *)
theory Pki
  imports Host_Fs
begin

text \<open>
  The \<open>pki\<close> crate (\<^verbatim>\<open>pki/src\<close>): CSR generation and signing, the extraction of the
  serial from a peer certificate and the check that it was signed by a CA. The X.509 and
  key handling of \<open>rcgen\<close>, \<open>x509-parser\<close> and \<open>rustls-pemfile\<close> is a parameter,
  the record \<open>pki\<close>, one field per library function the crate calls. Objects of these
  libraries are represented by their serialised form.
\<close>

section \<open>Errors\<close>

datatype pki_error =
    PkiTls string
  | PkiPem string
  | NoPeerCert
  | PkiCertVerification string
  | PkiSerialMismatch string string
  | PkiIo string

fun pki_to_string :: "pki_error \<Rightarrow> string" where
  "pki_to_string (PkiTls m) = ''TLS error: '' @ m"
| "pki_to_string (PkiPem m) = ''PEM parse error: '' @ m"
| "pki_to_string NoPeerCert = ''no peer certificate in TLS state''"
| "pki_to_string (PkiCertVerification m) = ''device cert verification failed: '' @ m"
| "pki_to_string (PkiSerialMismatch c r) = ''serial mismatch: cert='' @ c @ '' request='' @ r"
| "pki_to_string (PkiIo m) = ''IO error: '' @ m"

section \<open>The libraries\<close>

type_synonym pem = string
type_synonym der = string
type_synonym key_pair = string
type_synonym ca_params = string
type_synonym certificate = string
type_synonym x509 = string
type_synonym public_key = string

text \<open>\<open>CertificateSigningRequestParams\<close>: the request and the validity the signer sets.\<close>

record csr_params =
  csr_request :: string
  not_before :: int
  not_after :: int

record pki =
  generate_keypair :: "nat \<Rightarrow> (string, key_pair) result"
  serialize_key :: "key_pair \<Rightarrow> pem"
  serialize_request :: "string \<Rightarrow> key_pair \<Rightarrow> (string, string) result"
  request_pem :: "string \<Rightarrow> (string, pem) result"
  keypair_from_pem :: "pem \<Rightarrow> (string, key_pair) result"
  ca_params_from_pem :: "pem \<Rightarrow> (string, ca_params) result"
  ca_self_signed :: "ca_params \<Rightarrow> key_pair \<Rightarrow> (string, certificate) result"
  csr_from_pem :: "pem \<Rightarrow> (string, csr_params) result"
  csr_signed_by :: "csr_params \<Rightarrow> certificate \<Rightarrow> key_pair \<Rightarrow> (string, certificate) result"
  cert_to_pem :: "certificate \<Rightarrow> pem"
  pem_certs :: "pem \<Rightarrow> (string, der) result list"
  pem_private_key :: "pem \<Rightarrow> (string, key_pair option) result"
  root_add :: "der \<Rightarrow> (string, der) result"
  tls13_versions :: "(string, unit) result"
  client_verifier :: "der list \<Rightarrow> (string, unit) result"
  single_cert :: "der list \<Rightarrow> key_pair \<Rightarrow> (string, unit) result"
  x509_from_der :: "der \<Rightarrow> (string, x509) result"
  common_names :: "x509 \<Rightarrow> (string, string) result list"
  x509_public_key :: "x509 \<Rightarrow> public_key"
  verify_signature :: "x509 \<Rightarrow> public_key \<Rightarrow> (string, unit) result"
  time_max :: int

section \<open>csr.rs\<close>

text \<open>
  \<open>i\<close> numbers the call: it selects the generated key pair and the outcomes of the two file
  operations. The mode is \<open>0o600\<close>.
\<close>

definition generate_csr :: "pki \<Rightarrow> io \<Rightarrow> nat \<Rightarrow> string \<Rightarrow> string \<Rightarrow> fs \<Rightarrow> (pki_error, pem) result \<times> fs" where
  "generate_csr pki io i cn key_path f =
     try_bind (map_err PkiPem (generate_keypair pki i), f) (\<lambda>key_pair f.
     try_bind (map_err_st PkiIo (open_truncate io i 384 key_path f)) (\<lambda>_ f.
     try_bind (map_err_st PkiIo (write_all io (Suc i) key_path (serialize_key pki key_pair) f)) (\<lambda>_ f.
     try_bind (map_err PkiPem (serialize_request pki cn key_pair), f) (\<lambda>csr f.
     (map_err PkiPem (request_pem pki csr), f)))))"

text \<open>
  \<open>now\<close> is \<open>OffsetDateTime::now_utc()\<close>; adding the validity panics beyond the last
  representable date, \<open>time_max\<close>.
\<close>

definition sign_csr :: "pki \<Rightarrow> int \<Rightarrow> pem \<Rightarrow> pem \<Rightarrow> pem \<Rightarrow> u32 \<Rightarrow> (pki_error, pem) result" where
  "sign_csr pki now csr_pem ca_cert_pem ca_key_pem validity_days =
     try_pure (map_err PkiPem (keypair_from_pem pki ca_key_pem)) (\<lambda>ca_key.
     try_pure (map_err PkiPem (ca_params_from_pem pki ca_cert_pem)) (\<lambda>params.
     try_pure (map_err PkiPem (ca_self_signed pki params ca_key)) (\<lambda>ca_cert.
     try_pure (map_err PkiPem (csr_from_pem pki csr_pem)) (\<lambda>csr.
     let after = now + uint validity_days * 86400 in
     if after > time_max pki then Panicked
     else try_pure (map_err PkiPem
            (csr_signed_by pki (csr\<lparr>not_before := now, not_after := after\<rparr>) ca_cert ca_key)) (\<lambda>cert.
          Ok (cert_to_pem pki cert))))))"

section \<open>mtls.rs\<close>

definition certs_from_pem :: "pki \<Rightarrow> pem \<Rightarrow> (pki_error, der list) result" where
  "certs_from_pem pki p = map_err PkiPem (collect_results (pem_certs pki p))"

definition private_key_from_pem :: "pki \<Rightarrow> pem \<Rightarrow> (pki_error, key_pair) result" where
  "private_key_from_pem pki p =
     try_pure (map_err PkiPem (pem_private_key pki p))
       (ok_or (PkiPem ''no private key found in PEM''))"

fun add_roots :: "pki \<Rightarrow> der list \<Rightarrow> der list \<Rightarrow> (pki_error, der list) result" where
  "add_roots pki store [] = Ok store"
| "add_roots pki store (cert # certs) =
     try_pure (map_err PkiCertVerification (root_add pki cert)) (\<lambda>root.
       add_roots pki (store @ [root]) certs)"

definition root_store_from_pem :: "pki \<Rightarrow> pem \<Rightarrow> (pki_error, der list) result" where
  "root_store_from_pem pki p = try_pure (certs_from_pem pki p) (add_roots pki [])"

text \<open>
  The TLS configurations: what they present and whom they trust. A server configuration
  always carries a client verifier, a client configuration always a client certificate.
\<close>

record tls_config =
  tls_certs :: "der list"
  tls_key :: key_pair
  tls_trusted_roots :: "der list"

definition server_tls_config :: "pki \<Rightarrow> pem \<Rightarrow> pem \<Rightarrow> pem \<Rightarrow> (pki_error, tls_config) result" where
  "server_tls_config pki cert_pem key_pem client_ca_pem =
     try_pure (certs_from_pem pki cert_pem) (\<lambda>certs.
     try_pure (private_key_from_pem pki key_pem) (\<lambda>key.
     try_pure (root_store_from_pem pki client_ca_pem) (\<lambda>roots.
     try_pure (map_err PkiCertVerification (client_verifier pki roots)) (\<lambda>_.
     try_pure (map_err PkiTls (tls13_versions pki)) (\<lambda>_.
     try_pure (map_err PkiTls (single_cert pki certs key)) (\<lambda>_.
     Ok \<lparr>tls_certs = certs, tls_key = key, tls_trusted_roots = roots\<rparr>))))))"

definition client_tls_config :: "pki \<Rightarrow> pem \<Rightarrow> pem \<Rightarrow> pem \<Rightarrow> (pki_error, tls_config) result" where
  "client_tls_config pki cert_pem key_pem server_ca_pem =
     try_pure (certs_from_pem pki cert_pem) (\<lambda>certs.
     try_pure (private_key_from_pem pki key_pem) (\<lambda>key.
     try_pure (root_store_from_pem pki server_ca_pem) (\<lambda>roots.
     try_pure (map_err PkiTls (tls13_versions pki)) (\<lambda>_.
     try_pure (map_err PkiTls (single_cert pki certs key)) (\<lambda>_.
     Ok \<lparr>tls_certs = certs, tls_key = key, tls_trusted_roots = roots\<rparr>)))))"

definition extract_serial :: "pki \<Rightarrow> der list \<Rightarrow> (pki_error, string) result" where
  "extract_serial pki peer_certs =
     (case peer_certs of [] \<Rightarrow> Err NoPeerCert
      | cert # _ \<Rightarrow>
        try_pure (map_err PkiPem (x509_from_der pki cert)) (\<lambda>x509.
        case common_names pki x509 of
          [] \<Rightarrow> Err (PkiPem ''no CN in subject'')
        | cn # _ \<Rightarrow> map_err PkiPem cn))"

definition verify_signed_by :: "pki \<Rightarrow> der list \<Rightarrow> pem \<Rightarrow> (pki_error, unit) result" where
  "verify_signed_by pki peer_certs ca_pem =
     (case peer_certs of [] \<Rightarrow> Err NoPeerCert
      | leaf # _ \<Rightarrow>
        try_pure (certs_from_pem pki ca_pem) (\<lambda>ca_certs.
        case ca_certs of [] \<Rightarrow> Err (PkiPem ''no certificate in CA PEM'')
        | ca_der # _ \<Rightarrow>
          try_pure (map_err PkiCertVerification (x509_from_der pki ca_der)) (\<lambda>ca_x509.
          try_pure (map_err PkiCertVerification (x509_from_der pki leaf)) (\<lambda>leaf_x509.
          map_err PkiCertVerification
            (verify_signature pki leaf_x509 (x509_public_key pki ca_x509))))))"

subsection \<open>The trust store is the CA file\<close>

lemma add_roots_Inr: "add_roots pki store certs = Inr roots \<Longrightarrow> \<exists>rs. map (root_add pki) certs = map Inr rs \<and> roots = store @ rs"
proof (induction certs arbitrary: store)
  case (Cons cert certs)
  then obtain a rs where "root_add pki cert = Inr a" "map (root_add pki) certs = map Inr rs" "roots = (store @ [a]) @ rs"
    by (fastforce simp: try_pure_eq_Inr)
  then show ?case by (intro exI [of _ "a # rs"]) simp
qed simp

text \<open>Every certificate of the client CA file, and nothing else, is trusted, and each was accepted as a root.\<close>

lemma server_tls_config_trusts:
  assumes "server_tls_config pki cert key ca = Inr cfg"
  shows "\<exists>cas. certs_from_pem pki ca = Inr cas \<and> map (root_add pki) cas = map Inr (tls_trusted_roots cfg)"
  using assms
  by (auto simp: server_tls_config_def try_pure_eq_Inr root_store_from_pem_def dest!: add_roots_Inr)

subsection \<open>Only the leaf certificate counts\<close>

lemma extract_serial_leaf: "extract_serial pki (leaf # rest) = extract_serial pki [leaf]"
  by (simp add: extract_serial_def)

lemma verify_signed_by_leaf: "verify_signed_by pki (leaf # rest) ca = verify_signed_by pki [leaf] ca"
  by (simp add: verify_signed_by_def)

lemma sign_csr_no_panic:
  assumes "now + uint days * 86400 \<le> time_max pki"
    and "\<And>p. keypair_from_pem pki p \<noteq> Panicked" "\<And>p. ca_params_from_pem pki p \<noteq> Panicked"
    and "\<And>p k. ca_self_signed pki p k \<noteq> Panicked" "\<And>p. csr_from_pem pki p \<noteq> Panicked"
    and "\<And>p c k. csr_signed_by pki p c k \<noteq> Panicked"
  shows "sign_csr pki now csr ca key days \<noteq> Panicked"
  using assms by (auto simp: sign_csr_def Let_def try_pure_eq_Inl map_err_eq_Panic)

section \<open>What the issuing code relies on\<close>

text \<open>
  The documented behaviour of \<open>rcgen\<close> and \<open>x509-parser\<close> for a CA certificate and its own
  private key: a certificate that \<open>signed_by\<close> makes from a CSR with a textual common name, which
  \<open>csr_cn\<close> reads, is one PEM block, carries that common name, and its signature verifies under the
  public key of the CA certificate. CSRs without such a name are signed as well, but nothing is
  promised of their certificates, and nothing for a key that does not belong to the CA certificate.
\<close>

definition faithful_issuer :: "pki \<Rightarrow> (pem \<Rightarrow> string option) \<Rightarrow> pem \<Rightarrow> pem \<Rightarrow> bool" where
  "faithful_issuer pki csr_cn ca_pem key_pem \<longleftrightarrow>
     (\<forall>key params ca_cert csr_pem cn csr from until cert.
        csr_cn csr_pem = Some cn \<and> keypair_from_pem pki key_pem = Ok key \<and> ca_params_from_pem pki ca_pem = Ok params \<and>
        ca_self_signed pki params key = Ok ca_cert \<and> csr_from_pem pki csr_pem = Ok csr \<and>
        csr_signed_by pki (csr\<lparr>not_before := from, not_after := until\<rparr>) ca_cert key = Ok cert \<longrightarrow>
        (\<exists>der leaf cns ca_der ca_ders ca_x509.
           pem_certs pki (cert_to_pem pki cert) = [Ok der] \<and> x509_from_der pki der = Ok leaf \<and>
           common_names pki leaf = Ok cn # cns \<and>
           pem_certs pki ca_pem = map Ok (ca_der # ca_ders) \<and> x509_from_der pki ca_der = Ok ca_x509 \<and>
           verify_signature pki leaf (x509_public_key pki ca_x509) = Ok ()))"

lemma collect_results_Ok [simp]: "collect_results (map Inr xs) = Inr xs"
  by (simp add: collect_results_Inr)

lemma sign_csr_Inr:
  assumes "sign_csr pki now csr_pem ca_pem key_pem days = Inr p"
  obtains key params ca_cert csr cert where "keypair_from_pem pki key_pem = Ok key"
    and "ca_params_from_pem pki ca_pem = Ok params" and "ca_self_signed pki params key = Ok ca_cert"
    and "csr_from_pem pki csr_pem = Ok csr" and "now + uint days * 86400 \<le> time_max pki"
    and "csr_signed_by pki (csr\<lparr>not_before := now, not_after := now + uint days * 86400\<rparr>) ca_cert key = Ok cert"
    and "p = cert_to_pem pki cert"
  using assms by (auto simp: sign_csr_def Let_def try_pure_eq_Inr split: if_splits)

text \<open>So a certificate that \<open>sign_csr\<close> returns passes both checks of a later enrollment.\<close>

lemma faithful_issuer_signs:
  assumes "faithful_issuer pki csr_cn ca_pem key_pem" and "csr_cn csr_pem = Some cn"
    and "sign_csr pki now csr_pem ca_pem key_pem days = Inr cert"
  shows "\<exists>ders. certs_from_pem pki cert = Inr ders \<and> extract_serial pki ders = Inr cn \<and>
    verify_signed_by pki ders ca_pem = Inr ()"
  using assms(3)
proof (rule sign_csr_Inr)
  fix key params ca_cert csr x
  assume issued: "keypair_from_pem pki key_pem = Ok key" "ca_params_from_pem pki ca_pem = Ok params"
    "ca_self_signed pki params key = Ok ca_cert" "csr_from_pem pki csr_pem = Ok csr"
    "csr_signed_by pki (csr\<lparr>not_before := now, not_after := now + uint days * 86400\<rparr>) ca_cert key = Ok x"
    "cert = cert_to_pem pki x"
  then have "csr_cn csr_pem = Some cn \<and> keypair_from_pem pki key_pem = Ok key \<and> ca_params_from_pem pki ca_pem = Ok params \<and>
      ca_self_signed pki params key = Ok ca_cert \<and> csr_from_pem pki csr_pem = Ok csr \<and>
      csr_signed_by pki (csr\<lparr>not_before := now, not_after := now + uint days * 86400\<rparr>) ca_cert key = Ok x"
    using assms(2) by simp
  from assms(1) [unfolded faithful_issuer_def, rule_format, OF this] issued(6)
  obtain der leaf cns ca_der ca_ders ca_x509 where "pem_certs pki cert = [Ok der]" "x509_from_der pki der = Ok leaf"
    "common_names pki leaf = Ok cn # cns" "pem_certs pki ca_pem = map Ok (ca_der # ca_ders)"
    "x509_from_der pki ca_der = Ok ca_x509" "verify_signature pki leaf (x509_public_key pki ca_x509) = Ok ()"
    by blast
  then show ?thesis
    by (auto simp: certs_from_pem_def extract_serial_def verify_signed_by_def)
qed

section \<open>A concrete instance of the libraries\<close>

text \<open>
  A small PKI in which a CSR is the letter \<open>R\<close> followed by the common name and a
  certificate is the name of its CA, a slash and the common name. It satisfies
  \<open>faithful_issuer\<close> for CA names without a slash that are their own key.
\<close>

definition demo_csr_cn :: "pem \<Rightarrow> string option" where
  "demo_csr_cn p = (if tl p = [] then None else Some (tl p))"

definition demo_pki :: pki where
  "demo_pki =
     \<lparr>generate_keypair = (\<lambda>i. Ok ''KEY''),
      serialize_key = (\<lambda>k. k),
      serialize_request = (\<lambda>cn k. Ok cn),
      request_pem = (\<lambda>r. Ok (CHR ''R'' # r)),
      keypair_from_pem = (\<lambda>p. Ok p),
      ca_params_from_pem = (\<lambda>p. if CHR ''/'' \<in> set p then Err ''not a CA'' else Ok p),
      ca_self_signed = (\<lambda>p k. Ok p),
      csr_from_pem = (\<lambda>p. case p of [] \<Rightarrow> Err ''empty'' | x # cn \<Rightarrow>
         if x = CHR ''R'' then Ok \<lparr>csr_request = cn, not_before = 0, not_after = 0\<rparr> else Err ''not a CSR''),
      csr_signed_by = (\<lambda>csr ca k. Ok (ca @ CHR ''/'' # csr_request csr)),
      cert_to_pem = (\<lambda>c. c),
      pem_certs = (\<lambda>p. [Ok p]),
      pem_private_key = (\<lambda>p. Ok (Some p)),
      root_add = (\<lambda>d. Ok d),
      tls13_versions = Ok (),
      client_verifier = (\<lambda>roots. if roots = [] then Err ''no roots'' else Ok ()),
      single_cert = (\<lambda>certs k. Ok ()),
      x509_from_der = (\<lambda>d. Ok d),
      common_names = (\<lambda>x. [Ok (tl (dropWhile (\<lambda>ch. ch \<noteq> CHR ''/'') x))]),
      x509_public_key = (\<lambda>x. takeWhile (\<lambda>ch. ch \<noteq> CHR ''/'') x),
      verify_signature = (\<lambda>x k. if takeWhile (\<lambda>ch. ch \<noteq> CHR ''/'') x = k then Ok () else Err ''bad signature''),
      time_max = 253402300799\<rparr>"

lemma takeWhile_append_stop:
  "y \<notin> set xs \<Longrightarrow> takeWhile (\<lambda>ch. ch \<noteq> y) (xs @ y # zs) = xs"
  "y \<notin> set xs \<Longrightarrow> dropWhile (\<lambda>ch. ch \<noteq> y) (xs @ y # zs) = y # zs"
  by (induction xs) auto

lemma takeWhile_all: "y \<notin> set xs \<Longrightarrow> takeWhile (\<lambda>ch. ch \<noteq> y) xs = xs"
  by (induction xs) auto

lemma demo_sign_csr:
  "sign_csr demo_pki now csr ca key days = Inr cert \<longleftrightarrow>
     CHR ''/'' \<notin> set ca \<and> csr \<noteq> [] \<and> hd csr = CHR ''R'' \<and> now + uint days * 86400 \<le> 253402300799 \<and>
     cert = ca @ CHR ''/'' # tl csr"
  by (cases csr) (auto simp: sign_csr_def demo_pki_def Let_def)

lemma demo_faithful: "faithful_issuer demo_pki demo_csr_cn ca key"
  by (auto simp: faithful_issuer_def demo_pki_def demo_csr_cn_def takeWhile_append_stop takeWhile_all
      split: list.splits if_splits)

end
