(* ===== verification/Device_Store.thy ===== *)
theory Device_Store
  imports Sqlite_Model Pki
begin

text \<open>
  The device store of the device-management service
  (\<^verbatim>\<open>device-management-service/src/store/mod.rs\<close>): the three tables of the migration
  (factory manifest, pre-enrollment registry, devices) and one definition per method of the
  \<open>DeviceStore\<close> trait as \<open>SqliteDeviceStore\<close> implements it.
\<close>

section \<open>Errors (error.rs)\<close>

datatype dms_error =
    NotFound string
  | AlreadyEnrolled string
  | NotPreEnrolled string
  | SerialAlreadyClaimed string
  | DeviceNotActive string
  | SerialMismatch string string
  | CertVerification string
  | NotInManifest string
  | InvalidProvisionToken string
  | AlreadyProvisioned string
  | Db rusqlite_error
  | PkiError pki_error

fun dms_to_string :: "(rusqlite_error \<Rightarrow> string) \<Rightarrow> dms_error \<Rightarrow> string" where
  "dms_to_string d (NotFound m) = ''device not found: '' @ m"
| "dms_to_string d (AlreadyEnrolled m) = ''serial already enrolled: '' @ m"
| "dms_to_string d (NotPreEnrolled m) = ''serial not in pre-enrollment registry: '' @ m"
| "dms_to_string d (SerialAlreadyClaimed m) = ''serial already claimed: '' @ m"
| "dms_to_string d (DeviceNotActive st) = ''device is '' @ st @ '', cannot renew cert''"
| "dms_to_string d (SerialMismatch c r) = ''serial mismatch: cert='' @ c @ '' request='' @ r"
| "dms_to_string d (CertVerification m) = ''cert verification failed: '' @ m"
| "dms_to_string d (NotInManifest m) = ''serial not in factory manifest: '' @ m"
| "dms_to_string d (InvalidProvisionToken m) = ''invalid provision token for serial: '' @ m"
| "dms_to_string d (AlreadyProvisioned m) = ''device already provisioned: '' @ m"
| "dms_to_string d (Db e) = ''database error: '' @ d e"
| "dms_to_string d (PkiError e) = ''PKI error: '' @ pki_to_string e"

section \<open>Domain types and tables\<close>

record new_device =
  nd_serial :: string
  nd_model :: string
  nd_firmware :: string
  nd_cert :: string

record device_record =
  dr_id :: string
  dr_serial :: string
  dr_model :: string
  dr_firmware :: string
  dr_status :: string
  dr_cert :: string
  dr_enrolled_at :: int
  dr_last_seen_at :: int

record pre_enrollment_record =
  per_serial :: string
  per_model :: string

record manifest_row =
  fm_serial :: string
  fm_model :: string
  fm_token :: string
  fm_provisioned_at :: "int option"

record pre_row =
  pe_serial :: string
  pe_model :: string
  pe_claimed :: int

record dms_tables =
  factory_manifest :: "manifest_row list"
  devices :: "device_record list"
  pre_enrollment :: "pre_row list"

type_synonym dconn = "dms_tables conn"
type_synonym 'a dms_op = "dconn \<Rightarrow> (dms_error, 'a) result \<times> dconn"

definition empty_tables :: dms_tables where
  "empty_tables = \<lparr>factory_manifest = [], devices = [], pre_enrollment = []\<rparr>"

definition db_lock :: "engine \<Rightarrow> 'a dms_op \<Rightarrow> 'a dms_op" where
  "db_lock eng = with_lock eng (Fail (Db InvalidQuery))"

text \<open>The error of a lookup: no row becomes the given error, anything else \<open>Db\<close>.\<close>

definition no_rows :: "dms_error \<Rightarrow> rusqlite_error \<Rightarrow> dms_error" where
  "no_rows e err = (if err = QueryReturnedNoRows then e else Db err)"

section \<open>Devices\<close>

text \<open>\<open>INSERT INTO devices\<close>: \<open>id\<close> is the primary key and \<open>serial\<close> is unique.\<close>

definition insert_device :: "device_record \<Rightarrow> dms_tables \<Rightarrow> (rusqlite_error, unit) result \<times> dms_tables" where
  "insert_device row t =
     (if dr_id row \<in> dr_id ` set (devices t) \<or> dr_serial row \<in> dr_serial ` set (devices t)
      then (Err (SqliteFailure ConstraintViolation), t)
      else (Ok (), t\<lparr>devices := devices t @ [row]\<rparr>))"

definition new_record :: "string \<Rightarrow> int \<Rightarrow> new_device \<Rightarrow> device_record" where
  "new_record did now d =
     \<lparr>dr_id = did, dr_serial = nd_serial d, dr_model = nd_model d, dr_firmware = nd_firmware d,
      dr_status = ''active'', dr_cert = nd_cert d, dr_enrolled_at = now, dr_last_seen_at = now\<rparr>"

text \<open>\<open>id\<close> is the fresh \<open>Uuid::new_v4()\<close>, \<open>now\<close> the clock.\<close>

definition create_device :: "engine \<Rightarrow> string \<Rightarrow> int \<Rightarrow> new_device \<Rightarrow> device_record dms_op" where
  "create_device eng did now d =
     db_lock eng (\<lambda>c.
       try_bind
         (map_err_st
            (\<lambda>e. case e of SqliteFailure ConstraintViolation \<Rightarrow> AlreadyEnrolled (nd_serial d) | other \<Rightarrow> Db other)
            (sql eng 0 (insert_device (new_record did now d)) c))
         (\<lambda>_ c. (Ok (new_record did now d), c)))"

definition get_device :: "engine \<Rightarrow> string \<Rightarrow> device_record dms_op" where
  "get_device eng did =
     db_lock eng (\<lambda>c. map_err_st (no_rows (NotFound did)) (sql eng 0 (query_row devices dr_id did) c))"

definition get_by_serial :: "engine \<Rightarrow> string \<Rightarrow> device_record dms_op" where
  "get_by_serial eng serial =
     db_lock eng (\<lambda>c. map_err_st (no_rows (NotFound serial)) (sql eng 0 (query_row devices dr_serial serial) c))"

definition update_status :: "engine \<Rightarrow> string \<Rightarrow> string \<Rightarrow> string \<Rightarrow> unit dms_op" where
  "update_status eng did st reason =
     db_lock eng (\<lambda>c.
       try_bind (map_err_st Db
           (sql eng 0 (update_where devices_update devices (\<lambda>r. dr_id r = did) (\<lambda>r. r\<lparr>dr_status := st\<rparr>)) c))
         (\<lambda>rows c. if rows = 0 then (Err (NotFound did), c) else (Ok (), c)))"

definition touch_last_seen :: "engine \<Rightarrow> int \<Rightarrow> string \<Rightarrow> unit dms_op" where
  "touch_last_seen eng now did =
     db_lock eng (\<lambda>c.
       try_bind (map_err_st Db
           (sql eng 0 (update_where devices_update devices (\<lambda>r. dr_id r = did) (\<lambda>r. r\<lparr>dr_last_seen_at := now\<rparr>)) c))
         (\<lambda>rows c. if rows = 0 then (Err (NotFound did), c) else (Ok (), c)))"

text \<open>The \<open>WHERE\<close> clause \<open>list_devices\<close> builds, and the query with its lookahead row.\<close>

definition device_matches :: "string option \<Rightarrow> string option \<Rightarrow> string option \<Rightarrow> device_record \<Rightarrow> bool" where
  "device_matches model st cursor r \<longleftrightarrow>
     (case model of None \<Rightarrow> True | Some m \<Rightarrow> dr_model r = m) \<and>
     (case st of None \<Rightarrow> True | Some s \<Rightarrow> dr_status r = s) \<and>
     (case cursor of None \<Rightarrow> True | Some x \<Rightarrow> x < dr_id r)"

definition select_devices :: "string option \<Rightarrow> string option \<Rightarrow> string option \<Rightarrow> int \<Rightarrow> dms_tables \<Rightarrow> device_record list" where
  "select_devices model st cursor n t =
     limit_rows n (sort_key dr_id (filter (device_matches model st cursor) (devices t)))"

definition list_devices :: "engine \<Rightarrow> string option \<Rightarrow> string option \<Rightarrow> int \<Rightarrow> string option
    \<Rightarrow> (device_record list \<times> string option) dms_op" where
  "list_devices eng model st limit cursor =
     db_lock eng (\<lambda>c.
       try_bind (map_err_st Db (sql eng 0 (query (\<lambda>_. ())) c)) (\<lambda>_ c.
       try_bind (map_err_st Db (sql eng 1 (query (select_devices model st cursor (wrap_i64 (limit + 1)))) c))
         (\<lambda>rows c.
            if int (length rows) > limit
            then (let rows = butlast rows in
                  (Ok (rows, if rows = [] then None else Some (dr_id (last rows))), c))
            else (Ok (rows, None), c))))"

definition count_devices :: "engine \<Rightarrow> u64 dms_op" where
  "count_devices eng =
     db_lock eng (\<lambda>c.
       try_bind (map_err_st Db (sql eng 0 (query (\<lambda>t. int (length (devices t)))) c))
         (\<lambda>n c. (Ok (i64_as_u64 n), c)))"

section \<open>Pre-enrollment registry\<close>

text \<open>
  The upsert of \<open>register_serial\<close>: a fresh row, or the claim reset to 0 when the serial
  has no row in \<open>devices\<close>.
\<close>

definition upsert_serial :: "string \<Rightarrow> string \<Rightarrow> dms_tables \<Rightarrow> (rusqlite_error, unit) result \<times> dms_tables" where
  "upsert_serial serial model t =
     (Ok (),
      case row_with pe_serial serial (pre_enrollment t) of
        None \<Rightarrow> t\<lparr>pre_enrollment := pre_enrollment t @ [\<lparr>pe_serial = serial, pe_model = model, pe_claimed = 0\<rparr>]\<rparr>
      | Some _ \<Rightarrow>
          if serial \<in> dr_serial ` set (devices t) then t
          else pre_enrollment_update (set_rows (\<lambda>r. pe_serial r = serial) (\<lambda>r. r\<lparr>pe_claimed := 0\<rparr>)) t)"

definition register_serial :: "engine \<Rightarrow> string \<Rightarrow> string \<Rightarrow> unit dms_op" where
  "register_serial eng serial model =
     db_lock eng (\<lambda>c. map_err_st Db (sql eng 0 (upsert_serial serial model) c))"

definition claim_body :: "engine \<Rightarrow> string \<Rightarrow> pre_enrollment_record dms_op" where
  "claim_body eng serial c =
     try_bind (map_err_st (no_rows (NotPreEnrolled serial))
         (sql eng 1 (query_row pre_enrollment pe_serial serial) c)) (\<lambda>row c.
     if pe_claimed row \<noteq> 0 then (Err (SerialAlreadyClaimed serial), c)
     else try_bind (map_err_st Db
            (sql eng 2 (update_where pre_enrollment_update pre_enrollment
               (\<lambda>r. pe_serial r = serial) (\<lambda>r. r\<lparr>pe_claimed := 1\<rparr>)) c)) (\<lambda>_ c.
          (Ok \<lparr>per_serial = serial, per_model = pe_model row\<rparr>, c)))"

definition lookup_and_claim :: "engine \<Rightarrow> string \<Rightarrow> pre_enrollment_record dms_op" where
  "lookup_and_claim eng serial = db_lock eng (transaction eng 3 Db (claim_body eng serial))"

section \<open>Factory manifest\<close>

text \<open>\<open>INSERT OR IGNORE\<close>: a row whose primary key is taken is skipped.\<close>

definition insert_manifest :: "manifest_row \<Rightarrow> dms_tables \<Rightarrow> (rusqlite_error, unit) result \<times> dms_tables" where
  "insert_manifest row t =
     (Ok (), if fm_serial row \<in> fm_serial ` set (factory_manifest t) then t
             else t\<lparr>factory_manifest := factory_manifest t @ [row]\<rparr>)"

definition insert_pre :: "pre_row \<Rightarrow> dms_tables \<Rightarrow> (rusqlite_error, unit) result \<times> dms_tables" where
  "insert_pre row t =
     (Ok (), if pe_serial row \<in> pe_serial ` set (pre_enrollment t) then t
             else t\<lparr>pre_enrollment := pre_enrollment t @ [row]\<rparr>)"

definition seed_manifest :: "engine \<Rightarrow> string \<Rightarrow> string \<Rightarrow> string \<Rightarrow> unit dms_op" where
  "seed_manifest eng serial model token =
     db_lock eng (\<lambda>c. map_err_st Db (sql eng 0 (insert_manifest
       \<lparr>fm_serial = serial, fm_model = model, fm_token = token, fm_provisioned_at = None\<rparr>) c))"

definition manifest_body :: "engine \<Rightarrow> int \<times> string \<times> string \<Rightarrow> string dms_op" where
  "manifest_body eng = (\<lambda>(now, serial, token) c.
     try_bind (map_err_st (no_rows (NotInManifest serial))
         (sql eng 1 (query_row factory_manifest fm_serial serial) c)) (\<lambda>row c.
     if fm_token row \<noteq> token then (Err (InvalidProvisionToken serial), c)
     else if fm_provisioned_at row \<noteq> None then (Err (AlreadyProvisioned serial), c)
     else try_bind (map_err_st Db
            (sql eng 2 (update_where factory_manifest_update factory_manifest
               (\<lambda>r. fm_serial r = serial) (\<lambda>r. r\<lparr>fm_provisioned_at := Some now\<rparr>)) c)) (\<lambda>_ c.
          try_bind (map_err_st Db
            (sql eng 3 (insert_pre \<lparr>pe_serial = serial, pe_model = fm_model row, pe_claimed = 0\<rparr>) c)) (\<lambda>_ c.
          (Ok (fm_model row), c)))))"

definition claim_manifest_entry :: "engine \<Rightarrow> int \<Rightarrow> string \<Rightarrow> string \<Rightarrow> string dms_op" where
  "claim_manifest_entry eng now serial token =
     db_lock eng (transaction eng 4 Db (manifest_body eng (now, serial, token)))"

section \<open>The constraints of the schema\<close>

definition wf_tables :: "dms_tables \<Rightarrow> bool" where
  "wf_tables t \<longleftrightarrow>
     distinct (map dr_id (devices t)) \<and> distinct (map dr_serial (devices t)) \<and>
     distinct (map pe_serial (pre_enrollment t)) \<and> distinct (map fm_serial (factory_manifest t)) \<and>
     (\<forall>r \<in> set (pre_enrollment t). pe_claimed r = 0 \<or> pe_claimed r = 1)"

lemma wf_empty_tables [simp]: "wf_tables empty_tables"
  by (simp add: wf_tables_def empty_tables_def)

lemma wf_insert_device: "wf_tables t \<Longrightarrow> wf_tables (snd (insert_device row t))"
  by (auto simp: wf_tables_def insert_device_def)

lemma wf_update_devices:
  assumes "wf_tables t" and "\<And>r. dr_id (f r) = dr_id r" and "\<And>r. dr_serial (f r) = dr_serial r"
  shows "wf_tables (snd (update_where devices_update devices p f t))"
  using assms by (simp add: wf_tables_def update_where_def map_key_set_rows)

lemma wf_update_pre:
  assumes "wf_tables t" and "\<And>r. pe_serial (f r) = pe_serial r"
    and "\<And>r. pe_claimed (f r) = 0 \<or> pe_claimed (f r) = 1"
  shows "wf_tables (pre_enrollment_update (set_rows p f) t)"
  using assms by (auto simp: wf_tables_def map_key_set_rows set_set_rows)

lemma wf_update_manifest:
  assumes "wf_tables t" and "\<And>r. fm_serial (f r) = fm_serial r"
  shows "wf_tables (snd (update_where factory_manifest_update factory_manifest p f t))"
  using assms by (simp add: wf_tables_def update_where_def map_key_set_rows)

lemma wf_insert_pre:
  "wf_tables t \<Longrightarrow> pe_claimed row = 0 \<Longrightarrow> wf_tables (snd (insert_pre row t))"
  by (auto simp: wf_tables_def insert_pre_def)

lemma wf_insert_manifest: "wf_tables t \<Longrightarrow> wf_tables (snd (insert_manifest row t))"
  by (auto simp: wf_tables_def insert_manifest_def)

lemma wf_upsert_serial: "wf_tables t \<Longrightarrow> wf_tables (snd (upsert_serial serial model t))"
  using wf_update_pre [of t "\<lambda>r. r\<lparr>pe_claimed := 0\<rparr>" "\<lambda>r. pe_serial r = serial"]
  by (auto simp: upsert_serial_def row_with_None split: option.split) (auto simp: wf_tables_def)

lemma wf_query: "wf_tables t \<Longrightarrow> wf_tables (snd (query f t))"
  "wf_tables t \<Longrightarrow> wf_tables (snd (query_row table key x t))"
  by (simp_all add: query_def query_row_def)

lemmas wf_statements = wf_insert_device wf_update_devices wf_update_manifest wf_insert_pre
  wf_insert_manifest wf_upsert_serial wf_query

lemma wf_claim_body: "conn_all wf_tables c \<Longrightarrow> conn_all wf_tables (snd (claim_body eng serial c))"
  unfolding claim_body_def
  by (auto intro!: conn_all_try_bind conn_all_sql wf_query wf_update_pre simp: update_where_def)

lemma wf_manifest_body: "conn_all wf_tables c \<Longrightarrow> conn_all wf_tables (snd (manifest_body eng x c))"
  unfolding manifest_body_def
  by (auto intro!: conn_all_try_bind conn_all_sql wf_statements split: prod.split)

text \<open>The methods of the \<open>DeviceStore\<close> trait as one type of operations.\<close>

datatype dev_op =
    CreateDevice string int new_device
  | GetDevice string
  | GetBySerial string
  | UpdateStatus string string string
  | TouchLastSeen int string
  | ListDevices "string option" "string option" int "string option"
  | RegisterSerial string string
  | LookupAndClaim string
  | CountDevices
  | SeedManifest string string string
  | ClaimManifestEntry int string string

primrec dev_step :: "engine \<Rightarrow> dev_op \<Rightarrow> dconn \<Rightarrow> dconn" where
  "dev_step eng (CreateDevice did now d) c = snd (create_device eng did now d c)"
| "dev_step eng (GetDevice did) c = snd (get_device eng did c)"
| "dev_step eng (GetBySerial s) c = snd (get_by_serial eng s c)"
| "dev_step eng (UpdateStatus did st reason) c = snd (update_status eng did st reason c)"
| "dev_step eng (TouchLastSeen now did) c = snd (touch_last_seen eng now did c)"
| "dev_step eng (ListDevices m st l cur) c = snd (list_devices eng m st l cur c)"
| "dev_step eng (RegisterSerial s m) c = snd (register_serial eng s m c)"
| "dev_step eng (LookupAndClaim s) c = snd (lookup_and_claim eng s c)"
| "dev_step eng CountDevices c = snd (count_devices eng c)"
| "dev_step eng (SeedManifest s m tok) c = snd (seed_manifest eng s m tok c)"
| "dev_step eng (ClaimManifestEntry now s tok) c = snd (claim_manifest_entry eng now s tok c)"

lemmas device_ops_defs = create_device_def get_device_def get_by_serial_def update_status_def
  touch_last_seen_def list_devices_def register_serial_def lookup_and_claim_def count_devices_def
  seed_manifest_def claim_manifest_entry_def db_lock_def

lemma dev_step_wf: "conn_all wf_tables c \<Longrightarrow> conn_all wf_tables (dev_step eng op c)"
  by (cases op)
    (auto simp: device_ops_defs Let_def
      intro!: conn_all_intros wf_statements wf_claim_body wf_manifest_body)

interpretation device_schema: schema_store dev_step wf_tables
  by unfold_locales (rule dev_step_wf)

section \<open>Claims\<close>

text \<open>What a successful claim does to the rows.\<close>

definition claim_serial :: "string \<Rightarrow> dms_tables \<Rightarrow> dms_tables" where
  "claim_serial serial = pre_enrollment_update (set_rows (\<lambda>r. pe_serial r = serial) (\<lambda>r. r\<lparr>pe_claimed := 1\<rparr>))"

definition provision_serial :: "int \<Rightarrow> string \<Rightarrow> string \<Rightarrow> dms_tables \<Rightarrow> dms_tables" where
  "provision_serial now serial model t =
     snd (insert_pre \<lparr>pe_serial = serial, pe_model = model, pe_claimed = 0\<rparr>
       (factory_manifest_update (set_rows (\<lambda>r. fm_serial r = serial) (\<lambda>r. r\<lparr>fm_provisioned_at := Some now\<rparr>)) t))"

definition serial_claimed :: "dms_tables \<Rightarrow> string \<Rightarrow> bool" where
  "serial_claimed t serial \<longleftrightarrow>
     (case row_with pe_serial serial (pre_enrollment t) of None \<Rightarrow> False | Some r \<Rightarrow> pe_claimed r \<noteq> 0)"

definition serial_provisioned :: "dms_tables \<Rightarrow> string \<Rightarrow> bool" where
  "serial_provisioned t serial \<longleftrightarrow>
     (case row_with fm_serial serial (factory_manifest t) of None \<Rightarrow> False | Some r \<Rightarrow> fm_provisioned_at r \<noteq> None)"

lemma claim_serial_fields [simp]:
  "devices (claim_serial serial t) = devices t"
  "factory_manifest (claim_serial serial t) = factory_manifest t"
  by (simp_all add: claim_serial_def)

lemma row_with_claim_serial:
  "row_with pe_serial s (pre_enrollment (claim_serial serial t)) =
     (if s = serial then map_option (\<lambda>r. r\<lparr>pe_claimed := 1\<rparr>) (row_with pe_serial serial (pre_enrollment t))
      else row_with pe_serial s (pre_enrollment t))"
  by (simp add: claim_serial_def row_with_set_rows_key)

lemma serial_claimed_claim_serial:
  "serial_claimed (claim_serial serial t) s \<longleftrightarrow>
     serial_claimed t s \<or> (s = serial \<and> row_with pe_serial serial (pre_enrollment t) \<noteq> None)"
  by (auto simp: serial_claimed_def row_with_claim_serial split: option.splits)

interpretation claim_tx: tx_body claim_body
  by unfold_locales (auto simp: claim_body_def intro!: tx_ok_intros)

interpretation manifest_tx: tx_body manifest_body
  by unfold_locales (auto simp: manifest_body_def intro!: tx_ok_intros split: prod.split)

text \<open>On success, whatever the engine did elsewhere, the claim ran on an idle connection.\<close>

lemma claim_body_Inr:
  "claim_body eng serial c = (Inr a, c') \<Longrightarrow>
     \<exists>row. row_with pe_serial serial (pre_enrollment (tabs c)) = Some row \<and> pe_claimed row = 0 \<and>
       a = \<lparr>per_serial = serial, per_model = pe_model row\<rparr> \<and> c' = c\<lparr>tabs := claim_serial serial (tabs c)\<rparr>"
  by (auto simp: claim_body_def claim_serial_def inr_simps split: if_splits)

lemma manifest_body_Inr:
  "manifest_body eng (now, serial, token) c = (Inr m, c') \<Longrightarrow>
     \<exists>row. row_with fm_serial serial (factory_manifest (tabs c)) = Some row \<and> fm_token row = token \<and>
       fm_provisioned_at row = None \<and> m = fm_model row \<and>
       c' = c\<lparr>tabs := provision_serial now serial (fm_model row) (tabs c)\<rparr>"
  by (auto simp: manifest_body_def provision_serial_def insert_pre_def inr_simps split: if_splits)

lemma lookup_and_claim_Inr:
  assumes "lookup_and_claim eng serial c = (Inr a, c')"
  obtains row where "idle c" "row_with pe_serial serial (pre_enrollment (tabs c)) = Some row"
    "pe_claimed row = 0" "a = \<lparr>per_serial = serial, per_model = pe_model row\<rparr>"
    "c' = c\<lparr>tabs := claim_serial serial (tabs c)\<rparr>"
proof -
  from assms have tx: "transaction eng 3 Db (claim_body eng serial) c = (Inr a, c')"
    by (auto simp: lookup_and_claim_def db_lock_def with_lock_def split: if_splits)
  from claim_tx.tx_success(3) [OF tx] obtain c2
    where c2: "claim_body eng serial (c\<lparr>saved := Some (tabs c)\<rparr>) = (Inr a, c2)" "c' = c2\<lparr>saved := None\<rparr>"
    by blast
  with claim_tx.tx_success(1) [OF tx] show ?thesis
    by (auto dest!: claim_body_Inr intro!: that simp: idle_def)
qed

lemma claim_manifest_entry_Inr:
  assumes "claim_manifest_entry eng now serial token c = (Inr m, c')"
  obtains row where "idle c" "row_with fm_serial serial (factory_manifest (tabs c)) = Some row"
    "fm_token row = token" "fm_provisioned_at row = None" "m = fm_model row"
    "c' = c\<lparr>tabs := provision_serial now serial (fm_model row) (tabs c)\<rparr>"
proof -
  from assms have tx: "transaction eng 4 Db (manifest_body eng (now, serial, token)) c = (Inr m, c')"
    by (auto simp: claim_manifest_entry_def db_lock_def with_lock_def split: if_splits)
  from manifest_tx.tx_success(3) [OF tx] obtain c2
    where c2: "manifest_body eng (now, serial, token) (c\<lparr>saved := Some (tabs c)\<rparr>) = (Inr m, c2)"
      "c' = c2\<lparr>saved := None\<rparr>"
    by blast
  with manifest_tx.tx_success(1) [OF tx] show ?thesis
    by (auto dest!: manifest_body_Inr intro!: that simp: idle_def)
qed

text \<open>On failure nothing is committed.\<close>

lemma lookup_and_claim_Inl_committed:
  "lookup_and_claim eng serial c = (Inl f, c') \<Longrightarrow> committed c' = committed c"
  by (auto simp: lookup_and_claim_def db_lock_def with_lock_def split: if_splits
      dest: claim_tx.tx_error_keeps_committed)

lemma claim_manifest_entry_Inl_committed:
  "claim_manifest_entry eng now serial token c = (Inl f, c') \<Longrightarrow> committed c' = committed c"
  by (auto simp: claim_manifest_entry_def db_lock_def with_lock_def split: if_splits
      dest: manifest_tx.tx_error_keeps_committed)

interpretation claim_once: one_shot "\<lambda>(eng, serial). lookup_and_claim eng serial" snd "\<lambda>c. serial_claimed (committed c)"
proof
  fix x :: "engine \<times> string" and c c' :: dconn and a
  assume ok: "(case x of (eng, serial) \<Rightarrow> lookup_and_claim eng serial) c = (Inr a, c')"
  obtain eng serial where x: "x = (eng, serial)" by fastforce
  from ok [unfolded x, simplified] show "\<not> serial_claimed (committed c) (snd x)"
    by (rule lookup_and_claim_Inr) (simp add: x serial_claimed_def)
  from ok [unfolded x, simplified] show "serial_claimed (committed c') (snd x)"
    by (rule lookup_and_claim_Inr) (simp add: x idle_def committed_def serial_claimed_claim_serial)
next
  fix c :: dconn and k and x :: "engine \<times> string"
  assume k: "serial_claimed (committed c) k"
  obtain eng serial where x: "x = (eng, serial)" by fastforce
  obtain r c' where r: "lookup_and_claim eng serial c = (r, c')" by fastforce
  show "serial_claimed (committed (snd ((case x of (eng, serial) \<Rightarrow> lookup_and_claim eng serial) c))) k"
  proof (cases r)
    case (Inl f)
    with r k x show ?thesis by (auto dest: lookup_and_claim_Inl_committed)
  next
    case (Inr a)
    from r [unfolded Inr] show ?thesis
      by (rule lookup_and_claim_Inr)
        (use k in \<open>simp add: x r idle_def committed_def serial_claimed_claim_serial\<close>)
  qed
qed

lemma row_with_provision:
  "row_with fm_serial s (factory_manifest (provision_serial now serial m t)) =
     (if s = serial then map_option (\<lambda>r. r\<lparr>fm_provisioned_at := Some now\<rparr>) (row_with fm_serial serial (factory_manifest t))
      else row_with fm_serial s (factory_manifest t))"
  by (simp add: provision_serial_def insert_pre_def row_with_set_rows_key)

lemma serial_provisioned_provision:
  "serial_provisioned (provision_serial now serial m t) s \<longleftrightarrow>
     serial_provisioned t s \<or> (s = serial \<and> row_with fm_serial serial (factory_manifest t) \<noteq> None)"
  by (auto simp: serial_provisioned_def row_with_provision split: option.splits)

lemma devices_provision [simp]: "devices (provision_serial now serial m t) = devices t"
  by (simp add: provision_serial_def insert_pre_def)

lemma pre_provision:
  "pre_enrollment (provision_serial now serial m t) =
     (if serial \<in> pe_serial ` set (pre_enrollment t) then pre_enrollment t
      else pre_enrollment t @ [\<lparr>pe_serial = serial, pe_model = m, pe_claimed = 0\<rparr>])"
  by (simp add: provision_serial_def insert_pre_def)

lemma row_with_pre_provision:
  "row_with pe_serial s (pre_enrollment (provision_serial now serial m t)) =
     (case row_with pe_serial s (pre_enrollment t) of
        Some p \<Rightarrow> Some p
      | None \<Rightarrow> if s = serial then Some \<lparr>pe_serial = serial, pe_model = m, pe_claimed = 0\<rparr> else None)"
  using row_with_None [of pe_serial s "pre_enrollment t"]
  by (auto simp: pre_provision row_with_append split: option.split)

interpretation provision_once:
  one_shot "\<lambda>(eng, now, serial, token). claim_manifest_entry eng now serial token" "\<lambda>(_, _, serial, _). serial"
    "\<lambda>c. serial_provisioned (committed c)"
proof
  fix x :: "engine \<times> int \<times> string \<times> string" and c c' :: dconn and a
  assume ok: "(case x of (eng, now, serial, token) \<Rightarrow> claim_manifest_entry eng now serial token) c = (Inr a, c')"
  obtain eng now serial token where x: "x = (eng, now, serial, token)" by (metis surj_pair)
  from ok [unfolded x, simplified] show "\<not> serial_provisioned (committed c) (case x of (_, _, serial, _) \<Rightarrow> serial)"
    by (rule claim_manifest_entry_Inr) (simp add: x serial_provisioned_def)
  from ok [unfolded x, simplified] show "serial_provisioned (committed c') (case x of (_, _, serial, _) \<Rightarrow> serial)"
    by (rule claim_manifest_entry_Inr) (simp add: x idle_def committed_def serial_provisioned_provision)
next
  fix c :: dconn and k and x :: "engine \<times> int \<times> string \<times> string"
  assume k: "serial_provisioned (committed c) k"
  obtain eng now serial token where x: "x = (eng, now, serial, token)" by (metis surj_pair)
  obtain r c' where r: "claim_manifest_entry eng now serial token c = (r, c')" by fastforce
  show "serial_provisioned (committed (snd ((case x of (eng, now, serial, token) \<Rightarrow> claim_manifest_entry eng now serial token) c))) k"
  proof (cases r)
    case (Inl f)
    with r k x show ?thesis by (auto dest: claim_manifest_entry_Inl_committed)
  next
    case (Inr a)
    from r [unfolded Inr] show ?thesis
      by (rule claim_manifest_entry_Inr)
        (use k in \<open>simp add: x r idle_def committed_def serial_provisioned_provision\<close>)
  qed
qed

section \<open>The operations on a healthy engine\<close>

lemma idle_eq [simp]: "idle c \<Longrightarrow> c\<lparr>saved := None\<rparr> = c" "idle c \<Longrightarrow> c\<lparr>tabs := t, saved := None\<rparr> = c\<lparr>tabs := t\<rparr>"
  by (simp_all add: idle_def)

lemma lookup_and_claim_healthy:
  assumes "no_fault eng" and "idle c"
  shows "lookup_and_claim eng serial c =
    (case row_with pe_serial serial (pre_enrollment (tabs c)) of
       None \<Rightarrow> (Err (NotPreEnrolled serial), c)
     | Some row \<Rightarrow>
         if pe_claimed row \<noteq> 0 then (Err (SerialAlreadyClaimed serial), c)
         else (Ok \<lparr>per_serial = serial, per_model = pe_model row\<rparr>, c\<lparr>tabs := claim_serial serial (tabs c)\<rparr>))"
  using assms
  by (auto simp: lookup_and_claim_def db_lock_def with_lock_def transaction_def claim_body_def
      query_row_def update_where_def no_rows_def claim_serial_def split: option.split)

lemma claim_manifest_entry_healthy:
  assumes "no_fault eng" and "idle c"
  shows "claim_manifest_entry eng now serial token c =
    (case row_with fm_serial serial (factory_manifest (tabs c)) of
       None \<Rightarrow> (Err (NotInManifest serial), c)
     | Some row \<Rightarrow>
         if fm_token row \<noteq> token then (Err (InvalidProvisionToken serial), c)
         else if fm_provisioned_at row \<noteq> None then (Err (AlreadyProvisioned serial), c)
         else (Ok (fm_model row), c\<lparr>tabs := provision_serial now serial (fm_model row) (tabs c)\<rparr>))"
  using assms
  by (auto simp: claim_manifest_entry_def db_lock_def with_lock_def transaction_def manifest_body_def
      query_row_def update_where_def no_rows_def provision_serial_def insert_pre_def split: option.split)

lemma create_device_healthy:
  assumes "no_fault eng"
  shows "create_device eng did now d c =
    (if did \<in> dr_id ` set (devices (tabs c)) \<or> nd_serial d \<in> dr_serial ` set (devices (tabs c))
     then (Err (AlreadyEnrolled (nd_serial d)), c)
     else (Ok (new_record did now d), c\<lparr>tabs := (tabs c)\<lparr>devices := devices (tabs c) @ [new_record did now d]\<rparr>\<rparr>))"
  using assms by (auto simp: create_device_def db_lock_def with_lock_def insert_device_def new_record_def)

lemma get_device_healthy:
  "no_fault eng \<Longrightarrow> get_device eng did c = (ok_or (NotFound did) (row_with dr_id did (devices (tabs c))), c)"
  by (cases "row_with dr_id did (devices (tabs c))")
    (auto simp: get_device_def db_lock_def with_lock_def query_row_def no_rows_def)

lemma get_by_serial_healthy:
  "no_fault eng \<Longrightarrow> get_by_serial eng s c = (ok_or (NotFound s) (row_with dr_serial s (devices (tabs c))), c)"
  by (cases "row_with dr_serial s (devices (tabs c))")
    (auto simp: get_by_serial_def db_lock_def with_lock_def query_row_def no_rows_def)

lemma update_status_healthy:
  assumes "no_fault eng"
  shows "update_status eng did st reason c =
    (case row_with dr_id did (devices (tabs c)) of
       None \<Rightarrow> (Err (NotFound did), c)
     | Some _ \<Rightarrow> (Ok (), c\<lparr>tabs := devices_update (set_rows (\<lambda>r. dr_id r = did) (\<lambda>r. r\<lparr>dr_status := st\<rparr>)) (tabs c)\<rparr>))"
  using assms
  by (auto simp: update_status_def db_lock_def with_lock_def update_where_def
      row_with_NoneD row_with_SomeD2 split: option.split)

lemma touch_last_seen_healthy:
  assumes "no_fault eng"
  shows "touch_last_seen eng now did c =
    (case row_with dr_id did (devices (tabs c)) of
       None \<Rightarrow> (Err (NotFound did), c)
     | Some _ \<Rightarrow> (Ok (), c\<lparr>tabs := devices_update (set_rows (\<lambda>r. dr_id r = did) (\<lambda>r. r\<lparr>dr_last_seen_at := now\<rparr>)) (tabs c)\<rparr>))"
  using assms
  by (auto simp: touch_last_seen_def db_lock_def with_lock_def update_where_def
      row_with_NoneD row_with_SomeD2 split: option.split)

lemma register_serial_healthy:
  "no_fault eng \<Longrightarrow> register_serial eng serial m c = (Ok (), c\<lparr>tabs := snd (upsert_serial serial m (tabs c))\<rparr>)"
  by (simp add: register_serial_def db_lock_def with_lock_def upsert_serial_def)

lemma seed_manifest_healthy:
  "no_fault eng \<Longrightarrow> seed_manifest eng serial m tok c =
     (Ok (), c\<lparr>tabs := snd (insert_manifest
        \<lparr>fm_serial = serial, fm_model = m, fm_token = tok, fm_provisioned_at = None\<rparr> (tabs c))\<rparr>)"
  by (simp add: seed_manifest_def db_lock_def with_lock_def insert_manifest_def)

lemmas healthy = lookup_and_claim_healthy claim_manifest_entry_healthy create_device_healthy
  get_device_healthy get_by_serial_healthy update_status_healthy touch_last_seen_healthy
  register_serial_healthy seed_manifest_healthy

end
