(* ===== verification/Device_Enrollment.thy ===== *)
theory Device_Enrollment
  imports Device_Store
begin

text \<open>
  The enrollment service of device-management-service
  (\<^verbatim>\<open>src/enrollment/mod.rs\<close>) and the provisioning endpoint
  (\<^verbatim>\<open>src/provisioning/mod.rs\<close>). What the handlers read from outside (the PKI
  libraries, the engine at each store call, the clock at each reading, the fresh UUID) is the
  record \<open>dms_env\<close>.
\<close>

record dms_env =
  env_pki :: pki
  env_engine :: "nat \<Rightarrow> engine"
  env_clock :: "nat \<Rightarrow> int"
  env_uuid :: string

section \<open>EnrollmentService\<close>

record enrollment_service =
  fleet_ca_cert_pem :: pem
  fleet_ca_key_pem :: pem
  cert_validity_days :: u32

record enroll_result =
  er_device_id :: string
  er_operational_cert_pem :: pem
  er_fleet_ca_chain_pem :: pem
  er_expires_at :: int

definition cert_expires_at :: "enrollment_service \<Rightarrow> int \<Rightarrow> int" where
  "cert_expires_at svc now = wrap_i64 (now + uint (cert_validity_days svc) * 86400)"

text \<open>Steps 1 to 3: the serial of the peer certificate, checked against the request and the Device CA.\<close>

definition enroll_check :: "pki \<Rightarrow> string \<Rightarrow> der list \<Rightarrow> pem \<Rightarrow> (dms_error, string) result" where
  "enroll_check pki serial_from_req peer_certs device_ca_pem =
     try_pure (map_err PkiError (extract_serial pki peer_certs)) (\<lambda>cert_serial.
     if serial_from_req \<noteq> [] \<and> serial_from_req \<noteq> cert_serial
     then Err (SerialMismatch cert_serial serial_from_req)
     else try_pure (map_err (\<lambda>e. CertVerification (pki_to_string e))
            (verify_signed_by pki peer_certs device_ca_pem)) (\<lambda>_. Ok cert_serial))"

text \<open>Steps 5 and 6, after the claim: sign the CSR with the Fleet CA and persist the device.\<close>

definition enroll_finish :: "dms_env \<Rightarrow> enrollment_service \<Rightarrow> pem \<Rightarrow> string \<Rightarrow> string
    \<Rightarrow> pre_enrollment_record \<Rightarrow> enroll_result dms_op" where
  "enroll_finish env svc csr_pem firmware cert_serial pre c =
     try_bind (map_err PkiError (sign_csr (env_pki env) (env_clock env 0) csr_pem
        (fleet_ca_cert_pem svc) (fleet_ca_key_pem svc) (cert_validity_days svc)), c) (\<lambda>signed c.
     let expires_at = cert_expires_at svc (env_clock env 1) in
     try_bind (create_device (env_engine env 1) (env_uuid env) (env_clock env 2)
        \<lparr>nd_serial = cert_serial, nd_model = per_model pre, nd_firmware = firmware, nd_cert = signed\<rparr> c)
       (\<lambda>record c.
         (Ok \<lparr>er_device_id = dr_id record, er_operational_cert_pem = signed,
              er_fleet_ca_chain_pem = fleet_ca_cert_pem svc, er_expires_at = expires_at\<rparr>, c)))"

definition bootstrap_enroll :: "dms_env \<Rightarrow> enrollment_service \<Rightarrow> string \<Rightarrow> pem \<Rightarrow> string \<Rightarrow> der list \<Rightarrow> pem
    \<Rightarrow> enroll_result dms_op" where
  "bootstrap_enroll env svc serial_from_req csr_pem firmware peer_certs device_ca_pem c =
     try_bind (enroll_check (env_pki env) serial_from_req peer_certs device_ca_pem, c) (\<lambda>cert_serial c.
     try_bind (lookup_and_claim (env_engine env 0) cert_serial c) (\<lambda>pre c.
     enroll_finish env svc csr_pem firmware cert_serial pre c))"

definition renew_cert :: "dms_env \<Rightarrow> enrollment_service \<Rightarrow> string \<Rightarrow> pem \<Rightarrow> (pem \<times> int) dms_op" where
  "renew_cert env svc device_id csr_pem c =
     try_bind (get_device (env_engine env 0) device_id c) (\<lambda>device c.
     if dr_status device \<noteq> ''active'' then (Err (DeviceNotActive (dr_status device)), c)
     else try_bind (map_err PkiError (sign_csr (env_pki env) (env_clock env 0) csr_pem
            (fleet_ca_cert_pem svc) (fleet_ca_key_pem svc) (cert_validity_days svc)), c) (\<lambda>signed c.
          (Ok (signed, cert_expires_at svc (env_clock env 1)), c)))"

section \<open>ProvisioningServer\<close>

record provisioning_server =
  device_ca_cert_pem :: pem
  device_ca_key_pem :: pem

record provision_request =
  pr_serial :: string
  pr_csr_pem :: pem
  pr_token :: string

fun provision_map_err :: "(rusqlite_error \<Rightarrow> string) \<Rightarrow> dms_error \<Rightarrow> status" where
  "provision_map_err d (NotInManifest m) = status_of FailedPrecondition m"
| "provision_map_err d (InvalidProvisionToken m) = status_of PermissionDenied m"
| "provision_map_err d (AlreadyProvisioned m) = status_of AlreadyExists m"
| "provision_map_err d e = status_of Internal (dms_to_string d e)"

definition provision_device :: "dms_env \<Rightarrow> provisioning_server \<Rightarrow> provision_request \<Rightarrow> dconn
    \<Rightarrow> (status, pem) result \<times> dconn" where
  "provision_device env srv req c =
     (if pr_serial req = [] \<or> pr_csr_pem req = [] \<or> pr_token req = []
      then (Err (status_of InvalidArgument ''serial, csr_pem, and provision_token are required''), c)
      else
        try_bind (map_err_st (provision_map_err (err_display (env_engine env 0)))
            (claim_manifest_entry (env_engine env 0) (env_clock env 0) (pr_serial req) (pr_token req) c)) (\<lambda>model c.
        try_bind (map_err (\<lambda>e. status_of Internal (''CSR signing failed: '' @ pki_to_string e))
            (sign_csr (env_pki env) (env_clock env 1) (pr_csr_pem req)
               (device_ca_cert_pem srv) (device_ca_key_pem srv) 365), c) (\<lambda>device_cert_pem c.
        (Ok device_cert_pem, c))))"

section \<open>What each outcome tells\<close>

lemma enroll_check_Inr:
  assumes "enroll_check pki sreq certs ca = Inr serial"
  shows "extract_serial pki certs = Inr serial" and "verify_signed_by pki certs ca = Inr ()"
    and "sreq = [] \<or> sreq = serial"
  using assms by (auto simp: enroll_check_def try_pure_eq_Inr split: if_splits)

lemma create_device_Inr:
  assumes "create_device eng did now d c = (Inr r, c')"
  shows "r = new_record did now d" and "did \<notin> dr_id ` set (devices (tabs c))"
    and "nd_serial d \<notin> dr_serial ` set (devices (tabs c))"
    and "c' = c\<lparr>tabs := (tabs c)\<lparr>devices := devices (tabs c) @ [new_record did now d]\<rparr>\<rparr>"
  using assms
  by (auto simp: create_device_def db_lock_def with_lock_def inr_simps insert_device_def new_record_def
      split: if_splits)

lemma enroll_finish_Inr:
  assumes "enroll_finish env svc csr fw serial pre c = (Inr r, c')"
  obtains signed where
    "sign_csr (env_pki env) (env_clock env 0) csr (fleet_ca_cert_pem svc) (fleet_ca_key_pem svc)
       (cert_validity_days svc) = Inr signed"
    "r = \<lparr>er_device_id = env_uuid env, er_operational_cert_pem = signed,
          er_fleet_ca_chain_pem = fleet_ca_cert_pem svc, er_expires_at = cert_expires_at svc (env_clock env 1)\<rparr>"
    "create_device (env_engine env 1) (env_uuid env) (env_clock env 2)
        \<lparr>nd_serial = serial, nd_model = per_model pre, nd_firmware = fw, nd_cert = signed\<rparr> c
      = (Inr (new_record (env_uuid env) (env_clock env 2)
        \<lparr>nd_serial = serial, nd_model = per_model pre, nd_firmware = fw, nd_cert = signed\<rparr>), c')"
  using assms
  by (fastforce simp: enroll_finish_def Let_def try_bind_eq_Inr new_record_def
      dest: create_device_Inr(1))

text \<open>A failed insertion leaves the connection as it was, or the engine has rolled its transaction back.\<close>

lemma create_device_Inl: "create_device eng did now d c = (Inl f, c') \<Longrightarrow> c' = c \<or> c' = roll_back c"
  by (auto simp: create_device_def db_lock_def with_lock_def try_bind_eq_Inl insert_device_def
      map_err_st_def sql_def split: if_splits option.splits prod.splits)

lemma enroll_finish_Inl:
  "enroll_finish env svc csr fw serial pre c = (Inl f, c') \<Longrightarrow> c' = c \<or> c' = roll_back c"
  by (auto simp: enroll_finish_def Let_def try_bind_eq_Inl dest: create_device_Inl)

lemma enroll_finish_idle:
  "idle c \<Longrightarrow> idle (snd (enroll_finish env svc csr fw serial pre c))"
proof -
  assume i: "idle c"
  obtain r c' where r: "enroll_finish env svc csr fw serial pre c = (r, c')" by fastforce
  show ?thesis
  proof (cases r)
    case (Inl f)
    with r i show ?thesis by (auto dest: enroll_finish_Inl)
  next
    case (Inr a)
    with r i show ?thesis
      by (auto elim!: enroll_finish_Inr dest!: create_device_Inr(4) simp: idle_def)
  qed
qed

end
