(* ===== verification/Keyset_Pages.thy ===== *)
theory Keyset_Pages
  imports Fleet_Prelude
begin

text \<open>
  Keyset pagination, the contract behind the \<open>cursor\<close> and \<open>next_cursor\<close> fields of the
  listing RPCs: a page holds the first rows after the cursor, and the next cursor is the key
  of its last row when rows remain. A client drains a listing by following the cursors.
\<close>

fun drain :: "nat \<Rightarrow> ('k option \<Rightarrow> 'r list \<times> 'k option) \<Rightarrow> 'k option \<Rightarrow> 'r list option" where
  "drain 0 fetch cursor = None"
| "drain (Suc n) fetch cursor =
     (case fetch cursor of
        (rows, None) \<Rightarrow> Some rows
      | (rows, Some k) \<Rightarrow> map_option (append rows) (drain n fetch (Some k)))"

definition rows_after :: "('r \<Rightarrow> 'k) \<Rightarrow> ('k \<Rightarrow> 'k \<Rightarrow> bool) \<Rightarrow> 'k option \<Rightarrow> 'r list \<Rightarrow> 'r list" where
  "rows_after key before cursor rows =
     (case cursor of None \<Rightarrow> rows | Some k \<Rightarrow> filter (\<lambda>r. before k (key r)) rows)"

definition page_of :: "('r \<Rightarrow> 'k) \<Rightarrow> nat \<Rightarrow> 'r list \<Rightarrow> 'r list \<times> 'k option" where
  "page_of key n rest =
     (if n < length rest then (take n rest, Some (key (rest ! (n - 1)))) else (rest, None))"

lemma filter_after_nth:
  assumes "sorted_wrt before (map key rows)" and "\<And>a b. before a b \<Longrightarrow> \<not> before b a"
    and "m < length rows"
  shows "filter (\<lambda>r. before (key (rows ! m)) (key r)) rows = drop (Suc m) rows"
proof -
  let ?P = "\<lambda>r. before (key (rows ! m)) (key r)"
  have sw: "\<And>i j. i < j \<Longrightarrow> j < length rows \<Longrightarrow> before (key (rows ! i)) (key (rows ! j))"
    using assms(1) by (simp add: sorted_wrt_iff_nth_less)
  have "filter ?P (take (Suc m) rows) = []"
  proof (rule filter_False, rule ballI)
    fix r assume "r \<in> set (take (Suc m) rows)"
    then obtain i where i: "i \<le> m" "r = rows ! i"
      using assms(3) by (auto simp: in_set_conv_nth less_Suc_eq_le)
    show "\<not> ?P r"
      using i sw [of i m] assms(2,3) by (cases "i = m") auto
  qed
  moreover have "filter ?P (drop (Suc m) rows) = drop (Suc m) rows"
    using sw by (intro filter_True) (auto simp: in_set_conv_nth)
  ultimately show ?thesis
    by (metis append_Nil append_take_drop_id filter_append)
qed

locale keyset_pages =
  fixes key :: "'r \<Rightarrow> 'k" and before :: "'k \<Rightarrow> 'k \<Rightarrow> bool" and wf :: "'s \<Rightarrow> bool"
    and listing :: "'s \<Rightarrow> 'r list" and max_limit :: nat
    and fetch :: "'s \<Rightarrow> nat \<Rightarrow> 'k option \<Rightarrow> 'r list \<times> 'k option"
  assumes before_asym: "before a b \<Longrightarrow> \<not> before b a"
    and listing_sorted: "wf s \<Longrightarrow> sorted_wrt before (map key (listing s))"
    and fetch_page: "wf s \<Longrightarrow> 0 < n \<Longrightarrow> n \<le> max_limit \<Longrightarrow>
      fetch s n cursor = page_of key n (rows_after key before cursor (listing s))"
begin

lemma fetch_from:
  assumes "wf s" and "0 < n" and "n \<le> max_limit" and "m < length (listing s)"
  shows "fetch s n (Some (key (listing s ! m))) = page_of key n (drop (Suc m) (listing s))"
  using assms fetch_page [of s n "Some (key (listing s ! m))"]
    filter_after_nth [OF listing_sorted [OF assms(1)] before_asym assms(4)]
  by (simp add: rows_after_def)

lemma drain_from:
  assumes "wf s" and "0 < n" and "n \<le> max_limit" and "m < length (listing s)"
    and "length (listing s) - m \<le> fuel"
  shows "drain fuel (fetch s n) (Some (key (listing s ! m))) = Some (drop (Suc m) (listing s))"
  using assms(4,5)
proof (induction fuel arbitrary: m)
  case 0
  then show ?case by simp
next
  case (Suc fuel)
  let ?rest = "drop (Suc m) (listing s)"
  show ?case
  proof (cases "n < length ?rest")
    case True
    then have next_k: "?rest ! (n - 1) = listing s ! (m + n)"
      using assms(2) by (simp add: nth_drop)
    have "drain fuel (fetch s n) (Some (key (listing s ! (m + n)))) = Some (drop (Suc (m + n)) (listing s))"
      using Suc.prems True assms(2) by (intro Suc.IH) auto
    moreover have "take n ?rest @ drop (Suc (m + n)) (listing s) = ?rest"
      by (metis add.commute add_Suc append_take_drop_id drop_drop)
    ultimately show ?thesis
      using True next_k fetch_from [OF assms(1-3) Suc.prems(1)]
      by (simp add: page_of_def)
  next
    case False
    then show ?thesis
      using fetch_from [OF assms(1-3) Suc.prems(1)] by (simp add: page_of_def)
  qed
qed

lemma drain_complete:
  assumes "wf s" and "0 < n" and "n \<le> max_limit" and "length (listing s) < fuel"
  shows "drain fuel (fetch s n) None = Some (listing s)"
proof -
  obtain f where f: "fuel = Suc f" using assms(4) by (cases fuel) auto
  have first: "fetch s n None = page_of key n (listing s)"
    using assms by (simp add: fetch_page rows_after_def)
  show ?thesis
  proof (cases "n < length (listing s)")
    case True
    have "drain f (fetch s n) (Some (key (listing s ! (n - 1)))) = Some (drop (Suc (n - 1)) (listing s))"
      using True assms f by (intro drain_from) auto
    then show ?thesis
      using True assms(2) f first by (simp add: page_of_def)
  next
    case False
    then show ?thesis using f first by (simp add: page_of_def)
  qed
qed

lemma page_bounded:
  "wf s \<Longrightarrow> 0 < n \<Longrightarrow> n \<le> max_limit \<Longrightarrow> length (fst (fetch s n cursor)) \<le> n"
  by (simp add: fetch_page page_of_def)

end

end
