(* ===== verification/Device_Listing.thy ===== *)
theory Device_Listing
  imports Device_Store Keyset_Pages
begin

text \<open>
  The listing of devices: \<open>list_devices\<close> of the store implements the keyset-pagination
  contract over the devices that match the filters, in the order of their ids.
\<close>

definition device_listing :: "string option \<Rightarrow> string option \<Rightarrow> dms_tables \<Rightarrow> device_record list" where
  "device_listing model st t = sort_key dr_id (filter (device_matches model st None) (devices t))"

text \<open>What \<open>list_devices\<close> answers on a healthy engine.\<close>

definition device_page :: "engine \<Rightarrow> string option \<Rightarrow> string option \<Rightarrow> dms_tables \<Rightarrow> nat \<Rightarrow> string option
    \<Rightarrow> device_record list \<times> string option" where
  "device_page eng model st t n cursor =
     (case fst (list_devices eng model st (int n) cursor (open_conn t)) of
        Inr p \<Rightarrow> p | Inl _ \<Rightarrow> ([], None))"

definition i32_max :: nat where
  "i32_max = 2147483647"

lemma device_matches_cursor:
  "device_matches model st (Some k) = (\<lambda>r. device_matches model st None r \<and> k < dr_id r)"
  by (auto simp: device_matches_def)

lemma select_devices_rows_after:
  "sort_key dr_id (filter (device_matches model st cursor) (devices t)) =
     rows_after dr_id (<) cursor (device_listing model st t)"
  by (cases cursor)
    (simp_all add: rows_after_def device_listing_def filter_sort device_matches_cursor)

lemma page_lookahead:
  assumes "0 < n" and "rows = take (Suc n) rest"
  shows "(if n < length rows
          then (butlast rows, if butlast rows = [] then None else Some (key (last (butlast rows))))
          else (rows, None)) = page_of key n rest"
proof (cases "n < length rest")
  case True
  then have b: "butlast rows = take n rest"
    using assms by (simp add: butlast_take)
  moreover have "last (take n rest) = rest ! (n - 1)"
    using True assms(1) by (subst last_conv_nth) auto
  ultimately show ?thesis
    using True assms by (auto simp: page_of_def)
next
  case False
  with assms show ?thesis by (simp add: page_of_def)
qed

lemma list_devices_healthy:
  assumes "no_fault eng" and "0 < n" and "n \<le> i32_max"
  shows "list_devices eng model st (int n) cursor c =
    (Ok (page_of dr_id n (rows_after dr_id (<) cursor (device_listing model st (tabs c)))), c)"
proof -
  have w: "wrap_i64 (int n + 1) = int (Suc n)"
    using assms(3) by (simp add: i32_max_def in_i64_def)
  have rows: "select_devices model st cursor (int (Suc n)) (tabs c) =
      take (Suc n) (rows_after dr_id (<) cursor (device_listing model st (tabs c)))"
    by (simp only: select_devices_def select_devices_rows_after limit_rows_def nat_int) simp
  show ?thesis
    using assms(1) page_lookahead [OF assms(2) rows, where key = dr_id]
    by (auto simp: list_devices_def db_lock_def with_lock_def query_def w Let_def
        split: if_splits)
qed

lemma device_page_eq:
  "no_fault eng \<Longrightarrow> 0 < n \<Longrightarrow> n \<le> i32_max \<Longrightarrow>
     device_page eng model st t n cursor = page_of dr_id n (rows_after dr_id (<) cursor (device_listing model st t))"
  by (simp add: device_page_def list_devices_healthy)

lemma device_listing_sorted:
  assumes "wf_tables t"
  shows "sorted_wrt (<) (map dr_id (device_listing model st t))"
proof -
  have "distinct (map dr_id (filter (device_matches model st None) (devices t)))"
    using assms by (simp add: wf_tables_def distinct_map_filter)
  then have "distinct (map dr_id (device_listing model st t))"
    by (simp add: device_listing_def distinct_map)
  then show ?thesis
    by (simp add: strict_sorted_iff device_listing_def)
qed

lemma set_device_listing:
  "set (device_listing model st t) = {r \<in> set (devices t). device_matches model st None r}"
  by (simp add: device_listing_def)

interpretation device_pages:
  keyset_pages dr_id "(<)" wf_tables "device_listing model st" i32_max "device_page reliable model st"
  for model st
  by unfold_locales (auto simp: device_listing_sorted device_page_eq)

text \<open>
  C26. Following the cursors of \<open>list_devices\<close> with any positive page size that fits the
  request's \<open>int32\<close> returns every device that matches the filters exactly once, in the
  order of the ids, provided the schema's constraints hold; with more requests than
  matching devices the client is done.
\<close>

theorem list_devices_drains_all:
  assumes "wf_tables t" and "0 < n" and "n \<le> i32_max" and "length (device_listing model st t) < fuel"
  shows "drain fuel (device_page reliable model st t n) None = Some (device_listing model st t)"
  using assms by (rule device_pages.drain_complete)

definition listed_device :: "string \<Rightarrow> string \<Rightarrow> device_record" where
  "listed_device did serial = \<lparr>dr_id = did, dr_serial = serial, dr_model = ''Beta'', dr_firmware = [],
     dr_status = ''active'', dr_cert = [], dr_enrolled_at = 0, dr_last_seen_at = 0\<rparr>"

theorem list_devices_drains_all_witness:
  "drain 3 (device_page reliable (Some ''Beta'') None
      (empty_tables\<lparr>devices := [listed_device ''B'' ''S2'', listed_device ''A'' ''S1'']\<rparr>) 1) None =
    Some [listed_device ''A'' ''S1'', listed_device ''B'' ''S2'']"
  using list_devices_drains_all [of "empty_tables\<lparr>devices := [listed_device ''B'' ''S2'', listed_device ''A'' ''S1'']\<rparr>"
      1 "Some ''Beta''" None 3]
  by (simp add: wf_tables_def empty_tables_def listed_device_def device_listing_def device_matches_def i32_max_def
      sort_key_def)

end
