(* ===== verification/Device_Server.thy ===== *)
theory Device_Server
  imports Device_Enrollment Device_Listing
begin

text \<open>
  The gRPC face of device-management-service: the handlers of
  \<^verbatim>\<open>src/server/mod.rs\<close>, the heartbeat stream of \<^verbatim>\<open>src/heartbeat/mod.rs\<close> and
  the telemetry stream of \<^verbatim>\<open>src/telemetry.rs\<close>. A stream is the list of its items
  until it ends; whether the receiving side still takes the \<open>i\<close>-th message is part of the
  stream's environment.
\<close>

section \<open>Unary handlers\<close>

record device_management_server =
  srv_enrollment :: enrollment_service
  srv_device_ca_pem :: pem

fun dms_map_err :: "(rusqlite_error \<Rightarrow> string) \<Rightarrow> dms_error \<Rightarrow> status" where
  "dms_map_err d (NotFound m) = status_of NotFoundCode m"
| "dms_map_err d (AlreadyEnrolled m) = status_of AlreadyExists m"
| "dms_map_err d (SerialAlreadyClaimed m) = status_of AlreadyExists m"
| "dms_map_err d (NotPreEnrolled m) = status_of FailedPrecondition m"
| "dms_map_err d (SerialMismatch c r) = status_of InvalidArgument (dms_to_string d (SerialMismatch c r))"
| "dms_map_err d (DeviceNotActive st) = status_of FailedPrecondition (dms_to_string d (DeviceNotActive st))"
| "dms_map_err d (CertVerification m) = status_of Unauthenticated m"
| "dms_map_err d e = status_of Internal (dms_to_string d e)"

record device_info =
  di_device_id :: string
  di_serial :: string
  di_model :: string
  di_firmware :: string
  di_status :: string
  di_enrolled_at :: "timestamp option"
  di_last_seen_at :: "timestamp option"
  di_labels :: "(string \<times> string) list"

definition record_to_proto :: "device_record \<Rightarrow> device_info" where
  "record_to_proto r =
     \<lparr>di_device_id = dr_id r, di_serial = dr_serial r, di_model = dr_model r, di_firmware = dr_firmware r,
      di_status = dr_status r,
      di_enrolled_at = Some \<lparr>ts_seconds = dr_enrolled_at r, ts_nanos = 0\<rparr>,
      di_last_seen_at = Some \<lparr>ts_seconds = dr_last_seen_at r, ts_nanos = 0\<rparr>,
      di_labels = []\<rparr>"

record bootstrap_request =
  br_csr_pem :: pem
  br_model :: string
  br_firmware :: string
  br_serial :: string

record bootstrap_response =
  bs_device_id :: string
  bs_operational_cert_pem :: pem
  bs_fleet_ca_chain_pem :: pem
  bs_cert_expires_at :: "timestamp option"

definition rpc_bootstrap_enroll :: "dms_env \<Rightarrow> device_management_server \<Rightarrow> der list option \<Rightarrow> bootstrap_request
    \<Rightarrow> dconn \<Rightarrow> (status, bootstrap_response) result \<times> dconn" where
  "rpc_bootstrap_enroll env srv peer_certs req c =
     try_bind (ok_or (status_of Unauthenticated ''no peer certificate'') peer_certs, c) (\<lambda>certs c.
     try_bind (map_err_st (dms_map_err (err_display (env_engine env 0)))
        (bootstrap_enroll env (srv_enrollment srv) (br_serial req) (br_csr_pem req) (br_firmware req)
           certs (srv_device_ca_pem srv) c)) (\<lambda>result c.
     (Ok \<lparr>bs_device_id = er_device_id result,
          bs_operational_cert_pem = er_operational_cert_pem result,
          bs_fleet_ca_chain_pem = er_fleet_ca_chain_pem result,
          bs_cert_expires_at = Some \<lparr>ts_seconds = er_expires_at result, ts_nanos = 0\<rparr>\<rparr>, c)))"

definition rpc_renew_cert :: "dms_env \<Rightarrow> device_management_server \<Rightarrow> string \<Rightarrow> pem
    \<Rightarrow> dconn \<Rightarrow> (status, pem \<times> timestamp option) result \<times> dconn" where
  "rpc_renew_cert env srv device_id csr_pem c =
     try_bind (map_err_st (dms_map_err (err_display (env_engine env 0)))
        (renew_cert env (srv_enrollment srv) device_id csr_pem c)) (\<lambda>(cert_pem, expires_at) c.
     (Ok (cert_pem, Some \<lparr>ts_seconds = expires_at, ts_nanos = 0\<rparr>), c))"

definition rpc_get_device :: "engine \<Rightarrow> string \<Rightarrow> dconn \<Rightarrow> (status, device_info) result \<times> dconn" where
  "rpc_get_device eng device_id c =
     try_bind (map_err_st (dms_map_err (err_display eng)) (get_device eng device_id c)) (\<lambda>record c.
     (Ok (record_to_proto record), c))"

record list_devices_request =
  ld_model :: string
  ld_status :: string
  ld_limit :: int
  ld_cursor :: string

definition rpc_list_devices :: "engine \<Rightarrow> list_devices_request
    \<Rightarrow> dconn \<Rightarrow> (status, device_info list \<times> string) result \<times> dconn" where
  "rpc_list_devices eng req c =
     (let limit = (if ld_limit req > 0 then ld_limit req else 50);
          model = non_empty (ld_model req);
          st = non_empty (ld_status req);
          cursor = non_empty (ld_cursor req)
      in try_bind (map_err_st (dms_map_err (err_display eng)) (list_devices eng model st limit cursor c))
           (\<lambda>(records, next_cursor) c. (Ok (map record_to_proto records, unwrap_or_default next_cursor), c)))"

definition rpc_update_device_status :: "(nat \<Rightarrow> engine) \<Rightarrow> string \<Rightarrow> string \<Rightarrow> string
    \<Rightarrow> dconn \<Rightarrow> (status, device_info option) result \<times> dconn" where
  "rpc_update_device_status engs device_id st reason c =
     try_bind (map_err_st (dms_map_err (err_display (engs 0))) (update_status (engs 0) device_id st reason c)) (\<lambda>_ c.
     try_bind (map_err_st (dms_map_err (err_display (engs 1))) (get_device (engs 1) device_id c)) (\<lambda>record c.
     (Ok (Some (record_to_proto record)), c)))"

section \<open>The heartbeat stream\<close>

text \<open>\<open>double\<close> fields are kept as their 64-bit patterns.\<close>

record heartbeat_request =
  hb_device_id :: string
  hb_recorded_at :: "timestamp option"
  hb_cpu_percent :: u64
  hb_memory_percent :: u64
  hb_battery_percent :: u64
  hb_operational_status :: string

record heartbeat_response =
  hr_throttle :: bool
  hr_directive :: string

text \<open>
  Per message \<open>i\<close> of the stream: the engine and the clock of its store call, and whether
  the response channel takes the message. \<open>show_status\<close> is the text of a \<open>tonic::Status\<close>.
\<close>

record stream_env =
  se_engine :: "nat \<Rightarrow> engine"
  se_clock :: "nat \<Rightarrow> int"
  se_accepts :: "nat \<Rightarrow> bool"
  se_show_status :: "status \<Rightarrow> string"

type_synonym 'a sent = "(status + 'a) list"

text \<open>How the task of a stream ends: a panic of the store call unwinds it, after the answers it has sent.\<close>

datatype stream_end = TaskReturned | TaskPanicked

fun heartbeat_loop :: "stream_env \<Rightarrow> string \<Rightarrow> nat \<Rightarrow> (status + heartbeat_request) list \<Rightarrow> dconn
    \<Rightarrow> (heartbeat_response sent \<times> stream_end) \<times> dconn" where
  "heartbeat_loop env device_id i [] c = (([], TaskReturned), c)"
| "heartbeat_loop env device_id i (Inl e # msgs) c = (([], TaskReturned), c)"
| "heartbeat_loop env device_id i (Inr req # msgs) c =
     (case touch_last_seen (se_engine env i) (se_clock env i) device_id c of
        (Inl (Fail (NotFound _)), c1) \<Rightarrow>
          ((if se_accepts env i
            then [Inl (status_of NotFoundCode (''device '' @ device_id @ '' not found''))] else [], TaskReturned), c1)
      | (Inl Panic, c1) \<Rightarrow> (([], TaskPanicked), c1)
      | (_, c1) \<Rightarrow>
          if se_accepts env i
          then (case heartbeat_loop env device_id (Suc i) msgs c1 of
                  ((out, ended), c2) \<Rightarrow> ((Inr \<lparr>hr_throttle = False, hr_directive = []\<rparr> # out, ended), c2))
          else (([], TaskReturned), c1))"

fun heartbeat_handle :: "stream_env \<Rightarrow> (status + heartbeat_request) list \<Rightarrow> dconn
    \<Rightarrow> (heartbeat_response sent \<times> stream_end) \<times> dconn" where
  "heartbeat_handle env [] c = (([], TaskReturned), c)"
| "heartbeat_handle env (Inl e # msgs) c =
     ((if se_accepts env 0 then [Inl (status_of Internal (se_show_status env e))] else [], TaskReturned), c)"
| "heartbeat_handle env (Inr first # msgs) c = heartbeat_loop env (hb_device_id first) 0 (Inr first # msgs) c"

text \<open>
  The handler answers at once with the receiving end of the channel; \<open>handle\<close> runs as a spawned task,
  and nobody waits for its end: its client sees the stream close.
\<close>

definition rpc_stream_heartbeat :: "stream_env \<Rightarrow> (status + heartbeat_request) list \<Rightarrow> dconn
    \<Rightarrow> (status, heartbeat_response sent) result \<times> dconn" where
  "rpc_stream_heartbeat env msgs c = (case heartbeat_handle env msgs c of ((out, _), c') \<Rightarrow> (Ok out, c'))"

section \<open>The telemetry stream\<close>

text \<open>
  The counters of the spawned task. Instants are nanoseconds of a monotonic clock:
  \<open>tel_now\<close> is read for frame \<open>i\<close> at the \<open>elapsed\<close> check, \<open>tel_reset\<close> when the
  window is restarted.
\<close>

record telemetry_env =
  tel_start :: int
  tel_now :: "nat \<Rightarrow> int"
  tel_reset :: "nat \<Rightarrow> int"
  tel_accepts :: "nat \<Rightarrow> bool"
  tel_show_status :: "status \<Rightarrow> string"

record telemetry_state =
  frames_received :: u64
  frames_in_window :: u64
  last_log :: int
  tel_device_id :: string

record telemetry_ack =
  ack_frames_received :: u64
  ack_throttle :: bool

text \<open>A log line: device, frames of the window, total, and the rate while the stream is active.\<close>

type_synonym telemetry_log = "(string \<times> u64 \<times> u64 \<times> u64 option) list"

definition log_interval :: int where
  "log_interval = 5 * 1000000000"

definition telemetry_frame_step :: "telemetry_env \<Rightarrow> nat \<Rightarrow> string \<Rightarrow> telemetry_state \<Rightarrow> telemetry_log \<times> telemetry_state" where
  "telemetry_frame_step env i device_id st =
     (let st = st\<lparr>frames_received := frames_received st + 1, frames_in_window := frames_in_window st + 1,
                  tel_device_id := device_id\<rparr>
      in if tel_now env i - last_log st \<ge> log_interval
         then ([(device_id, frames_in_window st, frames_received st, Some (frames_in_window st div 5))],
               st\<lparr>frames_in_window := 0, last_log := tel_reset env i\<rparr>)
         else ([], st))"

fun telemetry_loop :: "telemetry_env \<Rightarrow> nat \<Rightarrow> (status + string) list \<Rightarrow> telemetry_state
    \<Rightarrow> telemetry_ack sent \<times> telemetry_log \<times> telemetry_state" where
  "telemetry_loop env i [] st = ([], [], st)"
| "telemetry_loop env i (Inr device_id # msgs) st =
     (case telemetry_frame_step env i device_id st of
        (logs, st1) \<Rightarrow>
          if tel_accepts env i
          then (case telemetry_loop env (Suc i) msgs st1 of
                  (out, logs', st2) \<Rightarrow>
                    (Inr \<lparr>ack_frames_received = frames_received st1, ack_throttle = False\<rparr> # out, logs @ logs', st2))
          else ([], logs, st1))"
| "telemetry_loop env i (Inl e # msgs) st =
     (if tel_accepts env i then [Inl (status_of Internal (tel_show_status env e))] else [], [], st)"

definition stream_telemetry :: "telemetry_env \<Rightarrow> (status + string) list \<Rightarrow> telemetry_ack sent \<times> telemetry_log" where
  "stream_telemetry env msgs =
     (case telemetry_loop env 0 msgs
        \<lparr>frames_received = 0, frames_in_window = 0, last_log = tel_start env, tel_device_id = []\<rparr> of
        (out, logs, st) \<Rightarrow>
          (out, logs @ (if frames_in_window st > 0
             then [(tel_device_id st, frames_in_window st, frames_received st, None)] else [])))"

section \<open>Heartbeat: functional behaviour\<close>

definition touch_row :: "int \<Rightarrow> string \<Rightarrow> dms_tables \<Rightarrow> dms_tables" where
  "touch_row now did = devices_update (set_rows (\<lambda>r. dr_id r = did) (\<lambda>r. r\<lparr>dr_last_seen_at := now\<rparr>))"

lemma touch_row_twice [simp]: "touch_row n2 did (touch_row n1 did t) = touch_row n2 did t"
  by (simp add: touch_row_def set_rows_def o_def)

lemma row_with_touch_row:
  "row_with dr_id x (devices (touch_row now did t)) =
     (if x = did then map_option (\<lambda>r. r\<lparr>dr_last_seen_at := now\<rparr>) (row_with dr_id did (devices t))
      else row_with dr_id x (devices t))"
  by (simp add: touch_row_def row_with_set_rows_key)

abbreviation heartbeat_ok :: "status + heartbeat_response" where
  "heartbeat_ok \<equiv> Inr \<lparr>hr_throttle = False, hr_directive = []\<rparr>"

definition healthy_stream :: "stream_env \<Rightarrow> bool" where
  "healthy_stream env \<longleftrightarrow> (\<forall>i. no_fault (se_engine env i) \<and> se_accepts env i)"

lemma heartbeat_loop_known:
  assumes "healthy_stream env" and "row_with dr_id did (devices (tabs c)) = Some r"
  shows "heartbeat_loop env did i (map Inr reqs) c =
    ((replicate (length reqs) heartbeat_ok, TaskReturned),
     if reqs = [] then c else c\<lparr>tabs := touch_row (se_clock env (i + length reqs - 1)) did (tabs c)\<rparr>)"
  using assms(2)
proof (induction reqs arbitrary: i c r)
  case Nil
  then show ?case by simp
next
  case (Cons q reqs)
  have e: "no_fault (se_engine env i)" "se_accepts env i" using assms(1) by (auto simp: healthy_stream_def)
  let ?c1 = "c\<lparr>tabs := touch_row (se_clock env i) did (tabs c)\<rparr>"
  have t: "touch_last_seen (se_engine env i) (se_clock env i) did c = (Ok (), ?c1)"
    using Cons.prems by (simp add: touch_last_seen_healthy [OF e(1)] touch_row_def)
  have r1: "row_with dr_id did (devices (tabs ?c1)) = Some (r\<lparr>dr_last_seen_at := se_clock env i\<rparr>)"
    using Cons.prems by (simp add: row_with_touch_row)
  show ?case using Cons.IH [OF r1, of "Suc i"] e(2) t by simp
qed

lemma heartbeat_loop_unknown:
  assumes "healthy_stream env" and "row_with dr_id did (devices (tabs c)) = None"
  shows "heartbeat_loop env did i (Inr q # msgs) c =
    (([Inl (status_of NotFoundCode (''device '' @ did @ '' not found''))], TaskReturned), c)"
  using assms by (simp add: healthy_stream_def touch_last_seen_healthy)

section \<open>Telemetry: functional behaviour\<close>

lemma telemetry_frame_step_received:
  "frames_received (snd (telemetry_frame_step env i d st)) = frames_received st + 1"
  by (simp add: telemetry_frame_step_def Let_def)

text \<open>Frames are never lost from the accounting: logged windows and the open window add up.\<close>

definition log_window :: "telemetry_log \<Rightarrow> u64" where
  "log_window logs = sum_list (map (\<lambda>l. fst (snd l)) logs)"

lemma log_window_simps [simp]:
  "log_window [] = 0" "log_window (l # ls) = fst (snd l) + log_window ls"
  "log_window (ls @ ks) = log_window ls + log_window ks"
  by (simp_all add: log_window_def)

lemma telemetry_frame_step_window:
  "log_window (fst (telemetry_frame_step env i d st)) +
     frames_in_window (snd (telemetry_frame_step env i d st)) = frames_in_window st + 1"
  by (simp add: telemetry_frame_step_def Let_def)

lemma telemetry_loop_acks:
  assumes "\<And>i. tel_accepts env i"
  shows "fst (telemetry_loop env i (map Inr ds) st) =
    map (\<lambda>k. Inr \<lparr>ack_frames_received = frames_received st + of_nat (Suc k), ack_throttle = False\<rparr>) [0..<length ds]"
proof (induction ds arbitrary: i st)
  case Nil
  then show ?case by simp
next
  case (Cons d ds)
  obtain logs st1 where s: "telemetry_frame_step env i d st = (logs, st1)" by fastforce
  have st1: "frames_received st1 = frames_received st + 1"
    using telemetry_frame_step_received [of env i d st] s by simp
  obtain out logs' st2 where r: "telemetry_loop env (Suc i) (map Inr ds) st1 = (out, logs', st2)"
    by (metis prod_cases3)
  have "out = map (\<lambda>k. Inr \<lparr>ack_frames_received = frames_received st + of_nat (Suc (Suc k)), ack_throttle = False\<rparr>)
      [0..<length ds]"
    using Cons.IH [of "Suc i" st1] r st1 by (simp add: algebra_simps)
  then show ?case
    using s r st1 assms by (simp add: upt_rec [of 0 "Suc (length ds)"] map_Suc_upt [symmetric] o_def
        del: upt_Suc)
qed

lemma telemetry_loop_window:
  "telemetry_loop env i msgs st = (out, logs, st') \<Longrightarrow>
     log_window logs + frames_in_window st' + frames_received st = frames_received st' + frames_in_window st"
proof (induction env i msgs st arbitrary: out logs st' rule: telemetry_loop.induct)
  case (2 env i device_id msgs st)
  obtain l1 st1 where s: "telemetry_frame_step env i device_id st = (l1, st1)" by fastforce
  have st1: "frames_received st1 = frames_received st + 1"
    "log_window l1 + frames_in_window st1 = frames_in_window st + 1"
    using telemetry_frame_step_received [of env i device_id st]
      telemetry_frame_step_window [of env i device_id st] s by simp_all
  show ?case
  proof (cases "tel_accepts env i")
    case True
    obtain o2 l2 st2 where r: "telemetry_loop env (Suc i) msgs st1 = (o2, l2, st2)"
      by (metis prod_cases3)
    have l2: "log_window l2 = frames_received st2 + frames_in_window st1 - frames_received st1 - frames_in_window st2"
      using "2.IH" [OF s [symmetric] True r] by (simp add: eq_diff_eq add_ac)
    have w: "frames_in_window st = log_window l1 + frames_in_window st1 - 1"
      using st1(2) by (simp add: eq_diff_eq)
    have "logs = l1 @ l2" "st' = st2" using "2.prems" s r True by auto
    then show ?thesis by (simp add: l2 w st1(1) algebra_simps)
  next
    case False
    with "2.prems" s st1 show ?thesis by (auto simp: algebra_simps)
  qed
qed auto

end
