(* ===== verification/Agent_Identity.thy ===== *)
theory Agent_Identity
  imports Device_Server Rust_Strings
begin

text \<open>
  How the robot agent gets its identity: \<^verbatim>\<open>robot-agent/src/provisioning.rs\<close>
  (Phase 1), \<^verbatim>\<open>enrollment.rs\<close> (Phase 2) and the start of \<^verbatim>\<open>main.rs\<close> up to
  the loaded credentials. The state is the robot's disk and the state of the services it
  calls; an RPC is a function on the latter.
\<close>

section \<open>Errors (error.rs)\<close>

datatype agent_error =
    AgTls string
  | AgGrpc status
  | AgIo string
  | AgChecksum string string
  | AgInstall string
  | AgPki pki_error
  | AgTransport string

fun agent_to_string :: "(status \<Rightarrow> string) \<Rightarrow> agent_error \<Rightarrow> string" where
  "agent_to_string d (AgTls m) = ''TLS error: '' @ m"
| "agent_to_string d (AgGrpc s) = ''gRPC error: '' @ d s"
| "agent_to_string d (AgIo m) = ''IO error: '' @ m"
| "agent_to_string d (AgChecksum e a) = ''checksum mismatch: expected '' @ e @ '', got '' @ a"
| "agent_to_string d (AgInstall m) = ''install script failed: '' @ m"
| "agent_to_string d (AgPki e) = ''PKI error: '' @ pki_to_string e"
| "agent_to_string d (AgTransport m) = ''gRPC transport error: '' @ m"

section \<open>The world of the agent\<close>

record 's world =
  w_fs :: fs
  w_net :: 's

definition on_fs :: "(fs \<Rightarrow> ('e, 'a) result \<times> fs) \<Rightarrow> 's world \<Rightarrow> ('e, 'a) result \<times> 's world" where
  "on_fs f w = (case f (w_fs w) of (r, x) \<Rightarrow> (r, w\<lparr>w_fs := x\<rparr>))"

definition on_net :: "('s \<Rightarrow> (status, 'a) result \<times> 's) \<Rightarrow> 's world \<Rightarrow> (agent_error, 'a) result \<times> 's world" where
  "on_net f w = (case f (w_net w) of (r, x) \<Rightarrow> (map_err AgGrpc r, w\<lparr>w_net := x\<rparr>))"

text \<open>
  \<open>ClientTlsConfig\<close>: the CA the agent trusts and, for mutual TLS, the certificate and key it
  presents (\<open>mtls_config\<close> of \<^verbatim>\<open>main.rs\<close>).
\<close>

record client_tls =
  ct_ca :: pem
  ct_identity :: "(pem \<times> pem) option"

definition mtls_config :: "pem \<Rightarrow> pem \<Rightarrow> pem \<Rightarrow> client_tls" where
  "mtls_config cert_pem key_pem ca_pem = \<lparr>ct_ca = ca_pem, ct_identity = Some (cert_pem, key_pem)\<rparr>"

text \<open>
  The network: \<open>Channel::from_shared\<close> and \<open>tls_config\<close> with \<open>connect\<close> for an address and a TLS
  configuration, and the two RPCs. The server sees the client certificate of the channel.
\<close>

record 's agent_net =
  net_from_shared :: "string \<Rightarrow> (string, unit) result"
  net_connect :: "string \<Rightarrow> client_tls \<Rightarrow> (string, unit) result"
  net_provision :: "provision_request \<Rightarrow> 's \<Rightarrow> (status, pem) result \<times> 's"
  net_bootstrap :: "pem \<Rightarrow> bootstrap_request \<Rightarrow> 's \<Rightarrow> (status, bootstrap_response) result \<times> 's"

section \<open>EnrollmentManager\<close>

record enrollment_manager =
  em_cert_dir :: string
  em_serial :: string
  em_model :: string
  em_firmware :: string

definition join_path :: "string \<Rightarrow> string \<Rightarrow> string" where
  "join_path dir name = dir @ ''/'' @ name"

definition device_cert_path :: "enrollment_manager \<Rightarrow> string" where
  "device_cert_path m = join_path (em_cert_dir m) ''device.pem''"

definition device_key_path :: "enrollment_manager \<Rightarrow> string" where
  "device_key_path m = join_path (em_cert_dir m) ''device.key''"

definition operational_cert_path :: "enrollment_manager \<Rightarrow> string" where
  "operational_cert_path m = join_path (em_cert_dir m) ''operational.pem''"

definition operational_key_path :: "enrollment_manager \<Rightarrow> string" where
  "operational_key_path m = join_path (em_cert_dir m) ''operational.key''"

definition fleet_ca_path :: "enrollment_manager \<Rightarrow> string" where
  "fleet_ca_path m = join_path (em_cert_dir m) ''fleet-ca-chain.pem''"

definition device_id_path :: "enrollment_manager \<Rightarrow> string" where
  "device_id_path m = join_path (em_cert_dir m) ''device-id''"

definition is_enrolled :: "enrollment_manager \<Rightarrow> fs \<Rightarrow> bool" where
  "is_enrolled m f = fs_exists (operational_cert_path m) f"

definition is_provisioned :: "enrollment_manager \<Rightarrow> fs \<Rightarrow> bool" where
  "is_provisioned m f = fs_exists (device_cert_path m) f"

definition load_pair :: "io \<Rightarrow> nat \<Rightarrow> string \<Rightarrow> string \<Rightarrow> fs \<Rightarrow> (agent_error, pem \<times> pem) result" where
  "load_pair io i cert key f =
     try_pure (map_err AgIo (fs_read_to_string io i cert f)) (\<lambda>c.
     try_pure (map_err AgIo (fs_read_to_string io (Suc i) key f)) (\<lambda>k. Ok (c, k)))"

definition load_device_cert :: "io \<Rightarrow> nat \<Rightarrow> enrollment_manager \<Rightarrow> fs \<Rightarrow> (agent_error, pem \<times> pem) result" where
  "load_device_cert io i m = load_pair io i (device_cert_path m) (device_key_path m)"

definition load_operational_creds :: "io \<Rightarrow> nat \<Rightarrow> enrollment_manager \<Rightarrow> fs \<Rightarrow> (agent_error, pem \<times> pem) result" where
  "load_operational_creds io i m = load_pair io i (operational_cert_path m) (operational_key_path m)"

definition load_device_id :: "io \<Rightarrow> nat \<Rightarrow> enrollment_manager \<Rightarrow> fs \<Rightarrow> (agent_error, string) result" where
  "load_device_id io i m f = map_err AgIo (fs_read_to_string io i (device_id_path m) f)"

text \<open>Phase 2. The call sites of file operations are numbered from \<open>i\<close>.\<close>

definition enroll :: "pki \<Rightarrow> io \<Rightarrow> nat \<Rightarrow> (bootstrap_request \<Rightarrow> 's \<Rightarrow> (status, bootstrap_response) result \<times> 's)
    \<Rightarrow> enrollment_manager \<Rightarrow> 's world \<Rightarrow> (agent_error, unit) result \<times> 's world" where
  "enroll pki io i rpc m w =
     try_bind (map_err_st AgPki (on_fs (generate_csr pki io i (em_serial m) (operational_key_path m)) w)) (\<lambda>csr_pem w.
     try_bind (on_net (rpc \<lparr>br_csr_pem = csr_pem, br_model = em_model m, br_firmware = em_firmware m,
                            br_serial = em_serial m\<rparr>) w) (\<lambda>response w.
     try_bind (map_err_st AgIo (on_fs (fs_write io (i + 2) (operational_cert_path m) (bs_operational_cert_pem response)) w)) (\<lambda>_ w.
     try_bind (map_err_st AgIo (on_fs (fs_write io (i + 4) (fleet_ca_path m) (bs_fleet_ca_chain_pem response)) w)) (\<lambda>_ w.
     map_err_st AgIo (on_fs (fs_write io (i + 6) (device_id_path m) (bs_device_id response)) w)))))"

section \<open>Provisioning\<close>

text \<open>Phase 1. An address that is no URI is an IO error, TLS and connection errors are transport errors.\<close>

definition provision :: "pki \<Rightarrow> io \<Rightarrow> nat \<Rightarrow> 's agent_net \<Rightarrow> string \<Rightarrow> string \<Rightarrow> string \<Rightarrow> pem \<Rightarrow> string
    \<Rightarrow> 's world \<Rightarrow> (agent_error, unit) result \<times> 's world" where
  "provision pki io i net serial token addr fleet_ca_pem cert_dir w =
     (let key_path = join_path cert_dir ''device.key''; cert_path = join_path cert_dir ''device.pem'' in
      try_bind (map_err_st AgPki (on_fs (generate_csr pki io i serial key_path) w)) (\<lambda>csr_pem w.
      try_bind (map_err AgIo (net_from_shared net addr), w) (\<lambda>_ w.
      try_bind (map_err AgTransport (net_connect net addr \<lparr>ct_ca = fleet_ca_pem, ct_identity = None\<rparr>), w) (\<lambda>_ w.
      try_bind (on_net (net_provision net \<lparr>pr_serial = serial, pr_csr_pem = csr_pem, pr_token = token\<rparr>) w)
        (\<lambda>device_cert_pem w.
      map_err_st AgIo (on_fs (fs_write io (i + 2) cert_path device_cert_pem) w))))))"

section \<open>main\<close>

datatype main_error =
    MissingEnv string
  | MainIo string
  | MainAgent agent_error
  | MainUri string
  | MainConnect string

definition env_required :: "(string \<Rightarrow> string option) \<Rightarrow> string \<Rightarrow> (main_error, string) result" where
  "env_required env key = ok_or (MissingEnv key) (env key)"

record agent_identity =
  id_device_id :: string
  id_op_cert :: pem
  id_op_key :: pem

definition open_channel :: "'s agent_net \<Rightarrow> string \<Rightarrow> client_tls \<Rightarrow> (main_error, unit) result" where
  "open_channel net addr tls =
     try_pure (map_err MainUri (net_from_shared net addr)) (\<lambda>_. map_err MainConnect (net_connect net addr tls))"

definition agent_phase1 :: "pki \<Rightarrow> io \<Rightarrow> (string \<Rightarrow> string option) \<Rightarrow> 's agent_net \<Rightarrow> pem \<Rightarrow> enrollment_manager
    \<Rightarrow> 's world \<Rightarrow> (main_error, unit) result \<times> 's world" where
  "agent_phase1 pki io env net fleet_ca_pem m w =
     (if is_provisioned m (w_fs w) then (Ok (), w)
      else
        try_bind (env_required env ''PROVISION_TOKEN'', w) (\<lambda>token w.
        try_bind (env_required env ''PROVISIONING_ADDR'', w) (\<lambda>addr w.
        map_err_st MainAgent (provision pki io 2 net (em_serial m) token addr fleet_ca_pem (em_cert_dir m) w))))"

definition agent_phase2 :: "pki \<Rightarrow> io \<Rightarrow> (string \<Rightarrow> string option) \<Rightarrow> 's agent_net \<Rightarrow> pem \<Rightarrow> enrollment_manager
    \<Rightarrow> 's world \<Rightarrow> (main_error, unit) result \<times> 's world" where
  "agent_phase2 pki io env net fleet_ca_pem m w =
     (if is_enrolled m (w_fs w) then (Ok (), w)
      else
        try_bind (map_err MainAgent (load_device_cert io 6 m (w_fs w)), w) (\<lambda>(device_cert_pem, device_key_pem) w.
        try_bind (env_required env ''BOOTSTRAP_ADDR'', w) (\<lambda>addr w.
        try_bind (open_channel net addr (mtls_config device_cert_pem device_key_pem fleet_ca_pem), w) (\<lambda>_ w.
        map_err_st MainAgent (enroll pki io 8 (net_bootstrap net device_cert_pem) m w)))))"

definition agent_phase3 :: "io \<Rightarrow> (string \<Rightarrow> string option) \<Rightarrow> 's agent_net \<Rightarrow> pem \<Rightarrow> enrollment_manager
    \<Rightarrow> 's world \<Rightarrow> (main_error, agent_identity) result \<times> 's world" where
  "agent_phase3 io env net fleet_ca_pem m w =
     try_bind (map_err MainAgent (load_operational_creds io 16 m (w_fs w)), w) (\<lambda>(op_cert, op_key) w.
     try_bind (map_err MainAgent (load_device_id io 18 m (w_fs w)), w) (\<lambda>device_id w.
     try_bind (env_required env ''FLEET_SERVICE_ADDR'', w) (\<lambda>fleet_addr w.
     try_bind (open_channel net fleet_addr (mtls_config op_cert op_key fleet_ca_pem), w) (\<lambda>_ w.
     try_bind (open_channel net (env_or env ''OTA_SERVICE_ADDR'' fleet_addr) (mtls_config op_cert op_key fleet_ca_pem), w) (\<lambda>_ w.
     (Ok \<lparr>id_device_id = device_id, id_op_cert = op_cert, id_op_key = op_key\<rparr>, w))))))"

definition manager_of :: "(string \<Rightarrow> string option) \<Rightarrow> string \<Rightarrow> enrollment_manager" where
  "manager_of env serial =
     \<lparr>em_cert_dir = env_or env ''AGENT_DATA_DIR'' ''/root/.robot-agent'', em_serial = serial,
      em_model = env_or env ''DEVICE_MODEL'' ''Alpha Wheeled'', em_firmware = env_or env ''FIRMWARE_VERSION'' ''0.1.0''\<rparr>"

definition agent_main :: "pki \<Rightarrow> io \<Rightarrow> (string \<Rightarrow> string option) \<Rightarrow> 's agent_net
    \<Rightarrow> 's world \<Rightarrow> (main_error, agent_identity) result \<times> 's world" where
  "agent_main pki io env net w =
     try_bind ((case io_fault io 0 of Some (e, _) \<Rightarrow> Err (MainIo e) | None \<Rightarrow> Ok ()), w) (\<lambda>_ w.
     try_bind (env_required env ''DEVICE_SERIAL'', w) (\<lambda>serial w.
     try_bind (env_required env ''FLEET_CA_CERT_PEM'', w) (\<lambda>ca_path w.
     try_bind (map_err MainIo (fs_read_to_string io 1 ca_path (w_fs w)), w) (\<lambda>fleet_ca_pem w.
     let m = manager_of env serial in
     try_bind (agent_phase1 pki io env net fleet_ca_pem m w) (\<lambda>_ w.
     try_bind (agent_phase2 pki io env net fleet_ca_pem m w) (\<lambda>_ w.
     agent_phase3 io env net fleet_ca_pem m w))))))"

section \<open>Paths\<close>

lemma join_path_eq [simp]: "join_path d a = join_path d b \<longleftrightarrow> a = b"
  by (simp add: join_path_def)

lemmas path_defs = device_cert_path_def device_key_path_def operational_cert_path_def
  operational_key_path_def fleet_ca_path_def device_id_path_def

section \<open>Private keys\<close>

lemma open_truncate_result:
  "open_truncate io i m path f = (Inr u, f') \<Longrightarrow> f' = f(path \<mapsto>
     (case f path of None \<Rightarrow> \<lparr>contents = [], file_mode = m\<rparr> | Some x \<Rightarrow> x\<lparr>contents := []\<rparr>))"
  by (auto simp: open_truncate_def split: option.splits)

lemma generate_csr_key:
  assumes "generate_csr pki io i cn path f = (Inr csr, f')"
  shows "\<exists>kp. generate_keypair pki i = Inr kp \<and> f' = f(path \<mapsto> \<lparr>contents = serialize_key pki kp,
    file_mode = (case f path of None \<Rightarrow> 384 | Some x \<Rightarrow> file_mode x)\<rparr>)"
proof -
  from assms obtain kp f1 f2 where kp: "generate_keypair pki i = Inr kp"
    and o: "open_truncate io i 384 path f = (Inr (), f1)"
    and w: "write_all io (Suc i) path (serialize_key pki kp) f1 = (Inr (), f2)" and f': "f' = f2"
    by (auto simp: generate_csr_def try_bind_eq_Inr map_err_st_Inr)
  show ?thesis
    using kp f' w open_truncate_result [OF o]
    by (auto simp: write_all_def Let_def split: option.splits)
qed

lemma generate_csr_other: "p \<noteq> path \<Longrightarrow> snd (generate_csr pki io i cn path f) p = f p"
  by (simp add: generate_csr_def snd_try_bind_cases open_truncate_other write_all_other split: sum.split)

lemma generate_csr_reliable:
  assumes "generate_keypair pki i = Ok kp" and "serialize_request pki cn kp = Ok rq" and "request_pem pki rq = Ok csr"
  shows "generate_csr pki io_reliable i cn path f = (Ok csr, put_file 384 path (serialize_key pki kp) f)"
  using assms
  by (auto simp: generate_csr_def open_truncate_def write_all_def put_file_def Let_def split: option.split)

section \<open>The agent against the device-management service\<close>

text \<open>
  The services behind the network of the agent when it is up: the provisioning endpoint, and
  the bootstrap endpoint, whose TLS layer presents the client certificate of the channel.
\<close>

definition dms_net :: "dms_env \<Rightarrow> device_management_server \<Rightarrow> provisioning_server \<Rightarrow> dconn agent_net" where
  "dms_net env srv psrv =
     \<lparr>net_from_shared = (\<lambda>_. Ok ()), net_connect = (\<lambda>_ _. Ok ()),
      net_provision = provision_device env psrv,
      net_bootstrap = (\<lambda>cert req c. case certs_from_pem (env_pki env) cert of
         Inr certs \<Rightarrow> rpc_bootstrap_enroll env srv (Some certs) req c
       | Inl _ \<Rightarrow> rpc_bootstrap_enroll env srv None req c)\<rparr>"

lemma main_on_reliable_disk:
  assumes "env ''DEVICE_SERIAL'' = Some serial" and "env ''FLEET_CA_CERT_PEM'' = Some ca_path"
    and "fs_exists ca_path (w_fs w)" and "utf8_valid (contents (the (w_fs w ca_path)))"
  shows "agent_main pki io_reliable env net w =
    (let ca = contents (the (w_fs w ca_path)) in
     try_bind (agent_phase1 pki io_reliable env net ca (manager_of env serial) w) (\<lambda>_ w.
     try_bind (agent_phase2 pki io_reliable env net ca (manager_of env serial) w) (\<lambda>_ w.
     agent_phase3 io_reliable env net ca (manager_of env serial) w)))"
  using assms by (auto simp: agent_main_def env_required_def fs_read_to_string_def fs_read_def fs_exists_def Let_def)

text \<open>A start of the agent when both phases are done: credentials are loaded, nothing else happens.\<close>

lemma main_when_enrolled:
  assumes "env ''DEVICE_SERIAL'' = Some serial"
    and "is_provisioned (manager_of env serial) (w_fs w)" and "is_enrolled (manager_of env serial) (w_fs w)"
  shows "(\<exists>ca. agent_main pki io env net w = agent_phase3 io env net ca (manager_of env serial) w) \<or>
    (\<exists>f. agent_main pki io env net w = (Inl f, w))"
proof -
  let ?m = "manager_of env serial"
  have "agent_phase1 pki io env net ca ?m w = (Ok (), w)" "agent_phase2 pki io env net ca ?m w = (Ok (), w)" for ca
    using assms(2,3) by (simp_all add: agent_phase1_def agent_phase2_def)
  then show ?thesis
    by (auto simp: agent_main_def env_required_def assms(1) Let_def try_bind_pure split: sum.split option.split)
qed

lemma phase3_keeps_world: "snd (agent_phase3 io env net ca m w) = w"
  by (simp add: agent_phase3_def snd_try_bind_cases split: sum.split)

end
