(* ===== verification/Agent_Telemetry.thy ===== *)
theory Agent_Telemetry
  imports Fleet_Prelude
begin

text \<open>
  The telemetry decoder of the robot agent (\<^verbatim>\<open>robot-agent/src/telemetry.rs\<close>): the
  length-prefixed frames of the Unix socket, \<open>parse_frame\<close> and the encoder of its tests.
  \<open>f64\<close> values are kept as their 64-bit patterns: the code only copies them. \<open>usize\<close>
  arithmetic on a frame stays below \<open>2^37\<close> and is done in \<^typ>\<open>nat\<close>.
\<close>

section \<open>Big-endian numbers\<close>

text \<open>\<open>from_be_bytes\<close> and \<open>to_be_bytes\<close> of \<open>k\<close> bytes.\<close>

definition be_val :: "u8 list \<Rightarrow> nat" where
  "be_val bs = fold (\<lambda>b acc. acc * 256 + unat b) bs 0"

fun be_bytes :: "nat \<Rightarrow> nat \<Rightarrow> u8 list" where
  "be_bytes 0 n = []"
| "be_bytes (Suc k) n = be_bytes k (n div 256) @ [of_nat n]"

definition u32_from_be :: "u8 list \<Rightarrow> u32" where
  "u32_from_be bs = of_nat (be_val bs)"

definition u64_from_be :: "u8 list \<Rightarrow> u64" where
  "u64_from_be bs = of_nat (be_val bs)"

lemma length_be_bytes [simp]: "length (be_bytes k n) = k"
  by (induction k arbitrary: n) auto

lemma be_val_snoc: "be_val (bs @ [b]) = be_val bs * 256 + unat b"
  by (simp add: be_val_def)

lemma be_val_be_bytes: "be_val (be_bytes k n) = n mod 256 ^ k"
proof (induction k arbitrary: n)
  case 0
  then show ?case by (simp add: be_val_def)
next
  case (Suc k)
  have "n mod (256 * 256 ^ k) = 256 * (n div 256 mod 256 ^ k) + n mod 256"
    by (rule mod_mult2_eq)
  then show ?case
    by (simp add: be_val_snoc Suc.IH unat_of_nat)
qed

lemma u32_be_round_trip [simp]: "u32_from_be (be_bytes 4 (unat w)) = w"
proof -
  have "unat w < 2 ^ LENGTH(32)" by (rule unsigned_less)
  then show ?thesis by (simp add: u32_from_be_def be_val_be_bytes)
qed

lemma u64_be_round_trip [simp]: "u64_from_be (be_bytes 8 (unat w)) = w"
proof -
  have "unat w < 2 ^ LENGTH(64)" by (rule unsigned_less)
  then show ?thesis by (simp add: u64_from_be_def be_val_be_bytes)
qed

section \<open>Frames\<close>

record joint_status =
  js_name :: string
  js_position_rad :: u64
  js_torque_nm :: u64
  js_temperature_c :: u64

record agent_frame =
  af_device_id :: string
  af_recorded_at :: "timestamp option"
  af_joints :: "joint_status list"

definition joint_names :: "string list" where
  "joint_names = [''panda_joint1'', ''panda_joint2'', ''panda_joint3'',
     ''panda_joint4'', ''panda_joint5'', ''panda_joint6'']"

definition joint_name :: "nat \<Rightarrow> string" where
  "joint_name i = (if i < length joint_names then joint_names ! i else ''unknown'')"

text \<open>The bit pattern of \<open>35.0\<close>.\<close>

definition temperature_35 :: u64 where
  "temperature_35 = 0x4041800000000000"

text \<open>\<open>payload[a..a + n]\<close> panics out of range.\<close>

definition slice :: "u8 list \<Rightarrow> nat \<Rightarrow> nat \<Rightarrow> (unit, u8 list) result" where
  "slice p a n = (if a + n \<le> length p then Ok (take n (drop a p)) else Panicked)"

definition read_joint :: "u8 list \<Rightarrow> nat \<Rightarrow> nat \<Rightarrow> (unit, joint_status) result" where
  "read_joint payload joint_count i =
     (let pos_off = 12 + i * 8; tor_off = 12 + joint_count * 8 + i * 8 in
      try_pure (slice payload pos_off 8) (\<lambda>position_rad.
      try_pure (slice payload tor_off 8) (\<lambda>torque_nm.
      Ok \<lparr>js_name = joint_name i, js_position_rad = u64_from_be position_rad,
          js_torque_nm = u64_from_be torque_nm, js_temperature_c = temperature_35\<rparr>)))"

definition frame_time :: "int \<Rightarrow> timestamp" where
  "frame_time timestamp_ns = \<lparr>ts_seconds = timestamp_ns sdiv 1000000000, ts_nanos = timestamp_ns smod 1000000000\<rparr>"

definition parse_frame :: "string \<Rightarrow> u8 list \<Rightarrow> (unit, agent_frame option) result" where
  "parse_frame device_id payload =
     (if length payload < 12 then Ok None
      else
        try_pure (slice payload 0 8) (\<lambda>ts.
        try_pure (slice payload 8 4) (\<lambda>cnt.
        let timestamp_ns = u64_as_i64 (u64_from_be ts);
            joint_count = unat (u32_from_be cnt);
            expected_len = 12 + joint_count * 8 * 2
        in if length payload < expected_len then Ok None
           else try_pure (collect_results (map (read_joint payload joint_count) [0..<joint_count])) (\<lambda>joints.
             Ok (Some \<lparr>af_device_id = device_id, af_recorded_at = Some (frame_time timestamp_ns), af_joints = joints\<rparr>)))))"

definition encode_frame :: "int \<Rightarrow> u64 list \<Rightarrow> u64 list \<Rightarrow> u8 list" where
  "encode_frame timestamp_ns positions torques =
     be_bytes 8 (unat (i64_as_u64 timestamp_ns)) @ be_bytes 4 (unat (of_nat (length positions) :: u32)) @
     concat (map (\<lambda>p. be_bytes 8 (unat p)) positions) @ concat (map (\<lambda>t. be_bytes 8 (unat t)) torques)"

section \<open>The socket reader\<close>

text \<open>
  The spawned reader of \<open>run_from_socket\<close> on the bytes the socket delivers until it is
  closed; \<open>accepts i\<close> says whether the \<open>i\<close>-th frame is taken by the channel. The result is
  the list of frames that were sent.
\<close>

function socket_reader :: "string \<Rightarrow> (nat \<Rightarrow> bool) \<Rightarrow> nat \<Rightarrow> u8 list \<Rightarrow> agent_frame list" where
  "socket_reader device_id accepts i bytes =
     (if length bytes < 4 then []
      else
        let payload_len = unat (u32_from_be (take 4 bytes));
            rest = drop 4 bytes
        in if payload_len = 0 \<or> payload_len > 1000000 then []
           else if length rest < payload_len then []
           else (case parse_frame device_id (take payload_len rest) of
               Inr None \<Rightarrow> socket_reader device_id accepts i (drop payload_len rest)
             | Inr (Some frame) \<Rightarrow>
                 if accepts i
                 then frame # socket_reader device_id accepts (Suc i) (drop payload_len rest)
                 else []
             | Inl _ \<Rightarrow> []))"
  by pat_completeness auto
termination
  by (relation "measure (\<lambda>(_, _, _, bytes). length bytes)") auto

declare socket_reader.simps [simp del]

lemma socket_reader_step:
  assumes "4 \<le> length bytes" and "unat (u32_from_be (take 4 bytes)) = n" and "drop 4 bytes = rest"
  shows "socket_reader did accepts i bytes =
    (if n = 0 \<or> n > 1000000 \<or> length rest < n then []
     else (case parse_frame did (take n rest) of
         Inr None \<Rightarrow> socket_reader did accepts i (drop n rest)
       | Inr (Some frame) \<Rightarrow> if accepts i then frame # socket_reader did accepts (Suc i) (drop n rest) else []
       | Inl _ \<Rightarrow> []))"
  using assms by (subst socket_reader.simps) (simp add: Let_def)

section \<open>No panic\<close>

lemma slice_ok: "a + n \<le> length p \<Longrightarrow> slice p a n = Ok (take n (drop a p))"
  by (simp add: slice_def)

lemma read_joint_ok:
  assumes "12 + n * 16 \<le> length p" and "i < n"
  shows "read_joint p n i = Ok \<lparr>js_name = joint_name i,
    js_position_rad = u64_from_be (take 8 (drop (12 + i * 8) p)),
    js_torque_nm = u64_from_be (take 8 (drop (12 + n * 8 + i * 8) p)), js_temperature_c = temperature_35\<rparr>"
  using assms by (simp add: read_joint_def slice_ok Let_def)

lemma collect_joints:
  assumes "12 + n * 16 \<le> length p"
  shows "collect_results (map (read_joint p n) [0..<n]) = Ok (map (\<lambda>i. \<lparr>js_name = joint_name i,
    js_position_rad = u64_from_be (take 8 (drop (12 + i * 8) p)),
    js_torque_nm = u64_from_be (take 8 (drop (12 + n * 8 + i * 8) p)), js_temperature_c = temperature_35\<rparr>) [0..<n])"
  unfolding collect_results_Inr using read_joint_ok [OF assms] by simp

lemma parse_frame_cases:
  "parse_frame did p =
     (if length p < 12 then Ok None
      else let n = unat (u32_from_be (take 4 (drop 8 p))) in
        if length p < 12 + n * 16 then Ok None
        else Ok (Some \<lparr>af_device_id = did, af_recorded_at = Some (frame_time (u64_as_i64 (u64_from_be (take 8 p)))),
          af_joints = map (\<lambda>i. \<lparr>js_name = joint_name i,
            js_position_rad = u64_from_be (take 8 (drop (12 + i * 8) p)),
            js_torque_nm = u64_from_be (take 8 (drop (12 + n * 8 + i * 8) p)),
            js_temperature_c = temperature_35\<rparr>) [0..<n]\<rparr>))"
  by (simp add: parse_frame_def slice_ok Let_def collect_joints not_less mult.assoc)

section \<open>Round trips\<close>

lemma length_concat_be: "length (concat (map (\<lambda>p. be_bytes 8 (unat p)) xs)) = 8 * length xs"
  by (induction xs) auto

lemma take_drop_concat_be:
  "i < length xs \<Longrightarrow> take 8 (drop (i * 8) (concat (map (\<lambda>p. be_bytes 8 (unat (p :: u64))) xs) @ rest)) = be_bytes 8 (unat (xs ! i))"
proof (induction xs arbitrary: i)
  case (Cons x xs)
  then show ?case by (cases i) auto
qed simp

lemma u64_at:
  "i < length xs \<Longrightarrow> u64_from_be (take 8 (drop (i * 8) (concat (map (\<lambda>p. be_bytes 8 (unat p)) xs) @ rest))) = xs ! i"
  using take_drop_concat_be by simp

lemma length_encode_frame: "length (encode_frame ts pos tor) = 12 + 8 * length pos + 8 * length tor"
  by (simp add: encode_frame_def length_concat_be)

definition frame_of :: "string \<Rightarrow> int \<Rightarrow> u64 list \<Rightarrow> u64 list \<Rightarrow> agent_frame" where
  "frame_of did ts pos tor = \<lparr>af_device_id = did, af_recorded_at = Some (frame_time ts),
     af_joints = map (\<lambda>i. \<lparr>js_name = joint_name i, js_position_rad = pos ! i, js_torque_nm = tor ! i,
       js_temperature_c = temperature_35\<rparr>) [0..<length pos]\<rparr>"

lemma i64_round_trip [simp]: "in_i64 x \<Longrightarrow> u64_as_i64 (i64_as_u64 x) = x"
  by (simp add: u64_as_i64_def i64_as_u64_def in_i64_def signed_of_int signed_take_bit_int_eq_self_iff)

lemma parse_encode:
  assumes "in_i64 ts" and "length tor = length pos" and "length pos < 2 ^ 32"
  shows "parse_frame did (encode_frame ts pos tor) = Ok (Some (frame_of did ts pos tor))"
proof -
  let ?n = "length pos"
  let ?P = "concat (map (\<lambda>p. be_bytes 8 (unat p)) pos)" and ?T = "concat (map (\<lambda>t. be_bytes 8 (unat t)) tor)"
  let ?e = "encode_frame ts pos tor"
  have len: "length ?e = 12 + ?n * 16" using assms(2) by (simp add: length_encode_frame)
  have d12: "drop 12 ?e = ?P @ ?T" by (simp add: encode_frame_def)
  have d8: "take 4 (drop 8 ?e) = be_bytes 4 (unat (of_nat ?n :: u32))" by (simp add: encode_frame_def)
  have n: "unat (u32_from_be (take 4 (drop 8 ?e))) = ?n"
    unfolding d8 u32_be_round_trip using assms(3) by (simp add: unat_of_nat)
  have ts: "u64_as_i64 (u64_from_be (take 8 ?e)) = ts"
    using assms(1) by (simp add: encode_frame_def)
  have pos: "u64_from_be (take 8 (drop (12 + i * 8) ?e)) = pos ! i" if "i < ?n" for i
    using u64_at [OF that, of ?T] by (simp add: d12 [symmetric] add.commute)
  have "drop (12 + ?n * 8 + i * 8) ?e = drop (i * 8) ?T" for i
  proof -
    have "drop (12 + ?n * 8 + i * 8) ?e = drop (i * 8) (drop (?n * 8) (drop 12 ?e))" by (simp add: add.commute add.left_commute)
    then show ?thesis unfolding d12 by (simp add: length_concat_be)
  qed
  then have tor: "u64_from_be (take 8 (drop (12 + ?n * 8 + i * 8) ?e)) = tor ! i" if "i < ?n" for i
    using u64_at [of i tor "[]"] that assms(2) by simp
  show ?thesis
    unfolding parse_frame_cases n Let_def ts frame_of_def using pos tor by (simp add: len)
qed

text \<open>One frame on the wire: its length and the payload.\<close>

definition wire :: "u8 list \<Rightarrow> u8 list" where
  "wire p = be_bytes 4 (length p) @ p"

definition good_payload :: "u8 list \<Rightarrow> bool" where
  "good_payload p \<longleftrightarrow> 0 < length p \<and> length p \<le> 1000000"

definition parsed :: "string \<Rightarrow> u8 list \<Rightarrow> agent_frame option" where
  "parsed did p = (case parse_frame did p of Inr r \<Rightarrow> r | Inl _ \<Rightarrow> None)"

lemma wire_prefix:
  assumes "good_payload p"
  shows "unat (u32_from_be (take 4 (wire p @ rest))) = length p" and "drop 4 (wire p @ rest) = p @ rest"
proof -
  have "length p < 2 ^ 32" using assms by (simp add: good_payload_def)
  then have "unat (of_nat (length p) :: u32) = length p" by (simp add: unat_of_nat)
  then show "unat (u32_from_be (take 4 (wire p @ rest))) = length p"
    using u32_be_round_trip [of "of_nat (length p)"] by (simp add: wire_def)
  show "drop 4 (wire p @ rest) = p @ rest" by (simp add: wire_def)
qed

lemma parse_frame_no_panic: "\<exists>r. parse_frame did p = Inr r"
  by (simp add: parse_frame_cases Let_def)

lemma socket_reader_wire:
  assumes "good_payload p"
  shows "socket_reader did (\<lambda>_. True) i (wire p @ rest) =
    (case parsed did p of
       None \<Rightarrow> socket_reader did (\<lambda>_. True) i rest
     | Some fr \<Rightarrow> fr # socket_reader did (\<lambda>_. True) (Suc i) rest)"
proof -
  obtain r where r: "parse_frame did p = Inr r" using parse_frame_no_panic by blast
  have "4 \<le> length (wire p @ rest)" by (simp add: wire_def)
  from socket_reader_step [OF this wire_prefix [OF assms]] show ?thesis
    using assms by (simp add: good_payload_def r parsed_def split: option.split)
qed

lemma socket_reader_stream:
  assumes "\<forall>p \<in> set ps. good_payload p" and "\<And>i. socket_reader did (\<lambda>_. True) i rest = []"
  shows "socket_reader did (\<lambda>_. True) i (concat (map wire ps) @ rest) = List.map_filter (parsed did) ps"
  using assms(1)
proof (induction ps arbitrary: i)
  case Nil
  then show ?case by (simp add: assms(2) List.map_filter_def)
next
  case (Cons p ps)
  then show ?case
    using socket_reader_wire [of p did i "concat (map wire ps) @ rest"]
    by (simp add: List.map_filter_simps split: option.split)
qed

text \<open>What is left of a frame the peer did not finish is never delivered.\<close>

lemma socket_reader_partial:
  assumes "good_payload p" and "k < length (wire p)"
  shows "socket_reader did accepts i (take k (wire p)) = []"
proof (cases "k < 4")
  case True
  then show ?thesis by (subst socket_reader.simps) (simp add: min_less_iff_disj)
next
  case False
  have "unat (u32_from_be (take 4 (take k (wire p)))) = length p"
    using wire_prefix(1) [OF assms(1), of "[]"] False by (simp add: min_def)
  moreover have "length (drop 4 (take k (wire p))) < length p" and "4 \<le> length (take k (wire p))"
    using assms(2) False by (simp_all add: wire_def)
  ultimately show ?thesis
    using socket_reader_step [OF _ _ refl] by metis
qed

end
