(* ===== verification/Ota_Store.thy ===== *)
theory Ota_Store
  imports Sqlite_Model Keyset_Pages
begin

text \<open>
  The job store of the OTA service (\<^verbatim>\<open>ota-service/src/store/mod.rs\<close>): the table
  \<open>update_jobs\<close> and the methods of \<open>SqliteJobStore\<close>. The mutex is taken by
  \<open>lock().unwrap()\<close>, so a poisoned mutex is a panic. Statements run outside transactions.
\<close>

section \<open>Errors (error.rs)\<close>

datatype ota_error =
    JobNotFound string
  | AlreadyPending
  | NoActiveSubscribers string
  | OtaDb rusqlite_error
  | Grpc status
  | Transport string

section \<open>Domain types\<close>

datatype job_status = Pending | InProgress | Completed | Failed

fun as_str :: "job_status \<Rightarrow> string" where
  "as_str Pending = ''pending''"
| "as_str InProgress = ''in_progress''"
| "as_str Completed = ''completed''"
| "as_str Failed = ''failed''"

definition from_str :: "string \<Rightarrow> job_status option" where
  "from_str s =
     (if s = ''pending'' then Some Pending
      else if s = ''in_progress'' then Some InProgress
      else if s = ''completed'' then Some Completed
      else if s = ''failed'' then Some Failed
      else None)"

lemma from_str_as_str [simp]: "from_str (as_str st) = Some st"
  by (cases st) (simp_all add: from_str_def)

lemma from_str_Some: "from_str s = Some st \<Longrightarrow> s = as_str st"
  by (auto simp: from_str_def split: if_splits)

record new_job =
  nj_device_id :: string
  nj_target_version :: string
  nj_artifact_url :: string
  nj_sha256 :: string
  nj_size_bytes :: u64

record job_record =
  jr_id :: string
  jr_device_id :: string
  jr_target_version :: string
  jr_artifact_url :: string
  jr_sha256 :: string
  jr_size_bytes :: u64
  jr_status :: job_status
  jr_error_message :: "string option"
  jr_created_at :: string

text \<open>A row of \<open>update_jobs\<close>: integers are SQLite's 64-bit integers, the status is text.\<close>

record job_row =
  jb_id :: string
  jb_device_id :: string
  jb_target_version :: string
  jb_artifact_url :: string
  jb_sha256 :: string
  jb_size_bytes :: int
  jb_status :: string
  jb_error_message :: "string option"
  jb_created_at :: string
  jb_updated_at :: string

record ota_tables =
  update_jobs :: "job_row list"

type_synonym oconn = "ota_tables conn"
type_synonym 'a ota_op = "oconn \<Rightarrow> (ota_error, 'a) result \<times> oconn"
type_synonym job_plan = "job_row list \<Rightarrow> job_row list"

definition empty_jobs :: ota_tables where
  "empty_jobs = \<lparr>update_jobs = []\<rparr>"

definition row_to_record :: "job_row \<Rightarrow> job_record" where
  "row_to_record row =
     \<lparr>jr_id = jb_id row, jr_device_id = jb_device_id row, jr_target_version = jb_target_version row,
      jr_artifact_url = jb_artifact_url row, jr_sha256 = jb_sha256 row,
      jr_size_bytes = i64_as_u64 (jb_size_bytes row),
      jr_status = (case from_str (jb_status row) of Some st \<Rightarrow> st | None \<Rightarrow> Pending),
      jr_error_message = jb_error_message row, jr_created_at = jb_created_at row\<rparr>"

section \<open>Operations\<close>

definition active_status :: "string \<Rightarrow> bool" where
  "active_status s \<longleftrightarrow> s = ''pending'' \<or> s = ''in_progress''"

definition active_for :: "string \<Rightarrow> job_row \<Rightarrow> bool" where
  "active_for did row \<longleftrightarrow> jb_device_id row = did \<and> active_status (jb_status row)"

text \<open>\<open>INSERT INTO update_jobs\<close> with the defaults of the schema; \<open>id\<close> is the primary key.\<close>

definition new_job_row :: "string \<Rightarrow> string \<Rightarrow> new_job \<Rightarrow> job_row" where
  "new_job_row jid now job =
     \<lparr>jb_id = jid, jb_device_id = nj_device_id job, jb_target_version = nj_target_version job,
      jb_artifact_url = nj_artifact_url job, jb_sha256 = nj_sha256 job,
      jb_size_bytes = u64_as_i64 (nj_size_bytes job), jb_status = ''pending'',
      jb_error_message = None, jb_created_at = now, jb_updated_at = now\<rparr>"

definition insert_job :: "job_row \<Rightarrow> ota_tables \<Rightarrow> (rusqlite_error, unit) result \<times> ota_tables" where
  "insert_job row t =
     (if jb_id row \<in> jb_id ` set (update_jobs t)
      then (Err (SqliteFailure ConstraintViolation), t)
      else (Ok (), t\<lparr>update_jobs := update_jobs t @ [row]\<rparr>))"

definition get_job_with_conn :: "engine \<Rightarrow> nat \<Rightarrow> string \<Rightarrow> job_record ota_op" where
  "get_job_with_conn eng i jid c =
     try_bind (map_err_st (\<lambda>_. JobNotFound jid) (sql eng i (query_row update_jobs jb_id jid) c))
       (\<lambda>row c. (Ok (row_to_record row), c))"

text \<open>\<open>jid\<close> is the fresh UUID, \<open>now\<close> the value of \<open>datetime('now')\<close>.\<close>

definition create_job :: "engine \<Rightarrow> string \<Rightarrow> string \<Rightarrow> new_job \<Rightarrow> job_record ota_op" where
  "create_job eng jid now job =
     with_lock eng Panic (\<lambda>c.
       try_bind (map_err_st OtaDb (sql eng 0
           (query (\<lambda>t. int (length (filter (active_for (nj_device_id job)) (update_jobs t))))) c)) (\<lambda>active c.
       if active > 0 then (Err AlreadyPending, c)
       else
         try_bind (map_err_st OtaDb (sql eng 1 (insert_job (new_job_row jid now job)) c)) (\<lambda>_ c.
         get_job_with_conn eng 2 jid c)))"

definition get_pending_for_device :: "engine \<Rightarrow> job_plan \<Rightarrow> string \<Rightarrow> job_record option ota_op" where
  "get_pending_for_device eng plan did =
     with_lock eng Panic (\<lambda>c.
       try_bind (map_err_st OtaDb (sql eng 0 (query (\<lambda>_. ())) c)) (\<lambda>_ c.
       try_bind (map_err_st OtaDb (sql eng 1 (query (\<lambda>_. ())) c)) (\<lambda>_ c.
       try_bind (map_err_st OtaDb (sql eng 2 (query (\<lambda>t.
           limit_rows 1 (order_asc plan jb_created_at (filter (active_for did) (update_jobs t))))) c)) (\<lambda>rows c.
       (Ok (case rows of [] \<Rightarrow> None | row # _ \<Rightarrow> Some (row_to_record row)), c)))))"

definition update_job_status :: "engine \<Rightarrow> string \<Rightarrow> string \<Rightarrow> job_status \<Rightarrow> string option \<Rightarrow> unit ota_op" where
  "update_job_status eng now jid st err =
     with_lock eng Panic (\<lambda>c.
       try_bind (map_err_st OtaDb (sql eng 0 (update_where update_jobs_update update_jobs
           (\<lambda>r. jb_id r = jid)
           (\<lambda>r. r\<lparr>jb_status := as_str st, jb_error_message := err, jb_updated_at := now\<rparr>)) c)) (\<lambda>updated c.
       if updated = 0 then (Err (JobNotFound jid), c) else (Ok (), c)))"

text \<open>
  The query of \<open>list_for_device\<close>, then its page. \<open>limit as usize\<close> and the subtraction are
  taken modulo \<open>2^64\<close>, as in a release build.
\<close>

definition job_after :: "string \<Rightarrow> string option \<Rightarrow> job_row \<Rightarrow> bool" where
  "job_after did cursor r \<longleftrightarrow>
     jb_device_id r = did \<and> (case cursor of None \<Rightarrow> True | Some x \<Rightarrow> jb_created_at r < x)"

definition select_jobs :: "job_plan \<Rightarrow> string \<Rightarrow> string option \<Rightarrow> int \<Rightarrow> ota_tables \<Rightarrow> job_row list" where
  "select_jobs plan did cursor n t =
     limit_rows n (order_desc plan jb_created_at (filter (job_after did cursor) (update_jobs t)))"

definition job_page :: "int \<Rightarrow> job_record list \<Rightarrow> job_record list \<times> string option" where
  "job_page limit records =
     (let lim = i64_as_u64 limit;
          i = unat (lim - 1);
          next_cursor = (if int (length records) > limit
             then (if i < length records then Some (jr_created_at (records ! i)) else None) else None)
      in (take (unat lim) records, next_cursor))"

definition list_for_device :: "engine \<Rightarrow> job_plan \<Rightarrow> string \<Rightarrow> int \<Rightarrow> string option
    \<Rightarrow> (job_record list \<times> string option) ota_op" where
  "list_for_device eng plan did limit cursor =
     with_lock eng Panic (\<lambda>c.
       try_bind (map_err_st OtaDb (sql eng 0 (query (\<lambda>_. ())) c)) (\<lambda>_ c.
       try_bind (map_err_st OtaDb (sql eng 1 (query (select_jobs plan did cursor (wrap_i64 (limit + 1)))) c))
         (\<lambda>rows c. (Ok (job_page limit (map row_to_record (ok_items (step_rows eng 2 rows)))), c))))"

section \<open>Invariant\<close>

text \<open>
  Job ids are unique, every stored status is one the code writes, and a device has at most one
  active job. The calls of the server are the operations below: it never sets a job back to
  an active status.
\<close>

definition wf_jobs :: "ota_tables \<Rightarrow> bool" where
  "wf_jobs t \<longleftrightarrow>
     distinct (map jb_id (update_jobs t)) \<and>
     (\<forall>r \<in> set (update_jobs t). from_str (jb_status r) \<noteq> None) \<and>
     distinct (map jb_device_id (filter (\<lambda>r. active_status (jb_status r)) (update_jobs t)))"

lemma wf_empty_jobs [simp]: "wf_jobs empty_jobs"
  by (simp add: wf_jobs_def empty_jobs_def)

datatype job_op =
    CreateJob string string new_job
  | FinishJob string string bool "string option"
  | GetPending job_plan string
  | ListFor job_plan string int "string option"

fun job_step :: "engine \<Rightarrow> job_op \<Rightarrow> oconn \<Rightarrow> oconn" where
  "job_step eng (CreateJob jid now job) c = snd (create_job eng jid now job c)"
| "job_step eng (FinishJob now jid success err) c =
     snd (update_job_status eng now jid (if success then Completed else Failed) err c)"
| "job_step eng (GetPending plan did) c = snd (get_pending_for_device eng plan did c)"
| "job_step eng (ListFor plan did limit cursor) c = snd (list_for_device eng plan did limit cursor c)"

text \<open>The stored tables have no active job of a device.\<close>

definition no_active :: "string \<Rightarrow> ota_tables \<Rightarrow> bool" where
  "no_active did t \<longleftrightarrow> filter (active_for did) (update_jobs t) = []"

lemma no_active_iff: "no_active did t \<longleftrightarrow> (\<forall>r \<in> set (update_jobs t). \<not> active_for did r)"
  by (simp add: no_active_def filter_empty_conv)

lemma wf_insert_job:
  assumes "wf_jobs t" and "no_active (jb_device_id row) t" and "from_str (jb_status row) \<noteq> None"
  shows "wf_jobs (snd (insert_job row t))"
  using assms by (auto simp: wf_jobs_def insert_job_def no_active_iff active_for_def)

lemma wf_finish_job:
  assumes "wf_jobs t" and "\<not> active_status (as_str st)"
  shows "wf_jobs (update_jobs_update (set_rows (\<lambda>r. jb_id r = jid)
    (\<lambda>r. r\<lparr>jb_status := as_str st, jb_error_message := err, jb_updated_at := now\<rparr>)) t)"
proof -
  let ?f = "\<lambda>r. r\<lparr>jb_status := as_str st, jb_error_message := err, jb_updated_at := now\<rparr>"
  have "distinct (map jb_device_id (filter (\<lambda>r. active_status (jb_status r))
      (set_rows (\<lambda>r. jb_id r = jid) ?f rows)))"
    if "distinct (map jb_device_id (filter (\<lambda>r. active_status (jb_status r)) rows))" for rows
    using that assms(2) by (induction rows) (auto simp: set_set_rows split: if_splits)
  then show ?thesis
    using assms(1) by (auto simp: wf_jobs_def map_key_set_rows set_set_rows)
qed

lemma create_job_wf:
  assumes "conn_all wf_jobs c"
  shows "conn_all wf_jobs (snd (create_job eng jid now job c))"
proof -
  have ins: "conn_all wf_jobs (snd (sql eng i (insert_job (new_job_row jid now job)) c1))"
    if c1: "conn_all wf_jobs c1" and na: "no_active (nj_device_id job) (tabs c1)" for i c1
  proof -
    have "wf_jobs (snd (insert_job (new_job_row jid now job) (tabs c1)))"
      using c1 na by (intro wf_insert_job) (auto simp: conn_all_def new_job_row_def from_str_def)
    then show ?thesis
      using c1 conn_all_roll_back [OF c1]
      by (auto simp: sql_def conn_all_def split: option.split prod.split)
  qed
  show ?thesis
    unfolding create_job_def get_job_with_conn_def
    by (intro conn_all_with_lock conn_all_try_bind assms)
      (auto simp: conn_all_reads no_active_def map_err_st_Inr sql_Inr query_def
        intro!: conn_all_try_bind ins)
qed

lemma finished_inactive: "\<not> active_status (as_str Completed)" "\<not> active_status (as_str Failed)"
  by (simp_all add: active_status_def)

lemma update_job_status_wf:
  "conn_all wf_jobs c \<Longrightarrow> \<not> active_status (as_str st) \<Longrightarrow> conn_all wf_jobs (snd (update_job_status eng now jid st err c))"
  unfolding update_job_status_def
  by (intro conn_all_with_lock conn_all_try_bind) (auto simp: update_where_def intro!: conn_all_sql wf_finish_job)

lemma job_step_wf: "conn_all wf_jobs c \<Longrightarrow> conn_all wf_jobs (job_step eng op c)"
  by (cases op)
    (auto simp: get_pending_for_device_def list_for_device_def conn_all_reads create_job_wf
      finished_inactive simp del: as_str.simps
      intro!: update_job_status_wf conn_all_with_lock conn_all_try_bind)

interpretation job_schema: schema_store job_step wf_jobs
  by unfold_locales (rule job_step_wf)

section \<open>The operations on a healthy engine\<close>

lemma create_job_healthy:
  assumes "no_fault eng"
  shows "create_job eng jid now job c =
    (if \<not> no_active (nj_device_id job) (tabs c) then (Err AlreadyPending, c)
     else if jid \<in> jb_id ` set (update_jobs (tabs c)) then (Err (OtaDb (SqliteFailure ConstraintViolation)), c)
     else (Ok (row_to_record (new_job_row jid now job)),
           c\<lparr>tabs := (tabs c)\<lparr>update_jobs := update_jobs (tabs c) @ [new_job_row jid now job]\<rparr>\<rparr>))"
proof -
  have "jb_id (new_job_row jid now job) = jid" by (simp add: new_job_row_def)
  then show ?thesis
    using assms
    by (simp add: create_job_def with_lock_def query_def insert_job_def no_active_def
        get_job_with_conn_def query_row_def row_with_snoc)
qed

lemma get_pending_healthy:
  assumes "no_fault eng"
  shows "get_pending_for_device eng plan did c =
    (Ok (case order_asc plan jb_created_at (filter (active_for did) (update_jobs (tabs c))) of
           [] \<Rightarrow> None | row # _ \<Rightarrow> Some (row_to_record row)), c)"
  using assms
  by (cases "order_asc plan jb_created_at (filter (active_for did) (update_jobs (tabs c)))")
    (simp_all add: get_pending_for_device_def with_lock_def query_def limit_rows_def)

definition finish_row :: "string \<Rightarrow> job_status \<Rightarrow> string option \<Rightarrow> job_row \<Rightarrow> job_row" where
  "finish_row now st err r = r\<lparr>jb_status := as_str st, jb_error_message := err, jb_updated_at := now\<rparr>"

lemma update_job_status_healthy:
  assumes "no_fault eng"
  shows "update_job_status eng now jid st err c =
    (case row_with jb_id jid (update_jobs (tabs c)) of
       None \<Rightarrow> (Err (JobNotFound jid), c)
     | Some _ \<Rightarrow> (Ok (), c\<lparr>tabs := update_jobs_update (set_rows (\<lambda>r. jb_id r = jid) (finish_row now st err)) (tabs c)\<rparr>))"
  using assms
  by (auto simp: update_job_status_def with_lock_def update_where_def finish_row_def [abs_def]
      row_with_NoneD row_with_SomeD2 split: option.split)

text \<open>The one active job is found whatever the query plan.\<close>

lemma active_unique:
  assumes "wf_jobs t" and "r \<in> set (update_jobs t)" and "active_for did r"
  shows "filter (active_for did) (update_jobs t) = [r]"
proof -
  have "distinct (map jb_device_id (filter (\<lambda>r. active_status (jb_status r)) rows)) \<Longrightarrow>
      r \<in> set rows \<Longrightarrow> filter (active_for did) rows = [r]" for rows
  proof (induction rows)
    case (Cons x rows)
    show ?case
    proof (cases "active_for did x")
      case True
      then have "r = x" using Cons.prems assms(3) by (auto simp: active_for_def image_iff)
      then show ?thesis
        using Cons.prems True by (auto simp: active_for_def filter_empty_conv image_iff)
    next
      case False
      then have "r \<in> set rows" using Cons.prems assms(3) by auto
      then show ?thesis using False Cons by (auto split: if_splits)
    qed
  qed simp
  then show ?thesis using assms by (simp add: wf_jobs_def)
qed

lemma plan_single: "is_plan plan \<Longrightarrow> plan [r] = [r]"
  using length_plan [of plan "[r]"] set_plan [of plan "[r]"] by (cases "plan [r]") auto

lemma plan_nil: "is_plan plan \<Longrightarrow> plan [] = []"
  using length_plan [of plan "[]"] by simp

lemma get_pending_active:
  assumes "no_fault eng" and "is_plan plan" and "wf_jobs (tabs c)"
    and "r \<in> set (update_jobs (tabs c))" and "active_for did r"
  shows "get_pending_for_device eng plan did c = (Ok (Some (row_to_record r)), c)"
  using assms active_unique [OF assms(3-5)]
  by (simp add: get_pending_healthy order_asc_def plan_single)

lemma get_pending_none:
  assumes "no_fault eng" and "is_plan plan" and "no_active did (tabs c)"
  shows "get_pending_for_device eng plan did c = (Ok None, c)"
  using assms by (simp add: get_pending_healthy no_active_def order_asc_def plan_nil)

section \<open>How the stored jobs develop\<close>

text \<open>
  A relation between the jobs before and after that new jobs and the outcomes that \<open>W\<close> allows respect
  holds across every call of the store that reports such outcomes, whatever the engine answers.
\<close>

definition moves :: "(ota_tables \<Rightarrow> ota_tables \<Rightarrow> bool) \<Rightarrow> oconn \<Rightarrow> oconn \<Rightarrow> bool" where
  "moves P c c' \<longleftrightarrow> idle c' \<and> P (tabs c) (tabs c')"

fun permits :: "(string \<Rightarrow> job_status \<Rightarrow> string option \<Rightarrow> bool) \<Rightarrow> job_op \<Rightarrow> bool" where
  "permits W (FinishJob _ jid ok err) = W jid (if ok then Completed else Failed) err"
| "permits W _ = True"

locale job_writes =
  fixes W :: "string \<Rightarrow> job_status \<Rightarrow> string option \<Rightarrow> bool" and P :: "ota_tables \<Rightarrow> ota_tables \<Rightarrow> bool"
  assumes P_refl: "P t t"
    and P_trans: "P t t' \<Longrightarrow> P t' t'' \<Longrightarrow> P t t''"
    and P_new: "jb_status row = ''pending'' \<Longrightarrow> P t (t\<lparr>update_jobs := update_jobs t @ [row]\<rparr>)"
    and P_finish: "W jid st err \<Longrightarrow> P t (update_jobs_update (set_rows (\<lambda>r. jb_id r = jid) (finish_row now st err)) t)"
begin

lemma moves_refl: "idle c \<Longrightarrow> moves P c c"
  by (simp add: moves_def P_refl)

lemma moves_sql: "idle c \<Longrightarrow> (\<And>t. P t (snd (stmt t))) \<Longrightarrow> moves P c (snd (sql eng i stmt c))"
  using P_refl by (auto simp: sql_def moves_def idle_def roll_back_def split: option.split prod.split) (metis snd_conv)

lemma moves_bind:
  assumes "moves P c (snd m)" and "\<And>a c1. idle c1 \<Longrightarrow> moves P c1 (snd (k a c1))"
  shows "moves P c (snd (try_bind m k))"
  using assms P_trans by (cases "(m, k)" rule: try_bind.cases) (force simp: moves_def)+

lemma moves_lock: "idle c \<Longrightarrow> (\<And>c. idle c \<Longrightarrow> moves P c (snd (body c))) \<Longrightarrow> moves P c (snd (with_lock eng p body c))"
  using P_refl by (simp add: with_lock_def moves_def)

lemma P_read: "P t (snd (query f t))" "P t (snd (query_row table key x t))"
  by (simp_all add: query_def query_row_def P_refl)

lemma P_insert: "P t (snd (insert_job (new_job_row jid now job) t))"
  by (simp add: insert_job_def new_job_row_def P_refl P_new)

lemma P_update:
  "W jid st err \<Longrightarrow> P t (snd (update_where update_jobs_update update_jobs (\<lambda>r. jb_id r = jid)
     (\<lambda>r. r\<lparr>jb_status := as_str st, jb_error_message := err, jb_updated_at := now\<rparr>) t))"
  using P_finish [of jid st err t now] by (simp add: update_where_def finish_row_def [abs_def])

lemma moves_create: "idle c \<Longrightarrow> moves P c (snd (create_job eng jid now job c))"
  unfolding create_job_def get_job_with_conn_def
  by (auto simp: moves_refl intro!: moves_lock moves_bind moves_sql P_read P_insert)

lemma moves_finish: "idle c \<Longrightarrow> W jid st err \<Longrightarrow> moves P c (snd (update_job_status eng now jid st err c))"
  unfolding update_job_status_def
  by (auto simp: moves_refl simp del: as_str.simps intro!: moves_lock moves_bind moves_sql P_update)

lemma moves_step: "idle c \<Longrightarrow> permits W op \<Longrightarrow> moves P c (job_step eng op c)"
  by (cases op)
    (auto simp: moves_create moves_refl get_pending_for_device_def list_for_device_def simp del: as_str.simps
      intro!: moves_finish moves_lock moves_bind moves_sql P_read)

end

text \<open>The relations that allow every outcome.\<close>

locale job_relation = job_writes "\<lambda>_ st _. \<not> active_status (as_str st)" P for P
begin

lemma moves_any: "idle c \<Longrightarrow> moves P c (job_step eng op c)"
  by (rule moves_step) (use finished_inactive in \<open>cases op; simp\<close>)+

end

section \<open>Pagination of the jobs of a device\<close>

definition job_listing :: "job_plan \<Rightarrow> string \<Rightarrow> ota_tables \<Rightarrow> job_record list" where
  "job_listing plan did t =
     map row_to_record (order_desc plan jb_created_at (filter (\<lambda>r. jb_device_id r = did) (update_jobs t)))"

definition job_page_at :: "job_plan \<Rightarrow> string \<Rightarrow> ota_tables \<Rightarrow> nat \<Rightarrow> string option
    \<Rightarrow> job_record list \<times> string option" where
  "job_page_at plan did t n cursor =
     (case fst (list_for_device reliable plan did (int n) cursor (open_conn t)) of
        Inr p \<Rightarrow> p | Inl _ \<Rightarrow> ([], None))"

definition distinct_times :: "string \<Rightarrow> ota_tables \<Rightarrow> bool" where
  "distinct_times did t \<longleftrightarrow> distinct (map jb_created_at (filter (\<lambda>r. jb_device_id r = did) (update_jobs t)))"

definition i32_limit :: nat where
  "i32_limit = 2147483647"

lemma jr_created_at_row [simp]: "jr_created_at (row_to_record r) = jb_created_at r"
  by (simp add: row_to_record_def)

lemma job_page_of:
  assumes "0 < n" and "n \<le> i32_limit"
  shows "job_page (int n) (take (Suc n) rest) = page_of jr_created_at n rest"
proof -
  have lim: "i64_as_u64 (int n) = of_nat n" by (simp add: i64_as_u64_def)
  have un: "unat (of_nat n :: u64) = n"
    using assms(2) by (simp add: unat_of_nat i32_limit_def)
  have "of_nat n - 1 = (of_nat (n - 1) :: u64)" using assms(1) by (simp add: of_nat_diff)
  moreover have "unat (of_nat (n - 1) :: u64) = n - 1"
    using assms(2) by (simp add: unat_of_nat i32_limit_def)
  ultimately show ?thesis
    using assms(1) by (auto simp: job_page_def page_of_def lim un Let_def min_def nth_append)
qed

lemma job_page_at_eq:
  assumes "is_plan plan" and "distinct_times did t" and "0 < n" and "n \<le> i32_limit"
  shows "job_page_at plan did t n cursor =
    page_of jr_created_at n (rows_after jr_created_at (>) cursor (job_listing plan did t))"
proof -
  have w: "wrap_i64 (int n + 1) = int (Suc n)" using assms(4) by (simp add: i32_limit_def in_i64_def)
  let ?mine = "filter (\<lambda>r. jb_device_id r = did) (update_jobs t)"
  let ?after = "\<lambda>r. case cursor of None \<Rightarrow> True | Some x \<Rightarrow> jb_created_at r < x"
  have "filter (job_after did cursor) (update_jobs t) = filter ?after ?mine"
    by (auto simp: job_after_def [abs_def] intro: filter_cong)
  then have "order_desc plan jb_created_at (filter (job_after did cursor) (update_jobs t)) =
      filter ?after (order_desc plan jb_created_at ?mine)"
    using order_desc_filter [OF assms(1), of jb_created_at ?mine ?after] assms(2)
    by (simp add: distinct_times_def)
  then have sel: "map row_to_record (select_jobs plan did cursor (int (Suc n)) t) =
      take (Suc n) (rows_after jr_created_at (>) cursor (job_listing plan did t))"
    by (cases cursor) (simp_all add: select_jobs_def limit_rows_def rows_after_def job_listing_def
        take_map filter_map o_def del: of_nat_Suc)
  show ?thesis
    using job_page_of [OF assms(3,4)]
    by (simp add: job_page_at_def list_for_device_def with_lock_def query_def w ok_items_step_rows
        sel del: of_nat_Suc)
qed

lemma job_listing_sorted:
  "is_plan plan \<Longrightarrow> distinct_times did t \<Longrightarrow> sorted_wrt (>) (map jr_created_at (job_listing plan did t))"
  using order_desc_strict [of plan jb_created_at "filter (\<lambda>r. jb_device_id r = did) (update_jobs t)"]
  by (simp add: job_listing_def distinct_times_def o_def)

interpretation job_pages:
  keyset_pages jr_created_at "(>)" "\<lambda>(plan, t). is_plan plan \<and> distinct_times did t"
    "\<lambda>(plan, t). job_listing plan did t" i32_limit "\<lambda>(plan, t). job_page_at plan did t"
  for did
  by unfold_locales (auto simp: job_listing_sorted job_page_at_eq)

end
