(* ===== verification/Ota_Dispatcher.thy ===== *)
theory Ota_Dispatcher
  imports Ota_Store
begin

text \<open>
  The dispatcher of the OTA service (\<^verbatim>\<open>ota-service/src/dispatcher/mod.rs\<close>): one
  broadcast channel per device. The channels are those of \<open>tokio::sync::broadcast\<close>, a
  parameter: a record with one field per function the source calls, and \<open>bc_drop\<close> for the
  end of a receiver, which happens when the robot's stream is dropped.
\<close>

record update_command =
  uc_update_job_id :: string
  uc_target_version :: string
  uc_artifact_url :: string
  uc_sha256 :: string
  uc_size_bytes :: u64
  uc_apply_by :: "timestamp option"

record 'ch broadcast =
  bc_channel :: "nat \<Rightarrow> 'ch"
  bc_subscribe :: "'ch \<Rightarrow> nat \<times> 'ch"
  bc_receiver_count :: "'ch \<Rightarrow> nat"
  bc_send :: "update_command \<Rightarrow> 'ch \<Rightarrow> (unit, nat) result \<times> 'ch"
  bc_drop :: "nat \<Rightarrow> 'ch \<Rightarrow> 'ch"

type_synonym 'ch senders = "string \<Rightarrow> 'ch option"

definition channel_capacity :: nat where
  "channel_capacity = 8"

definition dispatcher_new :: "'ch senders" where
  "dispatcher_new = Map.empty"

definition subscribe :: "'ch broadcast \<Rightarrow> string \<Rightarrow> 'ch senders \<Rightarrow> nat \<times> 'ch senders" where
  "subscribe bc did m =
     (let sender = (case m did of Some ch \<Rightarrow> ch | None \<Rightarrow> bc_channel bc channel_capacity)
      in case bc_subscribe bc sender of (rx, ch) \<Rightarrow> (rx, m(did \<mapsto> ch)))"

definition dispatch :: "'ch broadcast \<Rightarrow> string \<Rightarrow> update_command \<Rightarrow> 'ch senders
    \<Rightarrow> (ota_error, nat) result \<times> 'ch senders" where
  "dispatch bc did cmd m =
     (case m did of
        None \<Rightarrow> (Err (NoActiveSubscribers did), m)
      | Some sender \<Rightarrow>
          (let count = bc_receiver_count bc sender in
           if count = 0 then (Err (NoActiveSubscribers did), m)
           else (Ok count, m(did \<mapsto> snd (bc_send bc cmd sender)))))"

text \<open>The stream of a watching robot drops its receiver when it ends.\<close>

definition unsubscribe :: "'ch broadcast \<Rightarrow> string \<Rightarrow> nat \<Rightarrow> 'ch senders \<Rightarrow> 'ch senders" where
  "unsubscribe bc did rx m = m(did := map_option (bc_drop bc rx) (m did))"

section \<open>What the code relies on of the channels\<close>

text \<open>
  \<open>queues ch r\<close> is what receiver \<open>r\<close> has still to receive, \<open>None\<close> when there is no such
  receiver; \<open>cap ch\<close> is the number of values the channel retains. A new receiver sees the
  values sent after it subscribed; a receiver that falls behind loses the oldest values.
\<close>

definition send_queue :: "nat \<Rightarrow> update_command \<Rightarrow> update_command list \<Rightarrow> update_command list" where
  "send_queue n cmd xs = drop (Suc (length xs) - n) (xs @ [cmd])"

definition broadcast_laws :: "'ch broadcast \<Rightarrow> ('ch \<Rightarrow> nat \<Rightarrow> update_command list option) \<Rightarrow> ('ch \<Rightarrow> nat) \<Rightarrow> bool" where
  "broadcast_laws bc queues cap \<longleftrightarrow>
     (\<forall>n. queues (bc_channel bc n) = Map.empty \<and> n \<le> cap (bc_channel bc n)) \<and>
     (\<forall>ch. queues ch (fst (bc_subscribe bc ch)) = None \<and>
        queues (snd (bc_subscribe bc ch)) = (queues ch)(fst (bc_subscribe bc ch) \<mapsto> []) \<and>
        cap (snd (bc_subscribe bc ch)) = cap ch) \<and>
     (\<forall>ch. bc_receiver_count bc ch = 0 \<longleftrightarrow> queues ch = Map.empty) \<and>
     (\<forall>cmd ch. queues (snd (bc_send bc cmd ch)) = map_option (send_queue (cap ch) cmd) \<circ> queues ch \<and>
        cap (snd (bc_send bc cmd ch)) = cap ch) \<and>
     (\<forall>r ch. queues (bc_drop bc r ch) = (queues ch)(r := None) \<and> cap (bc_drop bc r ch) = cap ch)"

lemma broadcast_lawsD:
  assumes "broadcast_laws bc queues cap"
  shows "queues (bc_channel bc n) = Map.empty" and "n \<le> cap (bc_channel bc n)"
    and "bc_subscribe bc ch = (r, ch') \<Longrightarrow> queues ch r = None \<and> queues ch' = (queues ch)(r \<mapsto> []) \<and> cap ch' = cap ch"
    and "bc_receiver_count bc ch = 0 \<longleftrightarrow> queues ch = Map.empty"
    and "queues (snd (bc_send bc cmd ch)) r = map_option (send_queue (cap ch) cmd) (queues ch r)"
    and "cap (snd (bc_send bc cmd ch)) = cap ch"
    and "queues (bc_drop bc r ch) = (queues ch)(r := None)" and "cap (bc_drop bc r ch) = cap ch"
proof -
  note laws = assms [unfolded broadcast_laws_def]
  show "queues (bc_channel bc n) = Map.empty" and "n \<le> cap (bc_channel bc n)"
    using laws by simp_all
  show "bc_subscribe bc ch = (r, ch') \<Longrightarrow> queues ch r = None \<and> queues ch' = (queues ch)(r \<mapsto> []) \<and> cap ch' = cap ch"
    using laws [THEN conjunct2, THEN conjunct1, rule_format, of ch] by simp
  show "bc_receiver_count bc ch = 0 \<longleftrightarrow> queues ch = Map.empty"
    using laws by simp
  show "queues (snd (bc_send bc cmd ch)) r = map_option (send_queue (cap ch) cmd) (queues ch r)"
    and "cap (snd (bc_send bc cmd ch)) = cap ch"
    using laws by simp_all
  show "queues (bc_drop bc r ch) = (queues ch)(r := None)" and "cap (bc_drop bc r ch) = cap ch"
    using laws by simp_all
qed

text \<open>The backlog of a receiver of a device.\<close>

definition backlog :: "('ch \<Rightarrow> nat \<Rightarrow> update_command list option) \<Rightarrow> 'ch senders \<Rightarrow> string \<Rightarrow> nat
    \<Rightarrow> update_command list option" where
  "backlog queues m did r = (case m did of None \<Rightarrow> None | Some ch \<Rightarrow> queues ch r)"

definition capacities_ok :: "('ch \<Rightarrow> nat) \<Rightarrow> 'ch senders \<Rightarrow> bool" where
  "capacities_ok cap m \<longleftrightarrow> (\<forall>did ch. m did = Some ch \<longrightarrow> channel_capacity \<le> cap ch)"

lemma send_queue_short: "length xs < n \<Longrightarrow> send_queue n cmd xs = xs @ [cmd]"
  by (simp add: send_queue_def)

lemma set_send_queue: "set (send_queue n cmd xs) \<subseteq> insert cmd (set xs)"
  unfolding send_queue_def by (rule order_trans [OF set_drop_subset]) auto

lemma backlog_subscribe:
  assumes "broadcast_laws bc queues cap" and "subscribe bc did m = (r, m')"
  shows "backlog queues m did r = None"
    and "backlog queues m' d x = (if d = did \<and> x = r then Some [] else backlog queues m d x)"
    and "capacities_ok cap m \<Longrightarrow> capacities_ok cap m'"
proof -
  note laws = broadcast_lawsD [OF assms(1)]
  define sender where "sender = (case m did of Some ch \<Rightarrow> ch | None \<Rightarrow> bc_channel bc channel_capacity)"
  obtain ch where ch: "bc_subscribe bc sender = (r, ch)" and m': "m' = m(did \<mapsto> ch)"
    using assms(2) by (auto simp: subscribe_def sender_def [symmetric] split: prod.splits)
  have sub: "queues sender r = None" "queues ch = (queues sender)(r \<mapsto> [])" "cap ch = cap sender"
    using laws(3) [OF ch] by auto
  show "backlog queues m did r = None"
    and "backlog queues m' d x = (if d = did \<and> x = r then Some [] else backlog queues m d x)"
    and "capacities_ok cap m \<Longrightarrow> capacities_ok cap m'"
    using sub laws(1,2) [of channel_capacity]
    by (auto simp: m' backlog_def sender_def capacities_ok_def split: option.splits)
qed

lemma dispatch_refused:
  assumes "broadcast_laws bc queues cap" and "\<And>r. backlog queues m did r = None"
  shows "dispatch bc did cmd m = (Err (NoActiveSubscribers did), m)"
proof (cases "m did")
  case (Some ch)
  with assms(2) have "queues ch = Map.empty" by (auto simp: backlog_def)
  with Some broadcast_lawsD(4) [OF assms(1), of ch] show ?thesis by (simp add: dispatch_def)
qed (simp add: dispatch_def)

lemma dispatch_delivered:
  assumes "broadcast_laws bc queues cap" and "backlog queues m did r = Some xs"
  obtains ch n where "m did = Some ch" and "0 < n"
    and "dispatch bc did cmd m = (Ok n, m(did \<mapsto> snd (bc_send bc cmd ch)))"
proof -
  from assms(2) obtain ch where ch: "m did = Some ch" "queues ch r = Some xs"
    by (auto simp: backlog_def split: option.splits)
  then have "bc_receiver_count bc ch \<noteq> 0" using broadcast_lawsD(4) [OF assms(1), of ch] by auto
  with ch show ?thesis by (intro that) (auto simp: dispatch_def Let_def)
qed

lemma backlog_dispatch:
  assumes "broadcast_laws bc queues cap" and "dispatch bc did cmd m = (Ok n, m')"
  shows "\<exists>ch. m did = Some ch \<and> (\<forall>d x. backlog queues m' d x =
      (if d = did then map_option (send_queue (cap ch) cmd) (backlog queues m d x) else backlog queues m d x))"
    and "capacities_ok cap m \<Longrightarrow> capacities_ok cap m'"
proof -
  from assms(2) obtain ch where ch: "m did = Some ch" "m' = m(did \<mapsto> snd (bc_send bc cmd ch))"
    by (auto simp: dispatch_def Let_def split: option.splits if_splits)
  then show "\<exists>ch. m did = Some ch \<and> (\<forall>d x. backlog queues m' d x =
      (if d = did then map_option (send_queue (cap ch) cmd) (backlog queues m d x) else backlog queues m d x))"
    using broadcast_lawsD(5) [OF assms(1)] by (auto simp: backlog_def)
  from ch show "capacities_ok cap m \<Longrightarrow> capacities_ok cap m'"
    using broadcast_lawsD(6) [OF assms(1)] by (auto simp: capacities_ok_def)
qed

lemma dispatch_Inl: "dispatch bc did cmd m = (Inl f, m') \<Longrightarrow> m' = m"
  by (auto simp: dispatch_def Let_def split: option.splits if_splits)

lemma backlog_unsubscribe:
  assumes "broadcast_laws bc queues cap"
  shows "backlog queues (unsubscribe bc did r m) d x = (if d = did \<and> x = r then None else backlog queues m d x)"
    and "capacities_ok cap m \<Longrightarrow> capacities_ok cap (unsubscribe bc did r m)"
  using broadcast_lawsD(7,8) [OF assms]
  by (auto simp: backlog_def unsubscribe_def capacities_ok_def split: option.splits)

section \<open>A concrete channel\<close>

text \<open>Capacity and the queues of the receivers by number.\<close>

type_synonym list_channel = "nat \<times> (nat \<times> update_command list) list"

definition list_broadcast :: "list_channel broadcast" where
  "list_broadcast =
     \<lparr>bc_channel = (\<lambda>n. (n, [])),
      bc_subscribe = (\<lambda>(n, qs). let r = Suc (sum_list (map fst qs)) in (r, (n, (r, []) # qs))),
      bc_receiver_count = (\<lambda>(n, qs). length (remdups (map fst qs))),
      bc_send = (\<lambda>cmd (n, qs). (Ok (length qs), (n, map (\<lambda>(r, xs). (r, send_queue n cmd xs)) qs))),
      bc_drop = (\<lambda>r (n, qs). (n, filter (\<lambda>(x, _). x \<noteq> r) qs))\<rparr>"

lemma map_of_map_val: "map_of (map (\<lambda>(r, xs). (r, f xs)) qs) = map_option f \<circ> map_of qs"
  by (induction qs) auto

lemma map_of_drop: "map_of (filter (\<lambda>(x, _). x \<noteq> r) qs) = (map_of qs)(r := None)"
  by (induction qs) auto

lemma fresh_receiver: "map_of qs (Suc (sum_list (map fst qs))) = None"
  using member_le_sum_list [of _ "map fst qs"] by (force simp: map_of_eq_None_iff)

lemma list_broadcast_laws: "broadcast_laws list_broadcast (\<lambda>(n, qs). map_of qs) fst"
  by (auto simp: broadcast_laws_def list_broadcast_def Let_def fresh_receiver map_of_map_val map_of_drop
      split: prod.split)

end
