(* ===== verification/Ota_Server.thy ===== *)
theory Ota_Server
  imports Ota_Dispatcher
begin

text \<open>
  The gRPC handlers of the OTA service (\<^verbatim>\<open>ota-service/src/server/mod.rs\<close>) over the job
  store and the dispatcher, and the running service as a sequence of handler calls, of
  acknowledgements and of robots that connect and disconnect.
\<close>

section \<open>Handlers\<close>

record 'ch ota_state =
  ot_conn :: oconn
  ot_senders :: "'ch senders"

fun to_status :: "(rusqlite_error \<Rightarrow> string) \<Rightarrow> ota_error \<Rightarrow> status" where
  "to_status d (JobNotFound m) = status_of NotFoundCode m"
| "to_status d AlreadyPending = status_of AlreadyExists ''device already has an active job''"
| "to_status d (NoActiveSubscribers did) = status_of Unavailable (''device '' @ did @ '' is not connected'')"
| "to_status d (OtaDb e) = status_of Internal (d e)"
| "to_status d _ = status_of Internal ''internal error''"

record update_job =
  uj_update_job_id :: string
  uj_device_id :: string
  uj_target_version :: string
  uj_artifact_url :: string
  uj_status :: string
  uj_error_message :: string
  uj_created_at :: "timestamp option"
  uj_completed_at :: "timestamp option"

definition job_to_proto :: "job_record \<Rightarrow> update_job" where
  "job_to_proto r =
     \<lparr>uj_update_job_id = jr_id r, uj_device_id = jr_device_id r, uj_target_version = jr_target_version r,
      uj_artifact_url = jr_artifact_url r, uj_status = as_str (jr_status r),
      uj_error_message = unwrap_or_default (jr_error_message r), uj_created_at = None, uj_completed_at = None\<rparr>"

text \<open>A store call or a dispatcher call of a handler, on the state of the service.\<close>

definition on_store :: "engine \<Rightarrow> 'a ota_op \<Rightarrow> 'ch ota_state \<Rightarrow> (status, 'a) result \<times> 'ch ota_state" where
  "on_store eng f st =
     (case f (ot_conn st) of (r, c) \<Rightarrow> (map_err (to_status (err_display eng)) r, st\<lparr>ot_conn := c\<rparr>))"

definition watch_updates :: "'ch broadcast \<Rightarrow> string \<Rightarrow> 'ch ota_state \<Rightarrow> nat \<times> 'ch ota_state" where
  "watch_updates bc did st =
     (case subscribe bc did (ot_senders st) of (rx, m) \<Rightarrow> (rx, st\<lparr>ot_senders := m\<rparr>))"

text \<open>The stream built on the receiver: lag notices are dropped, commands passed on.\<close>

definition watch_stream :: "(nat, update_command) result list \<Rightarrow> (status + update_command) list" where
  "watch_stream items = map Inr (ok_items items)"

record check_update_response =
  cu_update_available :: bool
  cu_target_version :: string
  cu_artifact_url :: string
  cu_sha256 :: string
  cu_size_bytes :: u64
  cu_update_job_id :: string

definition check_update :: "engine \<Rightarrow> job_plan \<Rightarrow> string \<Rightarrow> 'ch ota_state
    \<Rightarrow> (status, check_update_response) result \<times> 'ch ota_state" where
  "check_update eng plan did st =
     try_bind (on_store eng (get_pending_for_device eng plan did) st) (\<lambda>job st.
     (Ok (case job of
            None \<Rightarrow> \<lparr>cu_update_available = False, cu_target_version = [], cu_artifact_url = [], cu_sha256 = [],
                     cu_size_bytes = 0, cu_update_job_id = []\<rparr>
          | Some j \<Rightarrow> \<lparr>cu_update_available = True, cu_target_version = jr_target_version j,
                       cu_artifact_url = jr_artifact_url j, cu_sha256 = jr_sha256 j,
                       cu_size_bytes = jr_size_bytes j, cu_update_job_id = jr_id j\<rparr>), st))"

record ack_update_request =
  au_device_id :: string
  au_update_job_id :: string
  au_success :: bool
  au_error_message :: string

definition ack_update :: "engine \<Rightarrow> string \<Rightarrow> ack_update_request \<Rightarrow> 'ch ota_state
    \<Rightarrow> (status, bool) result \<times> 'ch ota_state" where
  "ack_update eng now req st =
     try_bind (on_store eng (update_job_status eng now (au_update_job_id req)
        (if au_success req then Completed else Failed) (non_empty (au_error_message req))) st) (\<lambda>_ st.
     (Ok True, st))"

record dispatch_update_request =
  du_device_id :: string
  du_target_version :: string
  du_apply_by :: "timestamp option"

definition dispatch_new_job :: "dispatch_update_request \<Rightarrow> new_job" where
  "dispatch_new_job req =
     \<lparr>nj_device_id = du_device_id req, nj_target_version = du_target_version req,
      nj_artifact_url = [], nj_sha256 = [], nj_size_bytes = 0\<rparr>"

definition job_command :: "job_record \<Rightarrow> timestamp option \<Rightarrow> update_command" where
  "job_command job apply_by =
     \<lparr>uc_update_job_id = jr_id job, uc_target_version = jr_target_version job,
      uc_artifact_url = jr_artifact_url job, uc_sha256 = jr_sha256 job,
      uc_size_bytes = jr_size_bytes job, uc_apply_by = apply_by\<rparr>"

definition dispatch_update :: "'ch broadcast \<Rightarrow> engine \<Rightarrow> string \<Rightarrow> string \<Rightarrow> dispatch_update_request
    \<Rightarrow> 'ch ota_state \<Rightarrow> (status, update_job) result \<times> 'ch ota_state" where
  "dispatch_update bc eng jid now req st =
     try_bind (on_store eng (create_job eng jid now (dispatch_new_job req)) st) (\<lambda>job st.
     try_bind (case dispatch bc (du_device_id req) (job_command job (du_apply_by req)) (ot_senders st) of
         (r, m) \<Rightarrow> (map_err (to_status (err_display eng)) r, st\<lparr>ot_senders := m\<rparr>)) (\<lambda>_ st.
     (Ok (job_to_proto job), st)))"

definition list_update_jobs :: "engine \<Rightarrow> job_plan \<Rightarrow> string \<Rightarrow> int \<Rightarrow> string \<Rightarrow> 'ch ota_state
    \<Rightarrow> (status, update_job list \<times> string) result \<times> 'ch ota_state" where
  "list_update_jobs eng plan did limit cursor st =
     (let lim = (if limit \<le> 0 then 20 else limit) in
      try_bind (on_store eng (list_for_device eng plan did lim (non_empty cursor)) st) (\<lambda>(records, next_cursor) st.
      (Ok (map job_to_proto records, unwrap_or_default next_cursor), st)))"

section \<open>The running service\<close>

datatype ota_event =
    Watch string
  | Disconnect string nat
  | Check engine job_plan string
  | Ack engine string ack_update_request
  | Dispatch engine string string dispatch_update_request
  | ListJobs engine job_plan string int string

fun ota_step :: "'ch broadcast \<Rightarrow> ota_event \<Rightarrow> 'ch ota_state \<Rightarrow> 'ch ota_state" where
  "ota_step bc (Watch did) st = snd (watch_updates bc did st)"
| "ota_step bc (Disconnect did r) st = st\<lparr>ot_senders := unsubscribe bc did r (ot_senders st)\<rparr>"
| "ota_step bc (Check eng plan did) st = snd (check_update eng plan did st)"
| "ota_step bc (Ack eng now req) st = snd (ack_update eng now req st)"
| "ota_step bc (Dispatch eng jid now req) st = snd (dispatch_update bc eng jid now req st)"
| "ota_step bc (ListJobs eng plan did limit cursor) st = snd (list_update_jobs eng plan did limit cursor st)"

definition ota_init :: "'ch ota_state" where
  "ota_init = \<lparr>ot_conn = open_conn empty_jobs, ot_senders = dispatcher_new\<rparr>"

definition ota_run :: "'ch broadcast \<Rightarrow> ota_event list \<Rightarrow> 'ch ota_state" where
  "ota_run bc evs = fold (ota_step bc) evs ota_init"

section \<open>Effect of each handler on the store\<close>

lemma on_store_simps [simp]:
  "fst (on_store eng f st) = map_err (to_status (err_display eng)) (fst (f (ot_conn st)))"
  "snd (on_store eng f st) = st\<lparr>ot_conn := snd (f (ot_conn st))\<rparr>"
  by (simp_all add: on_store_def split: prod.split)

lemma on_store_Inr: "on_store eng f st = (Inr a, st') \<longleftrightarrow> (\<exists>c. f (ot_conn st) = (Inr a, c) \<and> st' = st\<lparr>ot_conn := c\<rparr>)"
  by (auto simp: on_store_def split: prod.split)

lemma dispatch_update_conn:
  "ot_conn (snd (dispatch_update bc eng jid now req st)) =
     snd (create_job eng jid now (dispatch_new_job req) (ot_conn st))"
  by (simp add: dispatch_update_def snd_try_bind_cases split: sum.split prod.split)

lemma snd_try_bind_keep: "(\<And>a s. snd (k a s) = s) \<Longrightarrow> snd (try_bind m k) = snd m"
  by (simp add: snd_try_bind_cases split: sum.split)

lemma store_steps:
  "snd (check_update eng plan did st) = st\<lparr>ot_conn := snd (get_pending_for_device eng plan did (ot_conn st))\<rparr>"
  "snd (ack_update eng now req st) = st\<lparr>ot_conn := snd (update_job_status eng now (au_update_job_id req)
     (if au_success req then Completed else Failed) (non_empty (au_error_message req)) (ot_conn st))\<rparr>"
  "snd (list_update_jobs eng plan did limit cursor st) = st\<lparr>ot_conn :=
     snd (list_for_device eng plan did (if limit \<le> 0 then 20 else limit) (non_empty cursor) (ot_conn st))\<rparr>"
  by (simp_all add: check_update_def ack_update_def list_update_jobs_def Let_def snd_try_bind_keep split_def)

text \<open>Every event is at most one call of the job store.\<close>

fun event_op :: "ota_event \<Rightarrow> (engine \<times> job_op) list" where
  "event_op (Watch _) = []"
| "event_op (Disconnect _ _) = []"
| "event_op (Check eng plan did) = [(eng, GetPending plan did)]"
| "event_op (Ack eng now req) =
     [(eng, FinishJob now (au_update_job_id req) (au_success req) (non_empty (au_error_message req)))]"
| "event_op (Dispatch eng jid now req) = [(eng, CreateJob jid now (dispatch_new_job req))]"
| "event_op (ListJobs eng plan did limit cursor) =
     [(eng, ListFor plan did (if limit \<le> 0 then 20 else limit) (non_empty cursor))]"

lemma ota_step_conn:
  "ot_conn (ota_step bc ev st) = fold (\<lambda>(eng, op). job_step eng op) (event_op ev) (ot_conn st)"
  by (cases ev) (auto simp: store_steps dispatch_update_conn watch_updates_def split: prod.split)

lemma fold_ota_conn:
  "ot_conn (fold (ota_step bc) evs st) =
     fold (\<lambda>(eng, op). job_step eng op) (concat (map event_op evs)) (ot_conn st)"
  by (induction evs arbitrary: st) (simp_all add: ota_step_conn)

lemma ota_run_conn:
  "ot_conn (ota_run bc evs) =
     fold (\<lambda>(eng, op). job_step eng op) (concat (map event_op evs)) (open_conn empty_jobs)"
  by (simp add: ota_run_def ota_init_def dispatcher_new_def fold_ota_conn)

section \<open>Every queued command belongs to a job of its device\<close>

text \<open>The stored job a command was built from.\<close>

definition job_of :: "ota_tables \<Rightarrow> string \<Rightarrow> update_command \<Rightarrow> bool" where
  "job_of t did cmd \<longleftrightarrow>
     (\<exists>r \<in> set (update_jobs t). jb_id r = uc_update_job_id cmd \<and> jb_device_id r = did \<and>
        jb_target_version r = uc_target_version cmd \<and> jb_artifact_url r = uc_artifact_url cmd \<and>
        jb_sha256 r = uc_sha256 cmd)"

definition job_cols :: "job_row \<Rightarrow> string \<times> string \<times> string \<times> string \<times> string" where
  "job_cols r = (jb_id r, jb_device_id r, jb_target_version r, jb_artifact_url r, jb_sha256 r)"

definition keeps_jobs :: "ota_tables \<Rightarrow> ota_tables \<Rightarrow> bool" where
  "keeps_jobs t t' \<longleftrightarrow> job_cols ` set (update_jobs t) \<subseteq> job_cols ` set (update_jobs t')"

lemma keeps_jobs_refl [simp]: "keeps_jobs t t"
  by (simp add: keeps_jobs_def)

lemma keeps_jobs_trans: "keeps_jobs t t' \<Longrightarrow> keeps_jobs t' t'' \<Longrightarrow> keeps_jobs t t''"
  by (auto simp: keeps_jobs_def)

lemma job_of_iff: "job_of t did cmd \<longleftrightarrow>
    (uc_update_job_id cmd, did, uc_target_version cmd, uc_artifact_url cmd, uc_sha256 cmd) \<in> job_cols ` set (update_jobs t)"
  by (force simp: job_of_def job_cols_def image_iff)

lemma job_of_keeps: "job_of t did cmd \<Longrightarrow> keeps_jobs t t' \<Longrightarrow> job_of t' did cmd"
  by (auto simp: job_of_iff keeps_jobs_def)

interpretation kept: job_relation keeps_jobs
proof
  show "keeps_jobs t (update_jobs_update (set_rows (\<lambda>r. jb_id r = jid) (finish_row now st err)) t)" for t st jid now err
    by (simp add: keeps_jobs_def image_key_set_rows job_cols_def finish_row_def)
qed (auto simp: keeps_jobs_def)

lemma create_job_Inr:
  assumes "create_job eng jid now job c = (Inr r, c')"
  shows "r = row_to_record (new_job_row jid now job)" and "no_active (nj_device_id job) (tabs c)"
    and "c' = c\<lparr>tabs := (tabs c)\<lparr>update_jobs := update_jobs (tabs c) @ [new_job_row jid now job]\<rparr>\<rparr>"
    and "jid \<notin> jb_id ` set (update_jobs (tabs c))"
proof -
  have ids: "jb_id (new_job_row jid now job) = jid" by (simp add: new_job_row_def)
  show "r = row_to_record (new_job_row jid now job)" and "no_active (nj_device_id job) (tabs c)"
    and "c' = c\<lparr>tabs := (tabs c)\<lparr>update_jobs := update_jobs (tabs c) @ [new_job_row jid now job]\<rparr>\<rparr>"
    and "jid \<notin> jb_id ` set (update_jobs (tabs c))"
    using assms row_with_snoc [of jid jb_id "update_jobs (tabs c)" "new_job_row jid now job"] ids
    by (auto simp: create_job_def with_lock_def inr_simps insert_job_def get_job_with_conn_def no_active_def
        split: if_splits)
qed

lemma create_job_Inr_job:
  assumes "create_job eng jid now (dispatch_new_job req) c = (Inr job, c')"
  shows "job_of (tabs c') (du_device_id req) (job_command job apply_by)"
  using create_job_Inr [OF assms]
  by (simp add: job_of_def job_command_def row_to_record_def new_job_row_def dispatch_new_job_def)

text \<open>
  What holds of the commands in the queues: a property \<open>ok\<close> that later jobs do not break and that the
  command of a new job has, as long as \<open>base\<close> holds of the stored jobs.
\<close>

definition ota_inv :: "(ota_tables \<Rightarrow> bool) \<Rightarrow> (ota_tables \<Rightarrow> string \<Rightarrow> update_command \<Rightarrow> bool)
    \<Rightarrow> ('ch \<Rightarrow> nat \<Rightarrow> update_command list option) \<Rightarrow> ('ch \<Rightarrow> nat) \<Rightarrow> 'ch ota_state \<Rightarrow> bool" where
  "ota_inv base ok queues cap st \<longleftrightarrow>
     idle (ot_conn st) \<and> base (tabs (ot_conn st)) \<and> capacities_ok cap (ot_senders st) \<and>
     (\<forall>did r xs cmd. backlog queues (ot_senders st) did r = Some xs \<longrightarrow> cmd \<in> set xs \<longrightarrow>
        ok (tabs (ot_conn st)) did cmd)"

locale command_property =
  fixes base :: "ota_tables \<Rightarrow> bool" and ok :: "ota_tables \<Rightarrow> string \<Rightarrow> update_command \<Rightarrow> bool"
  assumes base_keeps: "base t \<Longrightarrow> keeps_jobs t t' \<Longrightarrow> base t'"
    and ok_keeps: "ok t did cmd \<Longrightarrow> keeps_jobs t t' \<Longrightarrow> ok t' did cmd"
    and ok_new: "base (tabs c) \<Longrightarrow> create_job eng jid now (dispatch_new_job req) c = (Inr job, c') \<Longrightarrow>
      ok (tabs c') (du_device_id req) (job_command job apply_by)"
begin

lemma ota_inv_conn:
  assumes "ota_inv base ok queues cap st" and "moves keeps_jobs (ot_conn st) c"
  shows "ota_inv base ok queues cap (st\<lparr>ot_conn := c\<rparr>)"
  using assms ok_keeps base_keeps by (fastforce simp: ota_inv_def moves_def)

lemma ota_inv_senders:
  assumes "ota_inv base ok queues cap st" and "capacities_ok cap m"
    and "\<And>did r xs cmd. backlog queues m did r = Some xs \<Longrightarrow> cmd \<in> set xs \<Longrightarrow>
      (\<exists>ys. backlog queues (ot_senders st) did r = Some ys \<and> cmd \<in> set ys) \<or> ok (tabs (ot_conn st)) did cmd"
  shows "ota_inv base ok queues cap (st\<lparr>ot_senders := m\<rparr>)"
  using assms by (fastforce simp: ota_inv_def)

lemma ota_inv_dispatch:
  assumes "broadcast_laws bc queues cap" and "ota_inv base ok queues cap st" and "ok (tabs (ot_conn st)) did cmd"
    and "dispatch bc did cmd (ot_senders st) = (r, m)"
  shows "ota_inv base ok queues cap (st\<lparr>ot_senders := m\<rparr>)"
proof (cases r)
  case (Inl f)
  with assms(2,4) show ?thesis by (auto dest: dispatch_Inl)
next
  case (Inr n)
  with assms(4) have d: "dispatch bc did cmd (ot_senders st) = (Ok n, m)" by simp
  from backlog_dispatch(1) [OF assms(1) d] obtain ch where
    b: "\<And>d x. backlog queues m d x = (if d = did then map_option (send_queue (cap ch) cmd)
      (backlog queues (ot_senders st) d x) else backlog queues (ot_senders st) d x)" by blast
  show ?thesis
  proof (rule ota_inv_senders [OF assms(2)])
    show "capacities_ok cap m" using backlog_dispatch(2) [OF assms(1) d] assms(2) by (simp add: ota_inv_def)
  next
    fix did' r xs cmd'
    assume "backlog queues m did' r = Some xs" and "cmd' \<in> set xs"
    then show "(\<exists>ys. backlog queues (ot_senders st) did' r = Some ys \<and> cmd' \<in> set ys) \<or>
        ok (tabs (ot_conn st)) did' cmd'"
      using assms(3) set_send_queue [of "cap ch" cmd] by (auto simp: b split: if_splits)
  qed
qed

lemma ota_inv_step:
  assumes "broadcast_laws bc queues cap" and "ota_inv base ok queues cap st"
  shows "ota_inv base ok queues cap (ota_step bc ev st)"
proof -
  have idle: "idle (ot_conn st)" and base: "base (tabs (ot_conn st))" using assms(2) by (simp_all add: ota_inv_def)
  show ?thesis
  proof (cases ev)
    case (Watch did)
    obtain r m where s: "subscribe bc did (ot_senders st) = (r, m)" by fastforce
    have "ota_inv base ok queues cap (st\<lparr>ot_senders := m\<rparr>)"
      using backlog_subscribe [OF assms(1) s] assms(2)
      by (intro ota_inv_senders) (auto simp: ota_inv_def split: if_splits)
    with Watch s show ?thesis by (simp add: watch_updates_def)
  next
    case (Disconnect did r)
    then show ?thesis
      using backlog_unsubscribe [OF assms(1)] assms(2)
      by (auto simp: ota_inv_def intro!: ota_inv_senders split: if_splits)
  next
    case (Dispatch eng jid now req)
    obtain res c where c: "create_job eng jid now (dispatch_new_job req) (ot_conn st) = (res, c)" by fastforce
    have inv: "ota_inv base ok queues cap (st\<lparr>ot_conn := c\<rparr>)"
      using ota_inv_conn [OF assms(2)] kept.moves_any [OF idle, of eng "CreateJob jid now (dispatch_new_job req)"] c by simp
    show ?thesis
    proof (cases res)
      case (Inl f)
      with Dispatch c inv show ?thesis by (simp add: dispatch_update_def on_store_def)
    next
      case (Inr job)
      obtain r m where d: "dispatch bc (du_device_id req) (job_command job (du_apply_by req)) (ot_senders st) = (r, m)"
        by fastforce
      have "ota_inv base ok queues cap (st\<lparr>ot_conn := c, ot_senders := m\<rparr>)"
        using ota_inv_dispatch [OF assms(1) inv, of "du_device_id req" "job_command job (du_apply_by req)" r m]
          ok_new [of "ot_conn st" eng jid now req job c "du_apply_by req"] base c d Inr by simp
      with Dispatch c Inr d show ?thesis
        by (simp add: dispatch_update_def on_store_def snd_try_bind_keep)
    qed
  qed (use assms(2) kept.moves_finish [OF idle] finished_inactive kept.moves_any [OF idle, of _ "GetPending _ _"]
        kept.moves_any [OF idle, of _ "ListFor _ _ _ _"] in \<open>auto simp: store_steps intro!: ota_inv_conn\<close>)
qed

lemma ota_inv_fold:
  "broadcast_laws bc queues cap \<Longrightarrow> ota_inv base ok queues cap st \<Longrightarrow> ota_inv base ok queues cap (fold (ota_step bc) evs st)"
  by (induction evs arbitrary: st) (simp_all add: ota_inv_step)

lemma ota_inv_started: "base t \<Longrightarrow> ota_inv base ok queues cap \<lparr>ot_conn = open_conn t, ot_senders = Map.empty\<rparr>"
  by (simp add: ota_inv_def capacities_ok_def backlog_def)

end

interpretation queued: command_property "\<lambda>_. True" job_of
  by unfold_locales (auto intro: job_of_keeps create_job_Inr_job)

text \<open>No command of a job that is already stored is sent again.\<close>

lemma job_ids_cols: "jb_id ` set (update_jobs t) = fst ` job_cols ` set (update_jobs t)"
  by (simp add: image_image job_cols_def)

lemma keeps_jobs_id:
  assumes "jid \<in> jb_id ` set (update_jobs t)" and "keeps_jobs t t'"
  shows "jid \<in> jb_id ` set (update_jobs t')"
  using assms(1) image_mono [OF assms(2) [unfolded keeps_jobs_def], of fst] unfolding job_ids_cols by (rule rev_subsetD)

interpretation unsent: command_property "\<lambda>t. jid \<in> jb_id ` set (update_jobs t)" "\<lambda>_ _ cmd. uc_update_job_id cmd \<noteq> jid" for jid
proof unfold_locales
  show "uc_update_job_id (job_command job apply_by) \<noteq> jid"
    if "jid \<in> jb_id ` set (update_jobs (tabs c))" and cr: "create_job eng jid' now (dispatch_new_job req) c = (Inr job, c')"
    for c :: oconn and eng jid' now req job c' apply_by
    using that(1) create_job_Inr(1,4) [OF cr] by (auto simp: job_command_def row_to_record_def new_job_row_def)
qed (rule keeps_jobs_id)

lemma ota_inv_run: "broadcast_laws bc queues cap \<Longrightarrow> ota_inv (\<lambda>_. True) job_of queues cap (ota_run bc evs)"
  using queued.ota_inv_fold [OF _ queued.ota_inv_started [where t = empty_jobs]] by (simp add: ota_run_def ota_init_def dispatcher_new_def)

section \<open>Active jobs\<close>

definition has_active :: "string \<Rightarrow> string \<Rightarrow> ota_tables \<Rightarrow> bool" where
  "has_active jid did t \<longleftrightarrow> (\<exists>r \<in> set (update_jobs t). jb_id r = jid \<and> active_for did r)"

lemma has_active_not_no_active: "has_active jid did t \<Longrightarrow> \<not> no_active did t"
  by (auto simp: has_active_def no_active_iff)

lemma has_active_insert: "has_active jid did t \<Longrightarrow> has_active jid did (snd (insert_job row t))"
  by (auto simp: has_active_def insert_job_def)

lemma has_active_update:
  "has_active jid did t \<Longrightarrow> jid' \<noteq> jid \<Longrightarrow>
     has_active jid did (snd (update_where update_jobs_update update_jobs (\<lambda>r. jb_id r = jid') f t))"
  by (force simp: has_active_def update_where_def set_set_rows)

text \<open>The acknowledgement of a job, the only event that ends it.\<close>

fun acks :: "string \<Rightarrow> ota_event \<Rightarrow> bool" where
  "acks jid (Ack eng now req) = (au_update_job_id req = jid)"
| "acks jid _ = False"

fun finishes :: "string \<Rightarrow> job_op \<Rightarrow> bool" where
  "finishes jid (FinishJob now jid' success err) = (jid' = jid)"
| "finishes jid _ = False"

lemma has_active_op:
  assumes "conn_all (has_active jid did) c" and "\<not> finishes jid op"
  shows "conn_all (has_active jid did) (job_step eng op c)"
  using assms
  by (cases op)
    (auto simp: create_job_def update_job_status_def get_pending_for_device_def list_for_device_def
      get_job_with_conn_def conn_all_reads
      intro!: conn_all_with_lock conn_all_try_bind conn_all_sql has_active_insert has_active_update)

lemma has_active_step:
  assumes "conn_all (has_active jid did) (ot_conn st)" and "\<not> acks jid ev"
  shows "conn_all (has_active jid did) (ot_conn (ota_step bc ev st))"
  unfolding ota_step_conn using assms by (cases ev) (auto simp del: job_step.simps intro!: has_active_op)

lemma has_active_run:
  "conn_all (has_active jid did) (ot_conn st) \<Longrightarrow> \<forall>ev \<in> set evs. \<not> acks jid ev \<Longrightarrow>
     conn_all (has_active jid did) (ot_conn (fold (ota_step bc) evs st))"
  by (induction evs arbitrary: st) (simp_all add: has_active_step)

text \<open>The branches of \<open>dispatch_update\<close> on a healthy engine.\<close>

lemma dispatch_update_pending:
  "no_fault eng \<Longrightarrow> \<not> no_active (du_device_id req) (tabs (ot_conn st)) \<Longrightarrow>
     dispatch_update bc eng jid now req st =
       (Err (status_of AlreadyExists ''device already has an active job''), st)"
  by (simp add: dispatch_update_def on_store_def create_job_healthy dispatch_new_job_def)

abbreviation dispatched_row :: "string \<Rightarrow> string \<Rightarrow> dispatch_update_request \<Rightarrow> job_row" where
  "dispatched_row jid now req \<equiv> new_job_row jid now (dispatch_new_job req)"

definition add_job :: "job_row \<Rightarrow> 'ch ota_state \<Rightarrow> 'ch ota_state" where
  "add_job row st = st\<lparr>ot_conn := (ot_conn st)\<lparr>tabs := (tabs (ot_conn st))\<lparr>
     update_jobs := update_jobs (tabs (ot_conn st)) @ [row]\<rparr>\<rparr>\<rparr>"

lemma dispatch_update_fresh:
  assumes "no_fault eng" and "no_active (du_device_id req) (tabs (ot_conn st))"
    and "jid \<notin> jb_id ` set (update_jobs (tabs (ot_conn st)))"
    and "dispatch bc (du_device_id req)
      (job_command (row_to_record (dispatched_row jid now req)) (du_apply_by req)) (ot_senders st) = (r, m)"
  shows "dispatch_update bc eng jid now req st =
    (case r of
       Inr _ \<Rightarrow> (Ok (job_to_proto (row_to_record (dispatched_row jid now req))),
                 (add_job (dispatched_row jid now req) st)\<lparr>ot_senders := m\<rparr>)
     | Inl f \<Rightarrow> (Inl (map_failure (to_status (err_display eng)) f),
                (add_job (dispatched_row jid now req) st)\<lparr>ot_senders := m\<rparr>))"
proof -
  have "nj_device_id (dispatch_new_job req) = du_device_id req" by (simp add: dispatch_new_job_def)
  then show ?thesis
    using assms by (simp add: dispatch_update_def on_store_def create_job_healthy add_job_def split: sum.split)
qed

lemma ack_update_healthy:
  assumes "no_fault eng"
  shows "ack_update eng now req st =
    (case row_with jb_id (au_update_job_id req) (update_jobs (tabs (ot_conn st))) of
       None \<Rightarrow> (Err (status_of NotFoundCode (au_update_job_id req)), st)
     | Some _ \<Rightarrow> (Ok True, st\<lparr>ot_conn := (ot_conn st)\<lparr>tabs := update_jobs_update
         (set_rows (\<lambda>r. jb_id r = au_update_job_id req)
            (finish_row now (if au_success req then Completed else Failed) (non_empty (au_error_message req))))
         (tabs (ot_conn st))\<rparr>\<rparr>))"
  using assms by (simp add: ack_update_def on_store_def update_job_status_healthy split: option.split)

text \<open>The jobs of the service have neither an artifact nor a checksum.\<close>

definition no_artifact :: "ota_tables \<Rightarrow> bool" where
  "no_artifact t \<longleftrightarrow> (\<forall>r \<in> set (update_jobs t). jb_artifact_url r = [] \<and> jb_sha256 r = [])"

lemma no_artifact_insert: "no_artifact t \<Longrightarrow> no_artifact (snd (insert_job (dispatched_row jid now req) t))"
  by (auto simp: no_artifact_def insert_job_def new_job_row_def dispatch_new_job_def)

lemma no_artifact_update:
  "no_artifact t \<Longrightarrow> no_artifact (snd (update_where update_jobs_update update_jobs p
     (\<lambda>r. r\<lparr>jb_status := a, jb_error_message := b, jb_updated_at := d\<rparr>) t))"
  by (auto simp: no_artifact_def update_where_def set_set_rows)

lemma no_artifact_step:
  "conn_all no_artifact (ot_conn st) \<Longrightarrow> conn_all no_artifact (ot_conn (ota_step bc ev st))"
  unfolding ota_step_conn
  by (cases ev)
    (auto simp: create_job_def update_job_status_def get_pending_for_device_def list_for_device_def
      get_job_with_conn_def conn_all_reads
      simp del: as_str.simps
      intro!: conn_all_with_lock conn_all_try_bind conn_all_sql no_artifact_insert no_artifact_update)

lemma no_artifact_run: "conn_all no_artifact (ot_conn (ota_run bc evs))"
proof -
  have "conn_all no_artifact (ot_conn st) \<Longrightarrow> conn_all no_artifact (ot_conn (fold (ota_step bc) evs st))" for st
    by (induction evs arbitrary: st) (simp_all add: no_artifact_step)
  then show ?thesis by (simp add: ota_run_def ota_init_def dispatcher_new_def no_artifact_def empty_jobs_def)
qed

end
