(* ===== verification/Agent_Loops.thy ===== *)
theory Agent_Loops
  imports Agent_Identity Agent_Telemetry Ota_Server
begin

text \<open>
  The three long-running tasks of the robot agent: the reconnect loops with exponential
  backoff of \<^verbatim>\<open>heartbeat.rs\<close>, \<^verbatim>\<open>telemetry.rs\<close> and \<^verbatim>\<open>ota.rs\<close>, the streams they
  run, and the installation of an update. A loop is run on the outcomes of its attempts, a
  finite prefix of them; it may still be running at the end of the prefix.
\<close>

section \<open>Reconnecting\<close>

definition max_backoff :: nat where
  "max_backoff = 60"

text \<open>
  The loop shared by the three \<open>run\<close> functions: the sleeps in seconds, and the result once
  the loop returns.
\<close>

fun reconnect_loop :: "nat \<Rightarrow> ('e, unit) result list \<Rightarrow> nat list \<times> ('e, unit) result option" where
  "reconnect_loop backoff [] = ([], None)"
| "reconnect_loop backoff (Inr u # attempts) = ([], Some (Ok ()))"
| "reconnect_loop backoff (Inl Panic # attempts) = ([], Some Panicked)"
| "reconnect_loop backoff (Inl (Fail e) # attempts) =
     (case reconnect_loop (min (backoff * 2) max_backoff) attempts of (sleeps, r) \<Rightarrow> (backoff # sleeps, r))"

definition heartbeat_run :: "(agent_error, unit) result list \<Rightarrow> nat list \<times> (agent_error, unit) result option" where
  "heartbeat_run attempts = reconnect_loop 1 attempts"

definition agent_ota_run :: "(agent_error, unit) result list \<Rightarrow> nat list \<times> (agent_error, unit) result option" where
  "agent_ota_run attempts = reconnect_loop 1 attempts"

section \<open>The streams\<close>

text \<open>The responses of the heartbeat stream; the count is the number of reboots started.\<close>

fun heartbeat_responses :: "(status + heartbeat_response) list \<Rightarrow> (agent_error, unit) result \<times> nat" where
  "heartbeat_responses [] = (Ok (), 0)"
| "heartbeat_responses (Inl e # rs) = (Err (AgGrpc e), 0)"
| "heartbeat_responses (Inr resp # rs) =
     (case heartbeat_responses rs of (r, n) \<Rightarrow>
        (r, if hr_directive resp \<noteq> [] \<and> hr_directive resp = ''reboot'' then Suc n else n))"

text \<open>The acknowledgements of the telemetry stream; the count is the number of 500 ms pauses.\<close>

fun telemetry_responses :: "(status + telemetry_ack) list \<Rightarrow> (agent_error, unit) result \<times> nat" where
  "telemetry_responses [] = (Ok (), 0)"
| "telemetry_responses (Inl e # rs) = (Err (AgGrpc e), 0)"
| "telemetry_responses (Inr ack # rs) =
     (case telemetry_responses rs of (r, n) \<Rightarrow> (r, if ack_throttle ack then Suc n else n))"

section \<open>Applying an update\<close>

text \<open>
  What \<open>apply_update\<close> asks of its host: the temporary directory, the HTTP client, SHA-256 in
  hexadecimal, the files, \<open>tar\<close> and \<open>bash\<close>. The extracted tree is a function of the bytes
  of the archive, \<open>h_install_script\<close> says whether it has an \<open>install.sh\<close>; \<open>h_bash\<close> gives
  the exit code, none when the script was killed.
\<close>

type_synonym bytes = "u8 list"

record host =
  h_temp_dir :: "(string, unit) result"
  h_get :: "string \<Rightarrow> (string, unit) result"
  h_body :: "string \<Rightarrow> (string, bytes) result"
  h_sha256_hex :: "bytes \<Rightarrow> string"
  h_write_archive :: "bytes \<Rightarrow> (string, unit) result"
  h_create_staging :: "(string, unit) result"
  h_tar :: "bytes \<Rightarrow> (string, bool) result"
  h_install_script :: "bytes \<Rightarrow> bool"
  h_bash :: "bytes \<Rightarrow> (string, int option) result"

datatype host_action = Extracted bytes | RanInstall bytes

definition apply_update :: "host \<Rightarrow> string \<Rightarrow> string \<Rightarrow> host_action list \<Rightarrow> (agent_error, unit) result \<times> host_action list" where
  "apply_update h artifact_url expected_sha256 acts =
     try_bind (map_err AgIo (h_temp_dir h), acts) (\<lambda>_ acts.
     try_bind (map_err (\<lambda>e. AgInstall (''download failed: '' @ e)) (h_get h artifact_url), acts) (\<lambda>_ acts.
     try_bind (map_err (\<lambda>e. AgInstall (''read body failed: '' @ e)) (h_body h artifact_url), acts) (\<lambda>bytes acts.
     let actual_sha256 = h_sha256_hex h bytes in
     if expected_sha256 \<noteq> [] \<and> actual_sha256 \<noteq> expected_sha256
     then (Err (AgChecksum expected_sha256 actual_sha256), acts)
     else
       try_bind (map_err AgIo (h_write_archive h bytes), acts) (\<lambda>_ acts.
       try_bind (map_err AgIo (h_create_staging h), acts) (\<lambda>_ acts.
       try_bind (map_err AgIo (h_tar h bytes), acts @ [Extracted bytes]) (\<lambda>ok acts.
       if \<not> ok then (Err (AgInstall ''tar extraction failed''), acts)
       else if \<not> h_install_script h bytes then (Err (AgInstall ''install.sh not found in artifact''), acts)
       else
         try_bind (map_err AgIo (h_bash h bytes), acts @ [RanInstall bytes]) (\<lambda>code acts.
         if code \<noteq> Some 0
         then (Err (AgInstall (''install.sh exited with: '' @ show_int (case code of Some x \<Rightarrow> x | None \<Rightarrow> - 1))), acts)
         else (Ok (), acts))))))))"

section \<open>Watching for updates\<close>

record agent_ack =
  aa_update_job_id :: string
  aa_device_id :: string
  aa_success :: bool
  aa_error_message :: string
  aa_version :: string

text \<open>The host and the outcome of the acknowledgement RPC at the \<open>i\<close>-th command.\<close>

record ota_agent_env =
  oe_host :: "nat \<Rightarrow> host"
  oe_ack :: "nat \<Rightarrow> (status, unit) result"
  oe_show_status :: "status \<Rightarrow> string"

definition ack_of :: "ota_agent_env \<Rightarrow> string \<Rightarrow> update_command \<Rightarrow> (agent_error, unit) result \<Rightarrow> agent_ack" where
  "ack_of env device_id cmd result =
     (case result of
        Inr _ \<Rightarrow> \<lparr>aa_update_job_id = uc_update_job_id cmd, aa_device_id = device_id, aa_success = True,
                  aa_error_message = [], aa_version = uc_target_version cmd\<rparr>
      | Inl f \<Rightarrow> \<lparr>aa_update_job_id = uc_update_job_id cmd, aa_device_id = device_id, aa_success = False,
                  aa_error_message = (case f of Fail e \<Rightarrow> agent_to_string (oe_show_status env) e | Panic \<Rightarrow> []),
                  aa_version = []\<rparr>)"

text \<open>\<open>run_stream\<close> on the commands of an open stream: the acknowledgements sent, the host actions, the result.\<close>

fun ota_stream :: "ota_agent_env \<Rightarrow> nat \<Rightarrow> string \<Rightarrow> (status + update_command) list \<Rightarrow> host_action list
    \<Rightarrow> agent_ack list \<times> host_action list \<times> (agent_error, unit) result" where
  "ota_stream env i device_id [] acts = ([], acts, Ok ())"
| "ota_stream env i device_id (Inl e # msgs) acts = ([], acts, Err (AgGrpc e))"
| "ota_stream env i device_id (Inr cmd # msgs) acts =
     (case apply_update (oe_host env i) (uc_artifact_url cmd) (uc_sha256 cmd) acts of
        (Inl Panic, acts1) \<Rightarrow> ([], acts1, Panicked)
      | (result, acts1) \<Rightarrow>
          (let ack = ack_of env device_id cmd result in
           case oe_ack env i of
             Inl f \<Rightarrow> ([ack], acts1, Inl (map_failure AgGrpc f))
           | Inr _ \<Rightarrow> (case ota_stream env (Suc i) device_id msgs acts1 of
               (sent, acts2, r) \<Rightarrow> (ack # sent, acts2, r))))"

section \<open>Lemmas\<close>

lemma reconnect_loop_fails:
  "reconnect_loop b (map (\<lambda>e. Err e) es @ attempts) =
     (case reconnect_loop (if es = [] then b else min (b * 2 ^ length es) max_backoff) attempts of
        (sleeps, r) \<Rightarrow> (map (\<lambda>i. if i = 0 then b else min (b * 2 ^ i) max_backoff) [0..<length es] @ sleeps, r))"
proof (induction es arbitrary: b)
  case Nil
  then show ?case by (simp split: prod.split)
next
  case (Cons e es)
  have m: "min (min (b * 2) max_backoff * 2 ^ i) max_backoff = min (b * 2 ^ Suc i) max_backoff" for i
  proof (cases "b * 2 \<le> max_backoff")
    case False
    then have "max_backoff * 1 \<le> (b * 2) * 2 ^ i" by (intro mult_le_mono) auto
    then have "min (b * 2 ^ Suc i) max_backoff = max_backoff" by (simp add: min_def mult.assoc)
    moreover have "min (max_backoff * 2 ^ i) max_backoff = max_backoff" by (rule min.absorb2) simp
    ultimately show ?thesis using False by simp
  qed (simp add: mult.assoc)
  have n: "(if i = 0 then min (b * 2) max_backoff else min (min (b * 2) max_backoff * 2 ^ i) max_backoff) =
      min (b * 2 ^ Suc i) max_backoff" for i
    using m [of i] by simp
  have r: "(if es = [] then min (b * 2) max_backoff else min (min (b * 2) max_backoff * 2 ^ length es) max_backoff) =
      min (b * 2 ^ length (e # es)) max_backoff"
    using n [of "length es"] by (simp split: if_splits)
  have l: "map (\<lambda>i. if i = 0 then b else min (b * 2 ^ i) max_backoff) [0..<length (e # es)] =
      b # map (\<lambda>i. min (b * 2 ^ Suc i) max_backoff) [0..<length es]"
    by (simp add: upt_conv_Cons map_Suc_upt [symmetric] del: upt_Suc)
  show ?case
    unfolding list.map append_Cons reconnect_loop.simps Cons.IH r l n
    by (simp split: prod.split)
qed

text \<open>Nothing runs unless the checksum agreed or none was asked for.\<close>

lemma apply_update_actions:
  assumes "apply_update h url sha acts = (r, acts')"
  shows "acts' = acts \<or> (\<exists>b. h_body h url = Inr b \<and> (sha = [] \<or> h_sha256_hex h b = sha) \<and>
    (acts' = acts @ [Extracted b] \<or> acts' = acts @ [Extracted b, RanInstall b]))"
  using assms
  by (auto simp: apply_update_def Let_def split_def snd_try_bind_cases dest!: arg_cong [where f = snd]
      split: sum.splits if_splits)

lemma apply_update_Ok:
  assumes "apply_update h url sha acts = (Ok (), acts')"
  shows "\<exists>b. h_body h url = Inr b \<and> (sha = [] \<or> h_sha256_hex h b = sha) \<and> h_tar h b = Inr True \<and>
    h_install_script h b \<and> h_bash h b = Inr (Some 0) \<and> acts' = acts @ [Extracted b, RanInstall b]"
  using assms by (auto simp: apply_update_def Let_def try_bind_eq_Inr split: if_splits)

lemma apply_update_checksum:
  "apply_update h url sha acts = (Err (AgChecksum e a), acts') \<Longrightarrow> sha \<noteq> [] \<and> e = sha \<and> a \<noteq> sha \<and> acts' = acts"
  by (auto simp: apply_update_def Let_def try_bind_eq_Inl map_err_eq_Fail split: if_splits)

end
