(* ===== verification/F64.thy ===== *)
theory F64
  imports Fleet_Prelude Complex_Main "HOL-Library.Log_Nat"
begin

text \<open>
  IEEE-754 binary64, the \<open>f64\<close> of Rust, as far as the agent computes with it: a finite value is a
  rational, an operation is the exact one followed by rounding to nearest, ties to even. The type
  \<open>f64\<close> adds the infinities and NaN, with the operations \<open>fp_sub\<close>, \<open>fp_mul\<close> and \<open>fp_div\<close> on all of them: a
  division by zero gives an infinity or NaN, an overflow an infinity. The two zeros are not told
  apart. Where operands and results are finite by construction (the sine wave, whose divisors are
  constants) the operations on rationals are used. A value on the wire is its 64-bit pattern
  \<open>f64_bits\<close>, which \<open>f64_value\<close> reads back when it is finite and \<open>fp_value\<close> always.
\<close>

section \<open>Rounding\<close>

text \<open>The exponent of the binade of a positive number: \<open>2 powi e \<le> x < 2 powi (e + 1)\<close>.\<close>

definition binade :: "rat \<Rightarrow> int" where
  "binade x = (case quotient_of x of (p, q) \<Rightarrow>
     (let e = bitlen p - bitlen q in if 2 powi e \<le> x then e else e - 1))"

definition round_even :: "rat \<Rightarrow> int" where
  "round_even x =
     (let f = \<lfloor>x\<rfloor>; d = x - of_int f
      in if d < 1 / 2 then f else if d > 1 / 2 then f + 1 else if even f then f else f + 1)"

text \<open>The exponent of the last place: 52 below the binade, not below that of the subnormal numbers.\<close>

definition ulp_exp :: "rat \<Rightarrow> int" where
  "ulp_exp x = max (binade x - 52) (- 1074)"

definition round_pos :: "rat \<Rightarrow> rat" where
  "round_pos x = of_int (round_even (x * 2 powi (- ulp_exp x))) * 2 powi (ulp_exp x)"

definition f64_round :: "rat \<Rightarrow> rat" where
  "f64_round x = (if x = 0 then 0 else if x > 0 then round_pos x else - round_pos (- x))"

section \<open>Operations\<close>

definition f64_of_u64 :: "u64 \<Rightarrow> rat" where
  "f64_of_u64 w = f64_round (of_nat (unat w))"

definition f64_add :: "rat \<Rightarrow> rat \<Rightarrow> rat" where
  "f64_add x y = f64_round (x + y)"

definition f64_sub :: "rat \<Rightarrow> rat \<Rightarrow> rat" where
  "f64_sub x y = f64_round (x - y)"

definition f64_mul :: "rat \<Rightarrow> rat \<Rightarrow> rat" where
  "f64_mul x y = f64_round (x * y)"

text \<open>The quotient by a constant other than zero.\<close>

definition f64_quot :: "rat \<Rightarrow> rat \<Rightarrow> rat" where
  "f64_quot x y = f64_round (x / y)"

section \<open>Bit patterns\<close>

definition f64_pos_bits :: "rat \<Rightarrow> int" where
  "f64_pos_bits x = (ulp_exp x + 1074) * 2 ^ 52 + round_even (x * 2 powi (- ulp_exp x))"

definition f64_bits :: "rat \<Rightarrow> u64" where
  "f64_bits x =
     (if x = 0 then 0 else if x > 0 then word_of_int (f64_pos_bits x)
      else word_of_int (2 ^ 63 + f64_pos_bits (- x)))"

text \<open>The exponent and fraction fields of a finite value, below the sign bit.\<close>

definition f64_magnitude :: "int \<Rightarrow> rat" where
  "f64_magnitude n =
     (let ex = n div 2 ^ 52; m = n mod 2 ^ 52
      in if ex = 0 then of_int m * 2 powi (- 1074) else of_int (2 ^ 52 + m) * 2 powi (ex - 1075))"

definition f64_value :: "u64 \<Rightarrow> rat" where
  "f64_value w =
     (let n = uint w in if n < 2 ^ 63 then f64_magnitude n else - f64_magnitude (n - 2 ^ 63))"

section \<open>Infinities and NaN\<close>

text \<open>\<open>Infinity True\<close> is the negative one.\<close>

datatype f64 = Fin rat | Infinity bool | NaN

definition fp_round :: "rat \<Rightarrow> f64" where
  "fp_round x =
     (let y = f64_round x
      in if 2 ^ 1024 \<le> y then Infinity False else if y \<le> - (2 ^ 1024) then Infinity True else Fin y)"

fun fp_sub :: "f64 \<Rightarrow> f64 \<Rightarrow> f64" where
  "fp_sub (Fin x) (Fin y) = fp_round (x - y)"
| "fp_sub (Fin x) (Infinity t) = Infinity (\<not> t)"
| "fp_sub (Infinity s) (Fin y) = Infinity s"
| "fp_sub (Infinity s) (Infinity t) = (if s = t then NaN else Infinity s)"
| "fp_sub NaN _ = NaN"
| "fp_sub _ NaN = NaN"

fun fp_mul :: "f64 \<Rightarrow> f64 \<Rightarrow> f64" where
  "fp_mul (Fin x) (Fin y) = fp_round (x * y)"
| "fp_mul (Fin x) (Infinity t) = (if x = 0 then NaN else Infinity ((x < 0) \<noteq> t))"
| "fp_mul (Infinity s) (Fin y) = (if y = 0 then NaN else Infinity (s \<noteq> (y < 0)))"
| "fp_mul (Infinity s) (Infinity t) = Infinity (s \<noteq> t)"
| "fp_mul NaN _ = NaN"
| "fp_mul _ NaN = NaN"

fun fp_div :: "f64 \<Rightarrow> f64 \<Rightarrow> f64" where
  "fp_div (Fin x) (Fin y) =
     (if y = 0 then if x = 0 then NaN else Infinity (x < 0) else fp_round (x / y))"
| "fp_div (Fin x) (Infinity t) = Fin 0"
| "fp_div (Infinity s) (Fin y) = Infinity (s \<noteq> (y < 0))"
| "fp_div (Infinity s) (Infinity t) = NaN"
| "fp_div NaN _ = NaN"
| "fp_div _ NaN = NaN"

text \<open>Comparison with a literal: false for NaN.\<close>

fun fp_le :: "f64 \<Rightarrow> f64 \<Rightarrow> bool" where
  "fp_le (Fin x) (Fin y) \<longleftrightarrow> x \<le> y"
| "fp_le (Fin x) (Infinity t) \<longleftrightarrow> \<not> t"
| "fp_le (Infinity s) (Fin y) \<longleftrightarrow> s"
| "fp_le (Infinity s) (Infinity t) \<longleftrightarrow> s \<or> \<not> t"
| "fp_le NaN _ \<longleftrightarrow> False"
| "fp_le _ NaN \<longleftrightarrow> False"

definition fp_of_u64 :: "u64 \<Rightarrow> f64" where
  "fp_of_u64 w = Fin (f64_of_u64 w)"

text \<open>The pattern of NaN is one of many; which one an operation gives is up to the machine.\<close>

definition fp_bits :: "f64 \<Rightarrow> u64" where
  "fp_bits v = (case v of Fin x \<Rightarrow> f64_bits x
     | Infinity s \<Rightarrow> if s then 0xFFF0000000000000 else 0x7FF0000000000000
     | NaN \<Rightarrow> 0x7FF8000000000000)"

definition fp_value :: "u64 \<Rightarrow> f64" where
  "fp_value w =
     (let n = uint w mod 2 ^ 63
      in if n div 2 ^ 52 < 2047 then Fin (f64_value w)
         else if n mod 2 ^ 52 = 0 then Infinity (2 ^ 63 \<le> uint w) else NaN)"

section \<open>Lemmas\<close>

lemma powi2_pos [simp]: "0 < (2 :: rat) powi e"
  by (rule zero_less_power_int) simp

lemma powi2_add: "(2 :: rat) powi (a + b) = 2 powi a * 2 powi b"
  by (rule power_int_add) simp

lemma powi2_cancel [simp]: "(2 :: rat) powi (- e) * 2 powi e = 1" "(2 :: rat) powi e * 2 powi (- e) = 1"
  by (simp_all add: power_int_minus)

lemma powi2_mono: "a \<le> b \<Longrightarrow> (2 :: rat) powi a \<le> 2 powi b"
  by (rule power_int_increasing) simp_all

lemma powi2_nat: "(2 :: rat) powi (int n) = of_int (2 ^ n)"
  by simp

lemma bitlen_powi:
  assumes "0 < p"
  shows "(2 :: rat) powi (bitlen p - 1) \<le> of_int p" and "of_int p < (2 :: rat) powi (bitlen p)"
proof -
  have b: "2 ^ nat (bitlen p - 1) \<le> p \<and> p < 2 ^ nat (bitlen p)" by (rule bitlen_bounds [OF assms])
  have g: "0 \<le> bitlen p - 1"
    using assms bitlen_nonneg [of p] bitlen_eq_zero_iff [of p] by linarith
  have "(2 :: rat) powi (bitlen p - 1) = of_int (2 ^ nat (bitlen p - 1))"
    and "(2 :: rat) powi (bitlen p) = of_int (2 ^ nat (bitlen p))"
    using g by (simp_all add: power_int_nonneg_exp)
  with b show "(2 :: rat) powi (bitlen p - 1) \<le> of_int p" and "of_int p < (2 :: rat) powi (bitlen p)"
    by (simp_all only: of_int_le_iff of_int_less_iff)
qed

lemma binade_bounds:
  assumes "0 < x"
  shows "2 powi (binade x) \<le> x" and "x < 2 powi (binade x + 1)"
proof -
  obtain p q where pq: "quotient_of x = (p, q)" by fastforce
  have q: "0 < q" using pq quotient_of_denom_pos by blast
  have x: "x = of_int p / of_int q" by (rule quotient_of_div [OF pq])
  have "0 < (of_int p :: rat) / of_int q" using assms x by simp
  then have p: "0 < p" using q by (simp add: zero_less_divide_iff)
  let ?e = "bitlen p - bitlen q"
  have up: "x < 2 powi (?e + 1)"
  proof -
    have "of_int p < (2 :: rat) powi (bitlen p)" by (rule bitlen_powi(2) [OF p])
    also have "\<dots> = 2 powi (?e + 1) * 2 powi (bitlen q - 1)" by (simp add: powi2_add [symmetric])
    also have "\<dots> \<le> 2 powi (?e + 1) * of_int q"
      using bitlen_powi(1) [OF q] by (intro mult_left_mono) (simp_all add: less_imp_le)
    finally show ?thesis using q by (simp add: x pos_divide_less_eq)
  qed
  have lo: "2 powi (?e - 1) \<le> x"
  proof -
    have "2 powi (?e - 1) * of_int q \<le> 2 powi (?e - 1) * (2 :: rat) powi (bitlen q)"
      using bitlen_powi(2) [OF q] by (intro mult_left_mono) (simp_all add: less_imp_le)
    also have "\<dots> = 2 powi (bitlen p - 1)" by (simp add: powi2_add [symmetric])
    also have "\<dots> \<le> of_int p" by (rule bitlen_powi(1) [OF p])
    finally show ?thesis using q by (simp add: x pos_le_divide_eq)
  qed
  show "2 powi (binade x) \<le> x" "x < 2 powi (binade x + 1)"
    using up lo by (auto simp: binade_def pq Let_def)
qed

lemma binade_mono:
  assumes "0 < x" and "x \<le> y"
  shows "binade x \<le> binade y"
proof (rule ccontr)
  assume "\<not> binade x \<le> binade y"
  then have "(2 :: rat) powi (binade y + 1) \<le> 2 powi (binade x)" by (intro powi2_mono) simp
  with binade_bounds(2) [of y] binade_bounds(1) [of x] assms show False by linarith
qed

lemma round_even_of_int [simp]: "round_even (of_int n) = n"
  by (simp add: round_even_def)

lemma round_even_mono:
  assumes "x \<le> y"
  shows "round_even x \<le> round_even y"
proof (cases "\<lfloor>x\<rfloor> = \<lfloor>y\<rfloor>")
  case True
  then show ?thesis using assms by (auto simp: round_even_def Let_def)
next
  case False
  then have "\<lfloor>x\<rfloor> + 1 \<le> \<lfloor>y\<rfloor>" using floor_mono [OF assms] by simp
  then show ?thesis by (auto simp: round_even_def Let_def)
qed

lemma ulp_exp_mono: "0 < x \<Longrightarrow> x \<le> y \<Longrightarrow> ulp_exp x \<le> ulp_exp y"
  using binade_mono [of x y] by (simp add: ulp_exp_def)

lemma scaled_bound:
  assumes "0 < x"
  shows "x * 2 powi (- ulp_exp x) < 2 ^ 53"
proof -
  have "x < 2 powi (binade x + 1)" by (rule binade_bounds(2) [OF assms])
  also have "\<dots> \<le> 2 powi (ulp_exp x + 53)" by (intro powi2_mono) (simp add: ulp_exp_def)
  finally have "x * 2 powi (- ulp_exp x) < 2 powi (ulp_exp x + 53) * 2 powi (- ulp_exp x)" by simp
  also have "\<dots> = 2 ^ 53" by (simp add: powi2_add [symmetric])
  finally show ?thesis .
qed

lemma scaled_lower:
  assumes "0 < x" and "- 1074 < ulp_exp x"
  shows "2 ^ 52 \<le> x * 2 powi (- ulp_exp x)"
proof -
  have "ulp_exp x = binade x - 52" using assms(2) by (simp add: ulp_exp_def max_def split: if_splits)
  then have "2 powi (ulp_exp x + 52) \<le> x" using binade_bounds(1) [OF assms(1)] by simp
  then have "2 powi (ulp_exp x + 52) * 2 powi (- ulp_exp x) \<le> x * 2 powi (- ulp_exp x)"
    by (intro mult_right_mono) (simp_all add: less_imp_le)
  moreover have "2 powi (ulp_exp x + 52) * 2 powi (- ulp_exp x) = (2 :: rat) ^ 52" by (simp add: powi2_add [symmetric])
  ultimately show ?thesis by (simp only:)
qed

lemma round_even_ge: "of_int n \<le> x \<Longrightarrow> n \<le> round_even x"
  and round_even_le: "x \<le> of_int n \<Longrightarrow> round_even x \<le> n"
  using round_even_mono [of "of_int n" x] round_even_mono [of x "of_int n"] by simp_all

text \<open>Rounding is monotone, also from one binade to the next.\<close>

lemma round_pos_mono:
  assumes "0 < x" and "x \<le> y"
  shows "round_pos x \<le> round_pos y"
proof (cases "ulp_exp x = ulp_exp y")
  case True
  have "round_even (x * 2 powi (- ulp_exp y)) \<le> round_even (y * 2 powi (- ulp_exp y))"
    using assms by (intro round_even_mono mult_right_mono) (simp_all add: less_imp_le)
  then show ?thesis using True by (simp add: round_pos_def mult_right_mono less_imp_le)
next
  case False
  then have e: "ulp_exp x + 1 \<le> ulp_exp y" using ulp_exp_mono [OF assms] by simp
  have g: "- 1074 < ulp_exp y" using e by (simp add: ulp_exp_def)
  have "round_even (x * 2 powi (- ulp_exp x)) \<le> 2 ^ 53"
    using scaled_bound [OF assms(1)] by (intro round_even_le) simp
  then have "(of_int (round_even (x * 2 powi (- ulp_exp x))) :: rat) \<le> of_int (2 ^ 53)" by (simp only: of_int_le_iff)
  then have "round_pos x \<le> 2 ^ 53 * 2 powi (ulp_exp x)"
    unfolding round_pos_def by (intro mult_right_mono) (simp_all add: less_imp_le)
  also have "\<dots> = 2 ^ 52 * 2 powi (ulp_exp x + 1)" by (simp add: powi2_add)
  also have "\<dots> \<le> 2 ^ 52 * 2 powi (ulp_exp y)" using powi2_mono [OF e] by simp
  also have "\<dots> \<le> round_pos y"
  proof -
    have "2 ^ 52 \<le> round_even (y * 2 powi (- ulp_exp y))"
      using scaled_lower [OF _ g] assms by (intro round_even_ge) simp
    then have "(of_int (2 ^ 52) :: rat) \<le> of_int (round_even (y * 2 powi (- ulp_exp y)))" by (simp only: of_int_le_iff)
    then show ?thesis unfolding round_pos_def by (intro mult_right_mono) (simp_all add: less_imp_le)
  qed
  finally show ?thesis .
qed

lemma round_pos_nonneg: "0 < x \<Longrightarrow> 0 \<le> round_pos x"
  unfolding round_pos_def
  by (intro mult_nonneg_nonneg) (simp_all add: less_imp_le round_even_ge)

lemma f64_round_mono: "x \<le> y \<Longrightarrow> f64_round x \<le> f64_round y"
  using round_pos_mono [of x y] round_pos_mono [of "- y" "- x"] round_pos_nonneg [of y] round_pos_nonneg [of "- x"]
  by (auto simp: f64_round_def)

subsection \<open>The bit pattern is read back as the rounded value\<close>

lemma mantissa_range:
  assumes "0 < x"
  shows "0 \<le> round_even (x * 2 powi (- ulp_exp x))" and "round_even (x * 2 powi (- ulp_exp x)) \<le> 2 ^ 53"
    and "round_even (x * 2 powi (- ulp_exp x)) < 2 ^ 52 \<Longrightarrow> ulp_exp x = - 1074"
proof -
  show "0 \<le> round_even (x * 2 powi (- ulp_exp x))"
    using assms by (intro round_even_ge) (simp add: less_imp_le)
  show "round_even (x * 2 powi (- ulp_exp x)) \<le> 2 ^ 53"
    using scaled_bound [OF assms] by (intro round_even_le) simp
  show "ulp_exp x = - 1074" if "round_even (x * 2 powi (- ulp_exp x)) < 2 ^ 52"
  proof (rule ccontr)
    assume "ulp_exp x \<noteq> - 1074"
    then have "- 1074 < ulp_exp x" by (simp add: ulp_exp_def)
    then have "2 ^ 52 \<le> round_even (x * 2 powi (- ulp_exp x))"
      using scaled_lower [OF assms] by (intro round_even_ge) simp
    with that show False by simp
  qed
qed

lemma block_div: "0 \<le> r \<Longrightarrow> r < k \<Longrightarrow> (a * k + r) div k = (a :: int)"
  and block_mod: "0 \<le> r \<Longrightarrow> r < k \<Longrightarrow> (a * k + r) mod k = (r :: int)"
  by simp_all

lemma f64_magnitude_bits:
  assumes "0 < x"
  shows "f64_magnitude (f64_pos_bits x) = round_pos x"
proof -
  let ?m = "round_even (x * 2 powi (- ulp_exp x))" and ?E = "ulp_exp x"
  have E: "- 1074 \<le> ?E" by (simp add: ulp_exp_def)
  consider "?m < 2 ^ 52" | "2 ^ 52 \<le> ?m" "?m < 2 ^ 53" | "?m = 2 ^ 53" using mantissa_range(2) [OF assms] by linarith
  then show ?thesis
  proof cases
    case 1
    then have "?E = - 1074" by (rule mantissa_range(3) [OF assms])
    with 1 mantissa_range(1) [OF assms] show ?thesis
      by (simp add: f64_magnitude_def f64_pos_bits_def round_pos_def)
  next
    case 2
    have n: "f64_pos_bits x = (?E + 1075) * 2 ^ 52 + (?m - 2 ^ 52)" by (simp add: f64_pos_bits_def algebra_simps)
    have r: "0 \<le> ?m - 2 ^ 52" "?m - 2 ^ 52 < 2 ^ 52" using 2 by simp_all
    have d: "f64_pos_bits x div 2 ^ 52 = ?E + 1075" "f64_pos_bits x mod 2 ^ 52 = ?m - 2 ^ 52"
      unfolding n by (rule block_div [OF r], rule block_mod [OF r])
    show ?thesis unfolding f64_magnitude_def d Let_def using E by (simp add: round_pos_def)
  next
    case 3
    have n: "f64_pos_bits x = (?E + 1076) * 2 ^ 52" using 3 by (simp add: f64_pos_bits_def algebra_simps)
    have d: "f64_pos_bits x div 2 ^ 52 = ?E + 1076" "f64_pos_bits x mod 2 ^ 52 = 0" unfolding n by simp_all
    have "(2 :: rat) powi (1 + ?E) = 2 * 2 powi ?E" by (simp add: powi2_add)
    then show ?thesis unfolding f64_magnitude_def d Let_def using E 3 by (simp add: round_pos_def)
  qed
qed

lemma f64_pos_bits_range:
  assumes "0 < x" and "x < 2 ^ 1000"
  shows "0 \<le> f64_pos_bits x" and "f64_pos_bits x < 2047 * 2 ^ 52" and "f64_pos_bits x < 2 ^ 63"
proof -
  have "2 powi (binade x) < (2 :: rat) powi 1000" using binade_bounds(1) [OF assms(1)] assms(2) by simp
  then have "binade x < 1000" using powi2_mono [of 1000 "binade x"] by linarith
  then have E: "- 1074 \<le> ulp_exp x" "ulp_exp x \<le> 947" by (simp_all add: ulp_exp_def)
  show "0 \<le> f64_pos_bits x" using E(1) mantissa_range(1) [OF assms(1)] by (simp add: f64_pos_bits_def)
  have "(ulp_exp x + 1074) * 2 ^ 52 \<le> 2021 * 2 ^ 52" using E by (intro mult_right_mono) simp_all
  then show "f64_pos_bits x < 2047 * 2 ^ 52" using mantissa_range(2) [OF assms(1)] by (simp add: f64_pos_bits_def)
  then show "f64_pos_bits x < 2 ^ 63" by simp
qed

lemma f64_value_bits:
  assumes "\<bar>x\<bar> < 2 ^ 1000"
  shows "f64_value (f64_bits x) = f64_round x"
proof -
  consider "x = 0" | "0 < x" | "0 < - x" by linarith
  then show ?thesis
  proof cases
    case 1
    then show ?thesis by (simp add: f64_value_def f64_bits_def f64_magnitude_def f64_round_def)
  next
    case 2
    then have "uint (f64_bits x) = f64_pos_bits x"
      using f64_pos_bits_range [of x] assms by (simp add: f64_bits_def uint_word_of_int)
    then show ?thesis
      using 2 f64_pos_bits_range [of x] f64_magnitude_bits [OF 2] assms by (simp add: f64_value_def f64_round_def)
  next
    case 3
    have "f64_bits x = word_of_int (2 ^ 63 + f64_pos_bits (- x))" using 3 by (simp add: f64_bits_def)
    moreover have "0 \<le> 2 ^ 63 + f64_pos_bits (- x)" "2 ^ 63 + f64_pos_bits (- x) < 2 ^ 64"
      using f64_pos_bits_range [of "- x"] 3 assms by simp_all
    ultimately have "uint (f64_bits x) = 2 ^ 63 + f64_pos_bits (- x)"
      by (simp only: uint_word_of_int mod_pos_pos_trivial len_num1 len_bit0 len_num0) simp
    then show ?thesis
      using 3 f64_pos_bits_range [of "- x"] f64_magnitude_bits [OF 3] assms by (simp add: f64_value_def f64_round_def)
  qed
qed

text \<open>Rounding a value that is a double already changes nothing.\<close>

lemma binade_unique: "2 powi e \<le> x \<Longrightarrow> x < 2 powi (e + 1) \<Longrightarrow> binade x = e"
proof -
  assume a: "2 powi e \<le> x" "x < 2 powi (e + 1)"
  have x: "0 < x" using a(1) powi2_pos [of e] by linarith
  have "\<not> binade x < e" using powi2_mono [of "binade x + 1" e] binade_bounds(2) [OF x] a(1) by linarith
  moreover have "\<not> e < binade x" using powi2_mono [of "e + 1" "binade x"] binade_bounds(1) [OF x] a(2) by linarith
  ultimately show ?thesis by simp
qed

lemma round_pos_scaled:
  assumes "2 ^ 52 \<le> m" and "m < 2 ^ 53" and "- 1074 \<le> e"
  shows "round_pos (of_int m * 2 powi e) = of_int m * 2 powi e"
proof -
  have "(of_int (2 ^ 52) :: rat) \<le> of_int m" "(of_int m :: rat) < of_int (2 ^ 53)"
    using assms(1,2) by (simp_all only: of_int_le_iff of_int_less_iff)
  then have "(2 ^ 52 :: rat) * 2 powi e \<le> of_int m * 2 powi e" "of_int m * 2 powi e < (2 ^ 53 :: rat) * 2 powi e"
    by simp_all
  then have "binade (of_int m * 2 powi e) = e + 52"
    by (intro binade_unique) (simp_all add: powi2_add mult.commute)
  then have "ulp_exp (of_int m * 2 powi e) = e" using assms(3) by (simp add: ulp_exp_def)
  then show ?thesis by (simp add: round_pos_def mult.assoc)
qed

lemma round_pos_subnormal:
  assumes "0 < m" and "m < 2 ^ 52"
  shows "round_pos (of_int m * 2 powi (- 1074)) = of_int m * 2 powi (- 1074)"
proof -
  let ?v = "(of_int m :: rat) * 2 powi (- 1074)"
  have v: "0 < ?v" using assms(1) by simp
  have "(of_int m :: rat) < of_int (2 ^ 52)" using assms(2) by (simp only: of_int_less_iff)
  then have "?v < 2 ^ 52 * 2 powi (- 1074)" by (intro mult_strict_right_mono) simp_all
  also have "\<dots> = 2 powi (- 1022)" using powi2_add [of 52 "- 1074"] by simp
  finally have "?v < 2 powi (- 1022)" .
  then have "binade ?v < - 1022" using powi2_mono [of "- 1022" "binade ?v"] binade_bounds(1) [OF v] by linarith
  then have "ulp_exp ?v = - 1074" by (simp add: ulp_exp_def)
  then show ?thesis by (simp add: round_pos_def mult.assoc)
qed

lemma round_pos_idem:
  assumes "0 < x" and "round_pos x \<noteq> 0"
  shows "round_pos (round_pos x) = round_pos x"
proof -
  let ?m = "round_even (x * 2 powi (- ulp_exp x))" and ?E = "ulp_exp x"
  have E: "- 1074 \<le> ?E" by (simp add: ulp_exp_def)
  have m: "0 < ?m" using mantissa_range(1) [OF assms(1)] assms(2) by (auto simp: round_pos_def le_less)
  have r: "round_pos x = of_int ?m * 2 powi ?E" by (simp add: round_pos_def)
  consider "?m < 2 ^ 52" | "2 ^ 52 \<le> ?m" "?m < 2 ^ 53" | "?m = 2 ^ 53" using mantissa_range(2) [OF assms(1)] by linarith
  then show ?thesis
  proof cases
    case 1
    then show ?thesis unfolding r using round_pos_subnormal [OF m 1] mantissa_range(3) [OF assms(1) 1] by simp
  next
    case 2
    then show ?thesis unfolding r by (rule round_pos_scaled [OF _ _ E])
  next
    case 3
    have "of_int ?m * 2 powi ?E = of_int (2 ^ 52) * (2 :: rat) powi (?E + 1)" using 3 by (simp add: powi2_add)
    then show ?thesis unfolding r using round_pos_scaled [of "2 ^ 52" "?E + 1"] E by simp
  qed
qed

lemma f64_round_idem [simp]: "f64_round (f64_round x) = f64_round x"
proof -
  have p: "f64_round (round_pos y) = round_pos y" "f64_round (- round_pos y) = - round_pos y" if "0 < y" for y
    using round_pos_idem [OF that] round_pos_nonneg [OF that] by (auto simp: f64_round_def)
  show ?thesis using p [of x] p [of "- x"] by (auto simp: f64_round_def)
qed

text \<open>Integers below \<open>2 ^ 53\<close> are exact.\<close>

lemma f64_round_int:
  assumes "0 \<le> n" and "n < 2 ^ 53"
  shows "f64_round (of_int n) = of_int n"
proof (cases "n = 0")
  case True
  then show ?thesis by (simp add: f64_round_def)
next
  case False
  let ?x = "of_int n :: rat"
  have x: "0 < ?x" using assms(1) False by simp
  have "?x < of_int (2 ^ 53)" using assms(2) by (simp only: of_int_less_iff)
  then have "2 powi (binade ?x) < (2 :: rat) powi 53" using binade_bounds(1) [OF x] by simp
  then have "binade ?x < 53" using powi2_mono [of 53 "binade ?x"] by linarith
  then have e: "ulp_exp ?x \<le> 0" by (simp add: ulp_exp_def)
  have "?x * 2 powi (- ulp_exp ?x) = of_int (n * 2 ^ nat (- ulp_exp ?x))"
    using e by (simp add: power_int_nonneg_exp)
  then have "round_pos ?x = of_int (n * 2 ^ nat (- ulp_exp ?x)) * 2 powi (ulp_exp ?x)"
    by (simp only: round_pos_def round_even_of_int)
  also have "\<dots> = ?x * (2 powi (- ulp_exp ?x) * 2 powi (ulp_exp ?x))"
    using e by (simp add: power_int_nonneg_exp)
  finally show ?thesis using x by (simp add: f64_round_def)
qed

lemma f64_of_u64_exact:
  assumes "unat w < 2 ^ 53"
  shows "f64_of_u64 w = of_nat (unat w)"
proof -
  have "int (unat w) < int (2 ^ 53)" using assms by (simp only: of_nat_less_iff)
  also have "int (2 ^ 53) = 2 ^ 53" by simp
  finally have "f64_round (of_int (int (unat w))) = of_int (int (unat w))" by (intro f64_round_int of_nat_0_le_iff)
  then show ?thesis by (simp only: f64_of_u64_def of_int_of_nat_eq)
qed

text \<open>The constant the code sends as a temperature.\<close>

lemma f64_bits_35: "f64_bits 35 = 0x4041800000000000"
  by code_simp

lemma f64_round_0 [simp]: "f64_round 0 = 0"
  by (simp add: f64_round_def)

lemma f64_round_1 [simp]: "f64_round 1 = 1"
  by code_simp

lemma f64_round_100 [simp]: "f64_round 100 = 100"
  by code_simp

lemma f64_round_half [simp]: "f64_round (1 / 2) = 1 / 2"
  by code_simp

lemma f64_round_minus: "f64_round (- x) = - f64_round x"
  by (simp add: f64_round_def)

lemma f64_half_bound:
  assumes "\<bar>x\<bar> \<le> 1"
  shows "\<bar>f64_mul (1 / 2) x\<bar> \<le> 1 / 2"
proof -
  have "1 / 2 * x \<le> 1 / 2" "- (1 / 2) \<le> 1 / 2 * x" using assms by simp_all
  then have "f64_round (1 / 2 * x) \<le> f64_round (1 / 2)" "f64_round (- (1 / 2)) \<le> f64_round (1 / 2 * x)"
    by (intro f64_round_mono; simp)+
  then show ?thesis by (simp add: f64_mul_def f64_round_minus)
qed

section \<open>The operations on finite values\<close>

lemma f64_round_2_80: "f64_round (2 ^ 80) = 2 ^ 80"
  by code_simp

lemma fp_round_finite:
  assumes "0 \<le> x" and "x \<le> 2 ^ 80"
  shows "fp_round x = Fin (f64_round x)"
proof -
  have "0 \<le> f64_round x" "f64_round x \<le> 2 ^ 80"
    using f64_round_mono [OF assms(1)] f64_round_mono [OF assms(2)] by (simp_all add: f64_round_2_80 del: power_numeral)
  moreover have "(2 :: rat) ^ 80 < 2 ^ 1024" by (rule power_strict_increasing) simp_all
  moreover have "- (2 ^ 1024) < (0 :: rat)" by simp
  ultimately have "\<not> 2 ^ 1024 \<le> f64_round x" "\<not> f64_round x \<le> - (2 ^ 1024)" by linarith+
  then show ?thesis by (simp add: fp_round_def Let_def)
qed

lemma fp_value_bits:
  assumes "0 \<le> x" and "x < 2 ^ 1000"
  shows "fp_value (fp_bits (Fin x)) = Fin (f64_round x)"
proof -
  have v: "f64_value (f64_bits x) = f64_round x" using assms by (intro f64_value_bits) simp
  show ?thesis
  proof (cases "x = 0")
    case True
    then show ?thesis by (simp add: fp_value_def fp_bits_def f64_bits_def f64_value_def f64_magnitude_def)
  next
    case False
    then have x: "0 < x" using assms(1) by simp
    note rng = f64_pos_bits_range [OF x assms(2)]
    have "uint (f64_bits x) = f64_pos_bits x"
      using rng(1,3) x by (simp add: f64_bits_def uint_word_of_int)
    then have "uint (f64_bits x) mod 2 ^ 63 = f64_pos_bits x" using rng(1,3) by simp
    moreover have "f64_pos_bits x div 2 ^ 52 < 2047" using rng(2) by simp
    ultimately show ?thesis using v by (simp add: fp_value_def fp_bits_def Let_def)
  qed
qed

end
