(* ===== verification/Agent_Heartbeat.thy ===== *)
theory Agent_Heartbeat
  imports Agent_Loops F64 Rust_Strings
begin

text \<open>
  The heartbeat task of the robot agent (\<^verbatim>\<open>robot-agent/src/heartbeat.rs\<close>): the load readings
  from \<^verbatim>\<open>/proc\<close>, the task that sends them, and the stream it opens with the service. Readings
  are \<open>f64\<close> values; on the wire they are their bit patterns. Sums and differences of \<open>u64\<close> wrap as
  in a release build.
\<close>

section \<open>Readings\<close>

definition cpu_numbers :: "string \<Rightarrow> u64 list" where
  "cpu_numbers stat =
     (let line = (case str_lines stat of [] \<Rightarrow> [] | l # _ \<Rightarrow> l)
      in List.map_filter parse_u64 (drop 1 (split_whitespace line)))"

definition read_cpu_usage :: "io \<Rightarrow> nat \<Rightarrow> fs \<Rightarrow> f64" where
  "read_cpu_usage io i f =
     (case fs_read_to_string io i ''/proc/stat'' f of
        Inl _ \<Rightarrow> Fin 0
      | Inr stat \<Rightarrow>
          (let nums = cpu_numbers stat in
           if length nums < 4 then Fin 0
           else
             let idle = nums ! 3; tot = sum_list nums
             in if tot = 0 then Fin 0
                else fp_mul (fp_sub (Fin 1) (fp_div (fp_of_u64 idle) (fp_of_u64 tot))) (Fin 100)))"

text \<open>The second word of a line as a number, 0 when there is none.\<close>

definition field_value :: "string \<Rightarrow> u64" where
  "field_value line =
     (case iter_nth 1 (split_whitespace line) of
        None \<Rightarrow> 0
      | Some v \<Rightarrow> (case parse_u64 v of None \<Rightarrow> 0 | Some n \<Rightarrow> n))"

fun meminfo_loop :: "string list \<Rightarrow> u64 \<times> u64 \<Rightarrow> u64 \<times> u64" where
  "meminfo_loop [] acc = acc"
| "meminfo_loop (line # ls) (tot, available) =
     (if starts_with ''MemTotal:'' line then meminfo_loop ls (field_value line, available)
      else if starts_with ''MemAvailable:'' line then meminfo_loop ls (tot, field_value line)
      else meminfo_loop ls (tot, available))"

definition read_memory_usage :: "io \<Rightarrow> nat \<Rightarrow> fs \<Rightarrow> f64" where
  "read_memory_usage io i f =
     (case fs_read_to_string io i ''/proc/meminfo'' f of
        Inl _ \<Rightarrow> Fin 0
      | Inr info \<Rightarrow>
          (case meminfo_loop (str_lines info) (0, 0) of (tot, available) \<Rightarrow>
             if tot = 0 then Fin 0
             else fp_mul (fp_div (fp_of_u64 (tot - available)) (fp_of_u64 tot)) (Fin 100)))"

section \<open>Sending\<close>

text \<open>
  The world at tick \<open>i\<close> of the sender: the outcome of its two reads, the files, and whether the
  channel still takes the message.
\<close>

record beat_env =
  be_io :: "nat \<Rightarrow> io"
  be_fs :: "nat \<Rightarrow> fs"
  be_accepts :: "nat \<Rightarrow> bool"

definition beat :: "beat_env \<Rightarrow> string \<Rightarrow> nat \<Rightarrow> heartbeat_request" where
  "beat env device_id i =
     (let cpu = read_cpu_usage (be_io env i) 0 (be_fs env i);
          memory = read_memory_usage (be_io env i) 1 (be_fs env i)
      in \<lparr>hb_device_id = device_id, hb_recorded_at = None, hb_cpu_percent = fp_bits cpu,
          hb_memory_percent = fp_bits memory, hb_battery_percent = f64_bits 100, hb_operational_status = []\<rparr>)"

text \<open>The messages of the spawned loop after \<open>n\<close> ticks, from tick \<open>i\<close> on; it ends when the channel is closed.\<close>

fun heartbeat_sender :: "beat_env \<Rightarrow> string \<Rightarrow> nat \<Rightarrow> nat \<Rightarrow> heartbeat_request list" where
  "heartbeat_sender env device_id i 0 = []"
| "heartbeat_sender env device_id i (Suc n) =
     (if be_accepts env i then beat env device_id i # heartbeat_sender env device_id (Suc i) n else [])"

text \<open>\<open>run_stream\<close>: opening the stream, then its responses.\<close>

definition heartbeat_stream :: "(status, (status + heartbeat_response) list) result \<Rightarrow> (agent_error, unit) result \<times> nat" where
  "heartbeat_stream opened =
     (case map_err AgGrpc opened of
        Inl f \<Rightarrow> (Inl f, 0)
      | Inr responses \<Rightarrow> heartbeat_responses responses)"

text \<open>A stream of \<open>n\<close> ticks against the service: the result of the agent, its reboots, the database.\<close>

definition heartbeat_session :: "beat_env \<Rightarrow> stream_env \<Rightarrow> string \<Rightarrow> nat \<Rightarrow> dconn
    \<Rightarrow> ((agent_error, unit) result \<times> nat) \<times> dconn" where
  "heartbeat_session benv senv device_id n c =
     (case rpc_stream_heartbeat senv (map Inr (heartbeat_sender benv device_id 0 n)) c of
        (opened, c') \<Rightarrow> (heartbeat_stream opened, c'))"

section \<open>The range of the readings\<close>

text \<open>A rounded quotient of a part by the whole lies between 0 and 1.\<close>

lemma f64_of_u64_mono: "a \<le> b \<Longrightarrow> f64_of_u64 a \<le> f64_of_u64 b"
  unfolding f64_of_u64_def word_le_nat_alt by (intro f64_round_mono) (simp only: of_nat_le_iff)

lemma f64_of_u64_nonneg: "0 \<le> f64_of_u64 a"
  using f64_of_u64_mono [of 0 a] by (simp add: f64_of_u64_def)

lemma f64_of_u64_pos: "a \<noteq> 0 \<Longrightarrow> 1 \<le> f64_of_u64 a"
proof -
  assume "a \<noteq> 0"
  then have "1 \<le> a" by (simp add: word_le_nat_alt unat_gt_0 Suc_le_eq)
  from f64_of_u64_mono [OF this] show ?thesis by (simp add: f64_of_u64_def)
qed

text \<open>The steps of the readings stay finite: a ratio, its complement, a percentage.\<close>

definition in_range :: "rat \<Rightarrow> f64 \<Rightarrow> bool" where
  "in_range hi v \<longleftrightarrow> (\<exists>x. v = Fin x \<and> f64_round x = x \<and> 0 \<le> x \<and> x \<le> hi)"

lemma fp_round_in_range:
  assumes "0 \<le> x" and "x \<le> hi" and "f64_round hi = hi" and "hi \<le> 2 ^ 80"
  shows "in_range hi (fp_round x)"
  using fp_round_finite [OF assms(1) order_trans [OF assms(2,4)]] f64_round_mono [OF assms(1)] f64_round_mono [OF assms(2)] assms(3)
  by (simp add: in_range_def)

lemma ratio_in_range:
  assumes "a \<le> b" and "b \<noteq> 0"
  shows "in_range 1 (fp_div (fp_of_u64 a) (fp_of_u64 b))"
proof -
  have b: "1 \<le> f64_of_u64 b" by (rule f64_of_u64_pos [OF assms(2)])
  then have "0 \<le> f64_of_u64 a / f64_of_u64 b" "f64_of_u64 a / f64_of_u64 b \<le> 1"
    using f64_of_u64_nonneg [of a] f64_of_u64_mono [OF assms(1)] by simp_all
  then have "in_range 1 (fp_round (f64_of_u64 a / f64_of_u64 b))" by (intro fp_round_in_range) simp_all
  then show ?thesis using b by (simp add: fp_of_u64_def)
qed

lemma complement_in_range: "in_range 1 v \<Longrightarrow> in_range 1 (fp_sub (Fin 1) v)"
  by (auto simp: in_range_def [of 1 v] intro!: fp_round_in_range)

lemma percent_in_range: "in_range 1 v \<Longrightarrow> in_range 100 (fp_mul v (Fin 100))"
  by (auto simp: in_range_def [of 1 v] intro!: fp_round_in_range)

lemma sum_list_unat:
  assumes "sum_list (map unat ws) < 2 ^ 64"
  shows "unat (sum_list ws :: u64) = sum_list (map unat ws)"
  using assms by (induction ws) (auto simp: unat_word_ariths)

lemma elem_le_sum:
  assumes "sum_list (map unat ws) < 2 ^ 64" and "i < length ws"
  shows "(ws ! i :: u64) \<le> sum_list ws"
proof -
  have "unat (ws ! i) \<le> sum_list (map unat ws)"
    using elem_le_sum_list [of i "map unat ws"] assms(2) by simp
  then show ?thesis using sum_list_unat [OF assms(1)] by (simp add: word_le_nat_alt)
qed

lemma cpu_usage_range:
  assumes "\<And>stat. fs_read_to_string io i ''/proc/stat'' f = Inr stat \<Longrightarrow> sum_list (map unat (cpu_numbers stat)) < 2 ^ 64"
  shows "in_range 100 (read_cpu_usage io i f)"
proof (cases "fs_read_to_string io i ''/proc/stat'' f")
  case (Inr stat)
  let ?ns = "cpu_numbers stat"
  have "in_range 100 (fp_mul (fp_sub (Fin 1) (fp_div (fp_of_u64 (?ns ! 3)) (fp_of_u64 (sum_list ?ns)))) (Fin 100))"
    if "4 \<le> length ?ns" "sum_list ?ns \<noteq> 0"
    using that elem_le_sum [OF assms [OF Inr], of 3] by (intro percent_in_range complement_in_range ratio_in_range) simp_all
  then show ?thesis using Inr by (simp add: read_cpu_usage_def Let_def not_less in_range_def)
qed (simp add: read_cpu_usage_def in_range_def)

lemma memory_usage_range:
  assumes "\<And>info. fs_read_to_string io i ''/proc/meminfo'' f = Inr info \<Longrightarrow>
      snd (meminfo_loop (str_lines info) (0, 0)) \<le> fst (meminfo_loop (str_lines info) (0, 0))"
  shows "in_range 100 (read_memory_usage io i f)"
proof (cases "fs_read_to_string io i ''/proc/meminfo'' f")
  case (Inr info)
  obtain t a where ta: "meminfo_loop (str_lines info) (0, 0) = (t, a)" by fastforce
  then have "t - a \<le> t" using assms [OF Inr] by (simp add: word_sub_le)
  then have "in_range 100 (fp_mul (fp_div (fp_of_u64 (t - a)) (fp_of_u64 t)) (Fin 100))" if "t \<noteq> 0"
    using that by (intro percent_in_range ratio_in_range)
  then show ?thesis using Inr ta by (simp add: read_memory_usage_def in_range_def)
qed (simp add: read_memory_usage_def in_range_def)

text \<open>Without their guards the readings of empty counters would not be numbers.\<close>

lemma empty_counters: "fp_mul (fp_div (fp_of_u64 0) (fp_of_u64 0)) (Fin 100) = NaN"
  "fp_mul (fp_sub (Fin 1) (fp_div (fp_of_u64 0) (fp_of_u64 0))) (Fin 100) = NaN"
  by (simp_all add: fp_of_u64_def f64_of_u64_def)

text \<open>Memory reported as available beyond the total wraps around: the reading is at least 100.\<close>

lemma f64_of_u64_le: "f64_of_u64 w \<le> 2 ^ 64"
proof -
  have "f64_round (2 ^ 64) = 2 ^ 64" by code_simp
  moreover have "(of_nat (unat w) :: rat) \<le> 2 ^ 64"
    using unsigned_less [of w, where ?'a = nat] of_nat_less_iff [of "unat w" "2 ^ 64", where ?'a = rat] by simp
  ultimately show ?thesis using f64_round_mono [of "of_nat (unat w)" "2 ^ 64"] by (simp add: f64_of_u64_def)
qed

lemma memory_usage_wraps:
  assumes "fs_read_to_string io i ''/proc/meminfo'' f = Inr info" and "meminfo_loop (str_lines info) (0, 0) = (t, a)"
    and "t \<noteq> 0" and "t < a"
  shows "\<exists>x. read_memory_usage io i f = Fin x \<and> 100 \<le> x"
proof -
  have "unat a < 2 ^ LENGTH(64)" by (rule unsigned_less)
  then have "unat t < unat a" "unat a < 2 ^ 64" using assms(4) by (simp_all add: word_less_nat_alt)
  moreover have "unat (t - a) = 2 ^ 64 + unat t - unat a"
    using calculation by (simp add: unat_sub_if_size word_size)
  ultimately have "t \<le> t - a" by (simp add: word_le_nat_alt)
  then have "f64_of_u64 t \<le> f64_of_u64 (t - a)" by (rule f64_of_u64_mono)
  let ?q = "f64_of_u64 (t - a) / f64_of_u64 t"
  have t: "1 \<le> f64_of_u64 t" by (rule f64_of_u64_pos [OF assms(3)])
  have q: "1 \<le> ?q" using t \<open>f64_of_u64 t \<le> f64_of_u64 (t - a)\<close> by simp
  have "?q \<le> f64_of_u64 (t - a) / 1"
    using t f64_of_u64_nonneg [of "t - a"] by (intro divide_left_mono) simp_all
  then have q64: "?q \<le> 2 ^ 64" using f64_of_u64_le [of "t - a"] by simp
  have r64: "f64_round (2 ^ 64) = 2 ^ 64" by code_simp
  have "1 \<le> f64_round ?q" "f64_round ?q \<le> 2 ^ 64"
    using f64_round_mono [OF q] f64_round_mono [OF q64] unfolding r64 by simp_all
  then have p: "100 \<le> f64_round ?q * 100" "f64_round ?q * 100 \<le> 2 ^ 80" by simp_all
  have "fp_round ?q = Fin (f64_round ?q)" using q q64 by (intro fp_round_finite) simp_all
  moreover have "fp_round (f64_round ?q * 100) = Fin (f64_round (f64_round ?q * 100))"
    using p by (intro fp_round_finite) simp_all
  moreover have "100 \<le> f64_round (f64_round ?q * 100)" using f64_round_mono [OF p(1)] by simp
  ultimately show ?thesis using assms(1-3) t by (simp add: read_memory_usage_def fp_of_u64_def)
qed

section \<open>The memory file\<close>

text \<open>The scan keeps the last line of each kind.\<close>

definition last_field :: "string \<Rightarrow> u64 \<Rightarrow> string list \<Rightarrow> u64" where
  "last_field key dflt ls = (case rev (filter (starts_with key) ls) of [] \<Rightarrow> dflt | l # _ \<Rightarrow> field_value l)"

lemma last_field_Cons:
  "last_field key d (l # ls) = last_field key (if starts_with key l then field_value l else d) ls"
  by (simp add: last_field_def split: list.split)

lemma starts_with_take: "starts_with p s \<Longrightarrow> n \<le> length p \<Longrightarrow> take n s = take n p"
  by (metis starts_with_def min.absorb1 take_take)

lemma mem_keys_exclusive: "starts_with ''MemTotal:'' l \<Longrightarrow> \<not> starts_with ''MemAvailable:'' l"
  using starts_with_take [of "''MemTotal:''" l 4] starts_with_take [of "''MemAvailable:''" l 4] by auto

lemma meminfo_loop_last:
  "meminfo_loop ls (t, a) = (last_field ''MemTotal:'' t ls, last_field ''MemAvailable:'' a ls)"
proof (induction ls arbitrary: t a)
  case Nil
  then show ?case by (simp add: last_field_def)
next
  case (Cons l ls)
  then show ?case by (simp add: last_field_Cons mem_keys_exclusive)
qed

text \<open>A line of \<^verbatim>\<open>/proc/meminfo\<close>: a key with its colon, spaces, the value and the unit.\<close>

definition meminfo_line :: "string \<Rightarrow> nat \<Rightarrow> nat \<Rightarrow> string" where
  "meminfo_line key pad n = key @ replicate (Suc pad) (CHR '' '') @ show_nat n @ '' kB''"

lemma is_space_blank [simp]: "is_space (CHR '' '')"
  by (simp add: is_space_def)

lemma split_whitespace_pad: "split_whitespace (replicate k (CHR '' '') @ s) = split_whitespace s"
  by (induction k) (simp_all add: split_whitespace_space)

lemma field_value_line:
  assumes "\<forall>c \<in> set key. \<not> is_space c" and "key \<noteq> []" and "n < 2 ^ 64"
  shows "field_value (meminfo_line key pad n) = of_nat n"
proof -
  have "split_whitespace (meminfo_line key pad n) = key # split_whitespace (show_nat n @ CHR '' '' # ''kB'')"
    using assms(1,2) by (simp add: meminfo_line_def split_whitespace_word split_whitespace_pad)
  also have "\<dots> = [key, show_nat n, ''kB'']"
    using show_nat_class(1) by (subst split_whitespace_word) (auto simp: split_whitespace_last is_space_def)
  finally show ?thesis using assms(3) by (simp add: field_value_def iter_nth_def)
qed

text \<open>The first line of \<^verbatim>\<open>/proc/stat\<close>: the word \<open>cpu\<close> and the counters.\<close>

definition stat_line :: "nat list \<Rightarrow> string" where
  "stat_line ns = ''cpu'' @ concat (map (\<lambda>n. CHR '' '' # show_nat n) ns)"

lemma ws_words_counters:
  "w \<noteq> [] \<Longrightarrow> ws_words w (concat (map (\<lambda>n. CHR '' '' # show_nat n) ns)) = w # map show_nat ns"
proof (induction ns arbitrary: w)
  case (Cons n ns)
  have "ws_words [] (show_nat n @ concat (map (\<lambda>n. CHR '' '' # show_nat n) ns)) =
      ws_words (show_nat n) (concat (map (\<lambda>n. CHR '' '' # show_nat n) ns))"
    using show_nat_class(1) by (simp add: ws_words_append)
  then show ?case using Cons by simp
qed simp

lemma split_whitespace_stat: "split_whitespace (stat_line ns) = ''cpu'' # map show_nat ns"
  using ws_words_append [of "''cpu''" "[]" "concat (map (\<lambda>n. CHR '' '' # show_nat n) ns)"]
    ws_words_counters [of "''cpu''" ns]
  by (simp add: split_whitespace_def stat_line_def is_space_def)

lemma stat_line_clean: "CHR 0x0A \<notin> set (stat_line ns)" "CHR 0x0D \<notin> set (stat_line ns)"
  using show_nat_class(3,4) by (auto simp: stat_line_def)

lemma str_lines_Cons:
  "CHR 0x0A \<notin> set l \<Longrightarrow> CHR 0x0D \<notin> set l \<Longrightarrow> str_lines (l @ CHR 0x0A # s) = l # str_lines s"
  by (simp add: str_lines_def split_on_append Let_def)

lemma cpu_numbers_stat:
  assumes "\<forall>n \<in> set ns. n < 2 ^ 64"
  shows "cpu_numbers (stat_line ns @ CHR 0x0A # rest) = map of_nat ns"
proof -
  have "List.map_filter parse_u64 (map show_nat ns) = map of_nat ns"
    using assms by (induction ns) (simp_all add: List.map_filter_simps)
  then show ?thesis by (simp add: cpu_numbers_def str_lines_Cons stat_line_clean split_whitespace_stat)
qed

lemma meminfo_line_clean:
  assumes "CHR 0x0A \<notin> set key" and "CHR 0x0D \<notin> set key"
  shows "CHR 0x0A \<notin> set (meminfo_line key pad n)" "CHR 0x0D \<notin> set (meminfo_line key pad n)"
  using assms show_nat_class(3,4) by (auto simp: meminfo_line_def)

section \<open>Against the service\<close>

lemma heartbeat_sender_all:
  "(\<And>i. be_accepts env i) \<Longrightarrow> heartbeat_sender env did i n = map (beat env did) [i..<i + n]"
proof (induction n arbitrary: i)
  case (Suc n)
  then show ?case by (simp add: upt_conv_Cons del: upt_Suc)
qed simp

lemma length_heartbeat_sender: "length (heartbeat_sender env did i n) \<le> n"
  by (induction n arbitrary: i) auto

lemma heartbeat_responses_ok: "heartbeat_responses (replicate n heartbeat_ok) = (Ok (), 0)"
  by (induction n) auto

lemma heartbeat_session_known:
  assumes "healthy_stream senv" and "\<And>i. be_accepts benv i" and "row_with dr_id did (devices (tabs c)) = Some r"
  shows "heartbeat_session benv senv did (Suc n) c =
    ((Ok (), 0), c\<lparr>tabs := touch_row (se_clock senv n) did (tabs c)\<rparr>)"
proof -
  let ?reqs = "map (beat benv did) [0..<Suc n]"
  have q: "heartbeat_sender benv did 0 (Suc n) = ?reqs" 
    using heartbeat_sender_all [OF assms(2), of did 0 "Suc n"] by (simp del: upt_Suc heartbeat_sender.simps)
  have h: "hb_device_id (beat benv did 0) = did" by (simp add: beat_def Let_def)
  have "?reqs = beat benv did 0 # map (beat benv did) [1..<Suc n]" by (simp add: upt_conv_Cons del: upt_Suc)
  then have "heartbeat_handle senv (map Inr ?reqs) c = heartbeat_loop senv did 0 (map Inr ?reqs) c" using h by simp
  also have "\<dots> = ((replicate (Suc n) heartbeat_ok, TaskReturned), c\<lparr>tabs := touch_row (se_clock senv n) did (tabs c)\<rparr>)"
    using heartbeat_loop_known [OF assms(1,3), of 0 ?reqs] by simp
  finally show ?thesis
    unfolding heartbeat_session_def rpc_stream_heartbeat_def q using heartbeat_responses_ok [of "Suc n"] by (simp add: heartbeat_stream_def)
qed

lemma heartbeat_session_unknown:
  assumes "healthy_stream senv" and "\<And>i. be_accepts benv i" and "row_with dr_id did (devices (tabs c)) = None"
  shows "heartbeat_session benv senv did (Suc n) c =
    ((Err (AgGrpc (status_of NotFoundCode (''device '' @ did @ '' not found''))), 0), c)"
proof -
  have h: "hb_device_id (beat benv did 0) = did" by (simp add: beat_def Let_def)
  show ?thesis
    using heartbeat_loop_unknown [OF assms(1,3)] h assms(2)
    by (simp add: heartbeat_session_def rpc_stream_heartbeat_def heartbeat_stream_def)
qed

end
