(* ===== verification/Agent_Sources.thy ===== *)
theory Agent_Sources
  imports Agent_Loops F64
begin

text \<open>
  The two sources of the telemetry task (\<^verbatim>\<open>robot-agent/src/telemetry.rs\<close>): the frames of the
  simulator, read from a Unix socket the agent binds, and the generated sine wave; and \<open>run\<close>, which
  chooses between them at every attempt by the existence of the socket file.
\<close>

section \<open>The sine wave\<close>

text \<open>
  \<open>sin\<close> and \<open>cos\<close> come from the platform's mathematical library and are a parameter. A
  \<open>SystemTime\<close> is its distance from the epoch in nanoseconds; \<open>duration_since\<close> and \<open>elapsed\<close> fail
  when the clock went backwards, and \<open>unwrap_or_default\<close> makes that zero.
\<close>

record libm =
  lm_sin :: "rat \<Rightarrow> rat"
  lm_cos :: "rat \<Rightarrow> rat"

definition duration_since :: "int \<Rightarrow> int \<Rightarrow> nat" where
  "duration_since now earlier = nat (now - earlier)"

definition as_secs_f64 :: "nat \<Rightarrow> rat" where
  "as_secs_f64 ns =
     f64_add (f64_round (of_nat (ns div 1000000000))) (f64_quot (of_nat (ns mod 1000000000)) 1000000000)"

text \<open>\<open>std::f64::consts::PI\<close>.\<close>

definition pi_f64 :: rat where
  "pi_f64 = 884279719003555 / 281474976710656"

definition sine_joint :: "libm \<Rightarrow> rat \<Rightarrow> nat \<Rightarrow> string \<Rightarrow> joint_status" where
  "sine_joint lib elapsed i name =
     (let n = length joint_names;
          x = f64_add elapsed (f64_quot (f64_mul (of_nat i) pi_f64) (of_nat n))
      in \<lparr>js_name = name, js_position_rad = f64_bits (lm_sin lib x),
          js_torque_nm = f64_bits (f64_mul (1 / 2) (lm_cos lib x)), js_temperature_c = temperature_35\<rparr>)"

text \<open>The clock readings of one iteration: one for \<open>elapsed\<close>, one for the time stamp.\<close>

record sine_env =
  sw_libm :: libm
  sw_start :: int
  sw_elapsed_at :: "nat \<Rightarrow> int"
  sw_now :: "nat \<Rightarrow> int"
  sw_accepts :: "nat \<Rightarrow> bool"

definition sine_frame :: "sine_env \<Rightarrow> string \<Rightarrow> nat \<Rightarrow> agent_frame" where
  "sine_frame env device_id k =
     (let elapsed = as_secs_f64 (duration_since (sw_elapsed_at env k) (sw_start env));
          now = duration_since (sw_now env k) 0
      in \<lparr>af_device_id = device_id,
          af_recorded_at = Some \<lparr>ts_seconds = u64_as_i64 (of_nat (now div 1000000000)),
                                 ts_nanos = int (now mod 1000000000)\<rparr>,
          af_joints = map (\<lambda>(i, name). sine_joint (sw_libm env) elapsed i name) (enumerate 0 joint_names)\<rparr>)"

text \<open>The frames of the spawned loop after \<open>n\<close> iterations from iteration \<open>k\<close> on.\<close>

fun sine_sender :: "sine_env \<Rightarrow> string \<Rightarrow> nat \<Rightarrow> nat \<Rightarrow> agent_frame list" where
  "sine_sender env device_id k 0 = []"
| "sine_sender env device_id k (Suc n) =
     (if sw_accepts env k then sine_frame env device_id k # sine_sender env device_id (Suc k) n else [])"

section \<open>The streams\<close>

text \<open>Opening \<open>stream_telemetry\<close> and reading its acknowledgements, the end of both sources.\<close>

definition telemetry_stream :: "(status, (status + telemetry_ack) list) result \<Rightarrow> (agent_error, unit) result \<times> nat" where
  "telemetry_stream opened =
     (case map_err AgGrpc opened of
        Inl f \<Rightarrow> (Inl f, 0)
      | Inr responses \<Rightarrow> telemetry_responses responses)"

definition run_sine_wave :: "(status, (status + telemetry_ack) list) result \<Rightarrow> (agent_error, unit) result" where
  "run_sine_wave opened = fst (telemetry_stream opened)"

text \<open>
  \<open>run_from_socket\<close>: a file at the path is removed, the listener creates its own, and one
  connection is accepted before the stream is opened. The file operations are the call sites
  0, 1 and 2.
\<close>

definition accept_one :: "io \<Rightarrow> nat \<Rightarrow> (string, unit) result" where
  "accept_one io i = (case io_fault io i of Some (e, _) \<Rightarrow> Err e | None \<Rightarrow> Ok ())"

definition run_from_socket :: "io \<Rightarrow> string \<Rightarrow> (status, (status + telemetry_ack) list) result \<Rightarrow> fs
    \<Rightarrow> (agent_error, unit) result \<times> fs" where
  "run_from_socket io socket_path opened f =
     try_bind (if fs_exists socket_path f then map_err_st AgIo (fs_remove io 0 socket_path f) else (Ok (), f)) (\<lambda>_ f.
     try_bind (map_err_st AgIo (bind_socket io 1 socket_path f)) (\<lambda>_ f.
     try_bind (map_err AgIo (accept_one io 2), f) (\<lambda>_ f.
     (fst (telemetry_stream opened), f))))"

section \<open>The task\<close>

text \<open>
  One attempt: what other processes did to the disk before it, the outcome of the file
  operations, and what the service answers.
\<close>

record telemetry_attempt =
  ta_others :: "fs \<Rightarrow> fs"
  ta_io :: io
  ta_opened :: "(status, (status + telemetry_ack) list) result"

datatype telemetry_source = FromSocket | SineWave

definition telemetry_step :: "string option \<Rightarrow> telemetry_attempt \<Rightarrow> fs
    \<Rightarrow> telemetry_source \<times> (agent_error, unit) result \<times> fs" where
  "telemetry_step socket_path a f =
     (case socket_path of
        Some path \<Rightarrow>
          if fs_exists path f then (FromSocket, run_from_socket (ta_io a) path (ta_opened a) f)
          else (SineWave, run_sine_wave (ta_opened a), f)
      | None \<Rightarrow> (SineWave, run_sine_wave (ta_opened a), f))"

record telemetry_outcome =
  to_sources :: "telemetry_source list"
  to_sleeps :: "nat list"
  to_result :: "(agent_error, unit) result option"
  to_disk :: fs

fun telemetry_attempts :: "nat \<Rightarrow> string option \<Rightarrow> telemetry_attempt list \<Rightarrow> fs \<Rightarrow> telemetry_outcome" where
  "telemetry_attempts backoff path [] f = \<lparr>to_sources = [], to_sleeps = [], to_result = None, to_disk = f\<rparr>"
| "telemetry_attempts backoff path (a # attempts) f =
     (case telemetry_step path a (ta_others a f) of
        (src, Inr u, f1) \<Rightarrow> \<lparr>to_sources = [src], to_sleeps = [], to_result = Some (Ok ()), to_disk = f1\<rparr>
      | (src, Inl Panic, f1) \<Rightarrow> \<lparr>to_sources = [src], to_sleeps = [], to_result = Some Panicked, to_disk = f1\<rparr>
      | (src, Inl (Fail e), f1) \<Rightarrow>
          (let r = telemetry_attempts (min (backoff * 2) max_backoff) path attempts f1
           in r\<lparr>to_sources := src # to_sources r, to_sleeps := backoff # to_sleeps r\<rparr>))"

definition telemetry_run :: "string option \<Rightarrow> telemetry_attempt list \<Rightarrow> fs \<Rightarrow> telemetry_outcome" where
  "telemetry_run socket_path attempts f = telemetry_attempts 1 socket_path attempts f"

section \<open>Lemmas\<close>

text \<open>The sine wave leaves the disk alone.\<close>

lemma telemetry_step_absent:
  assumes "\<And>p. path = Some p \<Longrightarrow> \<not> fs_exists p f"
  shows "telemetry_step path a f = (SineWave, run_sine_wave (ta_opened a), f)"
  using assms by (simp add: telemetry_step_def split: option.split)

text \<open>Removing and binding: the listener starts on a file of its own.\<close>

lemma run_from_socket_reliable:
  "run_from_socket io_reliable path opened f =
     (fst (telemetry_stream opened), f(path \<mapsto> \<lparr>contents = [], file_mode = 493\<rparr>))"
  by (auto simp: run_from_socket_def fs_remove_def bind_socket_def accept_one_def fs_exists_def)

text \<open>The results of the attempts as the disk develops.\<close>

fun attempt_results :: "string option \<Rightarrow> telemetry_attempt list \<Rightarrow> fs \<Rightarrow> (agent_error, unit) result list" where
  "attempt_results path [] f = []"
| "attempt_results path (a # attempts) f =
     (case telemetry_step path a (ta_others a f) of (src, r, f1) \<Rightarrow> r # attempt_results path attempts f1)"

text \<open>Sleeps and result are those of the loop the three tasks share.\<close>

lemma telemetry_attempts_reconnect:
  "(to_sleeps (telemetry_attempts b path attempts f), to_result (telemetry_attempts b path attempts f)) =
     reconnect_loop b (attempt_results path attempts f)"
proof (induction b path attempts f rule: telemetry_attempts.induct)
  case (2 b path a attempts f)
  obtain src r f1 where s: "telemetry_step path a (ta_others a f) = (src, r, f1)" by (metis prod_cases3)
  show ?case
  proof (cases r)
    case (Inl x)
    then show ?thesis
    proof (cases x)
      case (Fail e)
      have "reconnect_loop (min (b * 2) max_backoff) (attempt_results path attempts f1) =
          (to_sleeps (telemetry_attempts (min (b * 2) max_backoff) path attempts f1),
           to_result (telemetry_attempts (min (b * 2) max_backoff) path attempts f1))"
        using "2.IH" [OF s [symmetric] _ refl] Inl Fail by simp
      then show ?thesis using s Inl Fail by (simp add: Let_def)
    qed (use s Inl in simp)
  qed (use s in simp)
qed simp

lemma sine_sender_all:
  "(\<And>k. sw_accepts env k) \<Longrightarrow> sine_sender env did k n = map (sine_frame env did) [k..<k + n]"
proof (induction n arbitrary: k)
  case (Suc n)
  then show ?case by (simp add: upt_conv_Cons del: upt_Suc)
qed simp

lemma set_sine_sender: "fr \<in> set (sine_sender env did k n) \<Longrightarrow> \<exists>j. fr = sine_frame env did j"
  by (induction n arbitrary: k) (auto split: if_splits)

end
