(* ===== verification/Agent_Tasks.thy ===== *)
theory Agent_Tasks
  imports Agent_Heartbeat Agent_Sources
begin

text \<open>
  The last part of the agent's \<open>main\<close> (\<^verbatim>\<open>robot-agent/src/main.rs\<close>): with the channels open it
  spawns the heartbeat, the OTA and the telemetry task and waits in \<open>select!\<close> for the first of
  them, or Ctrl-C. Whatever comes first ends the process.
\<close>

section \<open>Waiting for the first task\<close>

text \<open>What wakes \<open>select!\<close>; a task that panicked is the join error \<open>Panicked\<close>.\<close>

datatype wake =
    CtrlC
  | HeartbeatEnded "(agent_error, unit) result"
  | OtaEnded "(agent_error, unit) result"
  | TelemetryEnded "(agent_error, unit) result"

definition error_line :: "(status \<Rightarrow> string) \<Rightarrow> string \<Rightarrow> (agent_error, unit) result \<Rightarrow> string list" where
  "error_line d name res =
     (case res of Inl (Fail e) \<Rightarrow> [name @ '': '' @ agent_to_string d e] | _ \<Rightarrow> [])"

primrec select_arm :: "(status \<Rightarrow> string) \<Rightarrow> wake \<Rightarrow> string list" where
  "select_arm d CtrlC = []"
| "select_arm d (HeartbeatEnded res) = error_line d ''Heartbeat'' res"
| "select_arm d (OtaEnded res) = error_line d ''OTA'' res"
| "select_arm d (TelemetryEnded res) = error_line d ''Telemetry'' res"

text \<open>
  The events in the order they happen; with none the agent is still waiting. The error lines
  are what it logs before it returns.
\<close>

definition agent_wait :: "(status \<Rightarrow> string) \<Rightarrow> wake list \<Rightarrow> string list option" where
  "agent_wait d wakes = (case wakes of [] \<Rightarrow> None | w # _ \<Rightarrow> Some (select_arm d w))"

text \<open>The end of a task, when it ends.\<close>

definition task_end :: "((agent_error, unit) result \<Rightarrow> wake) \<Rightarrow> (agent_error, unit) result option \<Rightarrow> wake list" where
  "task_end c r = (case r of None \<Rightarrow> [] | Some res \<Rightarrow> [c res])"

definition task_ends :: "(agent_error, unit) result list \<Rightarrow> (agent_error, unit) result list \<Rightarrow> string option
    \<Rightarrow> telemetry_attempt list \<Rightarrow> fs \<Rightarrow> wake list" where
  "task_ends hb ota socket_path tel f =
     task_end HeartbeatEnded (snd (heartbeat_run hb)) @ task_end OtaEnded (snd (agent_ota_run ota)) @
     task_end TelemetryEnded (to_result (telemetry_run socket_path tel f))"

section \<open>The process\<close>

datatype process = Running | Exited nat "string list"

text \<open>
  \<open>main\<close> as a whole: an error of the phases is the exit status 1, a panic 101; after the phases the
  process ends with status 0 at the first event.
\<close>

definition agent_process :: "pki \<Rightarrow> io \<Rightarrow> (string \<Rightarrow> string option) \<Rightarrow> 's agent_net \<Rightarrow> (status \<Rightarrow> string)
    \<Rightarrow> wake list \<Rightarrow> 's world \<Rightarrow> process \<times> 's world" where
  "agent_process pki io env net d wakes w =
     (case agent_main pki io env net w of
        (Inr ident, w1) \<Rightarrow> (case agent_wait d wakes of None \<Rightarrow> Running | Some lines \<Rightarrow> Exited 0 lines, w1)
      | (Inl (Fail e), w1) \<Rightarrow> (Exited 1 [], w1)
      | (Inl Panic, w1) \<Rightarrow> (Exited 101 [], w1))"

section \<open>Lemmas\<close>

text \<open>A reconnect loop never returns an error: it ends with a clean end or a panic of an attempt.\<close>

lemma snd_reconnect_loop_Err [simp]:
  "snd (reconnect_loop b (Inl (Fail e) # attempts)) = snd (reconnect_loop (min (b * 2) max_backoff) attempts)"
  by (simp add: case_prod_beta)

lemma reconnect_loop_never_Err: "snd (reconnect_loop b attempts) \<noteq> Some (Err e)"
  by (induction b attempts rule: reconnect_loop.induct) (simp_all only: snd_reconnect_loop_Err, simp_all)

lemma telemetry_run_result:
  "to_result (telemetry_run path tel f) = snd (reconnect_loop 1 (attempt_results path tel f))"
  using telemetry_attempts_reconnect [of 1 path tel f] by (metis snd_conv telemetry_run_def)

lemma task_ends_cases:
  "w \<in> set (task_ends hb ota path tel f) \<longleftrightarrow>
     (\<exists>r. snd (heartbeat_run hb) = Some r \<and> w = HeartbeatEnded r) \<or>
     (\<exists>r. snd (agent_ota_run ota) = Some r \<and> w = OtaEnded r) \<or>
     (\<exists>r. to_result (telemetry_run path tel f) = Some r \<and> w = TelemetryEnded r)"
  by (auto simp: task_ends_def task_end_def split: option.splits)

lemma select_arm_silent:
  assumes "w \<in> set (task_ends hb ota path tel f) \<or> w = CtrlC"
  shows "select_arm d w = []"
  using assms reconnect_loop_never_Err [of 1 hb] reconnect_loop_never_Err [of 1 ota]
    reconnect_loop_never_Err [of 1 "attempt_results path tel f"]
  by (auto simp: task_ends_cases heartbeat_run_def agent_ota_run_def telemetry_run_result error_line_def
      split: sum.split failure.split)

text \<open>No event while every attempt of every task fails.\<close>

lemma reconnect_loop_running: "snd (reconnect_loop b attempts) = None \<longleftrightarrow> (\<forall>r \<in> set attempts. \<exists>e. r = Err e)"
  by (induction b attempts rule: reconnect_loop.induct) (simp_all only: snd_reconnect_loop_Err, simp_all)

lemma task_ends_Nil:
  "task_ends hb ota path tel f = [] \<longleftrightarrow>
     (\<forall>r \<in> set hb \<union> set ota \<union> set (attempt_results path tel f). \<exists>e. r = Err e)"
  using reconnect_loop_running [of 1 hb] reconnect_loop_running [of 1 ota]
    reconnect_loop_running [of 1 "attempt_results path tel f"]
  by (auto simp: task_ends_def task_end_def heartbeat_run_def agent_ota_run_def telemetry_run_result split: option.split)

end
