(* ===== verification/Agent_Codec.thy ===== *)
theory Agent_Codec
  imports Agent_Telemetry
begin

text \<open>
  Two views of the telemetry decoder of the agent. \<open>decode_frame\<close> is the wire format as a
  specification: the payload after the header is a list of 64-bit numbers, positions first, then
  torques; \<open>parse_frame\<close>, which computes byte offsets, is shown to be equal to it.
  \<open>reader_iteration\<close> is one round of the socket reader's loop; the loop is shown to end after at
  most one round per five bytes received.
\<close>

section \<open>The wire format\<close>

function be_words :: "u8 list \<Rightarrow> u64 list" where
  "be_words bs = (if length bs < 8 then [] else u64_from_be (take 8 bs) # be_words (drop 8 bs))"
  by pat_completeness auto
termination
  by (relation "measure length") auto

declare be_words.simps [simp del]

lemma length_be_words [simp]: "length (be_words bs) = length bs div 8"
proof (induction bs rule: be_words.induct)
  case (1 bs)
  show ?case
  proof (cases "length bs < 8")
    case False
    then have "length bs div 8 = Suc ((length bs - 8) div 8)" by (simp add: le_div_geq)
    then show ?thesis using 1 [OF False] False by (subst be_words.simps) simp
  qed (subst be_words.simps, simp)
qed

lemma nth_be_words: "i < length bs div 8 \<Longrightarrow> be_words bs ! i = u64_from_be (take 8 (drop (i * 8) bs))"
proof (induction bs arbitrary: i rule: be_words.induct)
  case (1 bs)
  have l: "\<not> length bs < 8" using 1(2) by (auto simp: div_less)
  then have d: "length bs div 8 = Suc (length (drop 8 bs) div 8)" by (simp add: le_div_geq)
  show ?case
  proof (cases i)
    case 0
    then show ?thesis using l by (subst be_words.simps) simp
  next
    case (Suc j)
    then show ?thesis using 1(1) [OF l, of j] 1(2) l d by (subst be_words.simps) (simp add: add.commute)
  qed
qed

definition joint_of :: "nat \<times> u64 \<times> u64 \<Rightarrow> joint_status" where
  "joint_of = (\<lambda>(i, pos, tor). \<lparr>js_name = joint_name i, js_position_rad = pos, js_torque_nm = tor,
     js_temperature_c = temperature_35\<rparr>)"

definition decode_frame :: "string \<Rightarrow> u8 list \<Rightarrow> agent_frame option" where
  "decode_frame did p =
     (if length p < 12 then None
      else
        let n = unat (u32_from_be (take 4 (drop 8 p))); ws = be_words (drop 12 p)
        in if length ws < 2 * n then None
           else Some \<lparr>af_device_id = did, af_recorded_at = Some (frame_time (u64_as_i64 (u64_from_be (take 8 p)))),
             af_joints = map joint_of (enumerate 0 (zip (take n ws) (take n (drop n ws))))\<rparr>)"

lemma joints_decoded:
  assumes "12 + n * 16 \<le> length p"
  shows "map joint_of (enumerate 0 (zip (take n (be_words (drop 12 p))) (take n (drop n (be_words (drop 12 p)))))) =
    map (\<lambda>i. \<lparr>js_name = joint_name i, js_position_rad = u64_from_be (take 8 (drop (12 + i * 8) p)),
      js_torque_nm = u64_from_be (take 8 (drop (12 + n * 8 + i * 8) p)), js_temperature_c = temperature_35\<rparr>) [0..<n]"
    (is "?l = ?r")
proof -
  let ?ws = "be_words (drop 12 p)"
  have len: "2 * n \<le> length ?ws" using assms by simp
  then have lz: "length (zip (take n ?ws) (take n (drop n ?ws))) = n" by simp
  show ?thesis
  proof (rule nth_equalityI)
    show "length ?l = length ?r" using lz by simp
    fix i assume "i < length ?l"
    then have i: "i < n" using lz by simp
    have a: "?ws ! i = u64_from_be (take 8 (drop (12 + i * 8) p))"
      using nth_be_words [of i "drop 12 p"] i len by (simp add: add.commute)
    have b: "?ws ! (n + i) = u64_from_be (take 8 (drop (12 + n * 8 + i * 8) p))"
      using nth_be_words [of "n + i" "drop 12 p"] i len by (simp add: algebra_simps)
    show "?l ! i = ?r ! i"
      using i lz len a b by (simp add: nth_enumerate_eq joint_of_def del: length_zip length_be_words)
  qed
qed

lemma parse_frame_decode: "parse_frame did p = Ok (decode_frame did p)"
proof -
  have "length (be_words (drop 12 p)) < 2 * n \<longleftrightarrow> length p < 12 + n * 16" if "12 \<le> length p" for n
    using that by (simp add: div_less_iff_less_mult) linarith
  then show ?thesis
    by (simp add: parse_frame_cases decode_frame_def Let_def joints_decoded del: length_be_words)
qed

section \<open>Rounds of the reader\<close>

text \<open>One round: the frame it sent, and the state for the next round unless the loop broke off.\<close>

definition reader_iteration :: "string \<Rightarrow> (nat \<Rightarrow> bool) \<Rightarrow> nat \<times> u8 list \<Rightarrow> agent_frame list \<times> (nat \<times> u8 list) option" where
  "reader_iteration did accepts = (\<lambda>(i, bytes).
     if length bytes < 4 then ([], None)
     else
       let payload_len = unat (u32_from_be (take 4 bytes)); rest = drop 4 bytes
       in if payload_len = 0 \<or> payload_len > 1000000 then ([], None)
          else if length rest < payload_len then ([], None)
          else (case parse_frame did (take payload_len rest) of
              Inr None \<Rightarrow> ([], Some (i, drop payload_len rest))
            | Inr (Some frame) \<Rightarrow> if accepts i then ([frame], Some (Suc i, drop payload_len rest)) else ([], None)
            | Inl _ \<Rightarrow> ([], None)))"

text \<open>\<open>k\<close> rounds of the loop: \<open>None\<close> when it has not ended by then.\<close>

fun reader_rounds :: "nat \<Rightarrow> string \<Rightarrow> (nat \<Rightarrow> bool) \<Rightarrow> nat \<times> u8 list \<Rightarrow> agent_frame list option" where
  "reader_rounds 0 did accepts s = None"
| "reader_rounds (Suc k) did accepts s =
     (case reader_iteration did accepts s of
        (out, None) \<Rightarrow> Some out
      | (out, Some s') \<Rightarrow> map_option (\<lambda>frames. out @ frames) (reader_rounds k did accepts s'))"

lemma reader_iteration_consumes:
  assumes "reader_iteration did accepts (i, bytes) = (out, Some (j, bytes'))"
  shows "length bytes' + 5 \<le> length bytes"
  using assms
  by (auto simp: reader_iteration_def Let_def not_less split: if_splits sum.splits option.splits)

lemma socket_reader_iteration:
  "socket_reader did accepts i bytes =
     (case reader_iteration did accepts (i, bytes) of
        (out, None) \<Rightarrow> out
      | (out, Some (j, bytes')) \<Rightarrow> out @ socket_reader did accepts j bytes')"
  by (subst socket_reader.simps) (auto simp: reader_iteration_def Let_def split: sum.split option.split)

lemma reader_rounds_enough:
  "length bytes div 5 < k \<Longrightarrow> reader_rounds k did accepts (i, bytes) = Some (socket_reader did accepts i bytes)"
proof (induction k arbitrary: i bytes)
  case (Suc k)
  obtain out s where it: "reader_iteration did accepts (i, bytes) = (out, s)" by fastforce
  show ?case
  proof (cases s)
    case None
    then show ?thesis using it socket_reader_iteration [of did accepts i bytes] by simp
  next
    case (Some js)
    obtain j bytes' where js: "js = (j, bytes')" by fastforce
    have "length bytes' + 5 \<le> length bytes" using reader_iteration_consumes it Some js by blast
    then have "length bytes' div 5 + 1 \<le> length bytes div 5"
      using div_le_mono [of "length bytes' + 5" "length bytes" 5] by simp
    then have "length bytes' div 5 < k" using Suc.prems by simp
    from Suc.IH [OF this] show ?thesis
      using it Some js socket_reader_iteration [of did accepts i bytes] by simp
  qed
qed simp

end
