(* ===== verification/Device_System.thy ===== *)
theory Device_System
  imports Device_Enrollment
begin

text \<open>
  The running device-management service as a step relation. Handlers run concurrently: a
  store operation is atomic (it holds the mutex), but between the claim of a serial and the
  insertion of its device other handlers run, and a handler may be dropped. The steps are the
  store operations with the handler code between them, so every interleaving of concurrent
  requests is a run. The engine may fail any statement: a \<open>COMMIT\<close> that fails and leaves its transaction
  open (\<^verbatim>\<open>store/mod.rs\<close>, lines 289 and 353) is part of the runs, and what later handlers write then goes
  into that transaction and is lost with it.
\<close>

section \<open>State and steps\<close>

text \<open>An enrollment past its claim: what its handler still holds.\<close>

record enroll_task =
  tk_serial :: string
  tk_pre :: pre_enrollment_record
  tk_csr :: pem
  tk_firmware :: string

datatype dms_event =
    Enrolled string string  \<comment> \<open>serial and device id of an enrollment that returned \<open>Ok\<close>\<close>
  | Unsaved string string  \<comment> \<open>the same, answered inside a transaction that an earlier claim left open\<close>
  | ManifestClaimed string string  \<comment> \<open>serial and token of a manifest entry claimed in Phase 1\<close>
  | Registered string  \<comment> \<open>serial given to \<open>register_serial\<close>\<close>

record dms_sys =
  sys_conn :: dconn
  sys_tasks :: "nat \<Rightarrow> enroll_task option"
  sys_log :: "dms_event list"

definition init_sys :: dms_sys where
  "init_sys = \<lparr>sys_conn = open_conn empty_tables, sys_tasks = (\<lambda>_. None), sys_log = []\<rparr>"

text \<open>
  The store operations of the other handlers, of the manifest seeding and of the health tick.
  Claims, insertions and registrations have rules of their own.
\<close>

fun plain_op :: "dev_op \<Rightarrow> bool" where
  "plain_op (CreateDevice _ _ _) = False"
| "plain_op (LookupAndClaim _) = False"
| "plain_op (ClaimManifestEntry _ _ _) = False"
| "plain_op (RegisterSerial _ _) = False"
| "plain_op _ = True"

definition enroll_event :: "dconn \<Rightarrow> string \<Rightarrow> string \<Rightarrow> dms_event" where
  "enroll_event c serial did = (if idle c then Enrolled serial did else Unsaved serial did)"

inductive dms_trans :: "enrollment_service \<Rightarrow> pem \<Rightarrow> dms_sys \<Rightarrow> dms_sys \<Rightarrow> bool"
  for svc :: enrollment_service and device_ca :: pem where
  enroll_claim:
    "enroll_check pki sreq certs device_ca = Inr serial \<Longrightarrow>
     lookup_and_claim eng serial (sys_conn s) = (Inr pre, c') \<Longrightarrow> sys_tasks s i = None \<Longrightarrow>
     dms_trans svc device_ca s
       (s\<lparr>sys_conn := c', sys_tasks := (sys_tasks s)(i \<mapsto>
          \<lparr>tk_serial = serial, tk_pre = pre, tk_csr = csr, tk_firmware = fw\<rparr>)\<rparr>)"
| enroll_refused:
    "lookup_and_claim eng serial (sys_conn s) = (Inl f, c') \<Longrightarrow>
     dms_trans svc device_ca s (s\<lparr>sys_conn := c'\<rparr>)"
| enroll_done:
    "sys_tasks s i = Some tk \<Longrightarrow>
     enroll_finish env svc (tk_csr tk) (tk_firmware tk) (tk_serial tk) (tk_pre tk) (sys_conn s) = (Inr r, c') \<Longrightarrow>
     dms_trans svc device_ca s
       (s\<lparr>sys_conn := c', sys_tasks := (sys_tasks s)(i := None),
          sys_log := sys_log s @ [enroll_event (sys_conn s) (tk_serial tk) (er_device_id r)]\<rparr>)"
| enroll_failed:
    "sys_tasks s i = Some tk \<Longrightarrow>
     enroll_finish env svc (tk_csr tk) (tk_firmware tk) (tk_serial tk) (tk_pre tk) (sys_conn s) = (Inl f, c') \<Longrightarrow>
     dms_trans svc device_ca s (s\<lparr>sys_conn := c', sys_tasks := (sys_tasks s)(i := None)\<rparr>)"
| enroll_dropped:
    "sys_tasks s i = Some tk \<Longrightarrow> dms_trans svc device_ca s (s\<lparr>sys_tasks := (sys_tasks s)(i := None)\<rparr>)"
| manifest_claimed:
    "claim_manifest_entry eng now serial token (sys_conn s) = (Inr m, c') \<Longrightarrow>
     dms_trans svc device_ca s (s\<lparr>sys_conn := c', sys_log := sys_log s @ [ManifestClaimed serial token]\<rparr>)"
| manifest_refused:
    "claim_manifest_entry eng now serial token (sys_conn s) = (Inl f, c') \<Longrightarrow>
     dms_trans svc device_ca s (s\<lparr>sys_conn := c'\<rparr>)"
| registered:
    "register_serial eng serial m (sys_conn s) = (r, c') \<Longrightarrow>
     dms_trans svc device_ca s (s\<lparr>sys_conn := c', sys_log := sys_log s @ [Registered serial]\<rparr>)"
| plain:
    "plain_op op \<Longrightarrow> dms_trans svc device_ca s (s\<lparr>sys_conn := dev_step eng op (sys_conn s)\<rparr>)"
| restart:
    "dms_trans svc device_ca s
       (s\<lparr>sys_conn := open_conn (committed (sys_conn s)), sys_tasks := (\<lambda>_. None)\<rparr>)"

inductive dms_reachable :: "enrollment_service \<Rightarrow> pem \<Rightarrow> dms_sys \<Rightarrow> bool"
  for svc :: enrollment_service and device_ca :: pem where
  start: "dms_reachable svc device_ca init_sys"
| step: "dms_reachable svc device_ca s \<Longrightarrow> dms_trans svc device_ca s s' \<Longrightarrow> dms_reachable svc device_ca s'"

section \<open>Columns that the invariant speaks of\<close>

definition dev_cols :: "dms_tables \<Rightarrow> (string \<times> string \<times> string) list" where
  "dev_cols t = map (\<lambda>r. (dr_serial r, dr_id r, dr_model r)) (devices t)"

definition pre_pairs :: "dms_tables \<Rightarrow> (string \<times> string) set" where
  "pre_pairs t = (\<lambda>r. (pe_serial r, pe_model r)) ` set (pre_enrollment t)"

definition man_pairs :: "dms_tables \<Rightarrow> (string \<times> string) set" where
  "man_pairs t = (\<lambda>r. (fm_serial r, fm_token r)) ` set (factory_manifest t)"

text \<open>\<open>t'\<close> has the devices of \<open>t\<close> and no fewer pre-enrollment or manifest entries.\<close>

definition extends_tables :: "dms_tables \<Rightarrow> dms_tables \<Rightarrow> bool" where
  "extends_tables t t' \<longleftrightarrow> dev_cols t' = dev_cols t \<and> pre_pairs t \<subseteq> pre_pairs t' \<and> man_pairs t \<subseteq> man_pairs t'"

lemma extends_refl [simp]: "extends_tables t t"
  by (simp add: extends_tables_def)

lemma dev_cols_set_rows:
  "(\<And>r. (dr_serial (f r), dr_id (f r), dr_model (f r)) = (dr_serial r, dr_id r, dr_model r)) \<Longrightarrow>
     dev_cols (devices_update (set_rows p f) t) = dev_cols t"
  by (simp add: dev_cols_def set_rows_def)

lemma cols_updates [simp]:
  "dev_cols (t\<lparr>pre_enrollment := x\<rparr>) = dev_cols t" "dev_cols (t\<lparr>factory_manifest := y\<rparr>) = dev_cols t"
  "pre_pairs (t\<lparr>devices := z\<rparr>) = pre_pairs t" "pre_pairs (t\<lparr>factory_manifest := y\<rparr>) = pre_pairs t"
  "man_pairs (t\<lparr>devices := z\<rparr>) = man_pairs t" "man_pairs (t\<lparr>pre_enrollment := x\<rparr>) = man_pairs t"
  by (simp_all add: dev_cols_def pre_pairs_def man_pairs_def)

lemma pre_pairs_set_rows:
  "(\<And>r. (pe_serial (f r), pe_model (f r)) = (pe_serial r, pe_model r)) \<Longrightarrow>
     pre_pairs (pre_enrollment_update (set_rows p f) t) = pre_pairs t"
  by (simp add: pre_pairs_def image_key_set_rows)

lemma man_pairs_set_rows:
  "(\<And>r. (fm_serial (f r), fm_token (f r)) = (fm_serial r, fm_token r)) \<Longrightarrow>
     man_pairs (factory_manifest_update (set_rows p f) t) = man_pairs t"
  by (simp add: man_pairs_def image_key_set_rows)

lemma extends_claim_serial: "extends_tables t (claim_serial serial t) \<and> pre_pairs (claim_serial serial t) = pre_pairs t"
  by (simp add: extends_tables_def claim_serial_def pre_pairs_set_rows dev_cols_def man_pairs_def)

lemma extends_provision:
  "extends_tables t (provision_serial now serial m t) \<and>
     pre_pairs (provision_serial now serial m t) \<subseteq> insert (serial, m) (pre_pairs t)"
  by (auto simp: extends_tables_def provision_serial_def insert_pre_def man_pairs_set_rows dev_cols_def pre_pairs_def)

lemma extends_upsert:
  "extends_tables t (snd (upsert_serial serial m t)) \<and>
     pre_pairs (snd (upsert_serial serial m t)) \<subseteq> insert (serial, m) (pre_pairs t)"
  by (auto simp: extends_tables_def upsert_serial_def pre_pairs_set_rows dev_cols_def man_pairs_def
      split: option.split) (auto simp: pre_pairs_def)

text \<open>One statement on an idle connection: it fails without effect, or its effect is the statement's.\<close>

lemma sql_on_idle:
  assumes "idle c"
  shows "snd (sql eng i stmt c) = c \<or> snd (sql eng i stmt c) = c\<lparr>tabs := snd (stmt (tabs c))\<rparr>"
  using assms by (auto simp: sql_def split: option.split prod.split)

lemma single_statement:
  assumes "idle c" and "\<And>t. Q t t" and "Q (tabs c) (snd (stmt (tabs c)))"
  shows "idle (snd (sql eng i stmt c)) \<and> Q (tabs c) (tabs (snd (sql eng i stmt c)))"
  using sql_on_idle [OF assms(1), of eng i stmt] assms by (auto simp: idle_def)

lemma snd_db_lock: "snd (db_lock eng body c) = (if lock_poisoned eng then c else snd (body c))"
  by (simp add: db_lock_def with_lock_def)

lemma snd_try_bind_same: "(\<And>a c. snd (k a c) = c) \<Longrightarrow> snd (try_bind m k) = snd m"
  by (simp add: snd_try_bind_cases split: sum.split)

lemma update_status_snd:
  "snd (update_status eng did st reason c) = (if lock_poisoned eng then c else
     snd (sql eng 0 (update_where devices_update devices (\<lambda>r. dr_id r = did) (\<lambda>r. r\<lparr>dr_status := st\<rparr>)) c))"
  by (simp add: update_status_def snd_db_lock snd_try_bind_same)

lemma touch_last_seen_snd:
  "snd (touch_last_seen eng now did c) = (if lock_poisoned eng then c else
     snd (sql eng 0 (update_where devices_update devices (\<lambda>r. dr_id r = did) (\<lambda>r. r\<lparr>dr_last_seen_at := now\<rparr>)) c))"
  by (simp add: touch_last_seen_def snd_db_lock snd_try_bind_same)

lemma sql_read: "(\<And>t. snd (stmt t) = t) \<Longrightarrow> idle c \<Longrightarrow> snd (sql eng i stmt c) = c"
  using sql_on_idle [of c eng i stmt] by auto

lemma reads_snd [simp]:
  assumes "idle c"
  shows "snd (get_device eng did c) = c" and "snd (get_by_serial eng s c) = c"
    and "snd (count_devices eng c) = c" and "snd (list_devices eng m st l cur c) = c"
  using assms
  by (auto simp: get_device_def get_by_serial_def count_devices_def list_devices_def snd_db_lock
      sql_read query_row_def query_def snd_try_bind_cases Let_def split: sum.split)

definition same_pre :: "dms_tables \<Rightarrow> dms_tables \<Rightarrow> bool" where
  "same_pre t t' \<longleftrightarrow> extends_tables t t' \<and> pre_pairs t' = pre_pairs t"

lemma same_pre_refl: "same_pre t t"
  by (simp add: same_pre_def)

lemma same_pre_update_devices:
  "(\<And>r. (dr_serial (f r), dr_id (f r), dr_model (f r)) = (dr_serial r, dr_id r, dr_model r)) \<Longrightarrow>
     same_pre t (snd (update_where devices_update devices p f t))"
  by (simp add: same_pre_def update_where_def extends_tables_def dev_cols_set_rows pre_pairs_def man_pairs_def)

lemma same_pre_insert_manifest: "same_pre t (snd (insert_manifest row t))"
  by (auto simp: same_pre_def insert_manifest_def extends_tables_def man_pairs_def)

lemma plain_step:
  assumes "plain_op op" and "idle c"
  shows "idle (dev_step eng op c) \<and> same_pre (tabs c) (tabs (dev_step eng op c))"
  using assms
  by (cases op)
    (auto simp: update_status_snd touch_last_seen_snd seed_manifest_def snd_db_lock same_pre_refl
      intro!: single_statement [where Q = same_pre, THEN conjunct1] single_statement [where Q = same_pre, THEN conjunct2]
        same_pre_update_devices same_pre_insert_manifest)

section \<open>Steps on any connection\<close>

text \<open>Inside an open transaction no operation of the store commits anything: a claim cannot begin.\<close>

lemma sql_open: "\<not> idle c \<Longrightarrow> committed (snd (sql eng i stmt c)) = committed c"
  by (auto simp: sql_def committed_def idle_def roll_back_def split: option.splits prod.splits)

lemma transaction_open: "\<not> idle c \<Longrightarrow> committed (snd (transaction eng n db body c)) = committed c"
  by (auto simp: transaction_def begin_immediate_def split: option.splits)

lemma try_bind_committed:
  assumes "committed (snd m) = x" and "\<And>a c. m = (Inr a, c) \<Longrightarrow> committed (snd (k a c)) = x"
  shows "committed (snd (try_bind m k)) = x"
  using assms by (cases "(m, k)" rule: try_bind.cases) auto

lemma query_open: "committed (snd (sql eng i (query f) c)) = committed c"
proof -
  have "snd (sql eng i (query f) c) = c \<or> snd (sql eng i (query f) c) = roll_back c"
    by (auto simp: sql_def query_def split: option.split)
  then show ?thesis by auto
qed

lemma list_devices_open: "committed (snd (list_devices eng m st l cur c)) = committed c"
proof -
  have q: "committed c' = committed c" if "map_err_st Db (sql eng i (query f) c) = (r, c')" for i r c c' and f :: "dms_tables \<Rightarrow> 'q"
    using query_open [of eng i f c] that by (auto simp: map_err_st_def split: prod.splits)
  show ?thesis
    by (auto simp: list_devices_def snd_db_lock Let_def query_open intro!: try_bind_committed dest!: q)
qed

lemma dev_step_open: "\<not> idle c \<Longrightarrow> committed (dev_step eng op c) = committed c"
  by (cases op)
    (auto simp: create_device_def get_device_def get_by_serial_def update_status_snd touch_last_seen_snd register_serial_def
      lookup_and_claim_def count_devices_def seed_manifest_def claim_manifest_entry_def snd_db_lock snd_try_bind_same
      sql_open transaction_open list_devices_open)

text \<open>No operation but \<open>create_device\<close> changes which devices there are, visible or committed.\<close>

definition cols_in :: "(string \<times> string \<times> string) list set \<Rightarrow> dms_tables \<Rightarrow> bool" where
  "cols_in D t \<longleftrightarrow> dev_cols t \<in> D"

lemma cols_statements:
  "cols_in D t \<Longrightarrow> cols_in D (snd (query f t))" "cols_in D t \<Longrightarrow> cols_in D (snd (query_row table key x t))"
  "cols_in D t \<Longrightarrow> cols_in D (snd (insert_manifest row t))" "cols_in D t \<Longrightarrow> cols_in D (snd (insert_pre row' t))"
  "cols_in D t \<Longrightarrow> cols_in D (snd (upsert_serial serial m t))"
  "cols_in D t \<Longrightarrow> cols_in D (snd (update_where pre_enrollment_update pre_enrollment p f' t))"
  "cols_in D t \<Longrightarrow> cols_in D (snd (update_where factory_manifest_update factory_manifest p' g t))"
  by (auto simp: cols_in_def query_def query_row_def insert_manifest_def insert_pre_def upsert_serial_def update_where_def
      dev_cols_def split: option.split)

lemma cols_update_devices:
  "(\<And>r. (dr_serial (h r), dr_id (h r), dr_model (h r)) = (dr_serial r, dr_id r, dr_model r)) \<Longrightarrow>
     cols_in D t \<Longrightarrow> cols_in D (snd (update_where devices_update devices q h t))"
  by (simp add: cols_in_def update_where_def dev_cols_set_rows)

lemma cols_bodies:
  "conn_all (cols_in D) c \<Longrightarrow> conn_all (cols_in D) (snd (claim_body eng serial c))"
  "conn_all (cols_in D) c \<Longrightarrow> conn_all (cols_in D) (snd (manifest_body eng x c))"
  unfolding claim_body_def manifest_body_def
  by (auto intro!: conn_all_try_bind conn_all_sql cols_statements split: prod.split)

fun creates :: "dev_op \<Rightarrow> bool" where
  "creates (CreateDevice _ _ _) = True"
| "creates _ = False"

lemma dev_step_cols: "\<not> creates op \<Longrightarrow> conn_all (cols_in D) c \<Longrightarrow> conn_all (cols_in D) (dev_step eng op c)"
  by (cases op)
    (auto simp: device_ops_defs Let_def intro!: conn_all_intros cols_statements cols_update_devices cols_bodies)

lemma dev_step_visible:
  assumes "\<not> creates op"
  shows "dev_cols (tabs (dev_step eng op c)) \<in> {dev_cols (tabs c), dev_cols (committed c)}"
proof -
  let ?D = "{dev_cols (tabs c), dev_cols (committed c)}"
  have "conn_all (cols_in ?D) c" by (auto simp: conn_all_def cols_in_def committed_def)
  from conn_all_tabs [OF dev_step_cols [OF assms this, of eng]] show ?thesis by (simp add: cols_in_def)
qed

text \<open>What the single statements do to the committed rows.\<close>

lemma plain_committed:
  assumes "plain_op op"
  shows "same_pre (committed c) (committed (dev_step eng op c))"
proof (cases "idle c")
  case True
  then show ?thesis using plain_step [OF assms, of c eng] by simp
qed (simp add: dev_step_open same_pre_refl)

lemma register_committed:
  assumes "register_serial eng serial m c = (r, c')"
  shows "extends_tables (committed c) (committed c') \<and> pre_pairs (committed c') \<subseteq> insert (serial, m) (pre_pairs (committed c))"
proof (cases "idle c")
  case True
  have "idle c' \<and> (extends_tables (tabs c) (tabs c') \<and> pre_pairs (tabs c') \<subseteq> insert (serial, m) (pre_pairs (tabs c)))"
    using assms True extends_upsert [of "tabs c" serial m]
      single_statement [OF True, where stmt = "upsert_serial serial m"
        and Q = "\<lambda>t t'. extends_tables t t' \<and> pre_pairs t' \<subseteq> insert (serial, m) (pre_pairs t)"]
    by (cases "lock_poisoned eng") (auto simp: register_serial_def db_lock_def with_lock_def map_err_st_def)
  with True show ?thesis by simp
next
  case False
  then have "committed c' = committed c" using dev_step_open [of c eng "RegisterSerial serial m"] assms by simp
  then show ?thesis by auto
qed

section \<open>The invariant\<close>

definition enrolled_ids :: "dms_event list \<Rightarrow> (string \<times> string) list" where
  "enrolled_ids log = List.map_filter (\<lambda>e. case e of Enrolled s i \<Rightarrow> Some (s, i) | _ \<Rightarrow> None) log"

lemma enrolled_ids_simps [simp]:
  "enrolled_ids [] = []"
  "enrolled_ids (log @ [Enrolled s i]) = enrolled_ids log @ [(s, i)]"
  "enrolled_ids (log @ [Unsaved s i]) = enrolled_ids log"
  "enrolled_ids (log @ [ManifestClaimed s tok]) = enrolled_ids log"
  "enrolled_ids (log @ [Registered s]) = enrolled_ids log"
  by (simp_all add: enrolled_ids_def List.map_filter_def)

definition vouched :: "dms_event list \<Rightarrow> string \<Rightarrow> bool" where
  "vouched log s \<longleftrightarrow> Registered s \<in> set log \<or> (\<exists>tok. ManifestClaimed s tok \<in> set log)"

lemma vouched_append [simp]: "vouched (log @ es) s \<longleftrightarrow> vouched log s \<or> vouched es s"
  by (auto simp: vouched_def)

text \<open>
  What holds of the committed tables, and of the visible ones: these may have devices of enrollments
  answered inside the open transaction.
\<close>

definition file_inv :: "dms_event list \<Rightarrow> (nat \<Rightarrow> enroll_task option) \<Rightarrow> dms_tables \<Rightarrow> bool" where
  "file_inv log tasks t \<longleftrightarrow>
     map (\<lambda>(sn, i, m). (sn, i)) (dev_cols t) = enrolled_ids log \<and>
     (\<forall>sn i m. (sn, i, m) \<in> set (dev_cols t) \<longrightarrow> (sn, m) \<in> pre_pairs t) \<and>
     (\<forall>i tk. tasks i = Some tk \<longrightarrow> (tk_serial tk, per_model (tk_pre tk)) \<in> pre_pairs t) \<and>
     (\<forall>sn m. (sn, m) \<in> pre_pairs t \<longrightarrow> vouched log sn) \<and>
     (\<forall>sn tok. ManifestClaimed sn tok \<in> set log \<longrightarrow> (sn, tok) \<in> man_pairs t)"

definition open_inv :: "dms_event list \<Rightarrow> dms_tables \<Rightarrow> dms_tables \<Rightarrow> bool" where
  "open_inv log t0 t \<longleftrightarrow>
     (\<exists>xs. dev_cols t = dev_cols t0 @ xs \<and> (\<forall>(sn, i, m) \<in> set xs. (sn, m) \<in> pre_pairs t0 \<and> Unsaved sn i \<in> set log))"

definition sys_inv :: "dms_sys \<Rightarrow> bool" where
  "sys_inv s \<longleftrightarrow> conn_all wf_tables (sys_conn s) \<and> file_inv (sys_log s) (sys_tasks s) (committed (sys_conn s)) \<and>
     open_inv (sys_log s) (committed (sys_conn s)) (tabs (sys_conn s))"

lemma open_inv_refl [simp]: "open_inv log t t"
  by (simp add: open_inv_def)

lemma sys_inv_devices:
  assumes "sys_inv s"
  shows "dr_serial ` set (devices (committed (sys_conn s))) \<subseteq> dr_serial ` set (devices (tabs (sys_conn s)))"
proof -
  have ser: "dr_serial ` set (devices t) = fst ` set (dev_cols t)" for t by (force simp: dev_cols_def)
  show ?thesis using assms unfolding ser by (auto simp: sys_inv_def open_inv_def)
qed

lemma sys_inv_init: "sys_inv init_sys"
  by (simp add: sys_inv_def file_inv_def init_sys_def dev_cols_def pre_pairs_def empty_tables_def conn_all_def wf_tables_def)

text \<open>Every step but a finished enrollment: the devices stay, new entries are vouched for.\<close>

lemma file_inv_frame:
  assumes "file_inv log tasks t" and "extends_tables t t'"
    and "enrolled_ids log' = enrolled_ids log" and "set log \<subseteq> set log'"
    and "\<And>sn m. (sn, m) \<in> pre_pairs t' \<Longrightarrow> (sn, m) \<in> pre_pairs t \<or> vouched log' sn"
    and "\<And>sn tok. ManifestClaimed sn tok \<in> set log' \<Longrightarrow> ManifestClaimed sn tok \<in> set log \<or> (sn, tok) \<in> man_pairs t'"
    and "\<And>i tk. tasks' i = Some tk \<Longrightarrow> tasks i = Some tk \<or> (tk_serial tk, per_model (tk_pre tk)) \<in> pre_pairs t'"
  shows "file_inv log' tasks' t'"
proof -
  have ext: "dev_cols t' = dev_cols t" "pre_pairs t \<subseteq> pre_pairs t'" "man_pairs t \<subseteq> man_pairs t'"
    using assms(2) by (auto simp: extends_tables_def)
  have v: "vouched log' sn" if "vouched log sn" for sn
    using that assms(4) by (auto simp: vouched_def)
  have old: "map (\<lambda>(sn, i, m). (sn, i)) (dev_cols t) = enrolled_ids log"
    "\<And>sn i m. (sn, i, m) \<in> set (dev_cols t) \<Longrightarrow> (sn, m) \<in> pre_pairs t"
    "\<And>i tk. tasks i = Some tk \<Longrightarrow> (tk_serial tk, per_model (tk_pre tk)) \<in> pre_pairs t"
    "\<And>sn m. (sn, m) \<in> pre_pairs t \<Longrightarrow> vouched log sn"
    "\<And>sn tok. ManifestClaimed sn tok \<in> set log \<Longrightarrow> (sn, tok) \<in> man_pairs t"
    using assms(1) by (auto simp: file_inv_def)
  have n1: "vouched log' sn" if "(sn, m) \<in> pre_pairs t'" for sn m
    using assms(5) [OF that] old(4) v by blast
  have n2: "(sn, tok) \<in> man_pairs t'" if "ManifestClaimed sn tok \<in> set log'" for sn tok
    using assms(6) [OF that] old(5) ext(3) by blast
  have n3: "(tk_serial tk, per_model (tk_pre tk)) \<in> pre_pairs t'" if "tasks' i = Some tk" for i tk
    using assms(7) [OF that] old(3) [of i tk] ext(2) by blast
  have n4: "(sn, m) \<in> pre_pairs t'" if "(sn, i, m) \<in> set (dev_cols t')" for sn i m
    using old(2) [of sn i m] ext(1,2) that by auto
  show ?thesis
    using old(1) ext(1) assms(3) n1 n2 n3 n4 unfolding file_inv_def by metis
qed

lemma open_inv_frame:
  assumes "open_inv log t0 t" and "extends_tables t0 t0'" and "set log \<subseteq> set log'" and "dev_cols t' \<in> {dev_cols t, dev_cols t0}"
  shows "open_inv log' t0' t'"
proof -
  from assms(1) obtain xs where xs: "dev_cols t = dev_cols t0 @ xs"
    "\<forall>(sn, i, m) \<in> set xs. (sn, m) \<in> pre_pairs t0 \<and> Unsaved sn i \<in> set log" by (auto simp: open_inv_def)
  have ext: "dev_cols t0' = dev_cols t0" "pre_pairs t0 \<subseteq> pre_pairs t0'" using assms(2) by (auto simp: extends_tables_def)
  from assms(4) consider "dev_cols t' = dev_cols t0 @ xs" | "dev_cols t' = dev_cols t0 @ []" using xs(1) by auto
  then show ?thesis
    using xs(2) ext assms(3) unfolding open_inv_def by cases (fastforce intro: exI [of _ xs] exI [of _ "[]"])+
qed

lemma sys_inv_frame:
  assumes "sys_inv s" and "conn_all wf_tables c'" and "dev_cols (tabs c') \<in> {dev_cols (tabs (sys_conn s)), dev_cols (committed (sys_conn s))}"
    and "extends_tables (committed (sys_conn s)) (committed c')"
    and "enrolled_ids log' = enrolled_ids (sys_log s)" and "set (sys_log s) \<subseteq> set log'"
    and "\<And>sn m. (sn, m) \<in> pre_pairs (committed c') \<Longrightarrow> (sn, m) \<in> pre_pairs (committed (sys_conn s)) \<or> vouched log' sn"
    and "\<And>sn tok. ManifestClaimed sn tok \<in> set log' \<Longrightarrow>
           ManifestClaimed sn tok \<in> set (sys_log s) \<or> (sn, tok) \<in> man_pairs (committed c')"
    and "\<And>i tk. tasks' i = Some tk \<Longrightarrow>
           sys_tasks s i = Some tk \<or> (tk_serial tk, per_model (tk_pre tk)) \<in> pre_pairs (committed c')"
  shows "sys_inv (s\<lparr>sys_conn := c', sys_tasks := tasks', sys_log := log'\<rparr>)"
proof -
  have "file_inv log' tasks' (committed c')"
    by (rule file_inv_frame [where tasks = "sys_tasks s" and log = "sys_log s" and t = "committed (sys_conn s)"])
      (use assms in \<open>simp_all add: sys_inv_def\<close>)
  moreover have "open_inv log' (committed c') (tabs c')"
    using assms open_inv_frame [OF _ assms(4,6,3)] by (simp add: sys_inv_def)
  ultimately show ?thesis using assms(2) by (simp add: sys_inv_def)
qed

text \<open>A step that commits nothing and logs nothing.\<close>

lemma sys_inv_quiet:
  assumes "sys_inv s" and "conn_all wf_tables c'" and "committed c' = committed (sys_conn s)"
    and "dev_cols (tabs c') \<in> {dev_cols (tabs (sys_conn s)), dev_cols (committed (sys_conn s))}"
    and "\<And>i tk. tasks' i = Some tk \<Longrightarrow> sys_tasks s i = Some tk"
  shows "sys_inv (s\<lparr>sys_conn := c', sys_tasks := tasks'\<rparr>)"
proof -
  have "sys_inv (s\<lparr>sys_conn := c', sys_tasks := tasks', sys_log := sys_log s\<rparr>)"
    using assms by (intro sys_inv_frame) auto
  then show ?thesis by simp
qed

lemma sys_inv_wf: "sys_inv s \<Longrightarrow> conn_all wf_tables (dev_step eng op (sys_conn s))"
  by (simp add: sys_inv_def dev_step_wf)

lemma sys_inv_done:
  assumes inv: "sys_inv s" and tk: "sys_tasks s i = Some tk"
    and fin: "enroll_finish env svc (tk_csr tk) (tk_firmware tk) (tk_serial tk) (tk_pre tk) (sys_conn s) = (Inr r, c')"
  shows "sys_inv (s\<lparr>sys_conn := c', sys_tasks := (sys_tasks s)(i := None),
          sys_log := sys_log s @ [enroll_event (sys_conn s) (tk_serial tk) (er_device_id r)]\<rparr>)"
proof -
  let ?d = "\<lambda>signed. \<lparr>nd_serial = tk_serial tk, nd_model = per_model (tk_pre tk), nd_firmware = tk_firmware tk, nd_cert = signed\<rparr>"
  from fin obtain signed where r: "er_device_id r = env_uuid env"
    and cr: "create_device (env_engine env 1) (env_uuid env) (env_clock env 2) (?d signed) (sys_conn s) =
        (Inr (new_record (env_uuid env) (env_clock env 2) (?d signed)), c')"
    by (auto elim!: enroll_finish_Inr)
  let ?c = "sys_conn s" and ?new = "(tk_serial tk, env_uuid env, per_model (tk_pre tk))"
  have dc: "dev_cols (tabs c') = dev_cols (tabs ?c) @ [?new]" and pm: "pre_pairs (tabs c') = pre_pairs (tabs ?c)"
    "man_pairs (tabs c') = man_pairs (tabs ?c)" and sv: "saved c' = saved ?c"
    using create_device_Inr(4) [OF cr] by (simp_all add: dev_cols_def new_record_def)
  have wf: "conn_all wf_tables c'"
    using sys_inv_wf [OF inv, of "env_engine env 1" "CreateDevice (env_uuid env) (env_clock env 2) (?d signed)"] by (simp add: cr [simplified])
  have pre: "(tk_serial tk, per_model (tk_pre tk)) \<in> pre_pairs (committed ?c)" using inv tk by (simp add: sys_inv_def file_inv_def)
  show ?thesis
  proof (cases "idle ?c")
    case True
    then have "committed c' = tabs c'" "committed ?c = tabs ?c" using sv by (simp_all add: idle_def)
    with inv wf dc pm pre r True show ?thesis by (auto simp: sys_inv_def file_inv_def enroll_event_def)
  next
    case False
    then have "committed c' = committed ?c" using sv by (auto simp: committed_def idle_def)
    moreover from inv obtain xs where "dev_cols (tabs ?c) = dev_cols (committed ?c) @ xs"
      "\<forall>(sn, i, m) \<in> set xs. (sn, m) \<in> pre_pairs (committed ?c) \<and> Unsaved sn i \<in> set (sys_log s)"
      by (auto simp: sys_inv_def open_inv_def)
    ultimately have "open_inv (sys_log s @ [Unsaved (tk_serial tk) (env_uuid env)]) (committed c') (tabs c')"
      unfolding open_inv_def using dc pre by (intro exI [of _ "xs @ [?new]"]) auto
    moreover have "file_inv (sys_log s @ [Unsaved (tk_serial tk) (env_uuid env)]) ((sys_tasks s)(i := None)) (committed c')"
    proof (rule file_inv_frame [of "sys_log s" "sys_tasks s" "committed ?c"])
      show "file_inv (sys_log s) (sys_tasks s) (committed ?c)" using inv by (simp add: sys_inv_def)
    qed (use \<open>committed c' = committed ?c\<close> in \<open>auto split: if_splits\<close>)
    ultimately show ?thesis using wf r False by (simp add: sys_inv_def enroll_event_def)
  qed
qed

lemma trans_enroll_claim:
  assumes "sys_inv s" and "lookup_and_claim eng serial (sys_conn s) = (Inr pre, c')"
  shows "sys_inv (s\<lparr>sys_conn := c', sys_tasks := (sys_tasks s)(i \<mapsto>
          \<lparr>tk_serial = serial, tk_pre = pre, tk_csr = csr, tk_firmware = fw\<rparr>)\<rparr>)"
proof -
  let ?t = "tabs (sys_conn s)"
  from assms(2) obtain row where idle: "idle (sys_conn s)" and row: "row_with pe_serial serial (pre_enrollment ?t) = Some row"
    and pre: "pre = \<lparr>per_serial = serial, per_model = pe_model row\<rparr>"
    and c': "c' = (sys_conn s)\<lparr>tabs := claim_serial serial ?t\<rparr>"
    by (rule lookup_and_claim_Inr)
  then have com: "committed c' = claim_serial serial ?t" "committed (sys_conn s) = ?t" by (simp_all add: idle_def)
  have vis: "tabs c' = claim_serial serial ?t" by (simp add: c')
  from row_with_SomeD [OF row] have "(serial, per_model pre) \<in> pre_pairs ?t"
    by (auto simp: pre_pairs_def pre)
  moreover have "conn_all wf_tables c'"
    using sys_inv_wf [OF assms(1), of eng "LookupAndClaim serial"] assms(2) by simp
  ultimately have "sys_inv (s\<lparr>sys_conn := c', sys_tasks := (sys_tasks s)(i \<mapsto>
      \<lparr>tk_serial = serial, tk_pre = pre, tk_csr = csr, tk_firmware = fw\<rparr>), sys_log := sys_log s\<rparr>)"
    using extends_claim_serial [of ?t serial] vis
    by (intro sys_inv_frame [OF assms(1)]) (auto simp: com extends_tables_def split: if_splits)
  then show ?thesis by simp
qed

lemma trans_manifest_claimed:
  assumes "sys_inv s" and "claim_manifest_entry eng now serial token (sys_conn s) = (Inr m, c')"
  shows "sys_inv (s\<lparr>sys_conn := c', sys_log := sys_log s @ [ManifestClaimed serial token]\<rparr>)"
proof -
  let ?t = "tabs (sys_conn s)"
  from assms(2) obtain row where idle: "idle (sys_conn s)"
    and row: "row_with fm_serial serial (factory_manifest ?t) = Some row" "fm_token row = token"
    and c': "c' = (sys_conn s)\<lparr>tabs := provision_serial now serial (fm_model row) ?t\<rparr>"
    by (rule claim_manifest_entry_Inr)
  then have com: "committed c' = tabs c'" "committed (sys_conn s) = ?t" by (simp_all add: idle_def)
  have ext: "extends_tables ?t (tabs c')" "pre_pairs (tabs c') \<subseteq> insert (serial, fm_model row) (pre_pairs ?t)"
    using extends_provision [of ?t now serial "fm_model row"] by (simp_all add: c')
  have "(serial, token) \<in> man_pairs ?t"
    using row_with_SomeD [OF row(1)] row(2) by (auto simp: man_pairs_def)
  then have tok: "(serial, token) \<in> man_pairs (tabs c')" using ext(1) by (auto simp: extends_tables_def)
  have wf: "conn_all wf_tables c'"
    using sys_inv_wf [OF assms(1), of eng "ClaimManifestEntry now serial token"] assms(2) by simp
  have "sys_inv (s\<lparr>sys_conn := c', sys_tasks := sys_tasks s, sys_log := sys_log s @ [ManifestClaimed serial token]\<rparr>)"
    using ext tok by (intro sys_inv_frame [OF assms(1) wf]) (auto simp: com vouched_def extends_tables_def)
  then show ?thesis by simp
qed

lemma trans_registered:
  assumes "sys_inv s" and "register_serial eng serial m (sys_conn s) = (r, c')"
  shows "sys_inv (s\<lparr>sys_conn := c', sys_log := sys_log s @ [Registered serial]\<rparr>)"
proof -
  have "conn_all wf_tables c'" and vis: "dev_cols (tabs c') \<in> {dev_cols (tabs (sys_conn s)), dev_cols (committed (sys_conn s))}"
    using sys_inv_wf [OF assms(1), of eng "RegisterSerial serial m"] dev_step_visible [of "RegisterSerial serial m" eng "sys_conn s"]
      assms(2) by simp_all
  then have "sys_inv (s\<lparr>sys_conn := c', sys_tasks := sys_tasks s, sys_log := sys_log s @ [Registered serial]\<rparr>)"
    using register_committed [OF assms(2)] by (intro sys_inv_frame [OF assms(1)]) (auto simp: vouched_def)
  then show ?thesis by simp
qed

lemma trans_plain:
  assumes "sys_inv s" and "plain_op op"
  shows "sys_inv (s\<lparr>sys_conn := dev_step eng op (sys_conn s)\<rparr>)"
proof -
  have "\<not> creates op" using assms(2) by (cases op) simp_all
  then have "sys_inv (s\<lparr>sys_conn := dev_step eng op (sys_conn s), sys_tasks := sys_tasks s, sys_log := sys_log s\<rparr>)"
    using plain_committed [OF assms(2), of "sys_conn s" eng] sys_inv_wf [OF assms(1)] dev_step_visible [of op eng "sys_conn s"]
    by (intro sys_inv_frame [OF assms(1)]) (auto simp: same_pre_def)
  then show ?thesis by simp
qed

text \<open>A refused claim: nothing is committed, but the transaction may be left open.\<close>

lemma trans_refused:
  assumes "sys_inv s" and "c' = dev_step eng op (sys_conn s)" and "\<not> creates op" and "committed c' = committed (sys_conn s)"
  shows "sys_inv (s\<lparr>sys_conn := c'\<rparr>)"
  using sys_inv_quiet [OF assms(1) _ assms(4), of "sys_tasks s"] sys_inv_wf [OF assms(1)] dev_step_visible [OF assms(3)] assms(2)
  by simp

lemma trans_drop: "sys_inv s \<Longrightarrow> sys_inv (s\<lparr>sys_tasks := (sys_tasks s)(i := None)\<rparr>)"
  using sys_inv_quiet [of s "sys_conn s" "(sys_tasks s)(i := None)"]
  by (simp add: sys_inv_def) (metis fun_upd_apply option.distinct(1))

lemma tabs_roll_back: "tabs (roll_back c) = committed c"
  by (simp add: roll_back_def committed_def split: option.split)

lemma trans_roll_back:
  assumes "sys_inv s" and "\<And>i tk. tasks' i = Some tk \<Longrightarrow> sys_tasks s i = Some tk"
  shows "sys_inv (s\<lparr>sys_conn := roll_back (sys_conn s), sys_tasks := tasks'\<rparr>)"
  using assms by (intro sys_inv_quiet) (simp_all add: sys_inv_def conn_all_roll_back tabs_roll_back)

lemma dms_trans_inv: "dms_trans svc ca s s' \<Longrightarrow> sys_inv s \<Longrightarrow> sys_inv s'"
proof (induction rule: dms_trans.induct)
  case (enroll_claim pki sreq certs serial eng s pre c' i csr fw)
  then show ?case by (intro trans_enroll_claim)
next
  case (enroll_refused eng serial s f c')
  then show ?case
    using lookup_and_claim_Inl_committed by (intro trans_refused [where op = "LookupAndClaim serial" and eng = eng]) auto
next
  case (enroll_done s i tk env r c')
  then show ?case by (intro sys_inv_done)
next
  case (enroll_failed s i tk env f c')
  then show ?case
    using enroll_finish_Inl [OF enroll_failed(2)] trans_drop [of s i] trans_roll_back [of s "(sys_tasks s)(i := None)"]
      enroll_failed.prems by (fastforce split: if_splits)
next
  case (enroll_dropped s i tk)
  then show ?case by (intro trans_drop)
next
  case (manifest_claimed eng now serial token s m c')
  then show ?case by (intro trans_manifest_claimed)
next
  case (manifest_refused eng now serial token s f c')
  then show ?case
    using claim_manifest_entry_Inl_committed
    by (intro trans_refused [where op = "ClaimManifestEntry now serial token" and eng = eng]) auto
next
  case (registered eng serial m s r c')
  then show ?case by (intro trans_registered)
next
  case (plain op s eng)
  then show ?case by (intro trans_plain)
next
  case (restart s)
  have "open_conn (committed (sys_conn s)) = roll_back (sys_conn s)"
    by (cases "sys_conn s") (simp add: open_conn_def roll_back_def committed_def split: option.split)
  then show ?case using trans_roll_back [OF restart.prems, of "\<lambda>_. None"] by simp
qed

lemma reachable_inv: "dms_reachable svc ca s \<Longrightarrow> sys_inv s"
  by (induction rule: dms_reachable.induct) (auto intro: sys_inv_init dms_trans_inv)

text \<open>A whole \<open>bootstrap_enroll\<close> that returns \<open>Ok\<close> is a run of two steps.\<close>

lemma bootstrap_enroll_run:
  assumes "bootstrap_enroll env svc sreq csr fw certs ca (sys_conn s) = (Inr r, c')"
    and "sys_tasks s i = None"
  obtains serial where "enroll_check (env_pki env) sreq certs ca = Inr serial"
    "(dms_trans svc ca)\<^sup>*\<^sup>* s (s\<lparr>sys_conn := c', sys_log := sys_log s @ [Enrolled serial (er_device_id r)]\<rparr>)"
proof -
  from assms(1) obtain serial pre c1 where chk: "enroll_check (env_pki env) sreq certs ca = Inr serial"
    and claim: "lookup_and_claim (env_engine env 0) serial (sys_conn s) = (Inr pre, c1)"
    and fin: "enroll_finish env svc csr fw serial pre c1 = (Inr r, c')"
    by (auto simp: bootstrap_enroll_def try_bind_eq_Inr)
  let ?tk = "\<lparr>tk_serial = serial, tk_pre = pre, tk_csr = csr, tk_firmware = fw\<rparr>"
  let ?s1 = "s\<lparr>sys_conn := c1, sys_tasks := (sys_tasks s)(i \<mapsto> ?tk)\<rparr>"
  have "dms_trans svc ca s ?s1"
    using chk claim assms(2) by (rule dms_trans.enroll_claim)
  moreover have "idle c1" using claim by (rule lookup_and_claim_Inr) (simp add: idle_def)
  moreover have "dms_trans svc ca ?s1 (?s1\<lparr>sys_conn := c', sys_tasks := (sys_tasks ?s1)(i := None),
      sys_log := sys_log ?s1 @ [enroll_event (sys_conn ?s1) (tk_serial ?tk) (er_device_id r)]\<rparr>)"
    by (rule dms_trans.enroll_done) (use fin in auto)
  moreover have "(sys_tasks s)(i := None) = sys_tasks s" using assms(2) by auto
  ultimately have "(dms_trans svc ca)\<^sup>*\<^sup>* s
      (s\<lparr>sys_conn := c', sys_log := sys_log s @ [Enrolled serial (er_device_id r)]\<rparr>)"
    by (simp add: converse_rtranclp_into_rtranclp enroll_event_def)
  with chk show ?thesis by (rule that)
qed

lemma reachable_rtranclp: "(dms_trans svc ca)\<^sup>*\<^sup>* s s' \<Longrightarrow> dms_reachable svc ca s \<Longrightarrow> dms_reachable svc ca s'"
  by (induction rule: rtranclp_induct) (auto intro: dms_reachable.step)

end
