(* ===== verification/Artifact_Store.thy ===== *)
theory Artifact_Store
  imports Sqlite_Model
begin

text \<open>
  The artifact store: the registry of firmware artifacts
  (\<^verbatim>\<open>artifact-store/src/registry/mod.rs\<close>), the object store client
  (\<^verbatim>\<open>src/storage/mod.rs\<close>) over the S3 library, a parameter, and the gRPC handlers
  (\<^verbatim>\<open>src/server/mod.rs\<close>).
\<close>

section \<open>Errors (error.rs)\<close>

datatype artifact_error =
    ArtifactNotFound string
  | VersionConflict string string
  | ArtifactDb rusqlite_error
  | Storage string
  | ChecksumMismatch string string

fun artifact_to_string :: "(rusqlite_error \<Rightarrow> string) \<Rightarrow> artifact_error \<Rightarrow> string" where
  "artifact_to_string d (ArtifactNotFound m) = ''not found: '' @ m"
| "artifact_to_string d (VersionConflict m v) = ''version already exists: '' @ m @ ''@'' @ v"
| "artifact_to_string d (ArtifactDb e) = ''database error: '' @ d e"
| "artifact_to_string d (Storage m) = ''storage error: '' @ m"
| "artifact_to_string d (ChecksumMismatch e a) = ''checksum mismatch: expected '' @ e @ '', got '' @ a"

section \<open>The registry\<close>

record new_artifact =
  na_model :: string
  na_version :: string
  na_sha256 :: string
  na_size_bytes :: int
  na_channel :: string
  na_object_key :: string
  na_download_url :: string

record artifact_record =
  ar_id :: string
  ar_model :: string
  ar_version :: string
  ar_sha256 :: string
  ar_size_bytes :: int
  ar_channel :: string
  ar_object_key :: string
  ar_download_url :: string
  ar_created_at :: int

record artifact_tables =
  artifacts :: "artifact_record list"

type_synonym aconn = "artifact_tables conn"
type_synonym 'a artifact_op = "aconn \<Rightarrow> (artifact_error, 'a) result \<times> aconn"
type_synonym artifact_plan = "artifact_record list \<Rightarrow> artifact_record list"

definition empty_artifacts :: artifact_tables where
  "empty_artifacts = \<lparr>artifacts = []\<rparr>"

definition registry_lock :: "engine \<Rightarrow> 'a artifact_op \<Rightarrow> 'a artifact_op" where
  "registry_lock eng = with_lock eng (Fail (Storage ''db mutex poisoned''))"

text \<open>\<open>INSERT INTO artifacts\<close>: \<open>id\<close> is the primary key, \<open>(model, version)\<close> is unique.\<close>

definition insert_artifact :: "artifact_record \<Rightarrow> artifact_tables \<Rightarrow> (rusqlite_error, unit) result \<times> artifact_tables" where
  "insert_artifact row t =
     (if ar_id row \<in> ar_id ` set (artifacts t) \<or>
         (ar_model row, ar_version row) \<in> (\<lambda>r. (ar_model r, ar_version r)) ` set (artifacts t)
      then (Err (SqliteFailure ConstraintViolation), t)
      else (Ok (), t\<lparr>artifacts := artifacts t @ [row]\<rparr>))"

definition artifact_of :: "string \<Rightarrow> int \<Rightarrow> new_artifact \<Rightarrow> artifact_record" where
  "artifact_of aid now a =
     \<lparr>ar_id = aid, ar_model = na_model a, ar_version = na_version a, ar_sha256 = na_sha256 a,
      ar_size_bytes = na_size_bytes a, ar_channel = na_channel a, ar_object_key = na_object_key a,
      ar_download_url = na_download_url a, ar_created_at = now\<rparr>"

definition registry_create :: "engine \<Rightarrow> string \<Rightarrow> int \<Rightarrow> new_artifact \<Rightarrow> artifact_record artifact_op" where
  "registry_create eng aid now a =
     registry_lock eng (\<lambda>c.
       try_bind
         (map_err_st
            (\<lambda>e. case e of SqliteFailure ConstraintViolation \<Rightarrow> VersionConflict (na_model a) (na_version a)
                         | other \<Rightarrow> ArtifactDb other)
            (sql eng 0 (insert_artifact (artifact_of aid now a)) c))
         (\<lambda>_ c. (Ok (artifact_of aid now a), c)))"

definition artifact_no_rows :: "string \<Rightarrow> rusqlite_error \<Rightarrow> artifact_error" where
  "artifact_no_rows m e = (if e = QueryReturnedNoRows then ArtifactNotFound m else ArtifactDb e)"

definition registry_get :: "engine \<Rightarrow> string \<Rightarrow> artifact_record artifact_op" where
  "registry_get eng aid =
     registry_lock eng (\<lambda>c. map_err_st (artifact_no_rows aid) (sql eng 0 (query_row artifacts ar_id aid) c))"

definition in_channel :: "string \<Rightarrow> string \<Rightarrow> artifact_record \<Rightarrow> bool" where
  "in_channel model channel r \<longleftrightarrow> ar_model r = model \<and> ar_channel r = channel"

definition newest_first :: "artifact_plan \<Rightarrow> string \<Rightarrow> string \<Rightarrow> artifact_tables \<Rightarrow> artifact_record list" where
  "newest_first plan model channel t =
     order_desc plan ar_created_at (filter (in_channel model channel) (artifacts t))"

definition registry_get_latest :: "engine \<Rightarrow> artifact_plan \<Rightarrow> string \<Rightarrow> string \<Rightarrow> artifact_record artifact_op" where
  "registry_get_latest eng plan model channel =
     registry_lock eng (\<lambda>c.
       map_err_st (artifact_no_rows (model @ ''@latest ('' @ channel @ '')''))
         (sql eng 0 (\<lambda>t. (case limit_rows 1 (newest_first plan model channel t) of
             [] \<Rightarrow> Err QueryReturnedNoRows | row # _ \<Rightarrow> Ok row, t)) c))"

definition registry_list :: "engine \<Rightarrow> artifact_plan \<Rightarrow> string \<Rightarrow> string \<Rightarrow> int \<Rightarrow> artifact_record list artifact_op" where
  "registry_list eng plan model channel limit =
     registry_lock eng (\<lambda>c.
       try_bind (map_err_st ArtifactDb (sql eng 0 (query (\<lambda>_. ())) c)) (\<lambda>_ c.
       try_bind (map_err_st ArtifactDb (sql eng 1 (query (\<lambda>t. limit_rows limit (newest_first plan model channel t))) c))
         (\<lambda>rows c. (map_err ArtifactDb (collect_results (step_rows eng 2 rows)), c))))"

section \<open>The object store\<close>

text \<open>
  \<open>MinioStore\<close> over the S3 client. \<open>s3_head_object\<close> fails with the text of the error and
  whether it is the service's \<open>NotFound\<close>.
\<close>

record s3_client =
  s3_expires_in :: "u64 \<Rightarrow> (string, u64) result"
  s3_presign_put :: "string \<Rightarrow> string \<Rightarrow> u64 \<Rightarrow> (string, string) result"
  s3_presign_get :: "string \<Rightarrow> string \<Rightarrow> u64 \<Rightarrow> (string, string) result"
  s3_head_object :: "string \<Rightarrow> string \<Rightarrow> (string \<times> bool, unit) result"

record minio_store =
  ms_client :: s3_client
  ms_bucket :: string

definition presign_upload :: "minio_store \<Rightarrow> string \<Rightarrow> u64 \<Rightarrow> (artifact_error, string) result" where
  "presign_upload s key expires_secs =
     try_pure (map_err Storage (s3_expires_in (ms_client s) expires_secs)) (\<lambda>cfg.
     map_err Storage (s3_presign_put (ms_client s) (ms_bucket s) key cfg))"

definition presign_download :: "minio_store \<Rightarrow> string \<Rightarrow> u64 \<Rightarrow> (artifact_error, string) result" where
  "presign_download s key expires_secs =
     try_pure (map_err Storage (s3_expires_in (ms_client s) expires_secs)) (\<lambda>cfg.
     map_err Storage (s3_presign_get (ms_client s) (ms_bucket s) key cfg))"

definition object_exists :: "minio_store \<Rightarrow> string \<Rightarrow> (artifact_error, bool) result" where
  "object_exists s key =
     (case s3_head_object (ms_client s) (ms_bucket s) key of
        Inr _ \<Rightarrow> Ok True
      | Inl (Fail (m, is_not_found)) \<Rightarrow> if is_not_found then Ok False else Err (Storage m)
      | Inl Panic \<Rightarrow> Panicked)"

section \<open>Handlers\<close>

record artifact_meta =
  am_artifact_id :: string
  am_model :: string
  am_version :: string
  am_download_url :: string
  am_sha256 :: string
  am_size_bytes :: u64
  am_channel :: string
  am_created_at :: "timestamp option"
  am_metadata :: "(string \<times> string) list"

definition artifact_to_proto :: "artifact_record \<Rightarrow> artifact_meta" where
  "artifact_to_proto r =
     \<lparr>am_artifact_id = ar_id r, am_model = ar_model r, am_version = ar_version r,
      am_download_url = ar_download_url r, am_sha256 = ar_sha256 r, am_size_bytes = i64_as_u64 (ar_size_bytes r),
      am_channel = ar_channel r, am_created_at = Some \<lparr>ts_seconds = ar_created_at r, ts_nanos = 0\<rparr>,
      am_metadata = []\<rparr>"

fun artifact_map_err :: "(rusqlite_error \<Rightarrow> string) \<Rightarrow> artifact_error \<Rightarrow> status" where
  "artifact_map_err d (ArtifactNotFound m) = status_of NotFoundCode m"
| "artifact_map_err d (VersionConflict m v) = status_of AlreadyExists (artifact_to_string d (VersionConflict m v))"
| "artifact_map_err d e = status_of Internal (artifact_to_string d e)"

record publish_request =
  pb_model :: string
  pb_version :: string
  pb_sha256 :: string
  pb_size_bytes :: u64
  pb_channel :: string
  pb_object_key :: string

definition new_artifact_of :: "publish_request \<Rightarrow> new_artifact" where
  "new_artifact_of req =
     \<lparr>na_model = pb_model req, na_version = pb_version req, na_sha256 = pb_sha256 req,
      na_size_bytes = u64_as_i64 (pb_size_bytes req), na_channel = pb_channel req,
      na_object_key = pb_object_key req, na_download_url = []\<rparr>"

definition publish_artifact :: "engine \<Rightarrow> string \<Rightarrow> int \<Rightarrow> publish_request \<Rightarrow> aconn
    \<Rightarrow> (status, artifact_meta) result \<times> aconn" where
  "publish_artifact eng aid now req c =
     (if pb_sha256 req = [] then (Err (status_of InvalidArgument ''sha256 cannot be empty''), c)
      else
        try_bind (map_err_st (artifact_map_err (err_display eng))
            (registry_create eng aid now (new_artifact_of req) c)) (\<lambda>record c.
        (Ok (artifact_to_proto record), c)))"

definition get_artifact :: "engine \<Rightarrow> string \<Rightarrow> aconn \<Rightarrow> (status, artifact_meta) result \<times> aconn" where
  "get_artifact eng aid c =
     try_bind (map_err_st (artifact_map_err (err_display eng)) (registry_get eng aid c)) (\<lambda>record c.
     (Ok (artifact_to_proto record), c))"

definition list_artifacts :: "engine \<Rightarrow> artifact_plan \<Rightarrow> string \<Rightarrow> string \<Rightarrow> int \<Rightarrow> aconn
    \<Rightarrow> (status, artifact_meta list) result \<times> aconn" where
  "list_artifacts eng plan model channel limit c =
     (let lim = (if limit > 0 then limit else 50) in
      try_bind (map_err_st (artifact_map_err (err_display eng)) (registry_list eng plan model channel lim c))
        (\<lambda>records c. (Ok (map artifact_to_proto records), c)))"

definition get_latest :: "engine \<Rightarrow> artifact_plan \<Rightarrow> string \<Rightarrow> string \<Rightarrow> aconn
    \<Rightarrow> (status, artifact_meta) result \<times> aconn" where
  "get_latest eng plan model channel c =
     try_bind (map_err_st (artifact_map_err (err_display eng)) (registry_get_latest eng plan model channel c))
       (\<lambda>record c. (Ok (artifact_to_proto record), c))"

definition upload_key :: "string \<Rightarrow> string \<Rightarrow> string" where
  "upload_key model version = model @ ''/'' @ version @ ''/firmware.bin''"

definition generate_upload_url :: "(string \<Rightarrow> u64 \<Rightarrow> (artifact_error, string) result) \<Rightarrow> (rusqlite_error \<Rightarrow> string)
    \<Rightarrow> string \<Rightarrow> string \<Rightarrow> (status, string \<times> string) result" where
  "generate_upload_url presign d model version =
     (let key = upload_key model version in
      try_pure (map_err (artifact_map_err d) (presign key 3600)) (\<lambda>upload_url. Ok (upload_url, key)))"

section \<open>The constraints of the registry\<close>

definition wf_artifacts :: "artifact_tables \<Rightarrow> bool" where
  "wf_artifacts t \<longleftrightarrow> distinct (map ar_id (artifacts t)) \<and>
     distinct (map (\<lambda>r. (ar_model r, ar_version r)) (artifacts t))"

lemma wf_empty_artifacts [simp]: "wf_artifacts empty_artifacts"
  by (simp add: wf_artifacts_def empty_artifacts_def)

datatype artifact_request =
    Publish string int publish_request
  | GetArtifact string
  | GetLatest artifact_plan string string
  | ListArtifacts artifact_plan string string int

fun artifact_step :: "engine \<Rightarrow> artifact_request \<Rightarrow> aconn \<Rightarrow> aconn" where
  "artifact_step eng (Publish aid now req) c = snd (publish_artifact eng aid now req c)"
| "artifact_step eng (GetArtifact aid) c = snd (get_artifact eng aid c)"
| "artifact_step eng (GetLatest plan model channel) c = snd (get_latest eng plan model channel c)"
| "artifact_step eng (ListArtifacts plan model channel limit) c = snd (list_artifacts eng plan model channel limit c)"

lemma wf_insert_artifact: "wf_artifacts t \<Longrightarrow> wf_artifacts (snd (insert_artifact row t))"
  by (auto simp: wf_artifacts_def insert_artifact_def)

lemma artifact_step_wf: "conn_all wf_artifacts c \<Longrightarrow> conn_all wf_artifacts (artifact_step eng req c)"
  by (cases req)
    (auto simp: publish_artifact_def get_artifact_def get_latest_def list_artifacts_def registry_create_def
      registry_get_def registry_get_latest_def registry_list_def registry_lock_def Let_def conn_all_reads
      intro!: conn_all_with_lock conn_all_try_bind conn_all_sql wf_insert_artifact)

interpretation artifact_schema: schema_store artifact_step wf_artifacts
  by unfold_locales (rule artifact_step_wf)

section \<open>The operations on a healthy engine\<close>

lemma registry_create_healthy:
  assumes "no_fault eng"
  shows "registry_create eng aid now a c =
    (if aid \<in> ar_id ` set (artifacts (tabs c)) \<or>
        (na_model a, na_version a) \<in> (\<lambda>r. (ar_model r, ar_version r)) ` set (artifacts (tabs c))
     then (Err (VersionConflict (na_model a) (na_version a)), c)
     else (Ok (artifact_of aid now a), c\<lparr>tabs := (tabs c)\<lparr>artifacts := artifacts (tabs c) @ [artifact_of aid now a]\<rparr>\<rparr>))"
  using assms by (auto simp: registry_create_def registry_lock_def with_lock_def insert_artifact_def artifact_of_def)

lemma registry_get_healthy:
  "no_fault eng \<Longrightarrow> registry_get eng aid c = (ok_or (ArtifactNotFound aid) (row_with ar_id aid (artifacts (tabs c))), c)"
  by (cases "row_with ar_id aid (artifacts (tabs c))")
    (auto simp: registry_get_def registry_lock_def with_lock_def query_row_def artifact_no_rows_def)

lemma registry_get_latest_healthy:
  assumes "no_fault eng"
  shows "registry_get_latest eng plan model channel c =
    (case newest_first plan model channel (tabs c) of
       [] \<Rightarrow> Err (ArtifactNotFound (model @ ''@latest ('' @ channel @ '')'')) | r # _ \<Rightarrow> Ok r, c)"
  using assms
  by (cases "newest_first plan model channel (tabs c)")
    (simp_all add: registry_get_latest_def registry_lock_def with_lock_def limit_rows_def artifact_no_rows_def)

lemma collect_step_rows: "no_fault eng \<Longrightarrow> collect_results (step_rows eng i rows) = Inr rows"
  by (induction rows arbitrary: i) simp_all

lemma registry_list_healthy:
  assumes "no_fault eng"
  shows "registry_list eng plan model channel limit c =
    (Ok (limit_rows limit (newest_first plan model channel (tabs c))), c)"
  using assms by (simp add: registry_list_def registry_lock_def with_lock_def query_def collect_step_rows)

lemma set_newest_first:
  "is_plan plan \<Longrightarrow> set (newest_first plan model channel t) = {r \<in> set (artifacts t). in_channel model channel r}"
  by (simp add: newest_first_def)

lemma newest_first_sorted: "sorted_wrt (\<ge>) (map ar_created_at (newest_first plan model channel t))"
  by (simp add: newest_first_def order_desc_sorted)

end
