(* ===== verification/Durable_Stores.thy ===== *)
theory Durable_Stores
  imports Device_Store Ota_Store Artifact_Store
begin

text \<open>
  Opening the databases of the three services: the constructors \<open>SqliteDeviceStore::new\<close>,
  \<open>SqliteJobStore::new\<close> and \<open>SqliteRegistry::new\<close> with their migrations, and what a service that is
  stopped at any moment finds when it is started again. A database file holds each table or does
  not have it yet; call site 0 of the engine is \<open>Connection::open\<close>, the next ones are the statements
  of the migration. The contract \<open>durable_store\<close> is stated once and shown for each store.
\<close>

section \<open>The contract\<close>

text \<open>\<open>CREATE TABLE IF NOT EXISTS\<close>.\<close>

definition create_table :: "engine \<Rightarrow> nat \<Rightarrow> (('r list option \<Rightarrow> 'r list option) \<Rightarrow> 'f \<Rightarrow> 'f) \<Rightarrow> 'f
    \<Rightarrow> (rusqlite_error, unit) result \<times> 'f" where
  "create_table eng i upd f =
     (case fault eng i of
        Some (e, _) \<Rightarrow> (Err e, f)
      | None \<Rightarrow> (Ok (), upd (\<lambda>x. Some (case x of None \<Rightarrow> [] | Some rows \<Rightarrow> rows)) f))"

definition rows_in :: "'r list option \<Rightarrow> 'r list" where
  "rows_in x = (case x of None \<Rightarrow> [] | Some rows \<Rightarrow> rows)"

lemma rows_in_simps [simp]: "rows_in None = []" "rows_in (Some rows) = rows"
  by (simp_all add: rows_in_def)

text \<open>
  \<open>tables f\<close> is what the file holds, a missing table counting as empty, and \<open>file_of t\<close> the file of a
  service that has committed \<open>t\<close>. Opening never changes the contents, and succeeds without faults.
\<close>

locale durable_store =
  fixes open_store :: "engine \<Rightarrow> 'f \<Rightarrow> (rusqlite_error, 't conn) result \<times> 'f"
    and file_of :: "'t \<Rightarrow> 'f" and tables :: "'f \<Rightarrow> 't"
  assumes tables_file_of: "tables (file_of t) = t"
    and open_keeps_tables: "tables (snd (open_store eng f)) = tables f"
    and open_shows_tables: "open_store eng f = (Inr c, f') \<Longrightarrow> c = open_conn (tables f)"
    and open_succeeds: "no_fault eng \<Longrightarrow> \<exists>c. fst (open_store eng f) = Inr c"
begin

text \<open>What was committed is there again after a stop, a transaction that was open is undone.\<close>

lemma reopen_after_stop:
  assumes "no_fault eng"
  shows "fst (open_store eng (file_of (committed c))) = Inr (open_conn (committed c))"
proof -
  obtain c' f' where o: "open_store eng (file_of (committed c)) = (Inr c', f')"
    using open_succeeds [OF assms] by (metis prod.collapse)
  then show ?thesis using open_shows_tables [OF o] by (simp add: tables_file_of)
qed

end

text \<open>
  The life of a service: it is started again and again, every time runs operations and is then
  stopped, wherever it is; a start whose migration fails runs none.
\<close>

fun life :: "(engine \<Rightarrow> 'f \<Rightarrow> (rusqlite_error, 't conn) result \<times> 'f) \<Rightarrow> ('t \<Rightarrow> 'f) \<Rightarrow> (engine \<Rightarrow> 'op \<Rightarrow> 't conn \<Rightarrow> 't conn)
    \<Rightarrow> (engine \<times> (engine \<times> 'op) list) list \<Rightarrow> 'f \<Rightarrow> 'f" where
  "life open_store file_of step [] f = f"
| "life open_store file_of step ((eng, ops) # starts) f =
     (case open_store eng f of
        (Inl _, f1) \<Rightarrow> life open_store file_of step starts f1
      | (Inr c, f1) \<Rightarrow> life open_store file_of step starts
          (file_of (committed (fold (\<lambda>(eng, op). step eng op) ops c))))"

locale durable_schema = durable_store open_store file_of tables + schema_store step wf
  for open_store :: "engine \<Rightarrow> 'f \<Rightarrow> (rusqlite_error, 't conn) result \<times> 'f"
    and file_of :: "'t \<Rightarrow> 'f" and tables :: "'f \<Rightarrow> 't"
    and step :: "engine \<Rightarrow> 'op \<Rightarrow> 't conn \<Rightarrow> 't conn" and wf :: "'t \<Rightarrow> bool"
begin

lemma life_wf: "wf (tables f) \<Longrightarrow> wf (tables (life open_store file_of step starts f))"
proof (induction starts arbitrary: f)
  case (Cons start starts)
  obtain eng ops where st: "start = (eng, ops)" by fastforce
  obtain r f1 where o: "open_store eng f = (r, f1)" by fastforce
  show ?case
  proof (cases r)
    case (Inl e)
    have "wf (tables f1)" using open_keeps_tables [of eng f] o Cons.prems by simp
    then show ?thesis using Cons.IH st o Inl by simp
  next
    case (Inr c)
    then have c: "c = open_conn (tables f)" using open_shows_tables o by simp
    have "wf (tables (file_of (committed (fold (\<lambda>(eng, op). step eng op) ops c))))"
      using run_committed_wf [OF Cons.prems] by (simp add: tables_file_of c)
    then show ?thesis using Cons.IH st o Inr by simp
  qed
qed simp

end

section \<open>The device store\<close>

record dms_file =
  df_factory_manifest :: "manifest_row list option"
  df_devices :: "device_record list option"
  df_pre_enrollment :: "pre_row list option"

definition dms_file_tables :: "dms_file \<Rightarrow> dms_tables" where
  "dms_file_tables f =
     \<lparr>factory_manifest = rows_in (df_factory_manifest f), devices = rows_in (df_devices f),
      pre_enrollment = rows_in (df_pre_enrollment f)\<rparr>"

definition dms_file_of :: "dms_tables \<Rightarrow> dms_file" where
  "dms_file_of t =
     \<lparr>df_factory_manifest = Some (factory_manifest t), df_devices = Some (devices t),
      df_pre_enrollment = Some (pre_enrollment t)\<rparr>"

definition device_migration :: "engine \<Rightarrow> dms_file \<Rightarrow> (rusqlite_error, unit) result \<times> dms_file" where
  "device_migration eng f =
     try_bind (create_table eng 1 df_factory_manifest_update f) (\<lambda>_ f.
     try_bind (create_table eng 2 df_devices_update f) (\<lambda>_ f.
     create_table eng 3 df_pre_enrollment_update f))"

definition device_store_new :: "engine \<Rightarrow> dms_file \<Rightarrow> (rusqlite_error, dconn) result \<times> dms_file" where
  "device_store_new eng f =
     try_bind ((case fault eng 0 of Some (e, _) \<Rightarrow> Err e | None \<Rightarrow> Ok ()), f) (\<lambda>_ f.
     try_bind (device_migration eng f) (\<lambda>_ f. (Ok (open_conn (dms_file_tables f)), f)))"

lemma device_migration_tables: "dms_file_tables (snd (device_migration eng f)) = dms_file_tables f"
  by (auto simp: device_migration_def create_table_def dms_file_tables_def snd_try_bind_cases rows_in_def
      split: option.split sum.split)

lemma device_migration_no_fault: "no_fault eng \<Longrightarrow> fst (device_migration eng f) = Ok ()"
  by (simp add: device_migration_def create_table_def)

interpretation device_db: durable_store device_store_new dms_file_of dms_file_tables
proof
  show "dms_file_tables (dms_file_of t) = t" for t by (simp add: dms_file_tables_def dms_file_of_def)
  show "dms_file_tables (snd (device_store_new eng f)) = dms_file_tables f" for eng f
    by (simp add: device_store_new_def snd_try_bind_cases device_migration_tables split: sum.split option.split)
  show "c = open_conn (dms_file_tables f)" if "device_store_new eng f = (Inr c, f')" for eng f c f'
    using that device_migration_tables [of eng f] by (auto simp: device_store_new_def try_bind_eq_Inr)
  show "\<exists>c. fst (device_store_new eng f) = Inr c" if "no_fault eng" for eng f
    using device_migration_no_fault [OF that, of f] that
    by (cases "device_migration eng f") (simp add: device_store_new_def)
qed

interpretation device_life: durable_schema device_store_new dms_file_of dms_file_tables dev_step wf_tables
  by unfold_locales

section \<open>The job store\<close>

record job_file =
  jf_update_jobs :: "job_row list option"
  jf_index :: bool

definition job_file_tables :: "job_file \<Rightarrow> ota_tables" where
  "job_file_tables f = \<lparr>update_jobs = rows_in (jf_update_jobs f)\<rparr>"

definition job_file_of :: "ota_tables \<Rightarrow> job_file" where
  "job_file_of t = \<lparr>jf_update_jobs = Some (update_jobs t), jf_index = True\<rparr>"

text \<open>The index changes how the engine finds rows, not what it finds.\<close>

definition job_store_new :: "engine \<Rightarrow> job_file \<Rightarrow> (rusqlite_error, oconn) result \<times> job_file" where
  "job_store_new eng f =
     try_bind ((case fault eng 0 of Some (e, _) \<Rightarrow> Err e | None \<Rightarrow> Ok ()), f) (\<lambda>_ f.
     try_bind (create_table eng 1 jf_update_jobs_update f) (\<lambda>_ f.
     try_bind (case fault eng 2 of Some (e, _) \<Rightarrow> (Err e, f) | None \<Rightarrow> (Ok (), f\<lparr>jf_index := True\<rparr>)) (\<lambda>_ f.
     (Ok (open_conn (job_file_tables f)), f))))"

interpretation job_db: durable_store job_store_new job_file_of job_file_tables
proof
  show "job_file_tables (job_file_of t) = t" for t by (simp add: job_file_tables_def job_file_of_def)
  show "job_file_tables (snd (job_store_new eng f)) = job_file_tables f" for eng f
    by (auto simp: job_store_new_def snd_try_bind_cases create_table_def job_file_tables_def rows_in_def
        split: sum.split option.split)
  show "c = open_conn (job_file_tables f)" if "job_store_new eng f = (Inr c, f')" for eng f c f'
    using that by (auto simp: job_store_new_def try_bind_eq_Inr create_table_def job_file_tables_def rows_in_def
        split: option.splits)
  show "\<exists>c. fst (job_store_new eng f) = Inr c" if "no_fault eng" for eng f
    using that by (simp add: job_store_new_def create_table_def)
qed

interpretation job_life: durable_schema job_store_new job_file_of job_file_tables job_step wf_jobs
  by unfold_locales

section \<open>The artifact registry\<close>

record registry_file =
  rf_artifacts :: "artifact_record list option"

definition registry_file_tables :: "registry_file \<Rightarrow> artifact_tables" where
  "registry_file_tables f = \<lparr>artifacts = rows_in (rf_artifacts f)\<rparr>"

definition registry_file_of :: "artifact_tables \<Rightarrow> registry_file" where
  "registry_file_of t = \<lparr>rf_artifacts = Some (artifacts t)\<rparr>"

definition registry_new :: "engine \<Rightarrow> registry_file \<Rightarrow> (rusqlite_error, aconn) result \<times> registry_file" where
  "registry_new eng f =
     try_bind ((case fault eng 0 of Some (e, _) \<Rightarrow> Err e | None \<Rightarrow> Ok ()), f) (\<lambda>_ f.
     try_bind (create_table eng 1 rf_artifacts_update f) (\<lambda>_ f.
     (Ok (open_conn (registry_file_tables f)), f)))"

interpretation registry_db: durable_store registry_new registry_file_of registry_file_tables
proof
  show "registry_file_tables (registry_file_of t) = t" for t by (simp add: registry_file_tables_def registry_file_of_def)
  show "registry_file_tables (snd (registry_new eng f)) = registry_file_tables f" for eng f
    by (auto simp: registry_new_def snd_try_bind_cases create_table_def registry_file_tables_def rows_in_def
        split: sum.split option.split)
  show "c = open_conn (registry_file_tables f)" if "registry_new eng f = (Inr c, f')" for eng f c f'
    using that by (auto simp: registry_new_def try_bind_eq_Inr create_table_def registry_file_tables_def rows_in_def
        split: option.splits)
  show "\<exists>c. fst (registry_new eng f) = Inr c" if "no_fault eng" for eng f
    using that by (simp add: registry_new_def create_table_def)
qed

interpretation registry_life: durable_schema registry_new registry_file_of registry_file_tables artifact_step wf_artifacts
  by unfold_locales

section \<open>One-shot claims across restarts\<close>

text \<open>A history of calls in which the process may be stopped and started again between any two.\<close>

datatype 'x or_restart = Call 'x | Restart engine

fun with_restart :: "(engine \<Rightarrow> 't conn \<Rightarrow> 't conn) \<Rightarrow> ('x \<Rightarrow> 't conn \<Rightarrow> ('e, 'a) result \<times> 't conn)
    \<Rightarrow> 'x or_restart \<Rightarrow> 't conn \<Rightarrow> ('e, 'a) result \<times> 't conn" where
  "with_restart restart claim (Call x) c = claim x c"
| "with_restart restart claim (Restart eng) c = (Panicked, restart eng c)"

fun call_key :: "('x \<Rightarrow> 'k) \<Rightarrow> 'x or_restart \<Rightarrow> 'k option" where
  "call_key key (Call x) = Some (key x)"
| "call_key key (Restart eng) = None"

locale restartable_claim = one_shot claim key taken
  for claim :: "'x \<Rightarrow> 't conn \<Rightarrow> ('e, 'a) result \<times> 't conn" and key :: "'x \<Rightarrow> 'k" and taken :: "'t conn \<Rightarrow> 'k \<Rightarrow> bool" +
  fixes restart :: "engine \<Rightarrow> 't conn \<Rightarrow> 't conn"
  assumes restart_taken: "taken c k \<Longrightarrow> taken (restart eng c) k"

sublocale restartable_claim \<subseteq> restarts:
  one_shot "with_restart restart claim" "call_key key" "\<lambda>c k. case k of None \<Rightarrow> False | Some x \<Rightarrow> taken c x"
proof
  fix x :: "'x or_restart" and s s' :: "'t conn" and a
  assume ok: "with_restart restart claim x s = (Inr a, s')"
  then obtain y where y: "x = Call y" "claim y s = (Inr a, s')" by (cases x) auto
  show "\<not> (case call_key key x of None \<Rightarrow> False | Some k \<Rightarrow> taken s k)" using claim_fresh [OF y(2)] y(1) by simp
  show "case call_key key x of None \<Rightarrow> False | Some k \<Rightarrow> taken s' k" using claim_takes [OF y(2)] y(1) by simp
next
  fix s :: "'t conn" and k :: "'k option" and x :: "'x or_restart"
  assume "case k of None \<Rightarrow> False | Some x \<Rightarrow> taken s x"
  then obtain y where k: "k = Some y" "taken s y" by (cases k) auto
  show "case k of None \<Rightarrow> False | Some y \<Rightarrow> taken (snd (with_restart restart claim x s)) y"
    using k taken_stays [OF k(2)] restart_taken [OF k(2)] by (cases x) simp_all
qed

definition device_restart :: "engine \<Rightarrow> dconn \<Rightarrow> dconn" where
  "device_restart eng c = open_conn (dms_file_tables (snd (device_store_new eng (dms_file_of (committed c)))))"

lemma device_restart_committed: "device_restart eng c = open_conn (committed c)"
  by (simp add: device_restart_def device_db.open_keeps_tables device_db.tables_file_of)

lemma committed_open_conn [simp]: "committed (open_conn t) = t"
  by (simp add: committed_def)

interpretation claim_restarts: restartable_claim
  "\<lambda>(eng, serial). lookup_and_claim eng serial" snd "\<lambda>c. serial_claimed (committed c)" device_restart
  by unfold_locales (simp add: device_restart_committed)

interpretation provision_restarts: restartable_claim
  "\<lambda>(eng, now, serial, token). claim_manifest_entry eng now serial token" "\<lambda>(_, _, serial, _). serial"
  "\<lambda>c. serial_provisioned (committed c)" device_restart
  by unfold_locales (simp add: device_restart_committed)

end
