(* ===== verification/Device_Properties.thy ===== *)
theory Device_Properties
  imports Device_System Device_Server Durable_Stores
begin

text \<open>
  What the device-management service guarantees: properties of its store under any engine,
  of enrollment and provisioning, of the running service in any interleaving, and of its
  streams. Each property with hypotheses is followed by its instance on a concrete state.
\<close>

section \<open>Concrete states\<close>

definition factory_tables :: dms_tables where
  "factory_tables =
     \<lparr>factory_manifest = [\<lparr>fm_serial = ''SN1'', fm_model = ''Beta'', fm_token = ''tok1'', fm_provisioned_at = None\<rparr>,
                         \<lparr>fm_serial = ''SN2'', fm_model = ''Gamma'', fm_token = ''tok2'', fm_provisioned_at = None\<rparr>],
      devices = [], pre_enrollment = []\<rparr>"

definition ready_tables :: dms_tables where
  "ready_tables = factory_tables\<lparr>pre_enrollment := [\<lparr>pe_serial = ''SN1'', pe_model = ''Beta'', pe_claimed = 0\<rparr>]\<rparr>"

definition demo_device :: device_record where
  "demo_device = \<lparr>dr_id = ''D1'', dr_serial = ''SN1'', dr_model = ''Beta'', dr_firmware = ''1.0'',
     dr_status = ''active'', dr_cert = ''FLEET/SN1'', dr_enrolled_at = 100, dr_last_seen_at = 100\<rparr>"

definition enrolled_tables :: dms_tables where
  "enrolled_tables = factory_tables\<lparr>devices := [demo_device],
     pre_enrollment := [\<lparr>pe_serial = ''SN1'', pe_model = ''Beta'', pe_claimed = 1\<rparr>]\<rparr>"

definition demo_env :: dms_env where
  "demo_env = \<lparr>env_pki = demo_pki, env_engine = (\<lambda>_. reliable), env_clock = (\<lambda>_. 100), env_uuid = ''D1''\<rparr>"

definition demo_service :: enrollment_service where
  "demo_service = \<lparr>fleet_ca_cert_pem = ''FLEET'', fleet_ca_key_pem = ''FLEETKEY'', cert_validity_days = 365\<rparr>"

definition demo_provisioning :: provisioning_server where
  "demo_provisioning = \<lparr>device_ca_cert_pem = ''DEVICE'', device_ca_key_pem = ''DEVICEKEY''\<rparr>"

lemmas demo_defs = factory_tables_def ready_tables_def demo_device_def enrolled_tables_def demo_env_def
  demo_service_def demo_provisioning_def

section \<open>The store\<close>

text \<open>
  C12. Over the whole life of the service, from a new database file through any number of starts
  and stops, whatever store operations run in whatever order, and whichever statements the
  engine fails, those of the migration included, the file holds the schema's constraints: device
  ids and serials, pre-enrollment serials and manifest serials are unique, and the claim flag
  is 0 or 1.
\<close>

theorem store_keeps_schema:
  "wf_tables (dms_file_tables (life device_store_new dms_file_of dev_step starts
     \<lparr>df_factory_manifest = None, df_devices = None, df_pre_enrollment = None\<rparr>))"
  by (rule device_life.life_wf) (simp add: dms_file_tables_def wf_tables_def)

text \<open>
  C9. Among any sequence of \<open>lookup_and_claim\<close> calls, under any faults of the engine, with the
  service stopped and started again between any of them, at most one call per serial succeeds.
\<close>

theorem serial_claimed_at_most_once:
  "claim_wins (with_restart device_restart (\<lambda>(eng, serial). lookup_and_claim eng serial)) (call_key snd)
     (Some serial) calls c \<le> 1"
  by (rule claim_restarts.restarts.at_most_one_win)

text \<open>
  C10. A provision token is single-use: among any sequence of \<open>claim_manifest_entry\<close> calls,
  under any faults of the engine, with the service stopped and started again between any of
  them, at most one call per serial succeeds.
\<close>

theorem token_spent_at_most_once:
  "claim_wins (with_restart device_restart (\<lambda>(eng, now, serial, token). claim_manifest_entry eng now serial token))
     (call_key (\<lambda>(_, _, serial, _). serial)) (Some serial) calls c \<le> 1"
  by (rule provision_restarts.restarts.at_most_one_win)

text \<open>
  C11. The two claiming transactions are all-or-nothing: when they return an error, at
  whichever statement the engine failed, what is committed is what was committed before.
\<close>

theorem failed_claim_commits_nothing:
  "(lookup_and_claim eng serial c = (Inl f, c1) \<longrightarrow> committed c1 = committed c) \<and>
   (claim_manifest_entry eng' now serial' token c = (Inl g, c2) \<longrightarrow> committed c2 = committed c)"
  using lookup_and_claim_Inl_committed claim_manifest_entry_Inl_committed by blast

lemma failed_commit_run:
  "lookup_and_claim (failing_at 3 (SqliteFailure (OtherCode 5)) False) ''SN1'' (open_conn ready_tables) =
     (Err (Db (SqliteFailure (OtherCode 5))),
      \<lparr>tabs = claim_serial ''SN1'' ready_tables, saved = Some ready_tables\<rparr>)"
  by (simp add: lookup_and_claim_def db_lock_def with_lock_def transaction_def claim_body_def query_row_def
      update_where_def claim_serial_def begin_immediate_def commit_def idle_def sql_def demo_defs open_conn_def
      map_err_st_def)

theorem failed_claim_commits_nothing_witness:
  "committed (snd (lookup_and_claim (failing_at 3 (SqliteFailure (OtherCode 5)) False) ''SN1'' (open_conn ready_tables))) =
     ready_tables \<and>
   committed (snd (claim_manifest_entry reliable 5 ''SN1'' ''wrong'' (open_conn ready_tables))) = ready_tables"
proof -
  have m: "claim_manifest_entry reliable 5 ''SN1'' ''wrong'' (open_conn ready_tables) =
      (Err (InvalidProvisionToken ''SN1''), open_conn ready_tables)"
    by (simp add: claim_manifest_entry_healthy demo_defs)
  show ?thesis
    using failed_claim_commits_nothing [of "failing_at 3 (SqliteFailure (OtherCode 5)) False" "''SN1''"
        "open_conn ready_tables" "Fail (Db (SqliteFailure (OtherCode 5)))" _ reliable 5 "''SN1''" "''wrong''"
        "Fail (InvalidProvisionToken ''SN1'')" "open_conn ready_tables"]
    by (simp add: failed_commit_run m)
qed

text \<open>
  After a \<open>COMMIT\<close> that fails without ending the transaction, the connection stays inside
  it: every later claim, of any serial, fails at its \<open>BEGIN IMMEDIATE\<close> although the engine
  works again, and the claim it retries is never made.
\<close>

theorem failed_commit_blocks_later_claims:
  assumes "lookup_and_claim eng serial c = (Inl f, c1)" and "\<not> idle c1" and "no_fault eng'"
  shows "lookup_and_claim eng' serial' c1 = (Err (Db (SqliteFailure (OtherCode 1))), c1) \<and>
    claim_manifest_entry eng' now serial' token c1 = (Err (Db (SqliteFailure (OtherCode 1))), c1)"
  using assms(2,3)
  by (simp add: lookup_and_claim_def claim_manifest_entry_def db_lock_def with_lock_def transaction_def
      begin_immediate_def)

theorem failed_commit_blocks_later_claims_witness:
  "fst (lookup_and_claim reliable ''SN1''
     (snd (lookup_and_claim (failing_at 3 (SqliteFailure (OtherCode 5)) False) ''SN1'' (open_conn ready_tables)))) =
   Err (Db (SqliteFailure (OtherCode 1)))"
  using failed_commit_blocks_later_claims [OF failed_commit_run, of reliable "''SN1''" 0 "[]"]
  by (simp add: failed_commit_run idle_def)

text \<open>
  \<open>claim_manifest_entry\<close> on a working engine, every branch: an unknown serial, a wrong
  token and a spent entry are refused without effect, the token being checked before the
  spent mark; otherwise the model of the manifest is returned, the entry is marked, the serial
  becomes pre-enrolled under that model unless it already was, and no device is touched.
\<close>

theorem claim_manifest_entry_branches:
  assumes "no_fault eng" and "idle c"
  shows "case row_with fm_serial serial (factory_manifest (tabs c)) of
     None \<Rightarrow> claim_manifest_entry eng now serial token c = (Err (NotInManifest serial), c)
   | Some row \<Rightarrow>
       if fm_token row \<noteq> token
       then claim_manifest_entry eng now serial token c = (Err (InvalidProvisionToken serial), c)
       else if fm_provisioned_at row \<noteq> None
       then claim_manifest_entry eng now serial token c = (Err (AlreadyProvisioned serial), c)
       else \<exists>c'. claim_manifest_entry eng now serial token c = (Ok (fm_model row), c') \<and> idle c' \<and>
         row_with fm_serial serial (factory_manifest (tabs c')) = Some (row\<lparr>fm_provisioned_at := Some now\<rparr>) \<and>
         row_with pe_serial serial (pre_enrollment (tabs c')) =
           (case row_with pe_serial serial (pre_enrollment (tabs c)) of
              Some p \<Rightarrow> Some p
            | None \<Rightarrow> Some \<lparr>pe_serial = serial, pe_model = fm_model row, pe_claimed = 0\<rparr>) \<and>
         devices (tabs c') = devices (tabs c)"
  using assms
  by (simp add: claim_manifest_entry_healthy row_with_provision row_with_pre_provision split: option.split)
    (simp add: idle_def)

theorem claim_manifest_entry_branches_witness:
  "\<exists>c'. claim_manifest_entry reliable 7 ''SN1'' ''tok1'' (open_conn factory_tables) = (Ok ''Beta'', c') \<and>
     row_with pe_serial ''SN1'' (pre_enrollment (tabs c')) =
       Some \<lparr>pe_serial = ''SN1'', pe_model = ''Beta'', pe_claimed = 0\<rparr>"
  using claim_manifest_entry_branches [where eng = reliable and c = "open_conn factory_tables"
      and serial = "''SN1''" and now = 7 and token = "''tok1''"]
  by (auto simp: demo_defs)

text \<open>
  A device that was created is found again, by id and by serial, with exactly the record
  \<open>create_device\<close> returned: status \<open>active\<close>, enrolled and last seen at the time of the call.
\<close>

theorem created_device_is_found:
  assumes "create_device eng did now d c = (Ok r, c')" and "no_fault eng'"
  shows "get_device eng' did c' = (Ok r, c') \<and> get_by_serial eng' (nd_serial d) c' = (Ok r, c') \<and>
    dr_id r = did \<and> dr_serial r = nd_serial d \<and> dr_model r = nd_model d \<and> dr_cert r = nd_cert d \<and>
    dr_status r = ''active'' \<and> dr_enrolled_at r = now \<and> dr_last_seen_at r = now"
proof -
  note cr = create_device_Inr [OF assms(1)]
  have "row_with dr_id did (devices (tabs c')) = Some r"
    "row_with dr_serial (nd_serial d) (devices (tabs c')) = Some r"
    using cr by (simp_all add: row_with_snoc new_record_def)
  then show ?thesis
    using assms(2) cr(1) by (simp add: get_device_healthy get_by_serial_healthy new_record_def)
qed

theorem created_device_is_found_witness:
  "fst (get_by_serial reliable ''SN9'' (snd (create_device reliable ''D9'' 50
     \<lparr>nd_serial = ''SN9'', nd_model = ''Beta'', nd_firmware = ''1'', nd_cert = ''C''\<rparr> (open_conn enrolled_tables)))) =
   Ok \<lparr>dr_id = ''D9'', dr_serial = ''SN9'', dr_model = ''Beta'', dr_firmware = ''1'', dr_status = ''active'',
       dr_cert = ''C'', dr_enrolled_at = 50, dr_last_seen_at = 50\<rparr>"
proof -
  let ?d = "\<lparr>nd_serial = ''SN9'', nd_model = ''Beta'', nd_firmware = ''1'', nd_cert = ''C''\<rparr>"
  obtain c' where c': "create_device reliable ''D9'' 50 ?d (open_conn enrolled_tables) = (Ok (new_record ''D9'' 50 ?d), c')"
    by (simp add: create_device_healthy demo_defs)
  show ?thesis
    using created_device_is_found [OF c', of reliable] c' by (simp add: new_record_def)
qed

section \<open>Enrollment\<close>

text \<open>
  C8. What a successful \<open>bootstrap_enroll\<close> proves, under any faults: the peer certificate is
  signed by the Device CA and names the serial, a serial given in the request agrees with it,
  the serial was pre-enrolled and unclaimed, and exactly one device row is added, under the
  fresh id, with that serial and the model of the registry, status \<open>active\<close> and the
  certificate that was handed out; the claim is recorded and nothing else changes.
\<close>

theorem enroll_success_means:
  assumes "bootstrap_enroll env svc sreq csr fw certs ca c = (Ok r, c')"
  shows "\<exists>serial row.
    extract_serial (env_pki env) certs = Ok serial \<and> verify_signed_by (env_pki env) certs ca = Ok () \<and>
    (sreq = [] \<or> sreq = serial) \<and>
    row_with pe_serial serial (pre_enrollment (tabs c)) = Some row \<and> pe_claimed row = 0 \<and>
    env_uuid env \<notin> dr_id ` set (devices (tabs c)) \<and> serial \<notin> dr_serial ` set (devices (tabs c)) \<and>
    er_device_id r = env_uuid env \<and> er_fleet_ca_chain_pem r = fleet_ca_cert_pem svc \<and>
    c' = c\<lparr>tabs := (claim_serial serial (tabs c))\<lparr>devices := devices (tabs c) @
      [\<lparr>dr_id = env_uuid env, dr_serial = serial, dr_model = pe_model row, dr_firmware = fw, dr_status = ''active'',
        dr_cert = er_operational_cert_pem r, dr_enrolled_at = env_clock env 2, dr_last_seen_at = env_clock env 2\<rparr>]\<rparr>\<rparr>"
proof -
  from assms obtain serial pre c1 where chk: "enroll_check (env_pki env) sreq certs ca = Inr serial"
    and claim: "lookup_and_claim (env_engine env 0) serial c = (Inr pre, c1)"
    and fin: "enroll_finish env svc csr fw serial pre c1 = (Inr r, c')"
    by (auto simp: bootstrap_enroll_def try_bind_eq_Inr)
  from claim obtain row where row: "row_with pe_serial serial (pre_enrollment (tabs c)) = Some row" "pe_claimed row = 0"
    and pre: "pre = \<lparr>per_serial = serial, per_model = pe_model row\<rparr>"
    and c1: "c1 = c\<lparr>tabs := claim_serial serial (tabs c)\<rparr>"
    by (rule lookup_and_claim_Inr)
  from fin obtain signed where r: "r = \<lparr>er_device_id = env_uuid env, er_operational_cert_pem = signed,
          er_fleet_ca_chain_pem = fleet_ca_cert_pem svc, er_expires_at = cert_expires_at svc (env_clock env 1)\<rparr>"
    and cr: "create_device (env_engine env 1) (env_uuid env) (env_clock env 2)
        \<lparr>nd_serial = serial, nd_model = per_model pre, nd_firmware = fw, nd_cert = signed\<rparr> c1
      = (Inr (new_record (env_uuid env) (env_clock env 2)
        \<lparr>nd_serial = serial, nd_model = per_model pre, nd_firmware = fw, nd_cert = signed\<rparr>), c')"
    by (rule enroll_finish_Inr)
  show ?thesis
    using enroll_check_Inr [OF chk] row create_device_Inr(2-4) [OF cr]
    by (auto simp: r pre c1 new_record_def)
qed

lemma demo_enroll:
  "bootstrap_enroll demo_env demo_service ''SN1'' ''RSN1'' ''1.0'' [''DEVICE/SN1''] ''DEVICE'' (open_conn ready_tables) =
     (Ok \<lparr>er_device_id = ''D1'', er_operational_cert_pem = ''FLEET/SN1'', er_fleet_ca_chain_pem = ''FLEET'',
          er_expires_at = 31536100\<rparr>, open_conn enrolled_tables)"
  by (simp add: bootstrap_enroll_def enroll_check_def enroll_finish_def demo_pki_def demo_defs extract_serial_def
      verify_signed_by_def certs_from_pem_def sign_csr_def Let_def lookup_and_claim_healthy create_device_healthy
      new_record_def cert_expires_at_def claim_serial_def in_i64_def open_conn_def idle_def)

theorem enroll_success_means_witness:
  "\<exists>serial row. extract_serial demo_pki [''DEVICE/SN1''] = Ok serial \<and>
     row_with pe_serial serial (pre_enrollment ready_tables) = Some row \<and>
     devices (tabs (open_conn enrolled_tables)) = [\<lparr>dr_id = ''D1'', dr_serial = serial, dr_model = pe_model row,
        dr_firmware = ''1.0'', dr_status = ''active'', dr_cert = ''FLEET/SN1'', dr_enrolled_at = 100, dr_last_seen_at = 100\<rparr>]"
  using enroll_success_means [OF demo_enroll] by (auto simp: demo_defs)

lemma provision_enroll_run:
  assumes "faithful_issuer (env_pki env) csr_cn (device_ca_cert_pem srv) (device_ca_key_pem srv)" and "\<And>i. no_fault (env_engine env i)" and "idle c"
    and "row_with fm_serial (pr_serial req) (factory_manifest (tabs c)) = Some row"
    and "fm_token row = pr_token req" and "fm_provisioned_at row = None"
    and "row_with pe_serial (pr_serial req) (pre_enrollment (tabs c)) = None"
    and "pr_serial req \<notin> dr_serial ` set (devices (tabs c))" and "env_uuid env \<notin> dr_id ` set (devices (tabs c))"
    and "pr_serial req \<noteq> []" and "pr_csr_pem req \<noteq> []" and "pr_token req \<noteq> []"
    and "csr_cn (pr_csr_pem req) = Some (pr_serial req)"
    and "sign_csr (env_pki env) (env_clock env 1) (pr_csr_pem req)
           (device_ca_cert_pem srv) (device_ca_key_pem srv) 365 = Ok device_cert"
    and "certs_from_pem (env_pki env) device_cert = Ok certs"
    and "sign_csr (env_pki env) (env_clock env 0) csr (fleet_ca_cert_pem svc) (fleet_ca_key_pem svc)
           (cert_validity_days svc) = Ok fleet_cert"
  shows "\<exists>c1 c2 r d. provision_device env srv req c = (Ok device_cert, c1) \<and>
    bootstrap_enroll env svc (pr_serial req) csr fw certs (device_ca_cert_pem srv) c1 = (Ok r, c2) \<and>
    er_operational_cert_pem r = fleet_cert \<and>
    get_by_serial (env_engine env 3) (pr_serial req) c2 = (Ok d, c2) \<and>
    dr_id d = er_device_id r \<and> dr_model d = fm_model row \<and> dr_status d = ''active''"
proof -
  let ?s = "pr_serial req"
  define c1 where "c1 = c\<lparr>tabs := provision_serial (env_clock env 0) ?s (fm_model row) (tabs c)\<rparr>"
  define c2 where "c2 = c1\<lparr>tabs := claim_serial ?s (tabs c1)\<rparr>"
  let ?nd = "\<lparr>nd_serial = ?s, nd_model = fm_model row, nd_firmware = fw, nd_cert = fleet_cert\<rparr>"
  define d where "d = new_record (env_uuid env) (env_clock env 2) ?nd"
  define c3 where "c3 = c2\<lparr>tabs := (tabs c2)\<lparr>devices := devices (tabs c2) @ [d]\<rparr>\<rparr>"
  have prov: "provision_device env srv req c = (Ok device_cert, c1)"
    using assms(2-6,10-12,14) by (simp add: provision_device_def claim_manifest_entry_healthy c1_def)
  have i1: "idle c1" using assms(3) by (simp add: c1_def idle_def)
  have chk: "enroll_check (env_pki env) ?s certs (device_ca_cert_pem srv) = Ok ?s"
    using faithful_issuer_signs [OF assms(1,13,14)] assms(15) by (auto simp: enroll_check_def)
  have "row_with pe_serial ?s (pre_enrollment (tabs c1)) = Some \<lparr>pe_serial = ?s, pe_model = fm_model row, pe_claimed = 0\<rparr>"
    using assms(7) by (simp add: c1_def row_with_pre_provision)
  then have claim: "lookup_and_claim (env_engine env 0) ?s c1 = (Ok \<lparr>per_serial = ?s, per_model = fm_model row\<rparr>, c2)"
    using assms(2) i1 by (simp add: lookup_and_claim_healthy c2_def)
  have "create_device (env_engine env 1) (env_uuid env) (env_clock env 2) ?nd c2 = (Ok d, c3)"
    using assms(2,8,9) by (simp add: create_device_healthy c2_def c1_def d_def c3_def)
  then have "bootstrap_enroll env svc ?s csr fw certs (device_ca_cert_pem srv) c1 =
      (Ok \<lparr>er_device_id = dr_id d, er_operational_cert_pem = fleet_cert,
           er_fleet_ca_chain_pem = fleet_ca_cert_pem svc, er_expires_at = cert_expires_at svc (env_clock env 1)\<rparr>, c3)"
    using chk claim assms(16) by (simp add: bootstrap_enroll_def enroll_finish_def Let_def)
  moreover have "get_by_serial (env_engine env 3) ?s c3 = (Ok d, c3)"
    using assms(2,8) by (simp add: get_by_serial_healthy c3_def c2_def c1_def d_def new_record_def row_with_snoc)
  ultimately show ?thesis
    using prov by (auto simp: d_def new_record_def)
qed

text \<open>
  C6. The whole life of a robot before it is operational: with a working database, a serial of
  the manifest that was not provisioned, its token, and CSRs that name that serial,
  \<open>provision_device\<close> returns a certificate with which \<open>bootstrap_enroll\<close> succeeds, and the
  device is registered under the serial and the model of the manifest.
\<close>

theorem provisioned_robot_enrolls:
  assumes "faithful_issuer (env_pki env) csr_cn (device_ca_cert_pem srv) (device_ca_key_pem srv)" and "\<And>i. no_fault (env_engine env i)" and "idle c"
    and "row_with fm_serial (pr_serial req) (factory_manifest (tabs c)) = Some row"
    and "fm_token row = pr_token req" and "fm_provisioned_at row = None"
    and "row_with pe_serial (pr_serial req) (pre_enrollment (tabs c)) = None"
    and "pr_serial req \<notin> dr_serial ` set (devices (tabs c))" and "env_uuid env \<notin> dr_id ` set (devices (tabs c))"
    and "pr_serial req \<noteq> []" and "pr_csr_pem req \<noteq> []" and "pr_token req \<noteq> []"
    and "csr_cn (pr_csr_pem req) = Some (pr_serial req)"
    and "sign_csr (env_pki env) (env_clock env 1) (pr_csr_pem req)
           (device_ca_cert_pem srv) (device_ca_key_pem srv) 365 = Ok device_cert"
    and "certs_from_pem (env_pki env) device_cert = Ok certs"
    and "sign_csr (env_pki env) (env_clock env 0) csr (fleet_ca_cert_pem svc) (fleet_ca_key_pem svc)
           (cert_validity_days svc) = Ok fleet_cert"
  shows "\<exists>c1 c2 r d. provision_device env srv req c = (Ok device_cert, c1) \<and>
    bootstrap_enroll env svc (pr_serial req) csr fw certs (device_ca_cert_pem srv) c1 = (Ok r, c2) \<and>
    er_operational_cert_pem r = fleet_cert \<and>
    get_by_serial (env_engine env 3) (pr_serial req) c2 = (Ok d, c2) \<and>
    dr_id d = er_device_id r \<and> dr_model d = fm_model row \<and> dr_status d = ''active''"
  using assms by (rule provision_enroll_run)

theorem provisioned_robot_enrolls_witness:
  "\<exists>c1 c2 r d. provision_device demo_env demo_provisioning
      \<lparr>pr_serial = ''SN1'', pr_csr_pem = ''RSN1'', pr_token = ''tok1''\<rparr> (open_conn factory_tables) = (Ok ''DEVICE/SN1'', c1) \<and>
    bootstrap_enroll demo_env demo_service ''SN1'' ''RSN1'' ''1.0'' [''DEVICE/SN1''] ''DEVICE'' c1 = (Ok r, c2) \<and>
    get_by_serial reliable ''SN1'' c2 = (Ok d, c2) \<and> dr_model d = ''Beta''"
proof -
  let ?req = "\<lparr>pr_serial = ''SN1'', pr_csr_pem = ''RSN1'', pr_token = ''tok1''\<rparr>"
  let ?row = "\<lparr>fm_serial = ''SN1'', fm_model = ''Beta'', fm_token = ''tok1'', fm_provisioned_at = None\<rparr>"
  have "\<exists>c1 c2 r d. provision_device demo_env demo_provisioning ?req (open_conn factory_tables) = (Ok ''DEVICE/SN1'', c1) \<and>
    bootstrap_enroll demo_env demo_service (pr_serial ?req) ''RSN1'' ''1.0'' [''DEVICE/SN1'']
      (device_ca_cert_pem demo_provisioning) c1 = (Ok r, c2) \<and>
    er_operational_cert_pem r = ''FLEET/SN1'' \<and> get_by_serial (env_engine demo_env 3) (pr_serial ?req) c2 = (Ok d, c2) \<and>
    dr_id d = er_device_id r \<and> dr_model d = fm_model ?row \<and> dr_status d = ''active''"
    by (rule provisioned_robot_enrolls [of demo_env demo_csr_cn])
      (simp_all add: demo_defs demo_faithful demo_csr_cn_def demo_sign_csr, simp add: demo_pki_def certs_from_pem_def)
  then show ?thesis by (fastforce simp: demo_defs)
qed

text \<open>
  \<open>renew_cert\<close> on a working database, every branch: it never changes the database (the
  stored certificate included), refuses unknown devices and devices whose status is not
  \<open>active\<close>, and otherwise returns exactly what the Fleet CA signs.
\<close>

theorem renew_only_active:
  assumes "no_fault (env_engine env 0)"
  shows "renew_cert env svc did csr c =
    ((case row_with dr_id did (devices (tabs c)) of
        None \<Rightarrow> Err (NotFound did)
      | Some d \<Rightarrow>
          if dr_status d \<noteq> ''active'' then Err (DeviceNotActive (dr_status d))
          else (case sign_csr (env_pki env) (env_clock env 0) csr (fleet_ca_cert_pem svc) (fleet_ca_key_pem svc)
                   (cert_validity_days svc) of
                  Inl f \<Rightarrow> Inl (map_failure PkiError f)
                | Inr cert \<Rightarrow> Ok (cert, cert_expires_at svc (env_clock env 1)))), c)"
  using assms by (simp add: renew_cert_def get_device_healthy split: option.split sum.split)

theorem renew_only_active_witness:
  "renew_cert demo_env demo_service ''D1'' ''RSN1'' (open_conn enrolled_tables) =
     (Ok (''FLEET/SN1'', 31536100), open_conn enrolled_tables)"
proof -
  have "sign_csr demo_pki 100 ''RSN1'' ''FLEET'' ''FLEETKEY'' 365 = Ok ''FLEET/SN1''"
    by (simp add: demo_sign_csr)
  then show ?thesis
    using renew_only_active [of demo_env demo_service "''D1''" "''RSN1''" "open_conn enrolled_tables"]
    by (simp add: demo_defs cert_expires_at_def in_i64_def)
qed

text \<open>
  C39. The claim is spent before the CSR is signed: when an enrollment that passed its checks
  fails at the signing step, the serial stays claimed with no device, and every later
  enrollment of that serial, with a correct CSR, is refused as already claimed.
\<close>

theorem failed_signing_spends_the_claim:
  assumes "\<And>i. no_fault (env_engine env i)" and "idle c"
    and "enroll_check (env_pki env) sreq certs ca = Ok serial"
    and "row_with pe_serial serial (pre_enrollment (tabs c)) = Some row" and "pe_claimed row = 0"
    and "sign_csr (env_pki env) (env_clock env 0) csr (fleet_ca_cert_pem svc) (fleet_ca_key_pem svc)
          (cert_validity_days svc) = Inl f"
    and "\<And>i. no_fault (env_engine env' i)" and "enroll_check (env_pki env') sreq' certs' ca = Ok serial"
  shows "\<exists>c1. bootstrap_enroll env svc sreq csr fw certs ca c = (Inl (map_failure PkiError f), c1) \<and>
    devices (tabs c1) = devices (tabs c) \<and>
    bootstrap_enroll env' svc sreq' csr' fw' certs' ca c1 = (Err (SerialAlreadyClaimed serial), c1)"
proof -
  define c1 where "c1 = c\<lparr>tabs := claim_serial serial (tabs c)\<rparr>"
  have i1: "idle c1" using assms(2) by (simp add: c1_def idle_def)
  have "bootstrap_enroll env svc sreq csr fw certs ca c = (Inl (map_failure PkiError f), c1)"
    using assms(1-6) by (simp add: bootstrap_enroll_def lookup_and_claim_healthy enroll_finish_def c1_def)
  moreover have "row_with pe_serial serial (pre_enrollment (tabs c1)) = Some (row\<lparr>pe_claimed := 1\<rparr>)"
    using assms(4) by (simp add: c1_def row_with_claim_serial)
  then have "bootstrap_enroll env' svc sreq' csr' fw' certs' ca c1 = (Err (SerialAlreadyClaimed serial), c1)"
    using assms(7,8) i1 by (simp add: bootstrap_enroll_def lookup_and_claim_healthy)
  ultimately show ?thesis by (auto simp: c1_def)
qed

theorem failed_signing_spends_the_claim_witness:
  "\<exists>c1. bootstrap_enroll demo_env demo_service ''SN1'' ''garbage'' ''1.0'' [''DEVICE/SN1''] ''DEVICE'' (open_conn ready_tables) =
      (Err (PkiError (PkiPem ''not a CSR'')), c1) \<and>
    bootstrap_enroll demo_env demo_service ''SN1'' ''RSN1'' ''1.0'' [''DEVICE/SN1''] ''DEVICE'' c1 =
      (Err (SerialAlreadyClaimed ''SN1''), c1)"
proof -
  have chk: "enroll_check demo_pki ''SN1'' [''DEVICE/SN1''] ''DEVICE'' = Ok ''SN1''"
    by (simp add: enroll_check_def demo_pki_def extract_serial_def verify_signed_by_def certs_from_pem_def)
  have sgn: "sign_csr demo_pki 100 ''garbage'' ''FLEET'' ''FLEETKEY'' 365 = Err (PkiPem ''not a CSR'')"
    by (simp add: sign_csr_def demo_pki_def)
  show ?thesis
    using failed_signing_spends_the_claim [where env = demo_env and env' = demo_env and c = "open_conn ready_tables"
        and sreq = "''SN1''" and sreq' = "''SN1''" and certs = "[''DEVICE/SN1'']" and certs' = "[''DEVICE/SN1'']"
        and ca = "''DEVICE''" and serial = "''SN1''" and svc = demo_service and csr = "''garbage''"
        and csr' = "''RSN1''" and fw = "''1.0''" and fw' = "''1.0''" and f = "Fail (PkiPem ''not a CSR'')"
        and row = "\<lparr>pe_serial = ''SN1'', pe_model = ''Beta'', pe_claimed = 0\<rparr>"]
      chk sgn by (auto simp: demo_defs)
qed

text \<open>
  C40. Phase 1 does not compare the subject of the CSR with the serial the token was issued
  for: with working services a caller who has the unspent token of one serial and a CSR with any
  other name is given a Device CA certificate, and with it passes the checks of enrollment as that
  other serial.
\<close>

theorem token_of_one_serial_certifies_another:
  assumes "faithful_issuer (env_pki env) csr_cn (device_ca_cert_pem srv) (device_ca_key_pem srv)"
    and "\<And>i. no_fault (env_engine env i)" and "idle c"
    and "row_with fm_serial (pr_serial req) (factory_manifest (tabs c)) = Some row"
    and "fm_token row = pr_token req" and "fm_provisioned_at row = None"
    and "pr_serial req \<noteq> []" and "pr_csr_pem req \<noteq> []" and "pr_token req \<noteq> []"
    and "csr_cn (pr_csr_pem req) = Some other"
    and "sign_csr (env_pki env) (env_clock env 1) (pr_csr_pem req)
           (device_ca_cert_pem srv) (device_ca_key_pem srv) 365 = Ok cert"
  shows "\<exists>c1 certs. provision_device env srv req c = (Ok cert, c1) \<and> certs_from_pem (env_pki env) cert = Ok certs \<and>
    enroll_check (env_pki env) other certs (device_ca_cert_pem srv) = Ok other"
proof -
  have "\<exists>c1. provision_device env srv req c = (Ok cert, c1)"
    using assms(2-9,11) by (simp add: provision_device_def claim_manifest_entry_healthy)
  with faithful_issuer_signs [OF assms(1,10,11)] show ?thesis
    by (auto simp: enroll_check_def)
qed

theorem token_of_one_serial_certifies_another_witness:
  "\<exists>c1 certs. provision_device demo_env demo_provisioning \<lparr>pr_serial = ''SN1'', pr_csr_pem = ''RSN2'', pr_token = ''tok1''\<rparr>
       (open_conn factory_tables) = (Ok ''DEVICE/SN2'', c1) \<and>
     certs_from_pem demo_pki ''DEVICE/SN2'' = Ok certs \<and> enroll_check demo_pki ''SN2'' certs ''DEVICE'' = Ok ''SN2''"
proof -
  let ?req = "\<lparr>pr_serial = ''SN1'', pr_csr_pem = ''RSN2'', pr_token = ''tok1''\<rparr>"
  have "\<exists>c1 certs. provision_device demo_env demo_provisioning ?req (open_conn factory_tables) = (Ok ''DEVICE/SN2'', c1) \<and>
      certs_from_pem (env_pki demo_env) ''DEVICE/SN2'' = Ok certs \<and>
      enroll_check (env_pki demo_env) ''SN2'' certs (device_ca_cert_pem demo_provisioning) = Ok ''SN2''"
    by (rule token_of_one_serial_certifies_another [where csr_cn = demo_csr_cn
          and row = "\<lparr>fm_serial = ''SN1'', fm_model = ''Beta'', fm_token = ''tok1'', fm_provisioned_at = None\<rparr>"])
      (simp_all add: demo_defs demo_faithful demo_csr_cn_def demo_sign_csr)
  then show ?thesis by (simp add: demo_defs)
qed

section \<open>The running service\<close>


lemma demo_reachable:
  "\<exists>s. dms_reachable demo_service ''DEVICE'' s \<and> sys_log s = [Registered ''SN1'', Enrolled ''SN1'' ''D1''] \<and> idle (sys_conn s)"
proof -
  let ?c1 = "open_conn (empty_tables\<lparr>pre_enrollment := [\<lparr>pe_serial = ''SN1'', pe_model = ''Beta'', pe_claimed = 0\<rparr>]\<rparr>)"
  let ?s1 = "init_sys\<lparr>sys_conn := ?c1, sys_log := sys_log init_sys @ [Registered ''SN1'']\<rparr>"
  have "register_serial reliable ''SN1'' ''Beta'' (sys_conn init_sys) = (Ok (), ?c1)"
    by (simp add: register_serial_healthy upsert_serial_def init_sys_def empty_tables_def open_conn_def)
  from dms_trans.registered [OF this] have s1: "dms_reachable demo_service ''DEVICE'' ?s1"
    by (rule dms_reachable.step [OF dms_reachable.start])
  obtain r c' where run: "bootstrap_enroll demo_env demo_service ''SN1'' ''RSN1'' ''1.0'' [''DEVICE/SN1''] ''DEVICE''
      (sys_conn ?s1) = (Ok r, c')" and did: "er_device_id r = ''D1''" and idle: "idle c'"
    by (simp add: bootstrap_enroll_def enroll_check_def enroll_finish_def demo_pki_def demo_defs extract_serial_def
        verify_signed_by_def certs_from_pem_def sign_csr_def Let_def lookup_and_claim_healthy create_device_healthy
        new_record_def claim_serial_def open_conn_def idle_def empty_tables_def)
  have "sys_tasks ?s1 0 = None" by (simp add: init_sys_def)
  from run this obtain serial where chk: "enroll_check (env_pki demo_env) ''SN1'' [''DEVICE/SN1''] ''DEVICE'' = Inr serial"
    and steps: "(dms_trans demo_service ''DEVICE'')\<^sup>*\<^sup>* ?s1 (?s1\<lparr>sys_conn := c', sys_log := sys_log ?s1 @ [Enrolled serial (er_device_id r)]\<rparr>)"
    by (rule bootstrap_enroll_run)
  have "serial = ''SN1''"
    using chk by (simp add: enroll_check_def demo_pki_def extract_serial_def verify_signed_by_def certs_from_pem_def demo_env_def)
  with reachable_rtranclp [OF steps s1] did idle show ?thesis
    by (intro exI conjI) (assumption, simp_all add: init_sys_def)
qed


text \<open>
  C2. Chain of custody: in every reachable state, under any faults, a device that the handlers see,
  in the file or in an open transaction, has the model that the pre-enrollment registry of the
  database file has for its serial, and its serial got into that registry only through the
  registration of the operator or through a manifest entry of the file that was claimed with the
  token the manifest holds for it.
\<close>

theorem chain_of_custody:
  assumes "dms_reachable svc ca s" and "d \<in> set (devices (tabs (sys_conn s)))"
  shows "(\<exists>p \<in> set (pre_enrollment (committed (sys_conn s))). pe_serial p = dr_serial d \<and> pe_model p = dr_model d) \<and>
    (Registered (dr_serial d) \<in> set (sys_log s) \<or>
     (\<exists>m \<in> set (factory_manifest (committed (sys_conn s))). fm_serial m = dr_serial d \<and>
        ManifestClaimed (dr_serial d) (fm_token m) \<in> set (sys_log s)))"
proof -
  let ?t = "committed (sys_conn s)"
  note inv = reachable_inv [OF assms(1), unfolded sys_inv_def file_inv_def open_inv_def]
  have "(dr_serial d, dr_id d, dr_model d) \<in> set (dev_cols (tabs (sys_conn s)))" using assms(2) by (auto simp: dev_cols_def)
  then have pre: "(dr_serial d, dr_model d) \<in> pre_pairs ?t" using inv by auto
  then have "vouched (sys_log s) (dr_serial d)" using inv by blast
  moreover have "\<And>sn tok. ManifestClaimed sn tok \<in> set (sys_log s) \<Longrightarrow> (sn, tok) \<in> man_pairs ?t" using inv by blast
  ultimately show ?thesis
    using pre unfolding vouched_def pre_pairs_def man_pairs_def by fastforce
qed

theorem chain_of_custody_witness:
  "\<exists>(s :: dms_sys) d. dms_reachable demo_service ''DEVICE'' s \<and> devices (tabs (sys_conn s)) = [d] \<and>
     (\<exists>p \<in> set (pre_enrollment (committed (sys_conn s))). pe_serial p = dr_serial d \<and> pe_model p = dr_model d) \<and>
     Registered (dr_serial d) \<in> set (sys_log s)"
proof -
  obtain s where s: "dms_reachable demo_service ''DEVICE'' s" "sys_log s = [Registered ''SN1'', Enrolled ''SN1'' ''D1'']"
    "idle (sys_conn s)"
    using demo_reachable by blast
  have "enrolled_ids (sys_log s) = [(''SN1'', ''D1'')]" by (simp add: s(2) enrolled_ids_def List.map_filter_def)
  moreover have "map (\<lambda>(sn, i, m). (sn, i)) (dev_cols (tabs (sys_conn s))) = enrolled_ids (sys_log s)"
    using reachable_inv [OF s(1)] s(3) by (simp add: sys_inv_def file_inv_def)
  ultimately obtain d where d: "devices (tabs (sys_conn s)) = [d]"
    by (auto simp: dev_cols_def)
  have "(\<exists>p \<in> set (pre_enrollment (committed (sys_conn s))). pe_serial p = dr_serial d \<and> pe_model p = dr_model d) \<and>
      Registered (dr_serial d) \<in> set (sys_log s)"
    using chain_of_custody [OF s(1), of d] d s(2) by auto
  with s(1) d show ?thesis by (intro exI [of _ s] exI [of _ d]) simp
qed

text \<open>
  What an open transaction costs: an enrollment that is answered inside one returns \<open>Ok\<close>, and its
  device is not in the database file. After a restart the robot holds an operational certificate
  of a device that does not exist, and its claim is still spent.
\<close>

theorem open_transaction_loses_enrollment:
  assumes "sys_inv s" and "\<not> idle (sys_conn s)"
    and "enroll_finish env svc csr fw serial pre (sys_conn s) = (Ok r, c')"
  shows "committed c' = committed (sys_conn s) \<and> serial \<notin> dr_serial ` set (devices (committed c'))"
proof -
  from assms(3) obtain signed where cr: "create_device (env_engine env 1) (env_uuid env) (env_clock env 2)
      \<lparr>nd_serial = serial, nd_model = per_model pre, nd_firmware = fw, nd_cert = signed\<rparr> (sys_conn s) =
      (Inr (new_record (env_uuid env) (env_clock env 2)
        \<lparr>nd_serial = serial, nd_model = per_model pre, nd_firmware = fw, nd_cert = signed\<rparr>), c')"
    by (auto elim!: enroll_finish_Inr)
  have "committed c' = committed (sys_conn s)"
    using create_device_Inr(4) [OF cr] assms(2) by (auto simp: committed_def idle_def)
  moreover have "serial \<notin> dr_serial ` set (devices (committed (sys_conn s)))"
    using create_device_Inr(3) [OF cr] sys_inv_devices [OF assms(1)] by auto
  ultimately show ?thesis by simp
qed

text \<open>
  Such a state is reached by two robots: the first has claimed its serial when the \<open>COMMIT\<close> of the
  second one's claim fails with \<open>SQLITE_BUSY\<close>.
\<close>

definition two_ready :: dms_tables where
  "two_ready = empty_tables\<lparr>pre_enrollment := [\<lparr>pe_serial = ''SN1'', pe_model = ''Beta'', pe_claimed = 0\<rparr>,
     \<lparr>pe_serial = ''SN2'', pe_model = ''Beta'', pe_claimed = 0\<rparr>]\<rparr>"

definition interrupted_claims :: dms_sys where
  "interrupted_claims =
     \<lparr>sys_conn = \<lparr>tabs = claim_serial ''SN2'' (claim_serial ''SN1'' two_ready), saved = Some (claim_serial ''SN1'' two_ready)\<rparr>,
      sys_tasks = [0 \<mapsto> \<lparr>tk_serial = ''SN1'', tk_pre = \<lparr>per_serial = ''SN1'', per_model = ''Beta''\<rparr>,
                        tk_csr = ''RSN1'', tk_firmware = ''1.0''\<rparr>],
      sys_log = [Registered ''SN1'', Registered ''SN2'']\<rparr>"

lemma interrupted_claims_reachable: "dms_reachable demo_service ''DEVICE'' interrupted_claims"
proof -
  let ?t1 = "empty_tables\<lparr>pre_enrollment := [\<lparr>pe_serial = ''SN1'', pe_model = ''Beta'', pe_claimed = 0\<rparr>]\<rparr>"
  let ?s1 = "init_sys\<lparr>sys_conn := open_conn ?t1, sys_log := [Registered ''SN1'']\<rparr>"
  let ?s2 = "init_sys\<lparr>sys_conn := open_conn two_ready, sys_log := [Registered ''SN1'', Registered ''SN2'']\<rparr>"
  let ?s3 = "interrupted_claims\<lparr>sys_conn := open_conn (claim_serial ''SN1'' two_ready)\<rparr>"
  have r1: "register_serial reliable ''SN1'' ''Beta'' (sys_conn init_sys) = (Ok (), open_conn ?t1)"
    by (simp add: register_serial_healthy upsert_serial_def init_sys_def empty_tables_def open_conn_def)
  have r2: "register_serial reliable ''SN2'' ''Beta'' (sys_conn ?s1) = (Ok (), open_conn two_ready)"
    by (simp add: register_serial_healthy upsert_serial_def two_ready_def empty_tables_def open_conn_def)
  have chk: "enroll_check demo_pki ''SN1'' [''DEVICE/SN1''] ''DEVICE'' = Inr ''SN1''"
    by (simp add: enroll_check_def demo_pki_def extract_serial_def verify_signed_by_def certs_from_pem_def)
  have r3: "lookup_and_claim reliable ''SN1'' (sys_conn ?s2) =
      (Ok \<lparr>per_serial = ''SN1'', per_model = ''Beta''\<rparr>, open_conn (claim_serial ''SN1'' two_ready))"
    by (simp add: lookup_and_claim_healthy two_ready_def open_conn_def idle_def)
  have r4: "lookup_and_claim (failing_at 3 (SqliteFailure (OtherCode 5)) False) ''SN2'' (sys_conn ?s3) =
      (Err (Db (SqliteFailure (OtherCode 5))), sys_conn interrupted_claims)"
    by (simp add: lookup_and_claim_def db_lock_def with_lock_def transaction_def claim_body_def query_row_def
        update_where_def claim_serial_def begin_immediate_def commit_def idle_def sql_def two_ready_def open_conn_def
        map_err_st_def interrupted_claims_def empty_tables_def set_rows_def)
  have 1: "dms_trans demo_service ''DEVICE'' init_sys ?s1" using dms_trans.registered [OF r1] by (simp add: init_sys_def)
  have 2: "dms_trans demo_service ''DEVICE'' ?s1 ?s2" using dms_trans.registered [OF r2] by (simp add: init_sys_def)
  have 3: "dms_trans demo_service ''DEVICE'' ?s2 ?s3"
    using dms_trans.enroll_claim [OF chk r3, where i = 0 and csr = "''RSN1''" and fw = "''1.0''"]
    by (simp add: init_sys_def interrupted_claims_def)
  have 4: "dms_trans demo_service ''DEVICE'' ?s3 interrupted_claims"
    using dms_trans.enroll_refused [OF r4] by (simp add: interrupted_claims_def)
  show ?thesis using dms_reachable.start 1 2 3 4 by (meson dms_reachable.step)
qed

theorem open_transaction_loses_enrollment_witness:
  "\<exists>r c'. dms_reachable demo_service ''DEVICE'' interrupted_claims \<and>
     enroll_finish demo_env demo_service ''RSN1'' ''1.0'' ''SN1'' \<lparr>per_serial = ''SN1'', per_model = ''Beta''\<rparr>
       (sys_conn interrupted_claims) = (Ok r, c') \<and> er_device_id r = ''D1'' \<and>
     ''SN1'' \<notin> dr_serial ` set (devices (committed c')) \<and>
     fst (lookup_and_claim reliable ''SN1'' (open_conn (committed c'))) = Err (SerialAlreadyClaimed ''SN1'')"
proof -
  let ?fin = "enroll_finish demo_env demo_service ''RSN1'' ''1.0'' ''SN1'' \<lparr>per_serial = ''SN1'', per_model = ''Beta''\<rparr>
    (sys_conn interrupted_claims)"
  obtain r c' where fin: "?fin = (Ok r, c')" and did: "er_device_id r = ''D1''"
    by (simp add: enroll_finish_def demo_pki_def demo_defs certs_from_pem_def sign_csr_def Let_def create_device_healthy
        new_record_def claim_serial_def interrupted_claims_def two_ready_def empty_tables_def)
  have op: "\<not> idle (sys_conn interrupted_claims)" by (simp add: interrupted_claims_def idle_def)
  note lost = open_transaction_loses_enrollment [OF reachable_inv [OF interrupted_claims_reachable] op fin]
  have "committed c' = claim_serial ''SN1'' two_ready" using lost by (simp add: interrupted_claims_def committed_def)
  then have "fst (lookup_and_claim reliable ''SN1'' (open_conn (committed c'))) = Err (SerialAlreadyClaimed ''SN1'')"
    by (simp add: lookup_and_claim_healthy two_ready_def claim_serial_def open_conn_def idle_def set_rows_def)
  with interrupted_claims_reachable fin did lost show ?thesis by blast
qed

section \<open>Streams and status changes\<close>

text \<open>
  A heartbeat stream of a known device, with a working database and a client that reads:
  every heartbeat is answered, in order, and afterwards \<open>last_seen_at\<close> of that device alone
  is the time of the last heartbeat, whatever device ids the later messages carry.
\<close>

theorem heartbeats_touch_the_device:
  assumes "healthy_stream env" and "row_with dr_id (hb_device_id q) (devices (tabs c)) = Some d"
  shows "\<exists>c'. heartbeat_handle env (map Inr (q # qs)) c = ((replicate (Suc (length qs)) heartbeat_ok, TaskReturned), c') \<and>
    row_with dr_id (hb_device_id q) (devices (tabs c')) = Some (d\<lparr>dr_last_seen_at := se_clock env (length qs)\<rparr>) \<and>
    (\<forall>x. x \<noteq> hb_device_id q \<longrightarrow> row_with dr_id x (devices (tabs c')) = row_with dr_id x (devices (tabs c))) \<and>
    pre_enrollment (tabs c') = pre_enrollment (tabs c) \<and> factory_manifest (tabs c') = factory_manifest (tabs c)"
proof -
  have "heartbeat_handle env (map Inr (q # qs)) c = ((replicate (Suc (length qs)) heartbeat_ok, TaskReturned),
      c\<lparr>tabs := touch_row (se_clock env (length qs)) (hb_device_id q) (tabs c)\<rparr>)"
    using heartbeat_loop_known [OF assms, of 0 "q # qs"] by simp
  then show ?thesis
    using assms(2) by (simp add: row_with_touch_row) (simp add: touch_row_def)
qed

definition demo_stream :: stream_env where
  "demo_stream = \<lparr>se_engine = (\<lambda>_. reliable), se_clock = (\<lambda>i. 200 + int i), se_accepts = (\<lambda>_. True),
     se_show_status = st_message\<rparr>"

definition demo_heartbeat :: heartbeat_request where
  "demo_heartbeat = \<lparr>hb_device_id = ''D1'', hb_recorded_at = None, hb_cpu_percent = 0, hb_memory_percent = 0,
     hb_battery_percent = 0, hb_operational_status = ''ok''\<rparr>"

theorem heartbeats_touch_the_device_witness:
  "\<exists>c'. heartbeat_handle demo_stream [Inr demo_heartbeat, Inr demo_heartbeat] (open_conn enrolled_tables) =
      (([heartbeat_ok, heartbeat_ok], TaskReturned), c') \<and>
    row_with dr_id ''D1'' (devices (tabs c')) = Some (demo_device\<lparr>dr_last_seen_at := 201\<rparr>)"
proof -
  have h: "healthy_stream demo_stream" by (simp add: healthy_stream_def demo_stream_def)
  have did: "hb_device_id demo_heartbeat = ''D1''" by (simp add: demo_heartbeat_def)
  have d: "row_with dr_id (hb_device_id demo_heartbeat) (devices (tabs (open_conn enrolled_tables))) = Some demo_device"
    by (simp add: did demo_defs)
  have clk: "se_clock demo_stream (Suc 0) = 201" by (simp add: demo_stream_def)
  show ?thesis
    using heartbeats_touch_the_device [OF h d, of "[demo_heartbeat]"]
    by (simp only: did clk list.map list.size replicate_Suc replicate_0 add_0_right add_0 One_nat_def plus_nat.add_Suc) blast
qed

text \<open>
  Telemetry acknowledgements count: while the client takes them, the \<open>k\<close>-th frame (from 0)
  is answered with \<open>k + 1\<close> received frames, modulo \<open>2^64\<close>, and no throttling.
\<close>

theorem telemetry_acks_count_frames:
  assumes "\<And>i. tel_accepts env i"
  shows "fst (stream_telemetry env (map Inr ds)) =
    map (\<lambda>k. Inr \<lparr>ack_frames_received = of_nat (Suc k), ack_throttle = False\<rparr>) [0..<length ds]"
  using telemetry_loop_acks [OF assms, where i = 0 and ds = ds and
      st = "\<lparr>frames_received = 0, frames_in_window = 0, last_log = tel_start env, tel_device_id = []\<rparr>"]
  by (simp add: stream_telemetry_def split_def)

definition demo_telemetry :: telemetry_env where
  "demo_telemetry = \<lparr>tel_start = 0, tel_now = (\<lambda>i. 3000000000 * int (Suc i)), tel_reset = (\<lambda>i. 3000000000 * int (Suc i)),
     tel_accepts = (\<lambda>_. True), tel_show_status = st_message\<rparr>"

theorem telemetry_acks_count_frames_witness:
  "fst (stream_telemetry demo_telemetry [Inr ''D1'', Inr ''D1'']) =
     [Inr \<lparr>ack_frames_received = 1, ack_throttle = False\<rparr>, Inr \<lparr>ack_frames_received = 2, ack_throttle = False\<rparr>]"
  using telemetry_acks_count_frames [of demo_telemetry "[''D1'', ''D1'']"]
  by (simp add: demo_telemetry_def)

text \<open>
  No telemetry frame is lost from the rate log: the windows that are logged, the final
  summary included, add up to the number of frames received (modulo \<open>2^64\<close>), however the
  clock behaves and wherever the stream breaks off.
\<close>

theorem telemetry_log_accounts_for_all_frames:
  "log_window (snd (stream_telemetry env msgs)) = frames_received (snd (snd (telemetry_loop env 0 msgs
     \<lparr>frames_received = 0, frames_in_window = 0, last_log = tel_start env, tel_device_id = []\<rparr>)))"
proof -
  obtain out logs st where r: "telemetry_loop env 0 msgs
      \<lparr>frames_received = 0, frames_in_window = 0, last_log = tel_start env, tel_device_id = []\<rparr> = (out, logs, st)"
    by (metis prod_cases3)
  show ?thesis
    using telemetry_loop_window [OF r]
    by (auto simp: stream_telemetry_def r word_gt_0)
qed

text \<open>
  Suspending works: after \<open>update_device_status\<close> returns, its answer and every later read
  show the new status, other devices are untouched, and certificate renewal is refused unless
  the new status is \<open>active\<close>.
\<close>

theorem status_update_takes_effect:
  assumes "\<And>i. no_fault (engs i)" and "row_with dr_id did (devices (tabs c)) = Some d"
    and "no_fault (env_engine env 0)" and "st \<noteq> ''active''"
  shows "\<exists>c'. rpc_update_device_status engs did st reason c = (Ok (Some (record_to_proto (d\<lparr>dr_status := st\<rparr>))), c') \<and>
    get_device (engs 2) did c' = (Ok (d\<lparr>dr_status := st\<rparr>), c') \<and>
    (\<forall>x. x \<noteq> did \<longrightarrow> row_with dr_id x (devices (tabs c')) = row_with dr_id x (devices (tabs c))) \<and>
    fst (renew_cert env svc did csr c') = Err (DeviceNotActive st)"
proof -
  define c' where "c' = c\<lparr>tabs := devices_update (set_rows (\<lambda>r. dr_id r = did) (\<lambda>r. r\<lparr>dr_status := st\<rparr>)) (tabs c)\<rparr>"
  have row: "row_with dr_id x (devices (tabs c')) =
      (if x = did then Some (d\<lparr>dr_status := st\<rparr>) else row_with dr_id x (devices (tabs c)))" for x
    using assms(2) by (simp add: c'_def row_with_set_rows_key)
  have upd: "update_status (engs 0) did st reason c = (Ok (), c')"
    using assms(1,2) by (simp add: update_status_healthy c'_def)
  have get: "get_device e did c' = (Ok (d\<lparr>dr_status := st\<rparr>), c')" if "no_fault e" for e
    using that by (simp add: get_device_healthy row)
  have "rpc_update_device_status engs did st reason c = (Ok (Some (record_to_proto (d\<lparr>dr_status := st\<rparr>))), c')"
    by (simp add: rpc_update_device_status_def upd get [OF assms(1)])
  moreover have "fst (renew_cert env svc did csr c') = Err (DeviceNotActive st)"
    using assms(4) by (simp add: renew_cert_def get [OF assms(3)])
  ultimately show ?thesis
    using get [OF assms(1), of 2] row by (intro exI [of _ c'] conjI) auto
qed

theorem status_update_takes_effect_witness:
  "\<exists>c'. rpc_update_device_status (\<lambda>_. reliable) ''D1'' ''suspended'' ''lost'' (open_conn enrolled_tables) =
      (Ok (Some (record_to_proto (demo_device\<lparr>dr_status := ''suspended''\<rparr>))), c') \<and>
    fst (renew_cert demo_env demo_service ''D1'' ''RSN1'' c') = Err (DeviceNotActive ''suspended'')"
proof -
  have "row_with dr_id ''D1'' (devices (tabs (open_conn enrolled_tables))) = Some demo_device"
    by (simp add: demo_defs)
  then show ?thesis
    using status_update_takes_effect [where engs = "\<lambda>_. reliable" and did = "''D1''" and c = "open_conn enrolled_tables"
        and d = demo_device and env = demo_env and st = "''suspended''" and svc = demo_service and csr = "''RSN1''"]
    by (auto simp: demo_env_def)
qed

end
