(* ===== verification/Ota_Properties.thy ===== *)
theory Ota_Properties
  imports Ota_Server
begin

text \<open>
  What the OTA service guarantees: one active job per device, commands that belong to a stored
  job, delivery to connected robots, and the listing of jobs.
\<close>

section \<open>Concrete states\<close>

definition demo_dispatch :: dispatch_update_request where
  "demo_dispatch = \<lparr>du_device_id = ''D1'', du_target_version = ''2.0'', du_apply_by = None\<rparr>"

definition demo_ack :: "bool \<Rightarrow> ack_update_request" where
  "demo_ack ok = \<lparr>au_device_id = ''D1'', au_update_job_id = ''J1'', au_success = ok, au_error_message = []\<rparr>"

definition watched :: "list_channel ota_state" where
  "watched = ota_run list_broadcast [Watch ''D1'']"

lemma watched_eq: "watched = \<lparr>ot_conn = open_conn empty_jobs, ot_senders = Map.empty(''D1'' \<mapsto> (8, [(1, [])]))\<rparr>"
  by (simp add: watched_def ota_run_def ota_init_def dispatcher_new_def watch_updates_def subscribe_def list_broadcast_def channel_capacity_def)

abbreviation list_queues :: "list_channel \<Rightarrow> nat \<Rightarrow> update_command list option" where
  "list_queues \<equiv> \<lambda>(n, qs). map_of qs"

section \<open>Jobs\<close>

text \<open>
  The four job states survive storage: reading back the text that is stored for a status
  gives the status, and no other text is read as a status.
\<close>

theorem job_status_round_trip:
  "from_str (as_str st) = Some st \<and> (from_str s = Some st' \<longleftrightarrow> s = as_str st')"
  using from_str_Some by auto

text \<open>
  After any sequence of requests, with engine faults anywhere, the stored jobs have unique
  ids and readable states, and no device has two active jobs.
\<close>

theorem one_active_job_per_device:
  "wf_jobs (committed (ot_conn (ota_run bc evs)))"
  unfolding ota_run_conn by (rule job_schema.run_committed_wf) simp

text \<open>
  A command waiting for a robot is the command of a job stored for that very device, with
  the job's target version, artifact and checksum, in every state the service reaches under any faults: commands
  never reach another device's channel, and none is sent without its job being stored.
\<close>

theorem queued_commands_have_their_job:
  assumes "broadcast_laws bc queues cap"
    and "backlog queues (ot_senders (ota_run bc evs)) did r = Some xs" and "cmd \<in> set xs"
  shows "\<exists>row \<in> set (update_jobs (tabs (ot_conn (ota_run bc evs)))).
    jb_id row = uc_update_job_id cmd \<and> jb_device_id row = did \<and> jb_target_version row = uc_target_version cmd \<and>
    jb_artifact_url row = uc_artifact_url cmd \<and> jb_sha256 row = uc_sha256 cmd"
  using ota_inv_run [OF assms(1), of evs] assms(2,3) unfolding ota_inv_def job_of_def by blast

definition demo_command :: update_command where
  "demo_command = \<lparr>uc_update_job_id = ''J1'', uc_target_version = ''2.0'', uc_artifact_url = [],
     uc_sha256 = [], uc_size_bytes = 0, uc_apply_by = None\<rparr>"

lemma demo_command_eq:
  "job_command (row_to_record (dispatched_row ''J1'' now demo_dispatch)) None = demo_command"
  by (simp add: job_command_def row_to_record_def new_job_row_def dispatch_new_job_def demo_dispatch_def
      demo_command_def i64_as_u64_def u64_as_i64_def)

lemma demo_run:
  "ota_run list_broadcast [Watch ''D1'', Dispatch reliable ''J1'' ''t1'' demo_dispatch] =
     (add_job (dispatched_row ''J1'' ''t1'' demo_dispatch) watched)
       \<lparr>ot_senders := Map.empty(''D1'' \<mapsto> (8, [(1, [demo_command])]))\<rparr>"
proof -
  have d: "dispatch list_broadcast (du_device_id demo_dispatch)
      (job_command (row_to_record (dispatched_row ''J1'' ''t1'' demo_dispatch)) (du_apply_by demo_dispatch))
      (ot_senders watched) = (Ok 1, Map.empty(''D1'' \<mapsto> (8, [(1, [demo_command])])))"
    using demo_command_eq [of "''t1''"]
    by (simp add: dispatch_def watched_eq list_broadcast_def Let_def demo_dispatch_def send_queue_def)
  have "no_active (du_device_id demo_dispatch) (tabs (ot_conn watched))"
    "''J1'' \<notin> jb_id ` set (update_jobs (tabs (ot_conn watched)))"
    by (simp_all add: watched_eq empty_jobs_def no_active_def)
  from dispatch_update_fresh [OF _ this d, of reliable] show ?thesis
    by (simp add: ota_run_def watched_def [unfolded ota_run_def, symmetric, simplified])
qed

theorem queued_commands_have_their_job_witness:
  "\<exists>row \<in> set (update_jobs (tabs (ot_conn
      (ota_run list_broadcast [Watch ''D1'', Dispatch reliable ''J1'' ''t1'' demo_dispatch])))).
    jb_id row = ''J1'' \<and> jb_device_id row = ''D1'' \<and> jb_target_version row = ''2.0''"
proof -
  have "backlog list_queues (ot_senders (ota_run list_broadcast
      [Watch ''D1'', Dispatch reliable ''J1'' ''t1'' demo_dispatch])) ''D1'' 1 = Some [demo_command]"
    by (simp add: demo_run backlog_def)
  from queued_commands_have_their_job [OF list_broadcast_laws this, of demo_command] show ?thesis
    by (auto simp: demo_command_def)
qed

text \<open>
  C20. Dispatching to a connected robot with fewer than eight commands waiting, when its device has
  no active job: the request succeeds, the job is stored as pending, the command is appended to
  the robot's queue, and the queues of all other devices stay as they were.
\<close>

theorem dispatch_reaches_connected_robot:
  assumes "broadcast_laws bc queues cap" and "capacities_ok cap (ot_senders st)" and "no_fault eng"
    and "no_active (du_device_id req) (tabs (ot_conn st))"
    and "jid \<notin> jb_id ` set (update_jobs (tabs (ot_conn st)))"
    and "backlog queues (ot_senders st) (du_device_id req) r = Some xs" and "length xs < channel_capacity"
  shows "\<exists>st' cmd. dispatch_update bc eng jid now req st =
      (Ok (job_to_proto (row_to_record (dispatched_row jid now req))), st') \<and>
    uc_update_job_id cmd = jid \<and> uc_target_version cmd = du_target_version req \<and>
    backlog queues (ot_senders st') (du_device_id req) r = Some (xs @ [cmd]) \<and>
    (\<forall>d x. d \<noteq> du_device_id req \<longrightarrow> backlog queues (ot_senders st') d x = backlog queues (ot_senders st) d x) \<and>
    has_active jid (du_device_id req) (tabs (ot_conn st'))"
proof -
  let ?row = "dispatched_row jid now req"
  let ?cmd = "job_command (row_to_record ?row) (du_apply_by req)"
  obtain ch n where ch: "ot_senders st (du_device_id req) = Some ch" and d: "dispatch bc (du_device_id req) ?cmd (ot_senders st)
      = (Ok n, (ot_senders st)(du_device_id req \<mapsto> snd (bc_send bc ?cmd ch)))"
    using dispatch_delivered [OF assms(1,6)] by metis
  let ?m = "(ot_senders st)(du_device_id req \<mapsto> snd (bc_send bc ?cmd ch))"
  define st' where "st' = (add_job ?row st)\<lparr>ot_senders := ?m\<rparr>"
  have run: "dispatch_update bc eng jid now req st = (Ok (job_to_proto (row_to_record ?row)), st')"
    using dispatch_update_fresh [OF assms(3-5) d] by (simp add: st'_def)
  from backlog_dispatch(1) [OF assms(1) d] ch have
    b: "\<And>d x. backlog queues ?m d x = (if d = du_device_id req then map_option (send_queue (cap ch) ?cmd)
      (backlog queues (ot_senders st) d x) else backlog queues (ot_senders st) d x)" by auto
  have "channel_capacity \<le> cap ch" using assms(2) ch by (auto simp: capacities_ok_def)
  then have q: "backlog queues ?m (du_device_id req) r = Some (xs @ [?cmd])"
    using assms(6,7) by (simp add: b send_queue_short)
  have cmd: "uc_update_job_id ?cmd = jid" "uc_target_version ?cmd = du_target_version req"
    by (simp_all add: job_command_def row_to_record_def new_job_row_def dispatch_new_job_def)
  have act: "has_active jid (du_device_id req) (tabs (ot_conn st'))"
    by (simp add: st'_def add_job_def has_active_def active_for_def active_status_def new_job_row_def dispatch_new_job_def)
  show ?thesis
    by (intro exI [of _ st'] exI [of _ ?cmd] conjI run cmd act)
      (use q b in \<open>simp_all add: st'_def\<close>)
qed

theorem dispatch_reaches_connected_robot_witness:
  "\<exists>st' cmd. dispatch_update list_broadcast reliable ''J1'' ''t1'' demo_dispatch watched =
      (Ok (job_to_proto (row_to_record (dispatched_row ''J1'' ''t1'' demo_dispatch))), st') \<and>
    uc_update_job_id cmd = ''J1'' \<and> backlog list_queues (ot_senders st') ''D1'' 1 = Some [cmd]"
proof -
  have cap: "capacities_ok fst (ot_senders watched)"
    by (auto simp: capacities_ok_def watched_eq channel_capacity_def split: if_splits)
  have na: "no_active (du_device_id demo_dispatch) (tabs (ot_conn watched))"
    and j: "''J1'' \<notin> jb_id ` set (update_jobs (tabs (ot_conn watched)))"
    by (simp_all add: watched_eq no_active_def empty_jobs_def)
  have did: "du_device_id demo_dispatch = ''D1''" by (simp add: demo_dispatch_def)
  have b: "backlog list_queues (ot_senders watched) (du_device_id demo_dispatch) 1 = Some []"
    by (simp add: backlog_def watched_eq did)
  show ?thesis
    using dispatch_reaches_connected_robot [OF list_broadcast_laws cap _ na j b, of reliable "''t1''"]
    by (simp add: did channel_capacity_def) blast
qed

text \<open>
  C29. Dispatching to a device with no connected robot answers \<open>Unavailable\<close> and leaves the new
  job pending; from then on, whatever requests follow (robots connecting and disconnecting
  and other devices' traffic included, under any faults) and as long as this job is not
  acknowledged, every dispatch to the device is refused with \<open>AlreadyExists\<close>.
\<close>

theorem dispatch_to_absent_robot_blocks_device:
  assumes "broadcast_laws bc queues cap" and "no_fault eng" and "idle (ot_conn st)"
    and "no_active (du_device_id req) (tabs (ot_conn st))"
    and "jid \<notin> jb_id ` set (update_jobs (tabs (ot_conn st)))"
    and "\<And>r. backlog queues (ot_senders st) (du_device_id req) r = None"
    and "\<forall>ev \<in> set evs. \<not> acks jid ev" and "no_fault eng'" and "du_device_id req' = du_device_id req"
  shows "\<exists>st1. dispatch_update bc eng jid now req st =
      (Err (status_of Unavailable (''device '' @ du_device_id req @ '' is not connected'')), st1) \<and>
    has_active jid (du_device_id req) (tabs (ot_conn st1)) \<and>
    fst (dispatch_update bc eng' jid' now' req' (fold (ota_step bc) evs st1)) =
      Err (status_of AlreadyExists ''device already has an active job'')"
proof -
  define st1 where "st1 = add_job (dispatched_row jid now req) st"
  have "dispatch bc (du_device_id req) (job_command (row_to_record (dispatched_row jid now req)) (du_apply_by req))
      (ot_senders st) = (Err (NoActiveSubscribers (du_device_id req)), ot_senders st)"
    by (rule dispatch_refused [OF assms(1,6)])
  from dispatch_update_fresh [OF assms(2,4,5) this] have
    run: "dispatch_update bc eng jid now req st =
      (Err (status_of Unavailable (''device '' @ du_device_id req @ '' is not connected'')), st1)"
    by (simp add: st1_def add_job_def)
  have act: "has_active jid (du_device_id req) (tabs (ot_conn st1))"
    by (simp add: st1_def add_job_def has_active_def active_for_def active_status_def new_job_row_def dispatch_new_job_def)
  moreover have "saved (ot_conn st1) = None" using assms(3) by (simp add: st1_def add_job_def idle_def)
  ultimately have "conn_all (has_active jid (du_device_id req)) (ot_conn st1)" by (simp add: conn_all_def)
  from has_active_run [where bc = bc, OF this assms(7), THEN conn_all_tabs, THEN has_active_not_no_active]
  have na: "\<not> no_active (du_device_id req') (tabs (ot_conn (fold (ota_step bc) evs st1)))"
    by (simp add: assms(9))
  have "fst (dispatch_update bc eng' jid' now' req' (fold (ota_step bc) evs st1)) =
      Err (status_of AlreadyExists ''device already has an active job'')"
    by (simp add: dispatch_update_pending [OF assms(8) na])
  with run act show ?thesis by blast
qed

theorem dispatch_to_absent_robot_blocks_device_witness:
  "\<exists>st1. dispatch_update list_broadcast reliable ''J1'' ''t1'' demo_dispatch ota_init =
      (Err (status_of Unavailable ''device D1 is not connected''), st1) \<and>
    fst (dispatch_update list_broadcast reliable ''J2'' ''t2'' demo_dispatch (fold (ota_step list_broadcast) [Watch ''D1''] st1)) =
      Err (status_of AlreadyExists ''device already has an active job'')"
  using dispatch_to_absent_robot_blocks_device [OF list_broadcast_laws, of reliable ota_init demo_dispatch "''J1''"
      "[Watch ''D1'']" reliable demo_dispatch "''t1''" "''J2''" "''t2''"]
  by (auto simp: ota_init_def dispatcher_new_def no_active_def empty_jobs_def backlog_def demo_dispatch_def)

lemma ack_run:
  assumes "no_fault eng" and "wf_jobs (tabs (ot_conn st))"
    and "row \<in> set (update_jobs (tabs (ot_conn st)))" and "active_for did row" and "jb_id row = au_update_job_id req"
  shows "\<exists>st'. ack_update eng now req st = (Ok True, st') \<and> no_active did (tabs (ot_conn st')) \<and>
    row_with jb_id (au_update_job_id req) (update_jobs (tabs (ot_conn st'))) =
      Some (finish_row now (if au_success req then Completed else Failed) (non_empty (au_error_message req)) row)"
proof -
  let ?jid = "au_update_job_id req"
  let ?f = "finish_row now (if au_success req then Completed else Failed) (non_empty (au_error_message req))"
  let ?jobs = "update_jobs (tabs (ot_conn st))"
  have row: "row_with jb_id ?jid ?jobs = Some row"
    using assms(2,3,5) row_with_distinct [of jb_id ?jobs ?jid row] by (simp add: wf_jobs_def)
  define st' where "st' = st\<lparr>ot_conn := (ot_conn st)\<lparr>tabs :=
      update_jobs_update (set_rows (\<lambda>r. jb_id r = ?jid) ?f) (tabs (ot_conn st))\<rparr>\<rparr>"
  have run: "ack_update eng now req st = (Ok True, st')"
    using assms(1) row by (simp add: ack_update_healthy st'_def)
  have id_f: "jb_id (?f r) = jb_id r" for r by (simp add: finish_row_def)
  have inactive: "\<not> active_for did (?f r)" for r
    by (simp add: finish_row_def active_for_def active_status_def)
  have "\<not> active_for did r" if r: "r \<in> set ?jobs" "jb_id r \<noteq> ?jid" for r
  proof
    assume "active_for did r"
    with r(1) have "r \<in> set (filter (active_for did) ?jobs)" by simp
    with active_unique [OF assms(2-4)] have "r = row" by simp
    with r(2) assms(5) show False by simp
  qed
  then have "no_active did (tabs (ot_conn st'))"
    using inactive by (auto simp: no_active_iff st'_def set_set_rows)
  moreover have "row_with jb_id ?jid (update_jobs (tabs (ot_conn st'))) = Some (?f row)"
    by (simp add: st'_def row_with_set_rows_key [where key = jb_id, OF id_f] row)
  ultimately show ?thesis using run by blast
qed

text \<open>
  An acknowledgement ends the job and frees the device: with a working engine, acknowledging
  the active job of a device, as success or as failure, answers accepted, and the device can
  be dispatched to again; its listing shows the final state and the error message given.
\<close>

theorem ack_frees_the_device:
  assumes "no_fault eng" and "wf_jobs (tabs (ot_conn st))"
    and "row \<in> set (update_jobs (tabs (ot_conn st)))" and "active_for did row" and "jb_id row = au_update_job_id req"
  shows "\<exists>st'. ack_update eng now req st = (Ok True, st') \<and> no_active did (tabs (ot_conn st')) \<and>
    row_with jb_id (au_update_job_id req) (update_jobs (tabs (ot_conn st'))) =
      Some (finish_row now (if au_success req then Completed else Failed) (non_empty (au_error_message req)) row)"
  using assms by (rule ack_run)

theorem ack_frees_the_device_witness:
  "\<exists>st'. ack_update reliable ''t2'' (demo_ack True)
      (add_job (dispatched_row ''J1'' ''t1'' demo_dispatch) watched) = (Ok True, st') \<and>
    no_active ''D1'' (tabs (ot_conn st'))"
proof -
  let ?st = "add_job (dispatched_row ''J1'' ''t1'' demo_dispatch) watched"
  have j: "update_jobs (tabs (ot_conn ?st)) = [dispatched_row ''J1'' ''t1'' demo_dispatch]"
    by (simp add: add_job_def watched_eq empty_jobs_def)
  have wf: "wf_jobs (tabs (ot_conn ?st))"
    unfolding wf_jobs_def j by (simp add: new_job_row_def from_str_def)
  have row: "dispatched_row ''J1'' ''t1'' demo_dispatch \<in> set (update_jobs (tabs (ot_conn ?st)))"
    by (simp add: j)
  have act: "active_for ''D1'' (dispatched_row ''J1'' ''t1'' demo_dispatch)"
    and jid: "jb_id (dispatched_row ''J1'' ''t1'' demo_dispatch) = au_update_job_id (demo_ack True)"
    by (simp_all add: demo_ack_def active_for_def active_status_def new_job_row_def dispatch_new_job_def demo_dispatch_def)
  show ?thesis
    using ack_frees_the_device [OF _ wf row act jid, of reliable "''t2''"] by auto
qed

section \<open>Listing\<close>

text \<open>
  Following the cursors of \<open>list_for_device\<close> returns every job of the device exactly once,
  newest first, provided no two jobs of the device were created in the same second.
\<close>

theorem job_pages_drain_all:
  assumes "is_plan plan" and "distinct_times did t" and "0 < n" and "n \<le> i32_limit"
    and "length (job_listing plan did t) < fuel"
  shows "drain fuel (job_page_at plan did t n) None = Some (job_listing plan did t)"
  using job_pages.drain_complete [of did "(plan, t)" n fuel] assms by simp

definition job_at :: "string \<Rightarrow> string \<Rightarrow> job_row" where
  "job_at jid time = \<lparr>jb_id = jid, jb_device_id = ''D1'', jb_target_version = ''2.0'', jb_artifact_url = [],
     jb_sha256 = [], jb_size_bytes = 0, jb_status = ''completed'', jb_error_message = None,
     jb_created_at = time, jb_updated_at = time\<rparr>"

theorem job_pages_drain_all_witness:
  "drain 3 (job_page_at (\<lambda>rows. rows) ''D1'' \<lparr>update_jobs = [job_at ''A'' ''1'', job_at ''B'' ''2'']\<rparr> 1) None =
     Some [row_to_record (job_at ''B'' ''2''), row_to_record (job_at ''A'' ''1'')]"
  using job_pages_drain_all [of "\<lambda>rows. rows" "''D1''" "\<lparr>update_jobs = [job_at ''A'' ''1'', job_at ''B'' ''2'']\<rparr>" 1 3]
  by (simp add: distinct_times_def job_listing_def order_desc_def job_at_def i32_limit_def sort_key_def)

text \<open>
  The cursor is a creation time with the resolution of a second, and the next page starts
  strictly before it: when two jobs of a device share their second and a page ends between
  them, the second one is on no page.
\<close>

theorem jobs_of_same_second_are_skipped:
  assumes "is_plan plan" and "jb_device_id a = did" and "jb_device_id b = did"
    and "jb_created_at a = jb_created_at b" and "0 < fuel"
  shows "\<exists>x. drain (Suc fuel) (job_page_at plan did \<lparr>update_jobs = [a, b]\<rparr> 1) None = Some [row_to_record x] \<and> x \<in> {a, b}"
proof -
  let ?t = "\<lparr>update_jobs = [a, b]\<rparr>"
  let ?rows = "order_desc plan jb_created_at [a, b]"
  have len: "length ?rows = 2" using length_plan [OF assms(1), of "[a, b]"] by (simp add: order_desc_def)
  have set: "set ?rows = {a, b}" using set_order(2) [OF assms(1), of jb_created_at "[a, b]"] by simp
  obtain x y where xy: "?rows = [x, y]" using len by (auto simp: length_Suc_conv numeral_2_eq_2)
  have x: "x \<in> {a, b}" using set xy by auto
  then have tx: "jb_created_at x = jb_created_at a" using assms(4) by auto
  have p1: "job_page_at plan did ?t 1 None = ([row_to_record x], Some (jb_created_at x))"
    using assms(2,3) xy
    by (simp add: job_page_at_def list_for_device_def with_lock_def query_def select_jobs_def job_after_def
        limit_rows_def ok_items_step_rows job_page_def i64_as_u64_def Let_def in_i64_def)
  have p2: "job_page_at plan did ?t 1 (Some (jb_created_at x)) = ([], None)"
    using assms(4) plan_nil [OF assms(1)] tx
    by (simp add: job_page_at_def list_for_device_def with_lock_def query_def select_jobs_def job_after_def
        limit_rows_def ok_items_step_rows job_page_def i64_as_u64_def Let_def in_i64_def order_desc_def)
  from assms(5) obtain k where "fuel = Suc k" by (cases fuel) auto
  then have "drain (Suc fuel) (job_page_at plan did ?t 1) None = Some [row_to_record x]"
    by (simp add: p1 p2 del: One_nat_def)
  with x show ?thesis by blast
qed

theorem jobs_of_same_second_are_skipped_witness:
  "\<exists>x. drain 2 (job_page_at (\<lambda>rows. rows) ''D1'' \<lparr>update_jobs = [job_at ''A'' ''1'', job_at ''B'' ''1'']\<rparr> 1) None =
     Some [row_to_record x] \<and> x \<in> {job_at ''A'' ''1'', job_at ''B'' ''1''}"
  using jobs_of_same_second_are_skipped [of "\<lambda>rows. rows" "job_at ''A'' ''1''" "''D1''" "job_at ''B'' ''1''" 1]
  by (simp add: job_at_def numeral_2_eq_2)

end
