(* ===== verification/Agent_Properties.thy ===== *)
theory Agent_Properties
  imports Agent_Loops Device_Properties Ota_Properties
begin

text \<open>
  What the robot agent guarantees, alone and together with the services it talks to: its
  telemetry codec, its reconnect loops, the installation of updates, and the way it gets and
  keeps its identity.
\<close>

section \<open>Telemetry\<close>

text \<open>
  \<open>parse_frame\<close> never panics, whatever bytes it is given: every slice it takes is within
  the payload. It accepts exactly the payloads that hold the header and twice as many 8-byte
  values as the header's joint count, and then returns that many joints.
\<close>

theorem parse_frame_total:
  "\<exists>r. parse_frame did p = Ok r \<and>
     (r \<noteq> None \<longleftrightarrow> 12 \<le> length p \<and> 12 + unat (u32_from_be (take 4 (drop 8 p))) * 16 \<le> length p) \<and>
     (case r of None \<Rightarrow> True | Some fr \<Rightarrow>
        af_device_id fr = did \<and> length (af_joints fr) = unat (u32_from_be (take 4 (drop 8 p))))"
  by (simp add: parse_frame_cases Let_def)

text \<open>
  C23. The simulator's frames survive the socket: for any sequence of frames of at most 62499
  joints each, encoded as the wire format says and followed by any unfinished frame, the
  reader delivers exactly these frames, in order, with every position and torque bit for bit.
\<close>

theorem socket_frames_round_trip:
  assumes "\<forall>(ts, pos, tor) \<in> set frames. in_i64 ts \<and> length tor = length pos \<and> length pos \<le> 62499"
    and "good_payload q" and "k < length (wire q)"
  shows "socket_reader did (\<lambda>_. True) 0
      (concat (map (\<lambda>(ts, pos, tor). wire (encode_frame ts pos tor)) frames) @ take k (wire q)) =
    map (\<lambda>(ts, pos, tor). frame_of did ts pos tor) frames"
proof -
  let ?enc = "\<lambda>(ts, pos, tor). encode_frame ts pos tor"
  have "good_payload (encode_frame ts pos tor)" if "(ts, pos, tor) \<in> set frames" for ts pos tor
    using bspec [OF assms(1) that] by (simp add: good_payload_def length_encode_frame)
  then have "\<forall>p \<in> set (map ?enc frames). good_payload p" by auto
  from socket_reader_stream [OF this, of did "take k (wire q)"]
  have "socket_reader did (\<lambda>_. True) 0 (concat (map wire (map ?enc frames)) @ take k (wire q)) =
      List.map_filter (parsed did) (map ?enc frames)"
    by (simp add: socket_reader_partial [OF assms(2,3)])
  moreover have "map wire (map ?enc frames) = map (\<lambda>(ts, pos, tor). wire (encode_frame ts pos tor)) frames"
    by (simp add: split_def)
  moreover have "List.map_filter (parsed did) (map ?enc frames) = map (\<lambda>(ts, pos, tor). frame_of did ts pos tor) frames"
    using assms(1)
    by (induction frames) (auto simp: List.map_filter_simps parsed_def parse_encode)
  ultimately show ?thesis by (simp only:)
qed

theorem socket_frames_round_trip_witness:
  "socket_reader ''D1'' (\<lambda>_. True) 0
      (concat (map (\<lambda>(ts, pos, tor). wire (encode_frame ts pos tor)) [(1700000000000000001, [7], [9])]) @ take 5 (wire [1, 2, 3])) =
    [frame_of ''D1'' 1700000000000000001 [7] [9]]"
  using socket_frames_round_trip [of "[(1700000000000000001, [7], [9])]" "[1, 2, 3]" 5 "''D1''"]
  by (simp add: in_i64_def good_payload_def wire_def)

text \<open>
  The time of a frame before the epoch is not a normalised \<open>Timestamp\<close>: division and
  remainder truncate towards zero, so a negative time that is not a whole second has negative
  nanoseconds; times from the epoch on have nanoseconds from 0 to 999999999. In both cases
  seconds and nanoseconds add up to the time given.
\<close>

theorem frame_time_nanos:
  "ts_seconds (frame_time t) * 1000000000 + ts_nanos (frame_time t) = t \<and>
   (0 \<le> t \<longrightarrow> 0 \<le> ts_nanos (frame_time t) \<and> ts_nanos (frame_time t) < 1000000000) \<and>
   (t < 0 \<and> \<not> 1000000000 dvd t \<longrightarrow> ts_nanos (frame_time t) < 0)"
proof -
  have smod: "t smod 1000000000 = sgn t * (\<bar>t\<bar> mod 1000000000)"
    by (simp add: signed_modulo_int_def)
  have "sgn t * (\<bar>t\<bar> div 1000000000 * 1000000000 + \<bar>t\<bar> mod 1000000000) = t"
    unfolding div_mult_mod_eq by (simp add: mult_sgn_abs)
  then have "t sdiv 1000000000 * 1000000000 + t smod 1000000000 = t"
    by (simp only: smod signed_divide_int_def distrib_left mult.assoc) simp
  moreover have "\<bar>t\<bar> mod 1000000000 \<noteq> 0" if "\<not> 1000000000 dvd t"
    using that by (simp add: mod_eq_0_iff_dvd)
  then have "t smod 1000000000 < 0" if "t < 0" "\<not> 1000000000 dvd t"
    using that pos_mod_sign [of 1000000000 "\<bar>t\<bar>"] by (simp add: smod less_le)
  moreover have "0 \<le> t smod 1000000000 \<and> t smod 1000000000 < 1000000000" if "0 \<le> t"
    using that by (cases "t = 0") (auto simp: smod sgn_if)
  ultimately show ?thesis by (simp add: frame_time_def)
qed

theorem frame_time_nanos_witness:
  "ts_nanos (frame_time (- 1)) < 0 \<and> ts_seconds (frame_time 1700000000000000001) * 1000000000 +
     ts_nanos (frame_time 1700000000000000001) = 1700000000000000001"
  using frame_time_nanos [of "- 1"] frame_time_nanos [of 1700000000000000001] by simp

section \<open>Reconnecting\<close>

text \<open>
  The reconnect loop of the three tasks: after \<open>k\<close> failed attempts it has slept 1, 2, 4,
  and so on seconds, doubling up to 60 and never more; it returns with the first attempt that
  ends cleanly, and never otherwise.
\<close>

theorem backoff_doubles_to_a_minute:
  "heartbeat_run (map (\<lambda>e. Err e) es) = (map (\<lambda>i. min (2 ^ i) 60) [0..<length es], None) \<and>
   heartbeat_run (map (\<lambda>e. Err e) es @ Ok () # rest) = (map (\<lambda>i. min (2 ^ i) 60) [0..<length es], Some (Ok ())) \<and>
   agent_ota_run (map (\<lambda>e. Err e) es @ Ok () # rest) = (map (\<lambda>i. min (2 ^ i) 60) [0..<length es], Some (Ok ()))"
proof -
  have s: "map (\<lambda>i. if i = 0 then 1 else min (1 * 2 ^ i) max_backoff) [0..<length es] =
      map (\<lambda>i. min (2 ^ i) (60 :: nat)) [0..<length es]"
    by (simp add: max_backoff_def)
  show ?thesis
    using reconnect_loop_fails [of 1 es "[]"] reconnect_loop_fails [of 1 es "Ok () # rest"]
    unfolding s heartbeat_run_def agent_ota_run_def by simp
qed

section \<open>Updates\<close>

text \<open>
  C22. Integrity of updates: when a checksum is given, nothing of a downloaded archive is
  extracted and no install script is run unless the SHA-256 of the bytes equals it; success is
  reported only when the script of exactly these bytes ran and exited with 0.
\<close>

theorem update_runs_only_checked_bytes:
  assumes "sha \<noteq> []" and "apply_update h url sha [] = (r, acts)"
  shows "(\<forall>b. Extracted b \<in> set acts \<or> RanInstall b \<in> set acts \<longrightarrow> h_sha256_hex h b = sha) \<and>
    (r = Ok () \<longrightarrow> (\<exists>b. h_body h url = Ok b \<and> h_sha256_hex h b = sha \<and> acts = [Extracted b, RanInstall b] \<and>
      h_bash h b = Ok (Some 0)))"
proof -
  have "h_sha256_hex h b = sha" if "Extracted b \<in> set acts \<or> RanInstall b \<in> set acts" for b
    using apply_update_actions [OF assms(2)] assms(1) that by auto
  moreover have "\<exists>b. h_body h url = Ok b \<and> h_sha256_hex h b = sha \<and> acts = [Extracted b, RanInstall b] \<and>
      h_bash h b = Ok (Some 0)" if "r = Ok ()"
    using apply_update_Ok [of h url sha "[]" acts] assms that by auto
  ultimately show ?thesis by blast
qed

definition demo_host :: host where
  "demo_host = \<lparr>h_temp_dir = Ok (), h_get = (\<lambda>_. Ok ()), h_body = (\<lambda>_. Ok [1, 2, 3]),
     h_sha256_hex = (\<lambda>bs. ''hash'' @ map (\<lambda>b. CHR ''.'') bs), h_write_archive = (\<lambda>_. Ok ()), h_create_staging = Ok (),
     h_tar = (\<lambda>_. Ok True), h_install_script = (\<lambda>_. True), h_bash = (\<lambda>_. Ok (Some 0))\<rparr>"

lemma demo_apply:
  "apply_update demo_host ''u'' sha [] =
     (if sha = [] \<or> sha = ''hash...'' then (Ok (), [Extracted [1, 2, 3], RanInstall [1, 2, 3]])
      else (Err (AgChecksum sha ''hash...''), []))"
  by (auto simp: apply_update_def demo_host_def Let_def)

theorem update_runs_only_checked_bytes_witness:
  "\<exists>b. h_body demo_host ''u'' = Ok b \<and> h_sha256_hex demo_host b = ''hash...'' \<and>
     snd (apply_update demo_host ''u'' ''hash...'' []) = [Extracted b, RanInstall b]"
proof -
  have run: "apply_update demo_host ''u'' ''hash...'' [] = (Ok (), [Extracted [1, 2, 3], RanInstall [1, 2, 3]])"
    by (simp add: demo_apply)
  show ?thesis using update_runs_only_checked_bytes [OF _ run] by (auto simp: run)
qed

text \<open>
  While acknowledgements get through and no step panics, the agent answers every command of
  the stream exactly once, in order, with its own device id, success exactly for the updates
  that were applied, and an error text otherwise.
\<close>

theorem every_command_is_acknowledged:
  assumes "\<And>i. \<exists>u. oe_ack env i = Ok u"
    and "\<And>i url sha acts. fst (apply_update (oe_host env i) url sha acts) \<noteq> Panicked"
  shows "case ota_stream env i did (map Inr cmds) acts of (sent, acts', r) \<Rightarrow>
    r = Ok () \<and> map aa_update_job_id sent = map uc_update_job_id cmds \<and>
    (\<forall>a \<in> set sent. aa_device_id a = did) \<and>
    (\<forall>j < length cmds. \<exists>before. aa_success (sent ! j) \<longleftrightarrow>
       is_ok (fst (apply_update (oe_host env (i + j)) (uc_artifact_url (cmds ! j)) (uc_sha256 (cmds ! j)) before)))"
proof (induction cmds arbitrary: i acts)
  case Nil
  then show ?case by simp
next
  case (Cons cmd cmds)
  obtain res acts1 where a: "apply_update (oe_host env i) (uc_artifact_url cmd) (uc_sha256 cmd) acts = (res, acts1)"
    by fastforce
  with assms(2) have np: "res \<noteq> Panicked" by (metis fst_conv)
  obtain u where u: "oe_ack env i = Ok u" using assms(1) by blast
  obtain sent acts2 r where s: "ota_stream env (Suc i) did (map Inr cmds) acts1 = (sent, acts2, r)"
    by (metis prod_cases3)
  have run: "ota_stream env i did (map Inr (cmd # cmds)) acts = (ack_of env did cmd res # sent, acts2, r)"
    using np by (cases res rule: sum.exhaust) (auto simp: a u s Let_def split: failure.split)
  have ack: "aa_update_job_id (ack_of env did cmd res) = uc_update_job_id cmd" "aa_device_id (ack_of env did cmd res) = did"
    "aa_success (ack_of env did cmd res) = is_ok res"
    by (simp_all add: ack_of_def split: sum.split)
  have "\<exists>before. aa_success ((ack_of env did cmd res # sent) ! j) \<longleftrightarrow> is_ok (fst (apply_update (oe_host env (i + j))
      (uc_artifact_url ((cmd # cmds) ! j)) (uc_sha256 ((cmd # cmds) ! j)) before))" if "j < length (cmd # cmds)" for j
  proof (cases j)
    case 0
    then show ?thesis using a ack(3) by (intro exI [of _ acts]) simp
  next
    case (Suc k)
    then show ?thesis using Cons.IH [of "Suc i" acts1] s that by simp
  qed
  then show ?case
    using Cons.IH [of "Suc i" acts1] s run ack by simp
qed

definition demo_ota_env :: ota_agent_env where
  "demo_ota_env = \<lparr>oe_host = (\<lambda>_. demo_host), oe_ack = (\<lambda>_. Ok ()), oe_show_status = st_message\<rparr>"

lemma demo_host_no_panic: "fst (apply_update demo_host url sha acts) \<noteq> Panicked"
  by (simp add: apply_update_def demo_host_def Let_def)

theorem every_command_is_acknowledged_witness:
  "map aa_update_job_id (fst (ota_stream demo_ota_env 0 ''D1'' (map Inr [demo_command, demo_command]) [])) = [''J1'', ''J1'']"
proof -
  have "\<And>i. \<exists>u. oe_ack demo_ota_env i = Ok u" "\<And>i. oe_host demo_ota_env i = demo_host"
    by (simp_all add: demo_ota_env_def)
  then show ?thesis
    using every_command_is_acknowledged [where env = demo_ota_env and i = 0 and did = "''D1''"
        and cmds = "[demo_command, demo_command]" and acts = "[]"]
    by (auto simp: demo_host_no_panic demo_command_def split: prod.splits)
qed

section \<open>Identity\<close>

text \<open>
  A generated private key is the only thing \<open>generate_csr\<close> writes. A new key file is
  readable and writable by its owner only (\<open>0o600\<close>); but a file that already exists under
  that name keeps its own permission bits and receives the new key.
\<close>

theorem key_file_mode:
  assumes "generate_csr pki io i cn path f = (Ok csr, f')"
  shows "\<exists>kp. generate_keypair pki i = Ok kp \<and> f' path = Some \<lparr>contents = serialize_key pki kp,
      file_mode = (case f path of None \<Rightarrow> 384 | Some x \<Rightarrow> file_mode x)\<rparr> \<and>
    (\<forall>p. p \<noteq> path \<longrightarrow> f' p = f p)"
  using generate_csr_key [OF assms] by auto

theorem key_file_mode_witness:
  "\<exists>f'. generate_csr demo_pki io_reliable 0 ''SN1'' ''k'' Map.empty = (Ok ''RSN1'', f') \<and>
     f' ''k'' = Some \<lparr>contents = ''KEY'', file_mode = 384\<rparr>"
proof -
  obtain f' where run: "generate_csr demo_pki io_reliable 0 ''SN1'' ''k'' Map.empty = (Ok ''RSN1'', f')"
    using generate_csr_reliable [of demo_pki 0 "''KEY''" "''SN1''" "''SN1''" "''RSN1''"] by (simp add: demo_pki_def)
  from key_file_mode [OF run] run show ?thesis by (simp add: demo_pki_def)
qed

text \<open>
  A restart of an enrolled robot is free of side effects: with the certificates and the
  device id on disk, a start of the agent neither writes a file nor calls the provisioning or
  the bootstrap service, and comes up with the stored device id and credentials whenever it
  comes up at all.
\<close>

theorem restart_is_idempotent:
  assumes "env ''DEVICE_SERIAL'' = Some serial"
    and "is_provisioned (manager_of env serial) (w_fs w)" and "is_enrolled (manager_of env serial) (w_fs w)"
  shows "snd (agent_main pki io env net w) = w \<and>
    (\<forall>ident. fst (agent_main pki io env net w) = Ok ident \<longrightarrow>
       map_option contents (w_fs w (device_id_path (manager_of env serial))) = Some (id_device_id ident) \<and>
       map_option contents (w_fs w (operational_cert_path (manager_of env serial))) = Some (id_op_cert ident) \<and>
       map_option contents (w_fs w (operational_key_path (manager_of env serial))) = Some (id_op_key ident))"
proof -
  let ?m = "manager_of env serial"
  have rd: "fs_read_to_string io i path (w_fs w) = Inr x \<Longrightarrow> map_option contents (w_fs w path) = Some x" for i path x
    by (auto simp: fs_read_to_string_Inr fs_read_def split: option.splits)
  have p3: "map_option contents (w_fs w (device_id_path ?m)) = Some (id_device_id ident) \<and>
      map_option contents (w_fs w (operational_cert_path ?m)) = Some (id_op_cert ident) \<and>
      map_option contents (w_fs w (operational_key_path ?m)) = Some (id_op_key ident)"
    if "agent_phase3 io env net ca ?m w = (Inr ident, w)" for ident ca
    using that by (auto simp: agent_phase3_def try_bind_eq_Inr load_operational_creds_def load_pair_def load_device_id_def
        try_pure_eq_Inr dest!: rd)
  from main_when_enrolled [OF assms, of pki io net] show ?thesis
  proof
    assume "\<exists>ca. agent_main pki io env net w = agent_phase3 io env net ca ?m w"
    then obtain ca where eq: "agent_main pki io env net w = agent_phase3 io env net ca ?m w" by blast
    have w: "snd (agent_phase3 io env net ca ?m w) = w" by (rule phase3_keeps_world)
    then have "agent_phase3 io env net ca ?m w = (Inr ident, w)" if "fst (agent_phase3 io env net ca ?m w) = Ok ident" for ident
      using that by (metis prod.collapse)
    with eq w p3 show ?thesis by auto
  qed auto
qed

text \<open>A disk and the environment variables of a robot.\<close>

definition demo_vars :: "string \<Rightarrow> string option" where
  "demo_vars = [''DEVICE_SERIAL'' \<mapsto> ''SN1'', ''FLEET_CA_CERT_PEM'' \<mapsto> ''/ca'', ''AGENT_DATA_DIR'' \<mapsto> ''/d'',
     ''PROVISION_TOKEN'' \<mapsto> ''tok1'', ''PROVISIONING_ADDR'' \<mapsto> ''p'', ''BOOTSTRAP_ADDR'' \<mapsto> ''b'',
     ''FLEET_SERVICE_ADDR'' \<mapsto> ''f'']"

definition fresh_disk :: fs where
  "fresh_disk = [''/ca'' \<mapsto> \<lparr>contents = ''FLEET'', file_mode = 420\<rparr>]"

definition demo_server :: device_management_server where
  "demo_server = \<lparr>srv_enrollment = demo_service, srv_device_ca_pem = ''DEVICE''\<rparr>"

lemma demo_manager:
  "manager_of demo_vars ''SN1'' = \<lparr>em_cert_dir = ''/d'', em_serial = ''SN1'', em_model = ''Alpha Wheeled'', em_firmware = ''0.1.0''\<rparr>"
  by (simp add: manager_of_def env_or_def demo_vars_def)

lemma demo_paths:
  "device_cert_path (manager_of demo_vars ''SN1'') = ''/d/device.pem''"
  "operational_cert_path (manager_of demo_vars ''SN1'') = ''/d/operational.pem''"
  "operational_key_path (manager_of demo_vars ''SN1'') = ''/d/operational.key''"
  "device_id_path (manager_of demo_vars ''SN1'') = ''/d/device-id''"
  by (simp_all add: path_defs demo_manager join_path_def)

definition enrolled_disk :: fs where
  "enrolled_disk = put_file 420 ''/d/device-id'' ''D1'' (put_file 384 ''/d/operational.key'' ''KEY''
     (put_file 420 ''/d/operational.pem'' ''FLEET/SN1'' (put_file 420 ''/d/device.pem'' ''DEVICE/SN1'' fresh_disk)))"

theorem restart_is_idempotent_witness:
  "snd (agent_main demo_pki io_reliable demo_vars (dms_net demo_env demo_server demo_provisioning)
      \<lparr>w_fs = enrolled_disk, w_net = open_conn enrolled_tables\<rparr>) =
    \<lparr>w_fs = enrolled_disk, w_net = open_conn enrolled_tables\<rparr>"
proof -
  have "is_provisioned (manager_of demo_vars ''SN1'') enrolled_disk" "is_enrolled (manager_of demo_vars ''SN1'') enrolled_disk"
    by (simp_all add: is_provisioned_def is_enrolled_def demo_paths enrolled_disk_def)
  then show ?thesis
    using restart_is_idempotent [of demo_vars "''SN1''" "\<lparr>w_fs = enrolled_disk, w_net = open_conn enrolled_tables\<rparr>"
        demo_pki io_reliable "dms_net demo_env demo_server demo_provisioning"]
    by (simp add: demo_vars_def)
qed

text \<open>
  An enrollment whose answer has arrived and whose disk fails from the bytes of the operational
  certificate on, before the file of the device id is opened.
\<close>

lemma enroll_interrupted:
  assumes gen: "generate_csr pki io i (em_serial m) (operational_key_path m) (w_fs w) = (Ok csr, f1)"
    and answer: "rpc \<lparr>br_csr_pem = csr, br_model = em_model m, br_firmware = em_firmware m, br_serial = em_serial m\<rparr> (w_net w) =
      (Ok resp, net1)"
    and opened: "io_fault io (i + 2) = None" and fault: "\<exists>k \<in> {i + 3..i + 6}. io_fault io k \<noteq> None"
    and fresh: "\<not> fs_exists (device_id_path m) (w_fs w)"
  shows "\<exists>e f. enroll pki io i rpc m w = (Err (AgIo e), w\<lparr>w_fs := f, w_net := net1\<rparr>) \<and>
    fs_exists (operational_cert_path m) f \<and> \<not> fs_exists (device_id_path m) f \<and>
    f (device_cert_path m) = w_fs w (device_cert_path m)"
proof -
  have f1: "f1 p = w_fs w p" if "p \<noteq> operational_key_path m" for p
    using generate_csr_other [OF that, of pki io i "em_serial m" "w_fs w"] gen by simp
  obtain r2 f2 where w2: "fs_write io (i + 2) (operational_cert_path m) (bs_operational_cert_pem resp) f1 = (r2, f2)" by fastforce
  obtain r3 f3 where w3: "fs_write io (i + 4) (fleet_ca_path m) (bs_fleet_ca_chain_pem resp) f2 = (r3, f3)" by fastforce
  obtain r4 f4 where w4: "fs_write io (i + 6) (device_id_path m) (bs_device_id resp) f3 = (r4, f4)" by fastforce
  have o2: "f2 p = f1 p" if "p \<noteq> operational_cert_path m" for p
    using fs_write_other [OF that, of io "i + 2" "bs_operational_cert_pem resp" f1] w2 by simp
  have o3: "f3 p = f2 p" if "p \<noteq> fleet_ca_path m" for p
    using fs_write_other [OF that, of io "i + 4" "bs_fleet_ca_chain_pem resp" f2] w3 by simp
  have e2: "fs_exists (operational_cert_path m) f2"
    using fs_write_opened [OF opened, of "operational_cert_path m" "bs_operational_cert_pem resp" f1] w2 by simp
  have kept: "f2 (device_id_path m) = None" "f2 (device_cert_path m) = w_fs w (device_cert_path m)"
    "f3 (device_id_path m) = None" "f3 (device_cert_path m) = w_fs w (device_cert_path m)"
    "f3 (operational_cert_path m) = f2 (operational_cert_path m)"
    using fresh by (simp_all add: o2 o3 f1 path_defs fs_exists_def)
  have run: "enroll pki io i rpc m w =
      try_bind (map_err AgIo r2, w\<lparr>w_fs := f2, w_net := net1\<rparr>) (\<lambda>_ _.
      try_bind (map_err AgIo r3, w\<lparr>w_fs := f3, w_net := net1\<rparr>) (\<lambda>_ _. (map_err AgIo r4, w\<lparr>w_fs := f4, w_net := net1\<rparr>)))"
    using gen answer w2 w3 w4 by (cases r2; cases r3) (simp_all add: enroll_def on_fs_def on_net_def map_err_st_def)
  consider e where "r2 = Err e" | e u where "r2 = Ok u" "r3 = Err e" | e u u' where "r2 = Ok u" "r3 = Ok u'" "r4 = Err e" "f4 = f3"
  proof -
    have "\<exists>e. r2 = Err e" if "io_fault io (i + 3) \<noteq> None"
      using fs_write_fault [of io "i + 2" "operational_cert_path m" "bs_operational_cert_pem resp" f1] that w2
      by (simp add: numeral_3_eq_3)
    moreover have "\<exists>e. r3 = Err e" if "io_fault io (i + 4) \<noteq> None \<or> io_fault io (i + 5) \<noteq> None"
      using fs_write_fault [of io "i + 4" "fleet_ca_path m" "bs_fleet_ca_chain_pem resp" f2] that w3
      by (simp add: eval_nat_numeral)
    moreover have "(\<exists>e. r4 = Err e) \<and> f4 = f3" if "io_fault io (i + 6) \<noteq> None"
      using fs_write_fault [of io "i + 6" "device_id_path m" "bs_device_id resp" f3]
        fs_write_unopened [of io "i + 6" "device_id_path m" "bs_device_id resp" f3] that w4 by simp
    moreover have "{i + 3..i + 6} = {i + 3, i + 4, i + 5, i + 6}" by auto
    moreover have "(\<exists>e. r2 = Err e) \<or> (\<exists>u. r2 = Ok u)" "(\<exists>e. r3 = Err e) \<or> (\<exists>u. r3 = Ok u)"
      using fs_write_calm w2 w3 by (metis fst_conv sum.exhaust)+
    ultimately show ?thesis using fault that by (metis insertE singletonD)
  qed
  then show ?thesis
    by cases (use run e2 kept in \<open>auto simp: fs_exists_def\<close>)
qed

lemma start_without_device_id:
  assumes "env ''DEVICE_SERIAL'' = Some serial"
    and "is_provisioned (manager_of env serial) (w_fs w)" and "is_enrolled (manager_of env serial) (w_fs w)"
    and "\<not> fs_exists (device_id_path (manager_of env serial)) (w_fs w)"
  shows "\<exists>f. agent_main pki io env net w = (Inl f, w)"
proof -
  let ?m = "manager_of env serial"
  have "\<exists>f. load_device_id io 18 ?m (w_fs w) = Inl f"
    using assms(4) by (auto simp: load_device_id_def fs_read_to_string_def fs_read_def fs_exists_def split: option.split)
  then have "\<exists>f. agent_phase3 io env net ca ?m w = (Inl f, w)" for ca
    by (auto simp: agent_phase3_def try_bind_pure split: sum.split)
  then show ?thesis using main_when_enrolled [OF assms(1-3), of pki io net] by metis
qed

text \<open>
  C35. An interrupted enrollment is final. A provisioned robot starts, the service enrolls it and answers,
  the file of the operational certificate is opened, and the disk fails at any point before the file of the device
  id is opened (while writing the certificate, or opening or writing the file of the CA chain, or opening that of the
  device id). The start fails; and since \<open>is_enrolled\<close> looks at the operational certificate only, every
  later start with the same variables, whatever its disk operations, network and services do, takes the robot for
  enrolled, fails, and changes nothing.
\<close>

theorem interrupted_enrollment_is_final:
  assumes "env ''DEVICE_SERIAL'' = Some serial" and "env ''FLEET_CA_CERT_PEM'' = Some ca_path" and "env ''BOOTSTRAP_ADDR'' = Some addr"
    and "is_provisioned (manager_of env serial) (w_fs w)" and "\<not> fs_exists (operational_cert_path (manager_of env serial)) (w_fs w)"
    and "\<not> fs_exists (device_id_path (manager_of env serial)) (w_fs w)"
    and "fs_read_to_string io 1 ca_path (w_fs w) = Ok ca" and "load_device_cert io 6 (manager_of env serial) (w_fs w) = Ok (cert, key)"
    and "open_channel net addr (mtls_config cert key ca) = Ok ()"
    and "generate_csr pki io 8 serial (operational_key_path (manager_of env serial)) (w_fs w) = (Ok csr, f1)"
    and "net_bootstrap net cert \<lparr>br_csr_pem = csr, br_model = em_model (manager_of env serial),
        br_firmware = em_firmware (manager_of env serial), br_serial = serial\<rparr> (w_net w) = (Ok resp, net1)"
    and "io_fault io 0 = None" and "io_fault io 10 = None" and "\<exists>k \<in> {11..14}. io_fault io k \<noteq> None"
  shows "\<exists>e w1. agent_main pki io env net w = (Err (MainAgent (AgIo e)), w1) \<and> w_net w1 = net1 \<and>
    (\<forall>pki' io' net' n. \<exists>f. agent_main pki' io' env net' (w1\<lparr>w_net := n\<rparr>) = (Inl f, w1\<lparr>w_net := n\<rparr>))"
proof -
  let ?m = "manager_of env serial"
  have sn: "em_serial ?m = serial" by (simp add: manager_of_def)
  obtain e f where run: "enroll pki io 8 (net_bootstrap net cert) ?m w = (Err (AgIo e), w\<lparr>w_fs := f, w_net := net1\<rparr>)"
    and f: "fs_exists (operational_cert_path ?m) f" "\<not> fs_exists (device_id_path ?m) f"
      "f (device_cert_path ?m) = w_fs w (device_cert_path ?m)"
    using enroll_interrupted [where pki = pki and io = io and i = 8 and m = ?m and w = w and csr = csr and ?f1.0 = f1
        and rpc = "net_bootstrap net cert" and resp = resp and ?net1.0 = net1] assms(6,10,11,13,14) sn by auto
  let ?w1 = "w\<lparr>w_fs := f, w_net := net1\<rparr>"
  have "agent_main pki io env net w = (Err (MainAgent (AgIo e)), ?w1)"
    using assms(1-5,7-9,12) run
    by (simp add: agent_main_def env_required_def Let_def agent_phase1_def agent_phase2_def is_enrolled_def)
  moreover have "\<exists>x. agent_main pki' io' env net' (?w1\<lparr>w_net := n\<rparr>) = (Inl x, ?w1\<lparr>w_net := n\<rparr>)" for pki' io' net' n
    using assms(1,4) f
    by (intro start_without_device_id [where serial = serial]) (simp_all add: is_provisioned_def is_enrolled_def fs_exists_def)
  ultimately show ?thesis by (intro exI [of _ e] exI [of _ ?w1]) simp
qed

text \<open>
  On the disk of a robot that was provisioned, against the service: the disk is full when the device id is to
  be stored. The service has the device.
\<close>

definition provisioned_disk :: fs where
  "provisioned_disk = put_file 420 ''/d/device.pem'' ''DEVICE/SN1'' (put_file 384 ''/d/device.key'' ''KEY'' fresh_disk)"

definition full_disk :: io where
  "full_disk = \<lparr>io_fault = [14 \<mapsto> (''No space left on device'', 0)]\<rparr>"

theorem interrupted_enrollment_is_final_witness:
  "\<exists>e w1. agent_main demo_pki full_disk demo_vars (dms_net demo_env demo_server demo_provisioning)
      \<lparr>w_fs = provisioned_disk, w_net = open_conn ready_tables\<rparr> = (Err (MainAgent (AgIo e)), w1) \<and>
    map dr_serial (devices (tabs (w_net w1))) = [''SN1''] \<and>
    (\<exists>f. agent_main demo_pki io_reliable demo_vars (dms_net demo_env demo_server demo_provisioning) w1 = (Inl f, w1))"
proof -
  let ?w = "\<lparr>w_fs = provisioned_disk, w_net = open_conn ready_tables\<rparr>" and ?m = "manager_of demo_vars ''SN1''"
    and ?net = "dms_net demo_env demo_server demo_provisioning"
  have vars: "demo_vars ''DEVICE_SERIAL'' = Some ''SN1''" "demo_vars ''FLEET_CA_CERT_PEM'' = Some ''/ca''" "demo_vars ''BOOTSTRAP_ADDR'' = Some ''b''"
    by (simp_all add: demo_vars_def)
  have utf8: "utf8_valid ''FLEET''" "utf8_valid ''DEVICE/SN1''" "utf8_valid ''KEY''"
    by (rule utf8_ascii, simp add: byte_in_def)+
  have ca: "fs_read_to_string full_disk 1 ''/ca'' (w_fs ?w) = Ok ''FLEET''"
    using utf8(1) by (simp add: fs_read_to_string_def fs_read_def full_disk_def provisioned_disk_def put_file_def fresh_disk_def)
  have dev: "load_device_cert full_disk 6 ?m (w_fs ?w) = Ok (''DEVICE/SN1'', ''KEY'')"
    using utf8(2,3) by (simp add: load_device_cert_def load_pair_def fs_read_to_string_def fs_read_def full_disk_def
        provisioned_disk_def put_file_def fresh_disk_def path_defs demo_manager join_path_def)
  obtain f1 where csr: "generate_csr demo_pki full_disk 8 ''SN1'' (operational_key_path ?m) (w_fs ?w) = (Ok ''RSN1'', f1)"
    by (simp add: generate_csr_def open_truncate_def write_all_def full_disk_def demo_pki_def Let_def provisioned_disk_def
        put_file_def fresh_disk_def demo_paths)
  obtain resp net1 where boot: "net_bootstrap ?net ''DEVICE/SN1'' \<lparr>br_csr_pem = ''RSN1'', br_model = em_model ?m,
      br_firmware = em_firmware ?m, br_serial = ''SN1''\<rparr> (w_net ?w) = (Ok resp, net1)" and net1: "map dr_serial (devices (tabs net1)) = [''SN1'']"
    by (simp add: dms_net_def rpc_bootstrap_enroll_def bootstrap_enroll_def enroll_check_def enroll_finish_def demo_pki_def demo_defs
        demo_server_def extract_serial_def verify_signed_by_def certs_from_pem_def sign_csr_def Let_def lookup_and_claim_healthy
        create_device_healthy new_record_def cert_expires_at_def claim_serial_def open_conn_def idle_def)
  have "\<exists>e w1. agent_main demo_pki full_disk demo_vars ?net ?w = (Err (MainAgent (AgIo e)), w1) \<and> w_net w1 = net1 \<and>
      (\<forall>pki' io' net' n. \<exists>f. agent_main pki' io' demo_vars net' (w1\<lparr>w_net := n\<rparr>) = (Inl f, w1\<lparr>w_net := n\<rparr>))"
    by (rule interrupted_enrollment_is_final [OF _ _ _ _ _ _ ca dev _ csr boot, where addr = "''b''"])
      (simp_all add: vars open_channel_def dms_net_def full_disk_def is_provisioned_def
        demo_paths provisioned_disk_def, simp_all add: fs_exists_def fresh_disk_def)
  then obtain e w1 where run: "agent_main demo_pki full_disk demo_vars ?net ?w = (Err (MainAgent (AgIo e)), w1)" "w_net w1 = net1"
    and later: "\<And>pki' io' net' n. \<exists>f. agent_main pki' io' demo_vars net' (w1\<lparr>w_net := n\<rparr>) = (Inl f, w1\<lparr>w_net := n\<rparr>)"
    by blast
  have "\<exists>f. agent_main demo_pki io_reliable demo_vars ?net w1 = (Inl f, w1)"
    using later [of demo_pki io_reliable ?net "w_net w1"] by simp
  with run net1 show ?thesis by (intro exI [of _ e] exI [of _ w1]) simp
qed

end
