(* ===== verification/Agent_Task_Properties.thy ===== *)
theory Agent_Task_Properties
  imports Agent_Tasks Agent_Codec Agent_Properties
begin

text \<open>
  What the long-running tasks of the robot agent guarantee: the readings of the heartbeat, the
  heartbeat stream against the service, the two telemetry sources, the decoder of the socket,
  and how the process ends.
\<close>

section \<open>Heartbeat readings\<close>

text \<open>
  C33. A heartbeat carries percentages: unless the counters of \<^verbatim>\<open>/proc/stat\<close> add up to
  \<open>2 ^ 64\<close> or more, or \<open>MemAvailable\<close> exceeds \<open>MemTotal\<close>, the CPU and memory fields of a message,
  decoded from their bit patterns, are exactly the computed readings, finite numbers between 0 and
  100 and never NaN or infinite, whatever the files contain and whether or not they can be read.
\<close>

theorem heartbeats_carry_percentages:
  assumes "\<And>stat. fs_read_to_string (be_io env i) 0 ''/proc/stat'' (be_fs env i) = Ok stat \<Longrightarrow>
      sum_list (map unat (cpu_numbers stat)) < 2 ^ 64"
    and "\<And>info. fs_read_to_string (be_io env i) 1 ''/proc/meminfo'' (be_fs env i) = Ok info \<Longrightarrow>
      snd (meminfo_loop (str_lines info) (0, 0)) \<le> fst (meminfo_loop (str_lines info) (0, 0))"
  shows "\<exists>cpu memory. fp_value (hb_cpu_percent (beat env did i)) = Fin cpu \<and> cpu \<in> {0..100} \<and>
    read_cpu_usage (be_io env i) 0 (be_fs env i) = Fin cpu \<and>
    fp_value (hb_memory_percent (beat env did i)) = Fin memory \<and> memory \<in> {0..100} \<and>
    read_memory_usage (be_io env i) 1 (be_fs env i) = Fin memory"
proof -
  have v: "\<exists>x. fp_value (fp_bits v) = Fin x \<and> x \<in> {0..100} \<and> v = Fin x" if range: "in_range 100 v" for v
  proof -
    obtain x where x: "v = Fin x" "f64_round x = x" "0 \<le> x" "x \<le> 100" using range by (auto simp: in_range_def)
    then have "fp_value (fp_bits v) = Fin x"
      using fp_value_bits [of x] le_less_trans [of x 100 "2 ^ 1000"] by simp
    with x show ?thesis by auto
  qed
  show ?thesis
    using v [OF cpu_usage_range [OF assms(1)]] v [OF memory_usage_range [OF assms(2)]] by (simp add: beat_def Let_def)
qed

text \<open>A robot that was idle three quarters of the time and uses three quarters of its memory.\<close>

definition demo_stat :: string where
  "demo_stat = stat_line [100, 50, 100, 750] @ CHR 0x0A # ''intr 7''"

definition demo_meminfo :: string where
  "demo_meminfo = concat (map (\<lambda>l. l @ [CHR 0x0A])
     [meminfo_line ''MemTotal:'' 7 16000, meminfo_line ''MemFree:'' 8 1000, meminfo_line ''MemAvailable:'' 4 4000])"

definition demo_beats :: beat_env where
  "demo_beats = \<lparr>be_io = (\<lambda>_. io_reliable), be_fs = (\<lambda>_. [''/proc/stat'' \<mapsto> \<lparr>contents = demo_stat, file_mode = 292\<rparr>,
     ''/proc/meminfo'' \<mapsto> \<lparr>contents = demo_meminfo, file_mode = 292\<rparr>]), be_accepts = (\<lambda>_. True)\<rparr>"

lemma demo_stat_numbers: "cpu_numbers demo_stat = [100, 50, 100, 750]"
  using cpu_numbers_stat [of "[100, 50, 100, 750]" "''intr 7''"] by (simp add: demo_stat_def)

lemma demo_meminfo_fields: "meminfo_loop (str_lines demo_meminfo) (0, 0) = (16000, 4000)"
proof -
  have k: "starts_with ''MemTotal:'' (meminfo_line ''MemTotal:'' 7 16000)"
    "\<not> starts_with ''MemTotal:'' (meminfo_line ''MemFree:'' 8 1000)"
    "\<not> starts_with ''MemAvailable:'' (meminfo_line ''MemFree:'' 8 1000)"
    "\<not> starts_with ''MemTotal:'' (meminfo_line ''MemAvailable:'' 4 4000)"
    "starts_with ''MemAvailable:'' (meminfo_line ''MemAvailable:'' 4 4000)"
    by (simp_all add: starts_with_def meminfo_line_def)
  have "str_lines demo_meminfo =
      [meminfo_line ''MemTotal:'' 7 16000, meminfo_line ''MemFree:'' 8 1000, meminfo_line ''MemAvailable:'' 4 4000]"
    unfolding demo_meminfo_def by (rule str_lines_unlines) (simp add: meminfo_line_clean)
  then show ?thesis
    using field_value_line [of "''MemTotal:''" 16000 7] field_value_line [of "''MemAvailable:''" 4000 4]
    by (simp add: k is_space_def)
qed

lemma show_nat_ascii: "c \<in> set (show_nat n) \<Longrightarrow> byte_in 0 0x7F c"
  by (auto dest!: set_show_nat simp: byte_in_def Let_def)

lemma demo_proc_utf8: "utf8_valid demo_stat" "utf8_valid demo_meminfo"
  by (rule utf8_ascii, force simp: demo_stat_def demo_meminfo_def stat_line_def meminfo_line_def byte_in_def dest: show_nat_ascii)+

lemma demo_reads:
  "fs_read_to_string (be_io demo_beats i) k ''/proc/stat'' (be_fs demo_beats i) = Ok demo_stat"
  "fs_read_to_string (be_io demo_beats i) k ''/proc/meminfo'' (be_fs demo_beats i) = Ok demo_meminfo"
  by (simp_all add: fs_read_to_string_def fs_read_def demo_beats_def demo_proc_utf8)

theorem heartbeats_carry_percentages_witness:
  "fp_value (hb_cpu_percent (beat demo_beats ''D1'' 0)) = Fin 25 \<and> fp_value (hb_memory_percent (beat demo_beats ''D1'' 0)) = Fin 75"
proof -
  have r: "f64_round (3 / 4) = 3 / 4" "f64_round (1 / 4) = 1 / 4" "f64_round 25 = 25" "f64_round 75 = 75" by code_simp+
  have f: "fp_round x = Fin (f64_round x)" if "0 \<le> x" "x \<le> 100" for x
    using that by (intro fp_round_finite) simp_all
  have "read_cpu_usage (be_io demo_beats 0) 0 (be_fs demo_beats 0) = Fin 25"
    by (simp add: read_cpu_usage_def demo_reads demo_stat_numbers f64_of_u64_exact fp_of_u64_def f r)
  moreover have "read_memory_usage (be_io demo_beats 0) 1 (be_fs demo_beats 0) = Fin 75"
    by (simp add: read_memory_usage_def demo_reads demo_meminfo_fields f64_of_u64_exact fp_of_u64_def f r)
  ultimately show ?thesis
    using heartbeats_carry_percentages [of demo_beats 0 "''D1''"]
    by (simp add: demo_reads demo_stat_numbers demo_meminfo_fields)
qed

text \<open>
  The comment on \<open>read_memory_usage\<close> promises a percentage, but \<open>total - available\<close> is computed in
  \<open>u64\<close> without a check: when the file reports more available than total memory, the difference
  wraps around and the reading is 100 or more, up to astronomically large values.
\<close>

theorem memory_reading_wraps_around:
  assumes "fs_read_to_string io i ''/proc/meminfo'' f = Ok info" and "meminfo_loop (str_lines info) (0, 0) = (t, a)"
    and "t \<noteq> 0" and "t < a"
  shows "\<exists>x. read_memory_usage io i f = Fin x \<and> 100 \<le> x"
  by (rule memory_usage_wraps [OF assms])

definition odd_meminfo :: string where
  "odd_meminfo = concat (map (\<lambda>l. l @ [CHR 0x0A]) [meminfo_line ''MemTotal:'' 0 3, meminfo_line ''MemAvailable:'' 0 4])"

lemma odd_meminfo_utf8: "utf8_valid odd_meminfo"
  by (rule utf8_ascii) (force simp: odd_meminfo_def meminfo_line_def byte_in_def dest: show_nat_ascii)

theorem memory_reading_wraps_around_witness:
  "\<exists>x. read_memory_usage io_reliable 0 [''/proc/meminfo'' \<mapsto> \<lparr>contents = odd_meminfo, file_mode = 292\<rparr>] = Fin x \<and> 100 \<le> x"
proof (rule memory_reading_wraps_around)
  show "fs_read_to_string io_reliable 0 ''/proc/meminfo'' [''/proc/meminfo'' \<mapsto> \<lparr>contents = odd_meminfo, file_mode = 292\<rparr>] = Ok odd_meminfo"
    by (simp add: fs_read_to_string_def fs_read_def odd_meminfo_utf8)
  have k: "starts_with ''MemTotal:'' (meminfo_line ''MemTotal:'' 0 3)"
    "\<not> starts_with ''MemTotal:'' (meminfo_line ''MemAvailable:'' 0 4)"
    "starts_with ''MemAvailable:'' (meminfo_line ''MemAvailable:'' 0 4)"
    by (simp_all add: starts_with_def meminfo_line_def)
  have "str_lines odd_meminfo = [meminfo_line ''MemTotal:'' 0 3, meminfo_line ''MemAvailable:'' 0 4]"
    unfolding odd_meminfo_def by (rule str_lines_unlines) (simp add: meminfo_line_clean)
  then show "meminfo_loop (str_lines odd_meminfo) (0, 0) = (3, 4)"
    using field_value_line [of "''MemTotal:''" 3 0] field_value_line [of "''MemAvailable:''" 4 0]
    by (simp add: k is_space_def)
qed simp_all

section \<open>The heartbeat stream against the service\<close>

text \<open>
  The agent's heartbeat task and the service's handler together, with working channels and
  database: for an enrolled device every tick is answered, nothing is rebooted, and afterwards
  the device's \<open>last_seen_at\<close>, and nothing else in the database, is the time of the last tick; for
  an id the service does not know the first tick is answered with \<open>NotFound\<close>, the database is
  untouched, and the task fails, so that it reconnects for ever with the backoff.
\<close>

theorem heartbeat_session_outcome:
  assumes "healthy_stream senv" and "\<And>i. be_accepts benv i"
  shows "case row_with dr_id did (devices (tabs c)) of
      Some d \<Rightarrow> (\<exists>c'. heartbeat_session benv senv did (Suc n) c = ((Ok (), 0), c') \<and>
        row_with dr_id did (devices (tabs c')) = Some (d\<lparr>dr_last_seen_at := se_clock senv n\<rparr>) \<and>
        (\<forall>x. x \<noteq> did \<longrightarrow> row_with dr_id x (devices (tabs c')) = row_with dr_id x (devices (tabs c))) \<and>
        pre_enrollment (tabs c') = pre_enrollment (tabs c) \<and> factory_manifest (tabs c') = factory_manifest (tabs c))
    | None \<Rightarrow> heartbeat_session benv senv did (Suc n) c =
        ((Err (AgGrpc (status_of NotFoundCode (''device '' @ did @ '' not found''))), 0), c) \<and>
        (\<forall>k. heartbeat_run (replicate k (fst (fst (heartbeat_session benv senv did (Suc n) c)))) =
           (map (\<lambda>i. min (2 ^ i) 60) [0..<k], None))"
proof (cases "row_with dr_id did (devices (tabs c))")
  case None
  let ?e = "AgGrpc (status_of NotFoundCode (''device '' @ did @ '' not found''))"
  have h: "heartbeat_session benv senv did (Suc n) c = ((Err ?e, 0), c)"
    by (rule heartbeat_session_unknown [OF assms None])
  have "heartbeat_run (replicate k (Err ?e)) = (map (\<lambda>i. min (2 ^ i) 60) [0..<k], None)" for k
    using reconnect_loop_fails [of 1 "replicate k ?e" "[]"] by (simp add: heartbeat_run_def max_backoff_def map_replicate_const)
  with None h show ?thesis by simp
next
  case (Some d)
  from heartbeat_session_known [OF assms Some, of n] Some show ?thesis
    by (simp add: row_with_touch_row) (simp add: touch_row_def)
qed

theorem heartbeat_session_outcome_witness:
  "(\<exists>c'. heartbeat_session demo_beats demo_stream ''D1'' 3 (open_conn enrolled_tables) = ((Ok (), 0), c') \<and>
     row_with dr_id ''D1'' (devices (tabs c')) = Some (demo_device\<lparr>dr_last_seen_at := 202\<rparr>)) \<and>
   heartbeat_session demo_beats demo_stream ''D2'' 1 (open_conn enrolled_tables) =
     ((Err (AgGrpc (status_of NotFoundCode ''device D2 not found'')), 0), open_conn enrolled_tables)"
proof -
  have h: "healthy_stream demo_stream" "\<And>i. be_accepts demo_beats i"
    by (simp_all add: healthy_stream_def demo_stream_def demo_beats_def)
  have d: "row_with dr_id ''D1'' (devices enrolled_tables) = Some demo_device" "row_with dr_id ''D2'' (devices enrolled_tables) = None"
    by (simp_all add: demo_defs)
  have clk: "se_clock demo_stream (Suc (Suc 0)) = 202" by (simp add: demo_stream_def)
  show ?thesis
    using heartbeat_session_outcome [OF h, where did = "''D1''" and c = "open_conn enrolled_tables" and n = 2]
      heartbeat_session_outcome [OF h, where did = "''D2''" and c = "open_conn enrolled_tables" and n = 0]
    by (auto simp: d clk numeral_3_eq_3 numeral_2_eq_2 simp del: heartbeat_sender.simps)
qed

section \<open>Telemetry sources\<close>

text \<open>
  C34. The frames of the sine wave are well formed, whatever the clock does and however many are
  sent: each carries the device id, the six joints of the arm in order, at 35 degrees, a time
  stamp whose nanoseconds lie between 0 and 999999999, and torques of at most half a newton
  metre, given that the library's cosine stays within one.
\<close>

theorem sine_frames_well_formed:
  assumes "\<And>x. \<bar>lm_cos (sw_libm env) x\<bar> \<le> 1" and "fr \<in> set (sine_sender env did k n)"
  shows "af_device_id fr = did \<and> map js_name (af_joints fr) = joint_names \<and>
    (\<forall>j \<in> set (af_joints fr). js_temperature_c j = f64_bits 35 \<and> \<bar>f64_value (js_torque_nm j)\<bar> \<le> 1 / 2) \<and>
    (\<exists>ts. af_recorded_at fr = Some ts \<and> in_i64 (ts_seconds ts) \<and> 0 \<le> ts_nanos ts \<and> ts_nanos ts < 1000000000)"
proof -
  obtain m where fr: "fr = sine_frame env did m" using set_sine_sender [OF assms(2)] by blast
  have "map js_name (af_joints fr) = joint_names"
    by (simp add: fr sine_frame_def Let_def sine_joint_def split_def o_def)
  moreover have "js_temperature_c j = f64_bits 35 \<and> \<bar>f64_value (js_torque_nm j)\<bar> \<le> 1 / 2" if "j \<in> set (af_joints fr)" for j
  proof -
    obtain el i name where j: "j = sine_joint (sw_libm env) el i name"
      using \<open>j \<in> set (af_joints fr)\<close> by (auto simp: fr sine_frame_def Let_def)
    obtain x where x: "js_torque_nm j = f64_bits (f64_mul (1 / 2) (lm_cos (sw_libm env) x))"
      by (simp add: j sine_joint_def Let_def)
    let ?t = "f64_mul (1 / 2) (lm_cos (sw_libm env) x)"
    have t: "\<bar>?t\<bar> \<le> 1 / 2" using f64_half_bound [OF assms(1)] .
    have "f64_value (f64_bits ?t) = ?t"
      using f64_value_bits [of ?t] t by (simp add: f64_mul_def)
    then show ?thesis using t x f64_bits_35 by (simp add: j sine_joint_def Let_def temperature_35_def)
  qed
  ultimately show ?thesis by (simp add: fr sine_frame_def Let_def u64_as_i64_range)
qed

definition demo_sine :: sine_env where
  "demo_sine = \<lparr>sw_libm = \<lparr>lm_sin = (\<lambda>_. 0), lm_cos = (\<lambda>_. 1)\<rparr>, sw_start = 5, sw_elapsed_at = (\<lambda>k. 7),
     sw_now = (\<lambda>k. 1700000000000000123), sw_accepts = (\<lambda>_. True)\<rparr>"

theorem sine_frames_well_formed_witness:
  "map js_name (af_joints (sine_frame demo_sine ''D1'' 0)) = joint_names \<and>
   list_all (\<lambda>j. \<bar>f64_value (js_torque_nm j)\<bar> \<le> 1 / 2) (af_joints (sine_frame demo_sine ''D1'' 0))"
proof -
  have "sine_frame demo_sine ''D1'' 0 \<in> set (sine_sender demo_sine ''D1'' 0 1)" by (simp add: demo_sine_def)
  from sine_frames_well_formed [OF _ this] show ?thesis by (simp add: demo_sine_def list_all_iff)
qed

text \<open>
  The agent listens on the simulator's socket only when a file is already there: starting
  without the socket file, and as long as no other process creates one, every attempt of the
  telemetry task generates the sine wave, and there is still no socket the simulator, which
  connects and does not listen, could connect to. Once a file is there, an attempt replaces it
  by a socket of its own.
\<close>

theorem socket_needs_a_file:
  assumes "\<not> fs_exists path f" and "\<forall>a \<in> set attempts. \<forall>g. fs_exists path (ta_others a g) \<longrightarrow> fs_exists path g"
  shows "set (to_sources (telemetry_run (Some path) attempts f)) \<subseteq> {SineWave} \<and>
    \<not> fs_exists path (to_disk (telemetry_run (Some path) attempts f)) \<and>
    (\<forall>g a. fs_exists path g \<longrightarrow> ta_io a = io_reliable \<longrightarrow>
       telemetry_step (Some path) a g = (FromSocket, fst (telemetry_stream (ta_opened a)),
         g(path \<mapsto> \<lparr>contents = [], file_mode = 493\<rparr>)))"
proof -
  have "set (to_sources (telemetry_attempts b (Some path) attempts f)) \<subseteq> {SineWave} \<and>
      \<not> fs_exists path (to_disk (telemetry_attempts b (Some path) attempts f))" for b
    using assms
  proof (induction attempts arbitrary: b f)
    case (Cons a attempts)
    have g: "\<not> fs_exists path (ta_others a f)" using Cons.prems by (meson list.set_intros(1))
    have others: "\<forall>a \<in> set attempts. \<forall>g. fs_exists path (ta_others a g) \<longrightarrow> fs_exists path g"
      using Cons.prems(2) by (meson list.set_intros(2))
    have s: "telemetry_step (Some path) a (ta_others a f) = (SineWave, run_sine_wave (ta_opened a), ta_others a f)"
      using g by (intro telemetry_step_absent) simp
    note ih = Cons.IH [OF g others, of "min (b * 2) max_backoff"]
    show ?case using ih g s by (cases "run_sine_wave (ta_opened a)") (simp_all add: Let_def split: failure.split)
  qed simp
  then show ?thesis by (simp add: telemetry_run_def telemetry_step_def run_from_socket_reliable)
qed

definition demo_attempt :: telemetry_attempt where
  "demo_attempt = \<lparr>ta_others = (\<lambda>g. g), ta_io = io_reliable, ta_opened = Err (status_of Unavailable ''down'')\<rparr>"

theorem socket_needs_a_file_witness:
  "to_sources (telemetry_run (Some ''/tmp/s'') [demo_attempt, demo_attempt] Map.empty) = [SineWave, SineWave] \<and>
   \<not> fs_exists ''/tmp/s'' (to_disk (telemetry_run (Some ''/tmp/s'') [demo_attempt, demo_attempt] Map.empty))"
proof -
  have n: "length (to_sources (telemetry_run (Some ''/tmp/s'') [demo_attempt, demo_attempt] Map.empty)) = 2"
    by (simp add: telemetry_run_def telemetry_step_def demo_attempt_def fs_exists_def run_sine_wave_def telemetry_stream_def Let_def)
  have "set (to_sources (telemetry_run (Some ''/tmp/s'') [demo_attempt, demo_attempt] Map.empty)) \<subseteq> {SineWave} \<and>
      \<not> fs_exists ''/tmp/s'' (to_disk (telemetry_run (Some ''/tmp/s'') [demo_attempt, demo_attempt] Map.empty))"
    using socket_needs_a_file [of "''/tmp/s''" Map.empty "[demo_attempt, demo_attempt]"]
    by (simp add: fs_exists_def demo_attempt_def)
  with n show ?thesis
    by (cases "to_sources (telemetry_run (Some ''/tmp/s'') [demo_attempt, demo_attempt] Map.empty)")
      (auto simp: length_Suc_conv numeral_2_eq_2)
qed

section \<open>The telemetry decoder\<close>

text \<open>
  C24. \<open>parse_frame\<close>, which computes the byte offset of every value, agrees on every payload with the
  wire format read as a specification: the bytes after the header are cut into 64-bit numbers, the
  first of which are the positions and the next as many the torques.
\<close>

theorem parse_frame_follows_wire_format: "parse_frame did p = Ok (decode_frame did p)"
  by (rule parse_frame_decode)

text \<open>
  C25. The loop of the socket reader ends: on any byte sequence, well formed or not, it has broken
  off after at most one round per five bytes and one more, with exactly the frames of
  \<open>socket_reader\<close> delivered; nothing a peer sends makes it run for ever.
\<close>

theorem socket_reader_ends:
  assumes "length bytes div 5 < k"
  shows "reader_rounds k did accepts (i, bytes) = Some (socket_reader did accepts i bytes)"
  by (rule reader_rounds_enough [OF assms])

theorem socket_reader_ends_witness:
  "reader_rounds 4 ''D1'' (\<lambda>_. True) (0, wire (encode_frame 5 [] [])) = Some [frame_of ''D1'' 5 [] []]"
proof -
  have "socket_reader ''D1'' (\<lambda>_. True) 0 (wire (encode_frame 5 [] []) @ []) = [frame_of ''D1'' 5 [] []]"
    by (subst socket_reader_wire)
      (simp_all add: good_payload_def length_encode_frame parsed_def parse_encode in_i64_def socket_reader.simps)
  moreover have "length (wire (encode_frame 5 [] [])) div 5 < 4" by (simp add: wire_def length_encode_frame)
  ultimately show ?thesis using socket_reader_ends [of "wire (encode_frame 5 [] [])" 4 "''D1''" "\<lambda>_. True" 0] by simp
qed

section \<open>The end of the process\<close>

text \<open>
  C32. The agent runs exactly as long as every attempt of every task fails with an error: the first
  stream that the server closes cleanly, or the first panic of a task, ends the whole process,
  the other tasks with it; it then exits with status 0 and none of the error lines of \<open>main\<close> has been
  logged (of a panic only the message of the runtime on standard error remains).
\<close>

theorem agent_ends_silently:
  assumes "fst (agent_main pki io env net w) = Ok ident"
  shows "fst (agent_process pki io env net d (task_ends hb ota path tel f) w) =
    (if \<forall>r \<in> set hb \<union> set ota \<union> set (attempt_results path tel f). \<exists>e. r = Err e then Running else Exited 0 [])"
proof -
  obtain w1 where m: "agent_main pki io env net w = (Inr ident, w1)" using assms by (metis prod.collapse)
  show ?thesis
  proof (cases "task_ends hb ota path tel f")
    case Nil
    then show ?thesis using m task_ends_Nil [of hb ota path tel f] by (simp add: agent_process_def agent_wait_def)
  next
    case (Cons x xs)
    then have "select_arm d x = []" using select_arm_silent [of x hb ota path tel f d] by simp
    then show ?thesis
      using m Cons task_ends_Nil [of hb ota path tel f] by (auto simp: agent_process_def agent_wait_def)
  qed
qed

lemma demo_agent_starts:
  "agent_main demo_pki io_reliable demo_vars (dms_net demo_env demo_server demo_provisioning)
     \<lparr>w_fs = enrolled_disk, w_net = open_conn enrolled_tables\<rparr> =
   (Ok \<lparr>id_device_id = ''D1'', id_op_cert = ''FLEET/SN1'', id_op_key = ''KEY''\<rparr>,
    \<lparr>w_fs = enrolled_disk, w_net = open_conn enrolled_tables\<rparr>)"
proof -
  have v: "demo_vars ''DEVICE_SERIAL'' = Some ''SN1''" "demo_vars ''FLEET_CA_CERT_PEM'' = Some ''/ca''"
    "demo_vars ''FLEET_SERVICE_ADDR'' = Some ''f''"
    by (simp_all add: demo_vars_def)
  have ca: "fs_exists ''/ca'' enrolled_disk" by (simp add: enrolled_disk_def) (simp add: fs_exists_def fresh_disk_def)
  have e: "is_provisioned (manager_of demo_vars ''SN1'') enrolled_disk" "is_enrolled (manager_of demo_vars ''SN1'') enrolled_disk"
    by (simp_all add: is_provisioned_def is_enrolled_def demo_paths enrolled_disk_def)
  have r: "fs_read_to_string io_reliable i ''/d/operational.pem'' enrolled_disk = Ok ''FLEET/SN1''"
    "fs_read_to_string io_reliable i ''/d/operational.key'' enrolled_disk = Ok ''KEY''"
    "fs_read_to_string io_reliable i ''/d/device-id'' enrolled_disk = Ok ''D1''" for i
    by (simp_all add: enrolled_disk_def)
  have u: "utf8_valid (contents (the (enrolled_disk ''/ca'')))"
    by (simp add: enrolled_disk_def put_file_def fresh_disk_def)
  show ?thesis
    using ca e u by (subst main_on_reliable_disk [OF v(1,2)])
      (simp_all add: agent_phase1_def agent_phase2_def agent_phase3_def load_operational_creds_def load_pair_def
        load_device_id_def demo_paths r env_required_def v(3) open_channel_def dms_net_def Let_def)
qed

theorem agent_ends_silently_witness:
  "fst (agent_process demo_pki io_reliable demo_vars (dms_net demo_env demo_server demo_provisioning) st_message
     (task_ends [Err (AgIo ''x''), Ok ()] [] None [] Map.empty) \<lparr>w_fs = enrolled_disk, w_net = open_conn enrolled_tables\<rparr>) =
   Exited 0 []"
  by (subst agent_ends_silently [where ident = "\<lparr>id_device_id = ''D1'', id_op_cert = ''FLEET/SN1'', id_op_key = ''KEY''\<rparr>"])
    (simp_all add: demo_agent_starts)

text \<open>
  The CA chain the service sends at enrollment is stored but never used: a start of an enrolled
  agent has the same outcome whatever the file \<^verbatim>\<open>fleet-ca-chain.pem\<close> holds, and also without it;
  the CA the agent trusts is the file named by \<open>FLEET_CA_CERT_PEM\<close>.
\<close>

theorem stored_chain_is_never_read:
  assumes "env ''DEVICE_SERIAL'' = Some serial" and "env ''FLEET_CA_CERT_PEM'' = Some ca_path"
    and "ca_path \<noteq> fleet_ca_path (manager_of env serial)"
    and "is_provisioned (manager_of env serial) (w_fs w)" and "is_enrolled (manager_of env serial) (w_fs w)"
  shows "fst (agent_main pki io env net (w\<lparr>w_fs := (w_fs w)(fleet_ca_path (manager_of env serial) := x)\<rparr>)) =
    fst (agent_main pki io env net w)"
proof -
  let ?m = "manager_of env serial" and ?f = "w_fs w" and ?g = "(w_fs w)(fleet_ca_path (manager_of env serial) := x)"
  let ?w = "w\<lparr>w_fs := (w_fs w)(fleet_ca_path (manager_of env serial) := x)\<rparr>"
  have rd: "p \<noteq> fleet_ca_path ?m \<Longrightarrow> fs_read_to_string io i p ?g = fs_read_to_string io i p ?f" for i p
    by (cases "io_fault io i") (auto simp: fs_read_to_string_def fs_read_def)
  have e: "is_provisioned ?m ?g" "is_enrolled ?m ?g"
    using assms(4,5) by (simp_all add: is_provisioned_def is_enrolled_def fs_exists_def path_defs)
  have p: "device_id_path ?m \<noteq> fleet_ca_path ?m" "operational_cert_path ?m \<noteq> fleet_ca_path ?m"
    "operational_key_path ?m \<noteq> fleet_ca_path ?m" by (simp_all add: path_defs)
  have ph: "agent_phase1 pki io env net ca ?m w = (Ok (), w)" "agent_phase2 pki io env net ca ?m w = (Ok (), w)"
    "agent_phase1 pki io env net ca ?m ?w = (Ok (), ?w)" "agent_phase2 pki io env net ca ?m ?w = (Ok (), ?w)" for ca
    using assms(4,5) e by (simp_all add: agent_phase1_def agent_phase2_def)
  have p3: "fst (agent_phase3 io env net ca ?m ?w) = fst (agent_phase3 io env net ca ?m w)" for ca
    by (simp add: agent_phase3_def load_operational_creds_def load_pair_def load_device_id_def rd p try_bind_pure split: sum.split)
  show ?thesis
    using assms(1,2) p3 by (simp add: agent_main_def env_required_def ph rd [OF assms(3)] Let_def try_bind_pure split: sum.split option.split)
qed

theorem stored_chain_is_never_read_witness:
  "fst (agent_main demo_pki io_reliable demo_vars (dms_net demo_env demo_server demo_provisioning)
     \<lparr>w_fs = enrolled_disk(''/d/fleet-ca-chain.pem'' \<mapsto> \<lparr>contents = ''FORGED'', file_mode = 420\<rparr>), w_net = open_conn enrolled_tables\<rparr>) =
   Ok \<lparr>id_device_id = ''D1'', id_op_cert = ''FLEET/SN1'', id_op_key = ''KEY''\<rparr>"
proof -
  have p: "fleet_ca_path (manager_of demo_vars ''SN1'') = ''/d/fleet-ca-chain.pem''"
    by (simp add: path_defs demo_manager join_path_def)
  have "is_provisioned (manager_of demo_vars ''SN1'') enrolled_disk" "is_enrolled (manager_of demo_vars ''SN1'') enrolled_disk"
    by (simp_all add: is_provisioned_def is_enrolled_def demo_paths enrolled_disk_def)
  moreover have "demo_vars ''DEVICE_SERIAL'' = Some ''SN1''" "demo_vars ''FLEET_CA_CERT_PEM'' = Some ''/ca''"
    by (simp_all add: demo_vars_def)
  ultimately show ?thesis
    using stored_chain_is_never_read [of demo_vars "''SN1''" "''/ca''" "\<lparr>w_fs = enrolled_disk, w_net = open_conn enrolled_tables\<rparr>"
        demo_pki io_reliable "dms_net demo_env demo_server demo_provisioning" "Some \<lparr>contents = ''FORGED'', file_mode = 420\<rparr>"]
    by (simp add: p demo_agent_starts)
qed

end
