(* ===== verification/Device_Startup.thy ===== *)
theory Device_Startup
  imports Device_Store Rust_Strings
begin

text \<open>
  The start of device-management-service (\<^verbatim>\<open>src/main.rs\<close>): the entries of the
  variable \<open>FACTORY_MANIFEST\<close> are parsed and seeded into the factory manifest.
\<close>

section \<open>The manifest\<close>

record manifest_entry =
  me_serial :: string
  me_token :: string
  me_model :: string

definition manifest_entries :: "string \<Rightarrow> string list" where
  "manifest_entries manifest = filter (\<lambda>s. s \<noteq> []) (map trim (split_on (CHR '','') manifest))"

definition parse_entry :: "string \<Rightarrow> manifest_entry option" where
  "parse_entry entry =
     (case splitn 3 (CHR '':'') entry of
        [s, t, m] \<Rightarrow> Some \<lparr>me_serial = s, me_token = t, me_model = m\<rparr>
      | [s, t] \<Rightarrow> Some \<lparr>me_serial = s, me_token = t, me_model = ''Alpha Wheeled''\<rparr>
      | _ \<Rightarrow> None)"

text \<open>
  The seeding loop: an entry that cannot be parsed is skipped, an error of the store is
  logged and ignored; the count is a \<open>u32\<close>. \<open>engs i\<close> is the engine at the \<open>i\<close>-th entry.
\<close>

fun seed_loop :: "(nat \<Rightarrow> engine) \<Rightarrow> nat \<Rightarrow> string list \<Rightarrow> u32 \<Rightarrow> dconn \<Rightarrow> u32 \<times> dconn" where
  "seed_loop engs i [] n c = (n, c)"
| "seed_loop engs i (entry # entries) n c =
     (case parse_entry entry of
        None \<Rightarrow> seed_loop engs (Suc i) entries n c
      | Some e \<Rightarrow>
          (let c1 = snd (seed_manifest (engs i) (me_serial e) (me_model e) (me_token e) c)
           in seed_loop engs (Suc i) entries (n + 1) c1))"

definition seed_from_env :: "(nat \<Rightarrow> engine) \<Rightarrow> string option \<Rightarrow> dconn \<Rightarrow> u32 \<times> dconn" where
  "seed_from_env engs manifest c =
     (case manifest of None \<Rightarrow> (0, c) | Some m \<Rightarrow> seed_loop engs 0 (manifest_entries m) 0 c)"

section \<open>Round trip\<close>

definition render_entry :: "manifest_entry \<Rightarrow> string" where
  "render_entry e = me_serial e @ CHR '':'' # me_token e @ CHR '':'' # me_model e"

definition render_manifest :: "manifest_entry list \<Rightarrow> string" where
  "render_manifest es = join_with (CHR '','') (map render_entry es)"

text \<open>Fields that do not collide with the separators or the trimming.\<close>

definition clean_entry :: "manifest_entry \<Rightarrow> bool" where
  "clean_entry e \<longleftrightarrow>
     CHR '','' \<notin> set (me_serial e) \<and> CHR '':'' \<notin> set (me_serial e) \<and>
     CHR '','' \<notin> set (me_token e) \<and> CHR '':'' \<notin> set (me_token e) \<and>
     CHR '','' \<notin> set (me_model e) \<and>
     (me_serial e = [] \<or> \<not> is_space (hd (me_serial e))) \<and> (me_model e = [] \<or> \<not> is_space (last (me_model e)))"

lemma parse_render: "clean_entry e \<Longrightarrow> parse_entry (render_entry e) = Some e"
  by (simp add: parse_entry_def render_entry_def clean_entry_def numeral_3_eq_3 takeWhile_stop dropWhile_stop)

lemma is_space_colon [simp]: "\<not> is_space (CHR '':'')"
  by (simp add: is_space_def)

lemma trim_render:
  assumes "clean_entry e"
  shows "trim (render_entry e) = render_entry e"
proof -
  have "\<not> is_space (hd (render_entry e))"
    using assms by (cases "me_serial e") (auto simp: render_entry_def clean_entry_def)
  moreover have "\<not> is_space (last (render_entry e))"
    using assms by (auto simp: render_entry_def clean_entry_def)
  ultimately show ?thesis by (simp add: trim_def dropWhile_hd hd_rev)
qed

lemma render_no_comma: "clean_entry e \<Longrightarrow> CHR '','' \<notin> set (render_entry e)"
  by (simp add: render_entry_def clean_entry_def)

lemma entries_of_render:
  assumes "\<forall>e \<in> set es. clean_entry e"
  shows "manifest_entries (render_manifest es) = map render_entry es"
proof (cases "es = []")
  case True
  then show ?thesis by (simp add: manifest_entries_def render_manifest_def trim_def)
next
  case False
  then have "split_on (CHR '','') (render_manifest es) = map render_entry es"
    using assms unfolding render_manifest_def by (intro split_join) (auto simp: render_no_comma)
  moreover have "map trim (map render_entry es) = map render_entry es"
    using assms by (simp add: trim_render)
  moreover have "\<forall>s \<in> set (map render_entry es). s \<noteq> []" by (auto simp: render_entry_def)
  ultimately show ?thesis by (simp add: manifest_entries_def filter_id_conv)
qed

section \<open>Seeding\<close>

definition manifest_row_of :: "manifest_entry \<Rightarrow> manifest_row" where
  "manifest_row_of e = \<lparr>fm_serial = me_serial e, fm_model = me_model e, fm_token = me_token e, fm_provisioned_at = None\<rparr>"

text \<open>
  \<open>keeps_data t t'\<close>: every manifest row of \<open>t\<close> is still there with its token, model and provisioning
  mark, and the devices and pre-enrollments are the same.
\<close>

definition keeps_data :: "dms_tables \<Rightarrow> dms_tables \<Rightarrow> bool" where
  "keeps_data t t' \<longleftrightarrow>
     (\<forall>s r. row_with fm_serial s (factory_manifest t) = Some r \<longrightarrow> row_with fm_serial s (factory_manifest t') = Some r) \<and>
     devices t' = devices t \<and> pre_enrollment t' = pre_enrollment t"

lemma keeps_data_refl [simp]: "keeps_data t t"
  by (simp add: keeps_data_def)

lemma keeps_data_trans: "keeps_data t t' \<Longrightarrow> keeps_data t' t'' \<Longrightarrow> keeps_data t t''"
  by (simp add: keeps_data_def)

lemma seed_manifest_keeps:
  assumes "idle c"
  shows "idle (snd (seed_manifest eng serial m tok c)) \<and> keeps_data (tabs c) (tabs (snd (seed_manifest eng serial m tok c)))"
  using assms
  by (auto simp: seed_manifest_def db_lock_def with_lock_def sql_def insert_manifest_def row_with_append idle_def
      roll_back_def keeps_data_def split: option.split)

lemma seed_loop_keeps:
  "idle c \<Longrightarrow> idle (snd (seed_loop engs i entries n c)) \<and> keeps_data (tabs c) (tabs (snd (seed_loop engs i entries n c)))"
proof (induction entries arbitrary: i n c)
  case (Cons entry entries)
  show ?case
  proof (cases "parse_entry entry")
    case (Some e)
    let ?c1 = "snd (seed_manifest (engs i) (me_serial e) (me_model e) (me_token e) c)"
    have c1: "idle ?c1" "keeps_data (tabs c) (tabs ?c1)" using seed_manifest_keeps [OF Cons.prems] by auto
    show ?thesis using Cons.IH [OF c1(1)] keeps_data_trans [OF c1(2)] Some by (simp add: Let_def)
  qed (use Cons in simp)
qed simp

lemma seed_from_env_keeps:
  "idle c \<Longrightarrow> idle (snd (seed_from_env engs m c)) \<and> keeps_data (tabs c) (tabs (snd (seed_from_env engs m c)))"
  by (simp add: seed_from_env_def seed_loop_keeps split: option.split)

lemma seed_loop_fresh:
  assumes "\<And>i. no_fault (engs i)" and "\<forall>e \<in> set es. clean_entry e"
    and "distinct (map fm_serial (factory_manifest (tabs c)) @ map me_serial es)"
  shows "seed_loop engs i (map render_entry es) n c =
    (n + of_nat (length es), c\<lparr>tabs := (tabs c)\<lparr>factory_manifest := factory_manifest (tabs c) @ map manifest_row_of es\<rparr>\<rparr>)"
  using assms(2,3)
proof (induction es arbitrary: i n c)
  case Nil
  then show ?case by simp
next
  case (Cons e es)
  let ?c1 = "c\<lparr>tabs := (tabs c)\<lparr>factory_manifest := factory_manifest (tabs c) @ [manifest_row_of e]\<rparr>\<rparr>"
  have "me_serial e \<notin> fm_serial ` set (factory_manifest (tabs c))" using Cons.prems(2) by auto
  then have "snd (seed_manifest (engs i) (me_serial e) (me_model e) (me_token e) c) = ?c1"
    by (simp add: seed_manifest_healthy [OF assms(1)] insert_manifest_def manifest_row_of_def)
  then show ?case
    using Cons.IH [of ?c1 "Suc i" "n + 1"] Cons.prems
    by (simp add: parse_render Let_def manifest_row_of_def add_ac)
qed

lemma seed_from_env_render:
  assumes "\<And>i. no_fault (engs i)" and "\<forall>e \<in> set es. clean_entry e" and "distinct (map me_serial es)"
    and "factory_manifest (tabs c) = []"
  shows "seed_from_env engs (Some (render_manifest es)) c =
    (of_nat (length es), c\<lparr>tabs := (tabs c)\<lparr>factory_manifest := map manifest_row_of es\<rparr>\<rparr>)"
  using seed_loop_fresh [where engs = engs and i = 0 and n = 0 and c = c, OF assms(1,2)] assms(3,4)
  by (simp add: seed_from_env_def entries_of_render [OF assms(2)])

end
