(* ===== verification/Service_Startup.thy ===== *)
theory Service_Startup
  imports Device_Startup Device_Server Durable_Stores Ota_Server
begin

text \<open>
  The \<open>main\<close> functions of the three services (\<^verbatim>\<open>device-management-service/src/main.rs\<close>,
  \<^verbatim>\<open>ota-service/src/main.rs\<close>, \<^verbatim>\<open>artifact-store/src/main.rs\<close>) from the environment variables to the
  listeners they serve. The syntax of socket addresses, the TLS configuration of \<open>tonic\<close> and the
  S3 client are parameters. A service that has started is its listeners and its open database.
\<close>

section \<open>What the services start from\<close>

datatype startup_error =
    StartVar string
  | StartNumber
  | StartIo string
  | StartDb rusqlite_error
  | StartUtf8 string
  | StartAddr string
  | StartTls string

text \<open>\<open>ServerTlsConfig\<close>: the identity, and the CA client certificates must come from, if any.\<close>

record server_tls =
  stl_cert :: string
  stl_key :: string
  stl_client_ca :: "string option"

record 'addr startup_host =
  sh_vars :: "string \<Rightarrow> string option"
  sh_io :: io
  sh_fs :: fs
  sh_parse_addr :: "string \<Rightarrow> 'addr option"
  sh_tls :: "server_tls \<Rightarrow> (string, unit) result"

record ('addr, 'svc) listener =
  ln_addr :: 'addr
  ln_tls :: server_tls
  ln_services :: "'svc list"

definition read_pem :: "'addr startup_host \<Rightarrow> nat \<Rightarrow> string \<Rightarrow> (startup_error, string) result" where
  "read_pem h i var =
     try_pure (ok_or (StartVar var) (sh_vars h var)) (\<lambda>path. map_err StartIo (fs_read (sh_io h) i path (sh_fs h)))"

definition read_pem_string :: "'addr startup_host \<Rightarrow> nat \<Rightarrow> string \<Rightarrow> (startup_error, string) result" where
  "read_pem_string h i var =
     try_pure (ok_or (StartVar var) (sh_vars h var)) (\<lambda>path.
       map_err StartIo (fs_read_to_string (sh_io h) i path (sh_fs h)))"

definition parse_addr :: "'addr startup_host \<Rightarrow> string \<Rightarrow> string \<Rightarrow> (startup_error, 'addr) result" where
  "parse_addr h var dflt = ok_or (StartAddr var) (sh_parse_addr h (env_or (sh_vars h) var dflt))"

definition check_utf8 :: "string \<Rightarrow> string \<Rightarrow> (startup_error, unit) result" where
  "check_utf8 var bytes = (if utf8_valid bytes then Ok () else Err (StartUtf8 var))"

section \<open>device-management-service\<close>

datatype dms_service =
    DeviceManagementSvc device_management_server
  | TelemetrySvc
  | ProvisioningSvc provisioning_server

record dms_config =
  cfg_validity_days :: u32
  cfg_server_cert :: pem
  cfg_server_key :: pem
  cfg_fleet_ca_cert :: pem
  cfg_fleet_ca_key :: pem
  cfg_device_ca_cert :: pem
  cfg_device_ca_key :: pem

definition dms_read_config :: "'addr startup_host \<Rightarrow> (startup_error, dms_config) result" where
  "dms_read_config h =
     try_pure (ok_or StartNumber (parse_u32 (env_or (sh_vars h) ''CERT_VALIDITY_DAYS'' ''30''))) (\<lambda>validity_days.
     try_pure (read_pem h 0 ''SERVER_CERT_PEM'') (\<lambda>server_cert.
     try_pure (read_pem h 1 ''SERVER_KEY_PEM'') (\<lambda>server_key.
     try_pure (read_pem h 2 ''FLEET_CA_CERT_PEM'') (\<lambda>fleet_ca_cert.
     try_pure (read_pem h 3 ''FLEET_CA_KEY_PEM'') (\<lambda>fleet_ca_key.
     try_pure (read_pem h 4 ''DEVICE_CA_CERT_PEM'') (\<lambda>device_ca_cert.
     try_pure (read_pem h 5 ''DEVICE_CA_KEY_PEM'') (\<lambda>device_ca_key.
     Ok \<lparr>cfg_validity_days = validity_days, cfg_server_cert = server_cert, cfg_server_key = server_key,
         cfg_fleet_ca_cert = fleet_ca_cert, cfg_fleet_ca_key = fleet_ca_key,
         cfg_device_ca_cert = device_ca_cert, cfg_device_ca_key = device_ca_key\<rparr>)))))))"

definition dms_management :: "dms_config \<Rightarrow> device_management_server" where
  "dms_management cfg =
     \<lparr>srv_enrollment = \<lparr>fleet_ca_cert_pem = cfg_fleet_ca_cert cfg, fleet_ca_key_pem = cfg_fleet_ca_key cfg,
                        cert_validity_days = cfg_validity_days cfg\<rparr>,
      srv_device_ca_pem = cfg_device_ca_cert cfg\<rparr>"

definition dms_provisioning :: "dms_config \<Rightarrow> provisioning_server" where
  "dms_provisioning cfg = \<lparr>device_ca_cert_pem = cfg_device_ca_cert cfg, device_ca_key_pem = cfg_device_ca_key cfg\<rparr>"

definition dms_tls :: "dms_config \<Rightarrow> pem option \<Rightarrow> server_tls" where
  "dms_tls cfg client_ca = \<lparr>stl_cert = cfg_server_cert cfg, stl_key = cfg_server_key cfg, stl_client_ca = client_ca\<rparr>"

text \<open>The three listeners, once the store is open; the TLS configurations are checked last.\<close>

definition dms_listeners :: "'addr startup_host \<Rightarrow> dms_config \<Rightarrow> (startup_error, ('addr, dms_service) listener list) result" where
  "dms_listeners h cfg =
     try_pure (check_utf8 ''FLEET_CA_CERT_PEM'' (cfg_fleet_ca_cert cfg)) (\<lambda>_.
     try_pure (check_utf8 ''FLEET_CA_KEY_PEM'' (cfg_fleet_ca_key cfg)) (\<lambda>_.
     try_pure (check_utf8 ''DEVICE_CA_CERT_PEM'' (cfg_device_ca_cert cfg)) (\<lambda>_.
     try_pure (check_utf8 ''DEVICE_CA_KEY_PEM'' (cfg_device_ca_key cfg)) (\<lambda>_.
     let fleet_tls = dms_tls cfg (Some (cfg_fleet_ca_cert cfg));
         fleet_svc = DeviceManagementSvc (dms_management cfg);
         bootstrap_tls = dms_tls cfg (Some (cfg_device_ca_cert cfg));
         bootstrap_svc = DeviceManagementSvc (dms_management cfg);
         provisioning_tls = dms_tls cfg None;
         provisioning_svc = ProvisioningSvc (dms_provisioning cfg)
     in
     try_pure (parse_addr h ''LISTEN_ADDR'' ''[::]:8443'') (\<lambda>fleet_addr.
     try_pure (parse_addr h ''BOOTSTRAP_ADDR'' ''[::]:8444'') (\<lambda>bootstrap_addr.
     try_pure (parse_addr h ''PROVISIONING_ADDR'' ''[::]:8445'') (\<lambda>provisioning_addr.
     try_pure (map_err StartTls (sh_tls h fleet_tls)) (\<lambda>_.
     try_pure (map_err StartTls (sh_tls h bootstrap_tls)) (\<lambda>_.
     try_pure (map_err StartTls (sh_tls h provisioning_tls)) (\<lambda>_.
     Ok [\<lparr>ln_addr = fleet_addr, ln_tls = fleet_tls, ln_services = [fleet_svc, TelemetrySvc]\<rparr>,
         \<lparr>ln_addr = bootstrap_addr, ln_tls = bootstrap_tls, ln_services = [bootstrap_svc]\<rparr>,
         \<lparr>ln_addr = provisioning_addr, ln_tls = provisioning_tls, ln_services = [provisioning_svc]\<rparr>]))))))))))"

record 'addr dms_running =
  rn_listeners :: "('addr, dms_service) listener list"
  rn_manifest_count :: u32
  rn_enrolled :: u64
  rn_conn :: dconn

text \<open>
  Engine 0 opens the store, engine 1 counts the devices (an error counts as 0), engine \<open>i + 2\<close> seeds
  entry \<open>i\<close>. The second component is the database file.
\<close>

definition dms_main :: "'addr startup_host \<Rightarrow> (nat \<Rightarrow> engine) \<Rightarrow> dms_file
    \<Rightarrow> (startup_error, 'addr dms_running) result \<times> dms_file" where
  "dms_main h engs file =
     try_bind (dms_read_config h, file) (\<lambda>cfg file.
     try_bind (map_err_st StartDb (device_store_new (engs 0) file)) (\<lambda>c0 file.
     case seed_from_env (\<lambda>i. engs (i + 2)) (sh_vars h ''FACTORY_MANIFEST'') c0 of (manifest_count, c1) \<Rightarrow>
     case count_devices (engs 1) c1 of (enrolled, c2) \<Rightarrow>
     try_bind (dms_listeners h cfg, dms_file_of (committed c2)) (\<lambda>listeners file.
     (Ok \<lparr>rn_listeners = listeners, rn_manifest_count = manifest_count,
          rn_enrolled = (case enrolled of Inr n \<Rightarrow> n | Inl _ \<Rightarrow> 0), rn_conn = c2\<rparr>, file))))"

text \<open>The health task: after the first tick it counts the devices at every tick and logs the number or the error.\<close>

fun health_ticks :: "(nat \<Rightarrow> engine) \<Rightarrow> nat \<Rightarrow> dconn \<Rightarrow> (dms_error, u64) result list \<times> dconn" where
  "health_ticks engs 0 c = ([], c)"
| "health_ticks engs (Suc n) c =
     (case health_ticks engs n c of (log, c1) \<Rightarrow>
      case count_devices (engs n) c1 of (r, c2) \<Rightarrow> (log @ [r], c2))"

section \<open>ota-service\<close>

record ('addr, 'ch) ota_running =
  orn_listener :: "('addr, unit) listener"
  orn_state :: "'ch ota_state"

definition ota_main :: "'addr startup_host \<Rightarrow> engine \<Rightarrow> job_file \<Rightarrow> (startup_error, ('addr, 'ch) ota_running) result \<times> job_file" where
  "ota_main h eng file =
     try_bind (parse_addr h ''LISTEN_ADDR'' ''[::]:9444'', file) (\<lambda>addr file.
     try_bind (read_pem_string h 0 ''SERVER_CERT_PEM'', file) (\<lambda>cert_pem file.
     try_bind (read_pem_string h 1 ''SERVER_KEY_PEM'', file) (\<lambda>key_pem file.
     try_bind (read_pem_string h 2 ''FLEET_CA_CERT_PEM'', file) (\<lambda>ca_pem file.
     let tls = \<lparr>stl_cert = cert_pem, stl_key = key_pem, stl_client_ca = Some ca_pem\<rparr> in
     try_bind (map_err_st StartDb (job_store_new eng file)) (\<lambda>c file.
     try_bind (map_err StartTls (sh_tls h tls), file) (\<lambda>_ file.
     (Ok \<lparr>orn_listener = \<lparr>ln_addr = addr, ln_tls = tls, ln_services = [()]\<rparr>,
          orn_state = \<lparr>ot_conn = c, ot_senders = dispatcher_new\<rparr>\<rparr>, file)))))))"

section \<open>artifact-store\<close>

text \<open>The configuration of the S3 client that \<open>MinioStore::new\<close> builds.\<close>

record s3_config =
  s3_endpoint_url :: string
  s3_access_key :: string
  s3_secret_key :: string
  s3_region :: string
  s3_force_path_style :: bool

definition minio_store_new :: "(s3_config \<Rightarrow> s3_client) \<Rightarrow> string \<Rightarrow> string \<Rightarrow> string \<Rightarrow> string \<Rightarrow> minio_store" where
  "minio_store_new from_conf endpoint access_key secret_key bucket =
     \<lparr>ms_client = from_conf \<lparr>s3_endpoint_url = endpoint, s3_access_key = access_key, s3_secret_key = secret_key,
                            s3_region = ''us-east-1'', s3_force_path_style = True\<rparr>,
      ms_bucket = bucket\<rparr>"

record 'addr artifact_running =
  arn_listener :: "('addr, unit) listener"
  arn_conn :: aconn
  arn_storage :: minio_store

definition artifact_main :: "(s3_config \<Rightarrow> s3_client) \<Rightarrow> 'addr startup_host \<Rightarrow> engine \<Rightarrow> registry_file
    \<Rightarrow> (startup_error, 'addr artifact_running) result \<times> registry_file" where
  "artifact_main from_conf h eng file =
     try_bind (read_pem h 0 ''SERVER_CERT_PEM'', file) (\<lambda>server_cert file.
     try_bind (read_pem h 1 ''SERVER_KEY_PEM'', file) (\<lambda>server_key file.
     try_bind (read_pem h 2 ''FLEET_CA_CERT_PEM'', file) (\<lambda>fleet_ca file.
     let endpoint = env_or (sh_vars h) ''MINIO_ENDPOINT'' ''http://localhost:9000'';
         access_key = env_or (sh_vars h) ''MINIO_ACCESS_KEY'' ''minioadmin'';
         secret_key = env_or (sh_vars h) ''MINIO_SECRET_KEY'' ''minioadmin'';
         bucket = env_or (sh_vars h) ''MINIO_BUCKET'' ''robot-artifacts'';
         tls = \<lparr>stl_cert = server_cert, stl_key = server_key, stl_client_ca = Some fleet_ca\<rparr>
     in
     try_bind (map_err_st StartDb (registry_new eng file)) (\<lambda>c file.
     try_bind (parse_addr h ''LISTEN_ADDR'' ''[::]:9443'', file) (\<lambda>addr file.
     try_bind (map_err StartTls (sh_tls h tls), file) (\<lambda>_ file.
     (Ok \<lparr>arn_listener = \<lparr>ln_addr = addr, ln_tls = tls, ln_services = [()]\<rparr>, arn_conn = c,
          arn_storage = minio_store_new from_conf endpoint access_key secret_key bucket\<rparr>, file)))))))"

section \<open>Lemmas\<close>

lemma count_devices_state: "idle c \<Longrightarrow> snd (count_devices eng c) = c"
  by (auto simp: count_devices_def db_lock_def with_lock_def sql_def query_def snd_try_bind_cases map_err_st_def
      split: option.split sum.split)

lemma health_ticks_state: "idle c \<Longrightarrow> snd (health_ticks engs n c) = c"
  by (induction n) (simp_all add: split_def count_devices_state)

text \<open>The file after a start: untouched, migrated, or migrated and seeded.\<close>

lemma dms_main_file:
  obtains "snd (dms_main h engs file) = file"
  | "dms_file_tables (snd (dms_main h engs file)) = dms_file_tables file"
  | "dms_file_tables (snd (dms_main h engs file)) =
       tabs (snd (seed_from_env (\<lambda>i. engs (i + 2)) (sh_vars h ''FACTORY_MANIFEST'') (open_conn (dms_file_tables file))))"
proof (cases "dms_read_config h")
  case (Inl e)
  then show ?thesis using that(1) by (simp add: dms_main_def)
next
  case cfg: (Inr cfg)
  obtain r f1 where o: "device_store_new (engs 0) file = (r, f1)" by fastforce
  show ?thesis
  proof (cases r)
    case (Inl e)
    then show ?thesis
      using that(2) cfg o device_db.open_keeps_tables [of "engs 0" "file"] by (simp add: dms_main_def)
  next
    case (Inr c0)
    then have c0: "c0 = open_conn (dms_file_tables file)" using device_db.open_shows_tables o by simp
    let ?s = "seed_from_env (\<lambda>i. engs (i + 2)) (sh_vars h ''FACTORY_MANIFEST'') c0"
    have i: "idle (snd ?s)" using seed_from_env_keeps [of c0] by (simp add: c0)
    have "dms_file_tables (snd (dms_main h engs file)) = tabs (snd ?s)"
      using cfg o Inr count_devices_state [OF i] i
      by (simp add: dms_main_def split_def snd_try_bind_cases device_db.tables_file_of split: sum.split)
    then show ?thesis using that(3) c0 by simp
  qed
qed

lemma dms_main_Inr:
  assumes "dms_main h engs file = (Inr run, file')"
  obtains cfg where "dms_read_config h = Inr cfg" and "dms_listeners h cfg = Inr (rn_listeners run)"
    and "idle (rn_conn run)" and "file' = dms_file_of (tabs (rn_conn run))"
    and "rn_conn run = snd (seed_from_env (\<lambda>i. engs (i + 2)) (sh_vars h ''FACTORY_MANIFEST'') (open_conn (dms_file_tables file)))"
proof -
  from assms obtain cfg c0 f1 where cfg: "dms_read_config h = Inr cfg"
    and o: "device_store_new (engs 0) file = (Inr c0, f1)"
    by (auto simp: dms_main_def try_bind_eq_Inr map_err_st_Inr)
  have c0: "c0 = open_conn (dms_file_tables file)" by (rule device_db.open_shows_tables [OF o])
  let ?s = "seed_from_env (\<lambda>i. engs (i + 2)) (sh_vars h ''FACTORY_MANIFEST'') c0"
  have i: "idle (snd ?s)" using seed_from_env_keeps [of c0] by (simp add: c0)
  from assms cfg o count_devices_state [OF i] i c0 show ?thesis
    by (auto simp: dms_main_def split_def try_bind_eq_Inr intro!: that)
qed

end
