(* ===== verification/Artifact_Properties.thy ===== *)
theory Artifact_Properties
  imports Artifact_Store Durable_Stores
begin

text \<open>
  What the artifact store guarantees: a version is published once, a published artifact is
  read back as it was published, and the latest artifact of a channel is a newest one.
\<close>

definition demo_publish :: publish_request where
  "demo_publish = \<lparr>pb_model = ''Beta'', pb_version = ''2.0'', pb_sha256 = ''abc'', pb_size_bytes = 18446744073709551615,
     pb_channel = ''stable'', pb_object_key = ''Beta/2.0/firmware.bin''\<rparr>"

definition demo_artifact :: "string \<Rightarrow> string \<Rightarrow> int \<Rightarrow> artifact_record" where
  "demo_artifact aid v now = \<lparr>ar_id = aid, ar_model = ''Beta'', ar_version = v, ar_sha256 = ''abc'', ar_size_bytes = 1,
     ar_channel = ''stable'', ar_object_key = [], ar_download_url = [], ar_created_at = now\<rparr>"

definition demo_artifacts :: artifact_tables where
  "demo_artifacts = \<lparr>artifacts = [demo_artifact ''A1'' ''1.0'' 10, demo_artifact ''A2'' ''1.1'' 20]\<rparr>"

lemmas artifact_demo_defs = demo_publish_def demo_artifact_def demo_artifacts_def

text \<open>
  C27. Over the whole life of the artifact store, from a new database file through any number of
  starts and stops and any requests, with engine faults anywhere, artifact ids are unique and no
  version of a model is registered twice.
\<close>

theorem artifact_versions_unique:
  "wf_artifacts (registry_file_tables (life registry_new registry_file_of artifact_step starts \<lparr>rf_artifacts = None\<rparr>))"
  by (rule registry_life.life_wf) (simp add: registry_file_tables_def wf_artifacts_def)

text \<open>
  C28. Publishing, every branch on a working engine: an empty checksum is refused as
  \<open>InvalidArgument\<close>, a version the model already has as \<open>AlreadyExists\<close>, both without effect;
  otherwise the artifact is stored and \<open>get_artifact\<close> with the returned id answers exactly
  what publishing answered: the size survives the signed 64-bit column for every \<open>u64\<close>, and
  the download URL is empty.
\<close>

theorem publish_then_get:
  assumes "no_fault eng" and "no_fault eng'" and "aid \<notin> ar_id ` set (artifacts (tabs c))"
  shows "if pb_sha256 req = []
    then publish_artifact eng aid now req c = (Err (status_of InvalidArgument ''sha256 cannot be empty''), c)
    else if (pb_model req, pb_version req) \<in> (\<lambda>r. (ar_model r, ar_version r)) ` set (artifacts (tabs c))
    then publish_artifact eng aid now req c = (Err (status_of AlreadyExists
        (''version already exists: '' @ pb_model req @ ''@'' @ pb_version req)), c)
    else \<exists>c' meta. publish_artifact eng aid now req c = (Ok meta, c') \<and> get_artifact eng' aid c' = (Ok meta, c') \<and>
        meta = \<lparr>am_artifact_id = aid, am_model = pb_model req, am_version = pb_version req, am_download_url = [],
          am_sha256 = pb_sha256 req, am_size_bytes = pb_size_bytes req, am_channel = pb_channel req,
          am_created_at = Some \<lparr>ts_seconds = now, ts_nanos = 0\<rparr>, am_metadata = []\<rparr>"
proof -
  let ?a = "new_artifact_of req"
  have new: "na_model ?a = pb_model req" "na_version ?a = pb_version req" by (simp_all add: new_artifact_of_def)
  have meta: "artifact_to_proto (artifact_of aid now ?a) =
      \<lparr>am_artifact_id = aid, am_model = pb_model req, am_version = pb_version req, am_download_url = [],
        am_sha256 = pb_sha256 req, am_size_bytes = pb_size_bytes req, am_channel = pb_channel req,
        am_created_at = Some \<lparr>ts_seconds = now, ts_nanos = 0\<rparr>, am_metadata = []\<rparr>"
    by (simp add: artifact_to_proto_def artifact_of_def new_artifact_of_def)
  have found: "row_with ar_id aid (artifacts (tabs c) @ [artifact_of aid now ?a]) = Some (artifact_of aid now ?a)"
    using assms(3) by (simp add: row_with_snoc artifact_of_def)
  show ?thesis
    using assms by (simp add: publish_artifact_def registry_create_healthy new meta get_artifact_def registry_get_healthy found)
qed

theorem publish_then_get_witness:
  "\<exists>c' meta. publish_artifact reliable ''A9'' 30 demo_publish (open_conn demo_artifacts) = (Ok meta, c') \<and>
     get_artifact reliable ''A9'' c' = (Ok meta, c') \<and> am_size_bytes meta = 18446744073709551615"
  using publish_then_get [of reliable reliable "''A9''" "open_conn demo_artifacts" demo_publish 30]
  by (auto simp: artifact_demo_defs)

text \<open>
  The latest artifact: on a working engine and for any query plan, \<open>get_latest\<close> answers
  \<open>NotFound\<close> exactly when the model has no artifact in the channel, and otherwise an artifact
  of that model and channel that no other one is newer than.
\<close>

theorem get_latest_is_newest:
  assumes "no_fault eng" and "is_plan plan"
  shows "(\<exists>r \<in> set (artifacts (tabs c)). in_channel model channel r \<and>
       get_latest eng plan model channel c = (Ok (artifact_to_proto r), c) \<and>
       (\<forall>x \<in> set (artifacts (tabs c)). in_channel model channel x \<longrightarrow> ar_created_at x \<le> ar_created_at r)) \<or>
     (\<forall>x \<in> set (artifacts (tabs c)). \<not> in_channel model channel x) \<and>
       get_latest eng plan model channel c = (Err (status_of NotFoundCode (model @ ''@latest ('' @ channel @ '')'')), c)"
proof (cases "newest_first plan model channel (tabs c)")
  case Nil
  then have "\<forall>x \<in> set (artifacts (tabs c)). \<not> in_channel model channel x"
    using set_newest_first [OF assms(2), of model channel "tabs c"] by auto
  with Nil assms(1) show ?thesis by (simp add: get_latest_def registry_get_latest_healthy)
next
  case (Cons r rs)
  have mem: "x \<in> set (artifacts (tabs c)) \<and> in_channel model channel x \<longleftrightarrow> x \<in> set (r # rs)" for x
    using set_newest_first [OF assms(2), of model channel "tabs c"] Cons by auto
  have "ar_created_at x \<le> ar_created_at r" if "x \<in> set (r # rs)" for x
    using newest_first_sorted [of plan model channel "tabs c"] Cons that by auto
  moreover have "get_latest eng plan model channel c = (Ok (artifact_to_proto r), c)"
    using Cons assms(1) by (simp add: get_latest_def registry_get_latest_healthy)
  ultimately show ?thesis using mem by (intro disjI1 bexI [of _ r]) auto
qed

theorem get_latest_is_newest_witness:
  "\<exists>r \<in> set (artifacts demo_artifacts). ar_created_at r = 20 \<and>
     get_latest reliable rev ''Beta'' ''stable'' (open_conn demo_artifacts) = (Ok (artifact_to_proto r), open_conn demo_artifacts)"
  using get_latest_is_newest [of reliable rev "open_conn demo_artifacts" "''Beta''" "''stable''"]
  by (auto simp: artifact_demo_defs in_channel_def)

text \<open>
  Listing: on a working engine and for any query plan, \<open>list_artifacts\<close> answers at most the
  limit (50 when none is given) of the artifacts of that model and channel, newest first,
  without repetition, and leaves none out that is newer than the oldest one listed; with no
  more artifacts than the limit it lists all of them.
\<close>

theorem list_artifacts_newest_first:
  assumes "no_fault eng" and "is_plan plan"
  shows "\<exists>rows. list_artifacts eng plan model channel limit c = (Ok (map artifact_to_proto rows), c) \<and>
    int (length rows) \<le> (if limit > 0 then limit else 50) \<and>
    sorted_wrt (\<ge>) (map ar_created_at rows) \<and>
    mset rows \<subseteq># mset (filter (in_channel model channel) (artifacts (tabs c))) \<and>
    (\<forall>x \<in># mset (filter (in_channel model channel) (artifacts (tabs c))) - mset rows.
       \<forall>r \<in> set rows. ar_created_at x \<le> ar_created_at r) \<and>
    (int (length (filter (in_channel model channel) (artifacts (tabs c)))) \<le> (if limit > 0 then limit else 50) \<longrightarrow>
       mset rows = mset (filter (in_channel model channel) (artifacts (tabs c))))"
proof -
  define n where "n = nat (if limit > 0 then limit else 50)"
  have lim: "int n = (if limit > 0 then limit else 50)" by (simp add: n_def)
  let ?all = "newest_first plan model channel (tabs c)"
  let ?here = "filter (in_channel model channel) (artifacts (tabs c))"
  have ms: "mset ?all = mset ?here" using assms(2) by (simp add: newest_first_def mset_order)
  then have split: "mset ?here = mset (take n ?all) + mset (drop n ?all)"
    by (metis append_take_drop_id mset_append)
  have sorted: "sorted_wrt (\<ge>) (map ar_created_at (take n ?all @ drop n ?all))"
    using newest_first_sorted [of plan model channel "tabs c"] by simp
  then have old: "\<forall>r \<in> set (take n ?all). \<forall>x \<in> set (drop n ?all). ar_created_at x \<le> ar_created_at r"
    unfolding map_append sorted_wrt_append by simp
  have srt: "sorted_wrt (\<ge>) (map ar_created_at (take n ?all))"
    using sorted unfolding map_append sorted_wrt_append by blast
  have run: "list_artifacts eng plan model channel limit c = (Ok (map artifact_to_proto (take n ?all)), c)"
    using assms(1) by (simp add: list_artifacts_def registry_list_healthy Let_def limit_rows_def n_def)
  have sub: "mset (take n ?all) \<subseteq># mset ?here"
    by (simp only: split mset_subset_eq_add_left)
  have diff: "mset ?here - mset (take n ?all) = mset (drop n ?all)"
    by (simp only: split add_diff_cancel_left')
  have full: "mset (take n ?all) = mset ?here" if "int (length ?here) \<le> int n"
    using that ms by (metis mset_eq_length of_nat_le_iff take_all)
  show ?thesis
    unfolding lim [symmetric]
  proof (intro exI [of _ "take n ?all"] conjI run srt sub)
    show "\<forall>x \<in># mset ?here - mset (take n ?all). \<forall>r \<in> set (take n ?all). ar_created_at x \<le> ar_created_at r"
      unfolding diff set_mset_mset using old by blast
  qed (use full in auto)
qed

theorem list_artifacts_newest_first_witness:
  "\<exists>rows. list_artifacts reliable (\<lambda>rows. rows) ''Beta'' ''stable'' 0 (open_conn demo_artifacts) =
      (Ok (map artifact_to_proto rows), open_conn demo_artifacts) \<and> mset rows = mset (artifacts demo_artifacts)"
  using list_artifacts_newest_first [of reliable "\<lambda>rows. rows" "''Beta''" "''stable''" 0 "open_conn demo_artifacts"]
  by (auto simp: artifact_demo_defs in_channel_def)

end
