(* ===== verification/Service_Properties.thy ===== *)
theory Service_Properties
  imports Service_Startup Device_Properties Ota_Properties Artifact_Properties
begin

text \<open>
  What the starts of the three services guarantee: which listener serves what to whom, what a start
  keeps of the stored data, what a failed start leaves behind, and what a restart of the OTA
  service loses.
\<close>

section \<open>Concrete starts\<close>

definition demo_start :: "string startup_host" where
  "demo_start =
     \<lparr>sh_vars = Map.empty(''SERVER_CERT_PEM'' \<mapsto> ''s.crt'', ''SERVER_KEY_PEM'' \<mapsto> ''s.key'',
        ''FLEET_CA_CERT_PEM'' \<mapsto> ''f.crt'', ''FLEET_CA_KEY_PEM'' \<mapsto> ''f.key'',
        ''DEVICE_CA_CERT_PEM'' \<mapsto> ''d.crt'', ''DEVICE_CA_KEY_PEM'' \<mapsto> ''d.key'',
        ''CERT_VALIDITY_DAYS'' \<mapsto> ''365'', ''FACTORY_MANIFEST'' \<mapsto> ''SN1:tok1:Beta, SN2:tok2''),
      sh_io = io_reliable,
      sh_fs = Map.empty(''s.crt'' \<mapsto> \<lparr>contents = ''SERVER'', file_mode = 420\<rparr>,
        ''s.key'' \<mapsto> \<lparr>contents = ''SERVERKEY'', file_mode = 420\<rparr>,
        ''f.crt'' \<mapsto> \<lparr>contents = ''FLEET'', file_mode = 420\<rparr>, ''f.key'' \<mapsto> \<lparr>contents = ''FLEETKEY'', file_mode = 420\<rparr>,
        ''d.crt'' \<mapsto> \<lparr>contents = ''DEVICE'', file_mode = 420\<rparr>, ''d.key'' \<mapsto> \<lparr>contents = ''DEVICEKEY'', file_mode = 420\<rparr>),
      sh_parse_addr = Some, sh_tls = (\<lambda>_. Ok ())\<rparr>"

definition demo_config :: dms_config where
  "demo_config =
     \<lparr>cfg_validity_days = 365, cfg_server_cert = ''SERVER'', cfg_server_key = ''SERVERKEY'',
      cfg_fleet_ca_cert = ''FLEET'', cfg_fleet_ca_key = ''FLEETKEY'',
      cfg_device_ca_cert = ''DEVICE'', cfg_device_ca_key = ''DEVICEKEY''\<rparr>"

lemma demo_read_config: "dms_read_config demo_start = Ok demo_config"
  by (simp add: dms_read_config_def read_pem_def demo_start_def demo_config_def env_or_def fs_read_def
      parse_u32_def parse_uint_def digit_val_def)

lemma demo_utf8: "utf8_valid ''FLEET''" "utf8_valid ''FLEETKEY''" "utf8_valid ''DEVICE''" "utf8_valid ''DEVICEKEY''"
  by (rule utf8_ascii, simp add: byte_in_def)+

lemma demo_check_utf8:
  "check_utf8 v (cfg_fleet_ca_cert demo_config) = Ok ()" "check_utf8 v (cfg_fleet_ca_key demo_config) = Ok ()"
  "check_utf8 v (cfg_device_ca_cert demo_config) = Ok ()" "check_utf8 v (cfg_device_ca_key demo_config) = Ok ()"
  by (simp_all only: check_utf8_def demo_config_def dms_config.simps demo_utf8 if_True)

section \<open>Seeding twice\<close>

lemma seed_loop_serials:
  assumes "\<And>i. no_fault (engs i)"
  shows "fm_serial ` set (factory_manifest (tabs (snd (seed_loop engs i es n c)))) =
    fm_serial ` set (factory_manifest (tabs c)) \<union> me_serial ` set (List.map_filter parse_entry es)"
  by (induction es arbitrary: i n c)
    (auto simp: map_filter_simps seed_manifest_healthy [OF assms] insert_manifest_def Let_def split: option.split)

lemma seed_loop_present:
  assumes "\<And>i. no_fault (engs i)" and "me_serial ` set (List.map_filter parse_entry es) \<subseteq> fm_serial ` set (factory_manifest (tabs c))"
  shows "snd (seed_loop engs i es n c) = c"
  using assms(2)
  by (induction es arbitrary: i n)
    (auto simp: map_filter_simps seed_manifest_healthy [OF assms(1)] insert_manifest_def Let_def split: option.splits)

lemma seed_loop_count: "fst (seed_loop engs i es n c) = fst (seed_loop engs' i' es n c')"
  by (induction es arbitrary: i i' n c c') (simp_all add: Let_def split: option.split)

lemma seed_from_env_again:
  assumes "\<And>i. no_fault (engs i)" and "\<And>i. no_fault (engs' i)"
  shows "seed_from_env engs' m (snd (seed_from_env engs m c)) = seed_from_env engs m c"
proof (cases m)
  case (Some es)
  let ?s = "seed_loop engs 0 (manifest_entries es) 0 c"
  have "snd (seed_loop engs' 0 (manifest_entries es) 0 (snd ?s)) = snd ?s"
    by (rule seed_loop_present [OF assms(2)]) (simp add: seed_loop_serials [OF assms(1)])
  moreover have "fst (seed_loop engs' 0 (manifest_entries es) 0 (snd ?s)) = fst ?s" by (rule seed_loop_count)
  ultimately show ?thesis by (simp add: Some seed_from_env_def prod_eq_iff)
qed (simp add: seed_from_env_def)

text \<open>A start on a working engine, every branch.\<close>

lemma count_devices_healthy: "no_fault eng \<Longrightarrow> count_devices eng c = (Ok (i64_as_u64 (int (length (devices (tabs c))))), c)"
  by (simp add: count_devices_def db_lock_def with_lock_def query_def)

definition dms_started :: "('addr, dms_service) listener list \<Rightarrow> u32 \<times> dconn \<Rightarrow> 'addr dms_running" where
  "dms_started listeners s =
     \<lparr>rn_listeners = listeners, rn_manifest_count = fst s,
      rn_enrolled = i64_as_u64 (int (length (devices (tabs (snd s))))), rn_conn = snd s\<rparr>"

lemma dms_main_healthy:
  assumes "\<And>i. no_fault (engs i)"
  shows "dms_main h engs file =
    (case dms_read_config h of
       Inl f \<Rightarrow> (Inl f, file)
     | Inr cfg \<Rightarrow>
         (let s = seed_from_env (\<lambda>i. engs (i + 2)) (sh_vars h ''FACTORY_MANIFEST'') (open_conn (dms_file_tables file));
              file' = dms_file_of (tabs (snd s))
          in case dms_listeners h cfg of Inl f \<Rightarrow> (Inl f, file') | Inr listeners \<Rightarrow> (Ok (dms_started listeners s), file')))"
proof -
  let ?s = "seed_from_env (\<lambda>i. engs (i + 2)) (sh_vars h ''FACTORY_MANIFEST'') (open_conn (dms_file_tables file))"
  obtain c0 f1 where o: "device_store_new (engs 0) file = (Inr c0, f1)"
    using device_db.open_succeeds [OF assms [of 0], of "file"] by (metis prod.collapse)
  have c0: "c0 = open_conn (dms_file_tables file)" by (rule device_db.open_shows_tables [OF o])
  have "idle (snd ?s)" using seed_from_env_keeps [of "open_conn (dms_file_tables file)"] by simp
  then show ?thesis
    using o c0 by (simp add: dms_main_def split_def Let_def count_devices_healthy [OF assms] dms_started_def
        split: sum.split)
qed

section \<open>Properties\<close>

text \<open>
  C14. Starting a service never loses data, whatever the configuration, the manifest variable and
  the engine, and whether the start succeeds or fails: the device service keeps every manifest
  entry it has with its token, model and provisioning mark (so a spent token is not revived) and
  all devices and pre-enrollments; the OTA service keeps its jobs and the artifact store its
  artifacts.
\<close>

theorem starting_keeps_data:
  "keeps_data (dms_file_tables file) (dms_file_tables (snd (dms_main h engs file))) \<and>
   job_file_tables (snd (ota_main h' eng jobs)) = job_file_tables jobs \<and>
   registry_file_tables (snd (artifact_main from_conf h'' eng' registry)) = registry_file_tables registry"
proof (intro conjI)
  show "keeps_data (dms_file_tables file) (dms_file_tables (snd (dms_main h engs file)))"
    using seed_from_env_keeps [of "open_conn (dms_file_tables file)"]
    by (cases rule: dms_main_file [of h engs "file"]) simp_all
  show "job_file_tables (snd (ota_main h' eng jobs)) = job_file_tables jobs"
    by (simp add: ota_main_def snd_try_bind_cases Let_def job_db.open_keeps_tables split: sum.split)
  show "registry_file_tables (snd (artifact_main from_conf h'' eng' registry)) = registry_file_tables registry"
    by (simp add: artifact_main_def snd_try_bind_cases Let_def registry_db.open_keeps_tables split: sum.split)
qed

text \<open>
  A start of the device service is idempotent: on a working database, starting again with the
  same configuration gives the same result (the listeners, the numbers it logs, or the error) and
  leaves the file as the first start left it.
\<close>

theorem start_is_idempotent:
  assumes "\<And>i. no_fault (engs i)" and "\<And>i. no_fault (engs' i)"
  shows "dms_main h engs' (snd (dms_main h engs file)) = dms_main h engs file"
proof (cases "dms_read_config h")
  case (Inr cfg)
  let ?s = "\<lambda>engs c. seed_from_env (\<lambda>i. engs (i + 2)) (sh_vars h ''FACTORY_MANIFEST'') c"
  let ?c = "snd (?s engs (open_conn (dms_file_tables file)))"
  have "idle ?c" using seed_from_env_keeps [of "open_conn (dms_file_tables file)"] by simp
  then have "open_conn (tabs ?c) = ?c" by (simp add: open_conn_def idle_def)
  moreover have "?s engs' ?c = ?s engs (open_conn (dms_file_tables file))"
    by (rule seed_from_env_again [OF assms])
  ultimately show ?thesis
    using Inr by (simp add: dms_main_healthy [OF assms(1)] dms_main_healthy [OF assms(2)] Let_def
        device_db.tables_file_of split: sum.split)
qed (simp add: dms_main_healthy [OF assms(1)] dms_main_healthy [OF assms(2)])

theorem start_is_idempotent_witness:
  "dms_main demo_start (\<lambda>_. reliable) (snd (dms_main demo_start (\<lambda>_. reliable) (dms_file_of enrolled_tables))) =
     dms_main demo_start (\<lambda>_. reliable) (dms_file_of enrolled_tables)"
  by (rule start_is_idempotent) simp_all

text \<open>
  The factory manifest is read as it was written, before anything else of the start can fail:
  for entries whose fields do not contain the separators, a start on an empty manifest with the
  rendered list stores exactly these entries, unprovisioned, also when the start then fails on a CA
  file that is no UTF-8, an address or the TLS configuration; otherwise it serves and reports their number.
\<close>

theorem manifest_round_trip:
  assumes "\<And>i. no_fault (engs i)" and "\<forall>e \<in> set es. clean_entry e" and "distinct (map me_serial es)"
    and "sh_vars h ''FACTORY_MANIFEST'' = Some (render_manifest es)" and "factory_manifest (dms_file_tables file) = []"
    and "dms_read_config h = Ok cfg"
  shows "dms_file_tables (snd (dms_main h engs file)) =
      (dms_file_tables file)\<lparr>factory_manifest := map manifest_row_of es\<rparr> \<and>
    (case dms_listeners h cfg of
       Inl f \<Rightarrow> fst (dms_main h engs file) = Inl f
     | Inr listeners \<Rightarrow> \<exists>run. fst (dms_main h engs file) = Ok run \<and> rn_listeners run = listeners \<and>
         rn_manifest_count run = of_nat (length es))"
  using seed_from_env_render [where engs = "\<lambda>i. engs (i + 2)" and c = "open_conn (dms_file_tables file)", OF assms(1-3)]
    assms(4-6)
  by (simp add: dms_main_healthy [OF assms(1)] dms_started_def Let_def device_db.tables_file_of split: sum.split)

definition demo_entries :: "manifest_entry list" where
  "demo_entries = [\<lparr>me_serial = ''SN1'', me_token = ''tok1'', me_model = ''Beta''\<rparr>,
     \<lparr>me_serial = ''SN2'', me_token = ''tok2'', me_model = ''Alpha Wheeled''\<rparr>]"

definition new_dms_file :: dms_file where
  "new_dms_file = \<lparr>df_factory_manifest = None, df_devices = None, df_pre_enrollment = None\<rparr>"

definition demo_bad_address :: "string startup_host" where
  "demo_bad_address = demo_start\<lparr>sh_vars := (sh_vars demo_start)(''FACTORY_MANIFEST'' \<mapsto> render_manifest demo_entries),
     sh_parse_addr := \<lambda>_. None\<rparr>"

theorem manifest_round_trip_witness:
  "fst (dms_main demo_bad_address (\<lambda>_. reliable) new_dms_file) = Err (StartAddr ''LISTEN_ADDR'') \<and>
   map fm_token (factory_manifest (dms_file_tables (snd (dms_main demo_bad_address (\<lambda>_. reliable) new_dms_file)))) =
     [''tok1'', ''tok2'']"
proof -
  have cfg: "dms_read_config demo_bad_address = Ok demo_config"
    using demo_read_config by (simp add: demo_bad_address_def dms_read_config_def read_pem_def env_or_def)
  have ls: "dms_listeners demo_bad_address demo_config = Err (StartAddr ''LISTEN_ADDR'')"
    by (simp add: dms_listeners_def demo_check_utf8 parse_addr_def demo_bad_address_def Let_def)
  show ?thesis
    using manifest_round_trip [of "\<lambda>_. reliable" demo_entries demo_bad_address new_dms_file demo_config] cfg ls
    by (simp add: demo_entries_def clean_entry_def is_space_def demo_bad_address_def new_dms_file_def
        dms_file_tables_def manifest_row_of_def)
qed

lemma dms_listeners_Inr:
  assumes "dms_listeners h cfg = Inr listeners"
  obtains fleet bootstrap provisioning where "listeners = [fleet, bootstrap, provisioning]"
    and "ln_services fleet = [DeviceManagementSvc (dms_management cfg), TelemetrySvc]"
    and "ln_services bootstrap = [DeviceManagementSvc (dms_management cfg)]"
    and "ln_services provisioning = [ProvisioningSvc (dms_provisioning cfg)]"
    and "map (stl_client_ca \<circ> ln_tls) listeners = [Some (cfg_fleet_ca_cert cfg), Some (cfg_device_ca_cert cfg), None]"
  using assms by (auto simp: dms_listeners_def Let_def dms_tls_def try_pure_eq_Inr intro!: that)

text \<open>The contents of the file that an environment variable names.\<close>

definition file_named :: "'addr startup_host \<Rightarrow> string \<Rightarrow> string option" where
  "file_named h var = Option.bind (sh_vars h var) (\<lambda>path. map_option contents (sh_fs h path))"

lemma read_pem_Inr: "read_pem h i var = Inr bytes \<Longrightarrow> file_named h var = Some bytes"
  by (auto simp: read_pem_def file_named_def fs_read_def try_pure_eq_Inr ok_or_Inr map_err_def split: option.splits sum.splits failure.splits)

lemma dms_read_config_Inr:
  assumes "dms_read_config h = Inr cfg"
  shows "parse_u32 (env_or (sh_vars h) ''CERT_VALIDITY_DAYS'' ''30'') = Some (cfg_validity_days cfg)"
    and "file_named h ''SERVER_CERT_PEM'' = Some (cfg_server_cert cfg)" and "file_named h ''SERVER_KEY_PEM'' = Some (cfg_server_key cfg)"
    and "file_named h ''FLEET_CA_CERT_PEM'' = Some (cfg_fleet_ca_cert cfg)" and "file_named h ''FLEET_CA_KEY_PEM'' = Some (cfg_fleet_ca_key cfg)"
    and "file_named h ''DEVICE_CA_CERT_PEM'' = Some (cfg_device_ca_cert cfg)" and "file_named h ''DEVICE_CA_KEY_PEM'' = Some (cfg_device_ca_key cfg)"
  using assms by (auto simp: dms_read_config_def try_pure_eq_Inr ok_or_Inr dest!: read_pem_Inr)

lemma dms_listeners_addresses:
  assumes "dms_listeners h cfg = Inr listeners"
  shows "map (Some \<circ> ln_addr) listeners =
    [sh_parse_addr h (env_or (sh_vars h) ''LISTEN_ADDR'' ''[::]:8443''), sh_parse_addr h (env_or (sh_vars h) ''BOOTSTRAP_ADDR'' ''[::]:8444''),
     sh_parse_addr h (env_or (sh_vars h) ''PROVISIONING_ADDR'' ''[::]:8445'')]"
  using assms by (auto simp: dms_listeners_def Let_def try_pure_eq_Inr parse_addr_def ok_or_Inr)

lemma dms_listeners_identity:
  "dms_listeners h cfg = Inr listeners \<Longrightarrow> port \<in> set listeners \<Longrightarrow>
     stl_cert (ln_tls port) = cfg_server_cert cfg \<and> stl_key (ln_tls port) = cfg_server_key cfg"
  by (auto simp: dms_listeners_def Let_def try_pure_eq_Inr dms_tls_def)

lemma provision_device_signs:
  "provision_device env srv req c = (Inr cert, c1) \<Longrightarrow>
     sign_csr (env_pki env) (env_clock env 1) (pr_csr_pem req) (device_ca_cert_pem srv) (device_ca_key_pem srv) 365 = Inr cert"
  by (auto simp: provision_device_def try_bind_eq_Inr map_err_def split: if_splits sum.splits failure.splits)

lemma rpc_bootstrap_enroll_signs:
  assumes "rpc_bootstrap_enroll env srv certs req c = (Inr r, c1)"
  shows "\<exists>peer. certs = Some peer \<and> verify_signed_by (env_pki env) peer (srv_device_ca_pem srv) = Ok () \<and>
    sign_csr (env_pki env) (env_clock env 0) (br_csr_pem req) (fleet_ca_cert_pem (srv_enrollment srv))
      (fleet_ca_key_pem (srv_enrollment srv)) (cert_validity_days (srv_enrollment srv)) = Ok (bs_operational_cert_pem r)"
proof -
  from assms obtain peer result where peer: "certs = Some peer"
    and run: "bootstrap_enroll env (srv_enrollment srv) (br_serial req) (br_csr_pem req) (br_firmware req) peer (srv_device_ca_pem srv) c =
      (Inr result, c1)" and r: "bs_operational_cert_pem r = er_operational_cert_pem result"
    by (auto simp: rpc_bootstrap_enroll_def try_bind_eq_Inr ok_or_Inr map_err_st_Inr)
  from run obtain serial pre c2 where chk: "enroll_check (env_pki env) (br_serial req) peer (srv_device_ca_pem srv) = Inr serial"
    and fin: "enroll_finish env (srv_enrollment srv) (br_csr_pem req) (br_firmware req) serial pre c2 = (Inr result, c1)"
    by (auto simp: bootstrap_enroll_def try_bind_eq_Inr)
  from fin have "sign_csr (env_pki env) (env_clock env 0) (br_csr_pem req) (fleet_ca_cert_pem (srv_enrollment srv))
      (fleet_ca_key_pem (srv_enrollment srv)) (cert_validity_days (srv_enrollment srv)) = Ok (bs_operational_cert_pem r)"
    by (rule enroll_finish_Inr) (simp add: r)
  with peer enroll_check_Inr(2) [OF chk] show ?thesis by blast
qed

text \<open>
  C31. The ports of a device service that has started form a chain of trust. It has three listeners, on the
  configured addresses and with the identity of the server files. Provisioning is open to everyone and
  signs with the key of the file \<open>DEVICE_CA_KEY_PEM\<close> under the certificate of \<open>DEVICE_CA_CERT_PEM\<close>. The second
  listener admits clients of that same certificate, and an enrollment succeeds only for a peer certificate that it
  signed, with an answer signed under \<open>FLEET_CA_CERT_PEM\<close> with \<open>FLEET_CA_KEY_PEM\<close>; the first listener, with
  telemetry, admits clients of that certificate. Both serve the whole device management, with the same state: the
  README says of the second port (8444) \<open>Bootstrap enrollment only\<close>.
\<close>

theorem each_port_trusts_its_ca:
  assumes "dms_main h engs file = (Inr run, file')"
  shows "\<exists>server_cert server_key fleet_ca fleet_key device_ca device_key days fleet bootstrap provisioning srv psrv.
    file_named h ''SERVER_CERT_PEM'' = Some server_cert \<and> file_named h ''SERVER_KEY_PEM'' = Some server_key \<and>
    file_named h ''FLEET_CA_CERT_PEM'' = Some fleet_ca \<and> file_named h ''FLEET_CA_KEY_PEM'' = Some fleet_key \<and>
    file_named h ''DEVICE_CA_CERT_PEM'' = Some device_ca \<and> file_named h ''DEVICE_CA_KEY_PEM'' = Some device_key \<and>
    parse_u32 (env_or (sh_vars h) ''CERT_VALIDITY_DAYS'' ''30'') = Some days \<and>
    rn_listeners run = [fleet, bootstrap, provisioning] \<and>
    sh_parse_addr h (env_or (sh_vars h) ''LISTEN_ADDR'' ''[::]:8443'') = Some (ln_addr fleet) \<and>
    sh_parse_addr h (env_or (sh_vars h) ''BOOTSTRAP_ADDR'' ''[::]:8444'') = Some (ln_addr bootstrap) \<and>
    sh_parse_addr h (env_or (sh_vars h) ''PROVISIONING_ADDR'' ''[::]:8445'') = Some (ln_addr provisioning) \<and>
    (\<forall>port \<in> {fleet, bootstrap, provisioning}. stl_cert (ln_tls port) = server_cert \<and> stl_key (ln_tls port) = server_key) \<and>
    stl_client_ca (ln_tls fleet) = Some fleet_ca \<and> ln_services fleet = [DeviceManagementSvc srv, TelemetrySvc] \<and>
    stl_client_ca (ln_tls bootstrap) = Some device_ca \<and> ln_services bootstrap = [DeviceManagementSvc srv] \<and>
    stl_client_ca (ln_tls provisioning) = None \<and> ln_services provisioning = [ProvisioningSvc psrv] \<and>
    (\<forall>env req c cert c1. provision_device env psrv req c = (Ok cert, c1) \<longrightarrow>
       sign_csr (env_pki env) (env_clock env 1) (pr_csr_pem req) device_ca device_key 365 = Ok cert) \<and>
    (\<forall>env certs req c r c1. rpc_bootstrap_enroll env srv certs req c = (Ok r, c1) \<longrightarrow>
       (\<exists>peer. certs = Some peer \<and> verify_signed_by (env_pki env) peer device_ca = Ok ()) \<and>
       sign_csr (env_pki env) (env_clock env 0) (br_csr_pem req) fleet_ca fleet_key days = Ok (bs_operational_cert_pem r))"
proof -
  from assms obtain cfg where cfg: "dms_read_config h = Inr cfg" and ls: "dms_listeners h cfg = Inr (rn_listeners run)"
    by (rule dms_main_Inr)
  let ?srv = "dms_management cfg" and ?psrv = "dms_provisioning cfg"
  have prov: "\<forall>env req c cert c1. provision_device env ?psrv req c = (Ok cert, c1) \<longrightarrow>
      sign_csr (env_pki env) (env_clock env 1) (pr_csr_pem req) (cfg_device_ca_cert cfg) (cfg_device_ca_key cfg) 365 = Ok cert"
    by (auto dest!: provision_device_signs simp: dms_provisioning_def)
  have enr: "\<forall>env certs req c r c1. rpc_bootstrap_enroll env ?srv certs req c = (Ok r, c1) \<longrightarrow>
      (\<exists>peer. certs = Some peer \<and> verify_signed_by (env_pki env) peer (cfg_device_ca_cert cfg) = Ok ()) \<and>
      sign_csr (env_pki env) (env_clock env 0) (br_csr_pem req) (cfg_fleet_ca_cert cfg) (cfg_fleet_ca_key cfg)
        (cfg_validity_days cfg) = Ok (bs_operational_cert_pem r)"
    by (auto dest!: rpc_bootstrap_enroll_signs simp: dms_management_def)
  from ls obtain fleet bootstrap provisioning where l: "rn_listeners run = [fleet, bootstrap, provisioning]"
    "ln_services fleet = [DeviceManagementSvc ?srv, TelemetrySvc]" "ln_services bootstrap = [DeviceManagementSvc ?srv]"
    "ln_services provisioning = [ProvisioningSvc ?psrv]"
    "map (stl_client_ca \<circ> ln_tls) (rn_listeners run) = [Some (cfg_fleet_ca_cert cfg), Some (cfg_device_ca_cert cfg), None]"
    by (rule dms_listeners_Inr)
  have ids: "\<forall>port \<in> {fleet, bootstrap, provisioning}.
      stl_cert (ln_tls port) = cfg_server_cert cfg \<and> stl_key (ln_tls port) = cfg_server_key cfg"
    using dms_listeners_identity [OF ls] l(1) by simp
  show ?thesis
    by (rule exI [of _ "cfg_server_cert cfg"], rule exI [of _ "cfg_server_key cfg"], rule exI [of _ "cfg_fleet_ca_cert cfg"],
        rule exI [of _ "cfg_fleet_ca_key cfg"], rule exI [of _ "cfg_device_ca_cert cfg"], rule exI [of _ "cfg_device_ca_key cfg"],
        rule exI [of _ "cfg_validity_days cfg"], rule exI [of _ fleet], rule exI [of _ bootstrap], rule exI [of _ provisioning],
        rule exI [of _ ?srv], rule exI [of _ ?psrv], intro conjI prov enr ids l(1-4) dms_read_config_Inr [OF cfg])
      (use dms_listeners_addresses [OF ls] l in simp_all)
qed

lemma demo_listeners: "\<exists>listeners. dms_listeners demo_start demo_config = Ok listeners"
  by (simp add: dms_listeners_def demo_check_utf8 parse_addr_def demo_start_def Let_def)

lemma demo_starts: "\<exists>run file'. dms_main demo_start (\<lambda>_. reliable) file = (Inr run, file')"
  using demo_listeners by (auto simp: dms_main_healthy demo_read_config Let_def)

theorem each_port_trusts_its_ca_witness:
  "\<exists>run file'. dms_main demo_start (\<lambda>_. reliable) new_dms_file = (Inr run, file') \<and>
     map (stl_client_ca \<circ> ln_tls) (rn_listeners run) = [Some ''FLEET'', Some ''DEVICE'', None] \<and>
     map ln_addr (rn_listeners run) = [''[::]:8443'', ''[::]:8444'', ''[::]:8445'']"
proof -
  obtain run file' where r: "dms_main demo_start (\<lambda>_. reliable) new_dms_file = (Inr run, file')"
    using demo_starts by blast
  have files: "file_named demo_start ''FLEET_CA_CERT_PEM'' = Some ''FLEET''" "file_named demo_start ''DEVICE_CA_CERT_PEM'' = Some ''DEVICE''"
    by (simp_all add: file_named_def demo_start_def)
  have addrs: "sh_parse_addr demo_start = Some" "env_or (sh_vars demo_start) ''LISTEN_ADDR'' a = a"
    "env_or (sh_vars demo_start) ''BOOTSTRAP_ADDR'' a = a" "env_or (sh_vars demo_start) ''PROVISIONING_ADDR'' a = a" for a
    by (simp_all add: demo_start_def env_or_def)
  from each_port_trusts_its_ca [OF r] have
    "map (stl_client_ca \<circ> ln_tls) (rn_listeners run) = [Some ''FLEET'', Some ''DEVICE'', None] \<and>
     map ln_addr (rn_listeners run) = [''[::]:8443'', ''[::]:8444'', ''[::]:8445'']"
    unfolding files addrs by (elim exE conjE) simp
  with r show ?thesis by (intro exI [of _ run] exI [of _ file'] conjI) simp_all
qed

text \<open>
  A client that the second port admits, with nothing but a Device CA certificate, renews the Fleet CA
  certificate of any active device: the handler of that port signs the CSR it is given.
\<close>

theorem bootstrap_port_renews_fleet_certs:
  assumes "dms_main h engs file = (Inr run, file')" and "dms_read_config h = Ok cfg"
    and "no_fault (env_engine env 0)" and "row_with dr_id did (devices (tabs c)) = Some d" and "dr_status d = ''active''"
    and "sign_csr (env_pki env) (env_clock env 0) csr (cfg_fleet_ca_cert cfg) (cfg_fleet_ca_key cfg) (cfg_validity_days cfg)
      = Ok cert"
  shows "\<exists>port srv t. port \<in> set (rn_listeners run) \<and> stl_client_ca (ln_tls port) = Some (cfg_device_ca_cert cfg) \<and>
    DeviceManagementSvc srv \<in> set (ln_services port) \<and> rpc_renew_cert env srv did csr c = (Ok (cert, Some t), c)"
proof -
  from assms(1) obtain cfg' where cfg': "dms_read_config h = Inr cfg'" and ls: "dms_listeners h cfg' = Inr (rn_listeners run)"
    by (rule dms_main_Inr)
  have eq: "cfg' = cfg" using cfg' assms(2) by simp
  have renew: "\<exists>t. rpc_renew_cert env (dms_management cfg) did csr c = (Ok (cert, Some t), c)"
    using assms(3-6) by (simp add: rpc_renew_cert_def renew_cert_def get_device_healthy dms_management_def)
  from ls [unfolded eq] show ?thesis
    by (rule dms_listeners_Inr) (use renew in auto)
qed

section \<open>A restart of the OTA service\<close>

lemma ota_main_Inr:
  "ota_main h eng file = (Inr run, file') \<Longrightarrow>
     orn_state run = \<lparr>ot_conn = open_conn (job_file_tables file), ot_senders = Map.empty\<rparr>"
  by (auto simp: ota_main_def dispatcher_new_def try_bind_eq_Inr Let_def map_err_st_Inr dest!: job_db.open_shows_tables)

text \<open>
  C30. Stopping and starting the OTA service loses updates that were dispatched but not yet delivered:
  a job that was active when the service stopped is active again after the start, yet whatever happens
  then (robots reconnecting included, under any faults) no queue ever holds a command of it, and until
  someone acknowledges the job every new dispatch to the device is refused.
\<close>

theorem ota_restart_loses_queued_updates:
  assumes "broadcast_laws bc queues cap" and "has_active jid did (committed (ot_conn st))"
    and "ota_main h eng (job_file_of (committed (ot_conn st))) = (Inr run, file')"
    and "\<forall>ev \<in> set evs. \<not> acks jid ev" and "no_fault eng'" and "du_device_id req = did"
  shows "(\<forall>d r xs. backlog queues (ot_senders (fold (ota_step bc) evs (orn_state run))) d r = Some xs \<longrightarrow>
      jid \<notin> uc_update_job_id ` set xs) \<and>
    has_active jid did (tabs (ot_conn (fold (ota_step bc) evs (orn_state run)))) \<and>
    fst (dispatch_update bc eng' jid' now req (fold (ota_step bc) evs (orn_state run))) =
      Err (status_of AlreadyExists ''device already has an active job'')"
proof -
  let ?t = "committed (ot_conn st)"
  have run: "orn_state run = \<lparr>ot_conn = open_conn ?t, ot_senders = Map.empty\<rparr>"
    using ota_main_Inr [OF assms(3)] by (simp add: job_db.tables_file_of)
  have "jid \<in> jb_id ` set (update_jobs ?t)" using assms(2) by (auto simp: has_active_def)
  then have "ota_inv (\<lambda>t. jid \<in> jb_id ` set (update_jobs t)) (\<lambda>_ _ cmd. uc_update_job_id cmd \<noteq> jid) queues cap
      (fold (ota_step bc) evs (orn_state run))"
    unfolding run by (intro unsent.ota_inv_fold [OF assms(1)] unsent.ota_inv_started)
  then have "jid \<notin> uc_update_job_id ` set xs"
    if "backlog queues (ot_senders (fold (ota_step bc) evs (orn_state run))) d r = Some xs" for d r xs
    using that unfolding ota_inv_def by blast
  moreover have "conn_all (has_active jid did) (ot_conn (fold (ota_step bc) evs (orn_state run)))"
    by (rule has_active_run [OF _ assms(4)]) (simp add: run assms(2) conn_all_def)
  then have act: "has_active jid did (tabs (ot_conn (fold (ota_step bc) evs (orn_state run))))" by (rule conn_all_tabs)
  then have "\<not> no_active (du_device_id req) (tabs (ot_conn (fold (ota_step bc) evs (orn_state run))))"
    using has_active_not_no_active assms(6) by blast
  ultimately show ?thesis using act by (simp add: dispatch_update_pending [OF assms(5)])
qed

text \<open>The dispatch reached the connected robot \<open>D1\<close>, which had not read its queue when the service stopped.\<close>

definition demo_queued :: "list_channel ota_state" where
  "demo_queued = snd (dispatch_update list_broadcast reliable ''J1'' ''t1'' demo_dispatch watched)"

lemma demo_queued_active: "has_active ''J1'' ''D1'' (committed (ot_conn demo_queued))"
proof -
  have "no_active (du_device_id demo_dispatch) (tabs (ot_conn watched))"
    and "''J1'' \<notin> jb_id ` set (update_jobs (tabs (ot_conn watched)))"
    by (simp_all add: watched_eq no_active_def empty_jobs_def)
  then have "ot_conn demo_queued = ot_conn (add_job (dispatched_row ''J1'' ''t1'' demo_dispatch) watched)"
    using create_job_healthy [of reliable "''J1''" "''t1''" "dispatch_new_job demo_dispatch" "ot_conn watched"]
    by (simp add: demo_queued_def dispatch_update_conn add_job_def dispatch_new_job_def)
  then show ?thesis
    by (simp add: add_job_def watched_eq committed_def open_conn_def empty_jobs_def has_active_def active_for_def
        active_status_def new_job_row_def dispatch_new_job_def demo_dispatch_def)
qed

theorem ota_restart_loses_queued_updates_witness:
  "\<exists>run file'. ota_main demo_start reliable (job_file_of (committed (ot_conn demo_queued))) = (Inr run, file') \<and>
     fst (dispatch_update list_broadcast reliable ''J2'' ''t2'' demo_dispatch
        (fold (ota_step list_broadcast) [Watch ''D1''] (orn_state run))) =
      Err (status_of AlreadyExists ''device already has an active job'')"
proof -
  obtain c f1 where "job_store_new reliable (job_file_of (committed (ot_conn demo_queued))) = (Inr c, f1)"
    using job_db.open_succeeds [of reliable "job_file_of (committed (ot_conn demo_queued))"]
    by (metis reliable_simps(3) prod.collapse)
  then obtain run :: "(string, list_channel) ota_running" and file' where
    r: "ota_main demo_start reliable (job_file_of (committed (ot_conn demo_queued))) = (Inr run, file')"
    by (simp add: ota_main_def Let_def parse_addr_def read_pem_string_def demo_start_def env_or_def fs_read_to_string_def fs_read_def)
  show ?thesis
    using ota_restart_loses_queued_updates [OF list_broadcast_laws demo_queued_active r, of "[Watch ''D1'']" reliable
        demo_dispatch "''J2''" "''t2''"] r
    by (auto simp: demo_dispatch_def)
qed

end
