(* ===== verification/Device_Lifecycle.thy ===== *)
theory Device_Lifecycle
  imports Device_System
begin

text \<open>
  The life of a robot as the operator sees it, from the factory manifest to the fleet: an abstract
  machine that knows one stage per serial, and the proof that the running service implements it. The
  stage of a serial is that of the database file: it is what a restart keeps. While the connection is
  inside a transaction that a failed \<open>COMMIT\<close> left open, handlers answer from tables that the file
  does not have; the machine sees of it that such an answer moves no serial.
\<close>

section \<open>Stages\<close>

datatype stage = Unlisted | Listed | Ready | Claimed | InFleet

fun stage_rank :: "stage \<Rightarrow> nat" where
  "stage_rank Unlisted = 0"
| "stage_rank Listed = 1"
| "stage_rank Ready = 2"
| "stage_rank Claimed = 3"
| "stage_rank InFleet = 4"

lemma stage_rank_inj: "stage_rank a = stage_rank b \<Longrightarrow> a = b"
  by (cases a; cases b) simp_all

instantiation stage :: linorder
begin

definition less_eq_stage :: "stage \<Rightarrow> stage \<Rightarrow> bool" where
  "less_eq_stage a b \<longleftrightarrow> stage_rank a \<le> stage_rank b"

definition less_stage :: "stage \<Rightarrow> stage \<Rightarrow> bool" where
  "less_stage a b \<longleftrightarrow> stage_rank a < stage_rank b"

instance
  by standard (auto simp: less_eq_stage_def less_stage_def intro: stage_rank_inj)

end

lemmas stage_order = less_eq_stage_def less_stage_def max_def

text \<open>
  The stage of a serial in the database: it has a device, an open or spent pre-enrollment, only a
  manifest entry, or nothing.
\<close>

definition stage_of :: "dms_tables \<Rightarrow> string \<Rightarrow> stage" where
  "stage_of t serial =
     (if serial \<in> dr_serial ` set (devices t) then InFleet
      else case row_with pe_serial serial (pre_enrollment t) of
          Some r \<Rightarrow> if pe_claimed r = 0 then Ready else Claimed
        | None \<Rightarrow> if serial \<in> fm_serial ` set (factory_manifest t) then Listed else Unlisted)"

section \<open>The abstract machine\<close>

text \<open>
  A step with what the service logs of it. A manifest entry is claimed once the serial is listed; an
  enrollment ends at a serial that was claimed, or that \<open>register_serial\<close> opened again meanwhile, and
  the serial is then in the fleet, unless the enrollment was answered inside an open transaction; a
  registration may fail.
\<close>

inductive fleet_step :: "dms_event list \<Rightarrow> (string \<Rightarrow> stage) \<Rightarrow> (string \<Rightarrow> stage) \<Rightarrow> bool" where
  fleet_idle: "fleet_step [] f f"
| fleet_list: "f serial = Unlisted \<Longrightarrow> fleet_step [] f (f(serial := Listed))"
| fleet_provision: "Listed \<le> f serial \<Longrightarrow> fleet_step [ManifestClaimed serial token] f (f(serial := max (f serial) Ready))"
| fleet_claim: "f serial = Ready \<Longrightarrow> fleet_step [] f (f(serial := Claimed))"
| fleet_enroll: "f serial = Ready \<or> f serial = Claimed \<Longrightarrow> fleet_step [Enrolled serial did] f (f(serial := InFleet))"
| fleet_unsaved: "f serial = Ready \<or> f serial = Claimed \<Longrightarrow> fleet_step [Unsaved serial did] f f"
| fleet_register: "f serial \<noteq> InFleet \<Longrightarrow> fleet_step [Registered serial] f (f(serial := Ready))"
| fleet_register_idle: "fleet_step [Registered serial] f f"

inductive_simps fleet_step_quiet: "fleet_step [] f g"

text \<open>Stages only advance, but for the serials that were registered; a device stays in the fleet.\<close>

lemma fleet_step_advances:
  "fleet_step evs f g \<Longrightarrow> Registered serial \<notin> set evs \<Longrightarrow> f serial \<le> g serial"
  by (induction rule: fleet_step.induct) (auto simp: stage_order)

lemma fleet_step_stays: "fleet_step evs f g \<Longrightarrow> f serial = InFleet \<Longrightarrow> g serial = InFleet"
  by (induction rule: fleet_step.induct) (auto simp: stage_order)

section \<open>Every table operation is a step of the machine\<close>

lemma stage_of_cong:
  assumes "dr_serial ` set (devices t') = dr_serial ` set (devices t)" and "pre_enrollment t' = pre_enrollment t"
    and "fm_serial ` set (factory_manifest t') = fm_serial ` set (factory_manifest t)"
  shows "stage_of t' = stage_of t"
  using assms by (simp add: fun_eq_iff stage_of_def)

lemma stage_claim_serial:
  assumes "row_with pe_serial serial (pre_enrollment t) = Some row" and "pe_claimed row = 0"
  shows "stage_of (claim_serial serial t) = (stage_of t)(serial := max (stage_of t serial) Claimed) \<and>
    (stage_of t serial = Ready \<or> stage_of t serial = InFleet)"
  using assms
  by (auto simp: fun_eq_iff stage_of_def claim_serial_def row_with_set_rows_key stage_order split: option.splits)

lemma stage_provision_serial:
  assumes "row_with fm_serial serial (factory_manifest t) = Some row"
  shows "stage_of (provision_serial now serial m t) = (stage_of t)(serial := max (stage_of t serial) Ready) \<and>
    Listed \<le> stage_of t serial"
proof -
  let ?t = "factory_manifest_update (set_rows (\<lambda>r. fm_serial r = serial) (\<lambda>r. r\<lparr>fm_provisioned_at := Some now\<rparr>)) t"
  have listed: "serial \<in> fm_serial ` set (factory_manifest t)" using row_with_SomeD [OF assms] by auto
  have t: "stage_of ?t = stage_of t" by (intro stage_of_cong) (simp_all add: image_key_set_rows)
  show ?thesis
  proof (cases "row_with pe_serial serial (pre_enrollment t)")
    case None
    then have "provision_serial now serial m t =
        ?t\<lparr>pre_enrollment := pre_enrollment t @ [\<lparr>pe_serial = serial, pe_model = m, pe_claimed = 0\<rparr>]\<rparr>"
      by (simp add: provision_serial_def insert_pre_def row_with_None)
    with None listed show ?thesis
      by (auto simp: fun_eq_iff stage_of_def row_with_append image_key_set_rows stage_order split: option.splits)
  next
    case (Some r)
    then have "serial \<in> pe_serial ` set (pre_enrollment t)" using row_with_SomeD [OF Some] by auto
    then have "provision_serial now serial m t = ?t" by (simp add: provision_serial_def insert_pre_def)
    with Some t listed show ?thesis by (auto simp: fun_eq_iff stage_of_def [of t] stage_order)
  qed
qed

lemma stage_upsert_serial:
  "stage_of (snd (upsert_serial serial m t)) =
     (if stage_of t serial = InFleet then stage_of t else (stage_of t)(serial := Ready))"
  by (auto simp: fun_eq_iff stage_of_def upsert_serial_def row_with_append row_with_set_rows_key split: option.splits)

lemma stage_insert_manifest:
  "stage_of (snd (insert_manifest row t)) =
     (if stage_of t (fm_serial row) = Unlisted then (stage_of t)(fm_serial row := Listed) else stage_of t)"
  by (auto simp: fun_eq_iff stage_of_def insert_manifest_def split: option.splits)

lemma stage_add_device:
  "stage_of (t\<lparr>devices := devices t @ [d]\<rparr>) = (stage_of t)(dr_serial d := InFleet)"
  by (auto simp: fun_eq_iff stage_of_def split: option.splits)

lemma stage_update_devices:
  "(\<And>r. dr_serial (f r) = dr_serial r) \<Longrightarrow> stage_of (snd (update_where devices_update devices p f t)) = stage_of t"
  by (intro stage_of_cong) (simp_all add: update_where_def image_key_set_rows)

lemma plain_stages:
  assumes "plain_op op"
  shows "fleet_step [] (stage_of (committed c)) (stage_of (committed (dev_step eng op c)))"
proof (cases "idle c")
  case False
  then show ?thesis by (simp add: dev_step_open fleet_idle)
next
  case True
  let ?Q = "\<lambda>t t'. fleet_step [] (stage_of t) (stage_of t')"
  have upd: "?Q t (snd (update_where devices_update devices p f t))"
    if "\<And>r. dr_serial (f r) = dr_serial r" for p f t
    using that by (simp add: stage_update_devices fleet_idle)
  have ins: "?Q t (snd (insert_manifest row t))" for row t
    by (simp add: stage_insert_manifest fleet_idle fleet_list)
  have "?Q (tabs c) (tabs (dev_step eng op c))"
    using assms True
    by (cases op)
      (auto simp: update_status_snd touch_last_seen_snd seed_manifest_def snd_db_lock
        intro!: single_statement [where Q = ?Q, THEN conjunct2] upd ins fleet_idle)
  then show ?thesis using True plain_step [OF assms True, of eng] by simp
qed

section \<open>The service implements the machine\<close>

abbreviation stages :: "dms_sys \<Rightarrow> string \<Rightarrow> stage" where
  "stages s \<equiv> stage_of (committed (sys_conn s))"

lemma enroll_done_stages:
  assumes "sys_inv s" and "sys_tasks s i = Some tk"
    and "enroll_finish env svc (tk_csr tk) (tk_firmware tk) (tk_serial tk) (tk_pre tk) (sys_conn s) = (Inr r, c')"
  shows "fleet_step [enroll_event (sys_conn s) (tk_serial tk) did] (stages s) (stage_of (committed c'))"
proof -
  let ?c = "sys_conn s"
  obtain signed where cr: "create_device (env_engine env 1) (env_uuid env) (env_clock env 2)
        \<lparr>nd_serial = tk_serial tk, nd_model = per_model (tk_pre tk), nd_firmware = tk_firmware tk, nd_cert = signed\<rparr>
        ?c = (Inr (new_record (env_uuid env) (env_clock env 2)
        \<lparr>nd_serial = tk_serial tk, nd_model = per_model (tk_pre tk), nd_firmware = tk_firmware tk, nd_cert = signed\<rparr>), c')"
    using assms(3) by (auto elim!: enroll_finish_Inr)
  note c' = create_device_Inr(4) [OF cr]
  have "(tk_serial tk, per_model (tk_pre tk)) \<in> pre_pairs (committed ?c)"
    using assms(1,2) by (simp add: sys_inv_def file_inv_def)
  then have listed: "tk_serial tk \<in> pe_serial ` set (pre_enrollment (committed ?c))" by (auto simp: pre_pairs_def)
  have "tk_serial tk \<notin> dr_serial ` set (devices (tabs ?c))" using create_device_Inr(3) [OF cr] by simp
  moreover have "dr_serial ` set (devices (committed ?c)) \<subseteq> dr_serial ` set (devices (tabs ?c))"
    using assms(1) sys_inv_devices by blast
  ultimately have "tk_serial tk \<notin> dr_serial ` set (devices (committed ?c))" by blast
  then have st: "stages s (tk_serial tk) = Ready \<or> stages s (tk_serial tk) = Claimed"
    using listed by (auto simp: stage_of_def dest!: row_with_ex split: if_splits)
  show ?thesis
  proof (cases "idle ?c")
    case True
    then have "stage_of (committed c') = (stages s)(tk_serial tk := InFleet)"
      by (simp add: c' idle_def committed_def stage_add_device new_record_def)
    with st True show ?thesis by (simp add: enroll_event_def fleet_enroll)
  next
    case False
    then have "committed c' = committed ?c" by (auto simp: c' committed_def idle_def)
    with st False show ?thesis by (simp add: enroll_event_def fleet_unsaved)
  qed
qed

lemma registered_stages:
  assumes "register_serial eng serial m c = (r, c')"
  shows "fleet_step [Registered serial] (stage_of (committed c)) (stage_of (committed c'))"
proof (cases "\<not> idle c \<or> lock_poisoned eng")
  case True
  then have "committed c' = committed c"
    using assms dev_step_open [of c eng "RegisterSerial serial m"] by (auto simp: register_serial_def db_lock_def with_lock_def)
  then show ?thesis by (simp add: fleet_register_idle)
next
  case False
  then have "idle c" and "c' = snd (sql eng 0 (upsert_serial serial m) c)"
    using assms by (auto simp: register_serial_def db_lock_def with_lock_def map_err_st_def split: prod.splits)
  then have "idle c'" and "tabs c' = tabs c \<or> tabs c' = snd (upsert_serial serial m (tabs c))"
    using sql_on_idle [of c eng 0 "upsert_serial serial m"] by (auto simp: idle_def)
  then show ?thesis
    using \<open>idle c\<close> by (auto simp: stage_upsert_serial fleet_register fleet_register_idle)
qed

lemma dms_trans_stages:
  "dms_trans svc ca s s' \<Longrightarrow> sys_inv s \<Longrightarrow>
     \<exists>evs. sys_log s' = sys_log s @ evs \<and> fleet_step evs (stages s) (stages s')"
proof (induction rule: dms_trans.induct)
  case (enroll_claim pki sreq certs serial eng s pre c' i csr fw)
  from enroll_claim(2) obtain row where row: "row_with pe_serial serial (pre_enrollment (tabs (sys_conn s))) = Some row"
    "pe_claimed row = 0" and c': "c' = (sys_conn s)\<lparr>tabs := claim_serial serial (tabs (sys_conn s))\<rparr>"
    and idle: "idle (sys_conn s)" by (rule lookup_and_claim_Inr)
  then have com: "committed c' = claim_serial serial (tabs (sys_conn s))" by (simp add: idle_def committed_def)
  have "fleet_step [] (stages s) (stage_of (committed c'))"
    using stage_claim_serial [OF row] fleet_claim [of "stages s" serial] fleet_idle [of "stages s"] idle
    by (auto simp: com stage_order fun_upd_idem)
  then show ?case by simp
next
  case (enroll_refused eng serial s f c')
  then show ?case using lookup_and_claim_Inl_committed by (simp add: fleet_idle)
next
  case (enroll_done s i tk env r c')
  then show ?case using enroll_done_stages by simp
next
  case (enroll_failed s i tk env f c')
  then have "committed c' = committed (sys_conn s)" using enroll_finish_Inl by fastforce
  then show ?case by (simp add: fleet_idle)
next
  case (manifest_claimed eng now serial token s m c')
  then obtain row where row: "row_with fm_serial serial (factory_manifest (tabs (sys_conn s))) = Some row"
    and c': "c' = (sys_conn s)\<lparr>tabs := provision_serial now serial (fm_model row) (tabs (sys_conn s))\<rparr>"
    and idle: "idle (sys_conn s)"
    using claim_manifest_entry_Inr by blast
  note st = stage_provision_serial [OF row, of now "fm_model row"]
  have "stage_of (committed c') = (stages s)(serial := max (stages s serial) Ready)"
    using st idle by (simp add: c' idle_def committed_def)
  then have "fleet_step [ManifestClaimed serial token] (stages s) (stage_of (committed c'))"
    using fleet_provision [of "stages s" serial token] st idle by simp
  then show ?case by simp
next
  case (manifest_refused eng now serial token s f c')
  then show ?case using claim_manifest_entry_Inl_committed by (simp add: fleet_idle)
next
  case (registered eng serial m s r c')
  then show ?case using registered_stages by simp
next
  case (plain op s eng)
  then show ?case using plain_stages [of op "sys_conn s" eng] by simp
qed (simp_all add: fleet_idle)

text \<open>Over whole runs.\<close>

lemma run_stages:
  assumes "(dms_trans svc ca)\<^sup>*\<^sup>* s s'" and "sys_inv s"
  shows "sys_inv s' \<and> (\<exists>evs. sys_log s' = sys_log s @ evs \<and>
    (Registered serial \<notin> set evs \<longrightarrow> stages s serial \<le> stages s' serial) \<and>
    (stages s serial = InFleet \<longrightarrow> stages s' serial = InFleet))"
  using assms
proof (induction rule: rtranclp_induct)
  case (step s1 s2)
  then obtain evs where inv: "sys_inv s1" and 1: "sys_log s1 = sys_log s @ evs"
    "Registered serial \<notin> set evs \<longrightarrow> stages s serial \<le> stages s1 serial"
    "stages s serial = InFleet \<longrightarrow> stages s1 serial = InFleet" by auto
  obtain evs' where 2: "sys_log s2 = sys_log s1 @ evs'" "fleet_step evs' (stages s1) (stages s2)"
    using dms_trans_stages [OF step(2) inv] by blast
  have "Registered serial \<notin> set (evs @ evs') \<longrightarrow> stages s serial \<le> stages s2 serial"
    using 1(2) fleet_step_advances [OF 2(2), of serial] by auto
  moreover have "stages s serial = InFleet \<longrightarrow> stages s2 serial = InFleet"
    using 1(3) fleet_step_stays [OF 2(2)] by blast
  ultimately show ?case using 1(1) 2(1) dms_trans_inv [OF step(2) inv] by auto
qed simp

section \<open>Properties\<close>

text \<open>
  C3. The device service implements the life of its robots, as the database file records it: in every
  reachable state each of its steps, in any interleaving and under any faults of the engine, a \<open>COMMIT\<close>
  that fails and leaves its transaction open included, is one step of the machine on stages, with the
  events it logs. In particular no step moves two serials, a serial is enrolled only from an open or
  spent pre-enrollment, a token is claimed only for a listed serial, and an enrollment answered inside
  an open transaction moves nothing.
\<close>

theorem service_implements_lifecycle:
  assumes "dms_reachable svc ca s" and "dms_trans svc ca s s'"
  shows "\<exists>evs. sys_log s' = sys_log s @ evs \<and>
    fleet_step evs (stage_of (committed (sys_conn s))) (stage_of (committed (sys_conn s')))"
  by (rule dms_trans_stages [OF assms(2) reachable_inv [OF assms(1)]])

definition demo_seeded :: dms_sys where
  "demo_seeded = init_sys\<lparr>sys_conn := dev_step reliable (SeedManifest ''SN1'' ''Beta'' ''tok1'') (sys_conn init_sys)\<rparr>"

lemma demo_seeds: "dms_trans svc ca init_sys demo_seeded"
  unfolding demo_seeded_def by (rule dms_trans.plain) simp

theorem service_implements_lifecycle_witness:
  "\<exists>evs. sys_log demo_seeded = sys_log init_sys @ evs \<and>
     fleet_step evs (stage_of (committed (sys_conn init_sys))) (stage_of (committed (sys_conn demo_seeded)))"
  by (rule service_implements_lifecycle
      [of "\<lparr>fleet_ca_cert_pem = ''FLEET'', fleet_ca_key_pem = ''FLEETKEY'', cert_validity_days = 365\<rparr>" "''DEVICE''",
       OF dms_reachable.start demo_seeds])

text \<open>
  C4. A robot's way into the fleet has no step back in the database file: along every run of the
  service, under any faults of the engine and with restarts, the stage of a serial only grows, unless
  \<open>register_serial\<close> is called for it, and a serial that has a device in the file keeps it through every
  step, registrations included.
\<close>

theorem stages_only_advance:
  assumes "dms_reachable svc ca s" and "(dms_trans svc ca)\<^sup>*\<^sup>* s s'"
  shows "\<exists>evs. sys_log s' = sys_log s @ evs \<and>
    (Registered serial \<notin> set evs \<longrightarrow>
       stage_of (committed (sys_conn s)) serial \<le> stage_of (committed (sys_conn s')) serial) \<and>
    (stage_of (committed (sys_conn s)) serial = InFleet \<longrightarrow> stage_of (committed (sys_conn s')) serial = InFleet)"
  using run_stages [OF assms(2) reachable_inv [OF assms(1)], of serial] by blast

theorem stages_only_advance_witness:
  "\<exists>evs. sys_log demo_seeded = sys_log init_sys @ evs \<and> Registered ''SN1'' \<notin> set evs \<and>
     stage_of (committed (sys_conn init_sys)) ''SN1'' \<le> stage_of (committed (sys_conn demo_seeded)) ''SN1''"
proof -
  have "sys_log demo_seeded = []" by (simp add: demo_seeded_def init_sys_def)
  then show ?thesis
    using stages_only_advance
      [of "\<lparr>fleet_ca_cert_pem = ''FLEET'', fleet_ca_key_pem = ''FLEETKEY'', cert_validity_days = 365\<rparr>" "''DEVICE''",
       OF dms_reachable.start r_into_rtranclp [of "dms_trans _ _", OF demo_seeds], of "''SN1''"]
    by simp
qed

end
