(* ===== verification/Device_Trait.thy ===== *)
theory Device_Trait
  imports Device_Server
begin

text \<open>
  The trait \<open>DeviceStore\<close> (\<^verbatim>\<open>device-management-service/src/store/mod.rs\<close>) and the services that are
  generic in it. \<open>EnrollmentService\<close>, \<open>ProvisioningServer\<close>, \<open>DeviceManagementServer\<close> and
  \<open>HeartbeatHandler\<close> are written once for every implementation of the trait; the other theories use
  them on \<open>SqliteDeviceStore\<close>, and the lemmas \<open>on_sqlite\<close> say that this is the instance of the generic
  services. A store is a record with one field per method; the first argument of a method is the
  number of the call within its request, so that a store may answer every call from its own
  environment (engine, clock, fresh id).
\<close>

section \<open>The trait\<close>

record 's device_store =
  ds_create_device :: "nat \<Rightarrow> new_device \<Rightarrow> 's \<Rightarrow> (dms_error, device_record) result \<times> 's"
  ds_get_device :: "nat \<Rightarrow> string \<Rightarrow> 's \<Rightarrow> (dms_error, device_record) result \<times> 's"
  ds_get_by_serial :: "nat \<Rightarrow> string \<Rightarrow> 's \<Rightarrow> (dms_error, device_record) result \<times> 's"
  ds_update_status :: "nat \<Rightarrow> string \<Rightarrow> string \<Rightarrow> string \<Rightarrow> 's \<Rightarrow> (dms_error, unit) result \<times> 's"
  ds_touch_last_seen :: "nat \<Rightarrow> string \<Rightarrow> 's \<Rightarrow> (dms_error, unit) result \<times> 's"
  ds_list_devices :: "nat \<Rightarrow> string option \<Rightarrow> string option \<Rightarrow> int \<Rightarrow> string option \<Rightarrow> 's
    \<Rightarrow> (dms_error, device_record list \<times> string option) result \<times> 's"
  ds_register_serial :: "nat \<Rightarrow> string \<Rightarrow> string \<Rightarrow> 's \<Rightarrow> (dms_error, unit) result \<times> 's"
  ds_lookup_and_claim :: "nat \<Rightarrow> string \<Rightarrow> 's \<Rightarrow> (dms_error, pre_enrollment_record) result \<times> 's"
  ds_count_devices :: "nat \<Rightarrow> 's \<Rightarrow> (dms_error, u64) result \<times> 's"
  ds_seed_manifest :: "nat \<Rightarrow> string \<Rightarrow> string \<Rightarrow> string \<Rightarrow> 's \<Rightarrow> (dms_error, unit) result \<times> 's"
  ds_claim_manifest_entry :: "nat \<Rightarrow> string \<Rightarrow> string \<Rightarrow> 's \<Rightarrow> (dms_error, string) result \<times> 's"

text \<open>What a request reads besides the store: the PKI libraries, the clock, and the text of database errors.\<close>

record request_env =
  rq_pki :: pki
  rq_clock :: "nat \<Rightarrow> int"
  rq_display :: "nat \<Rightarrow> rusqlite_error \<Rightarrow> string"

section \<open>The services over any store\<close>

definition bootstrap_enroll_on :: "'s device_store \<Rightarrow> request_env \<Rightarrow> enrollment_service \<Rightarrow> string \<Rightarrow> pem \<Rightarrow> string
    \<Rightarrow> der list \<Rightarrow> pem \<Rightarrow> 's \<Rightarrow> (dms_error, enroll_result) result \<times> 's" where
  "bootstrap_enroll_on S env svc serial_from_req csr_pem firmware peer_certs device_ca_pem s =
     try_bind (enroll_check (rq_pki env) serial_from_req peer_certs device_ca_pem, s) (\<lambda>cert_serial s.
     try_bind (ds_lookup_and_claim S 0 cert_serial s) (\<lambda>pre s.
     try_bind (map_err PkiError (sign_csr (rq_pki env) (rq_clock env 0) csr_pem
        (fleet_ca_cert_pem svc) (fleet_ca_key_pem svc) (cert_validity_days svc)), s) (\<lambda>signed s.
     let expires_at = cert_expires_at svc (rq_clock env 1) in
     try_bind (ds_create_device S 1
        \<lparr>nd_serial = cert_serial, nd_model = per_model pre, nd_firmware = firmware, nd_cert = signed\<rparr> s)
       (\<lambda>record s.
         (Ok \<lparr>er_device_id = dr_id record, er_operational_cert_pem = signed,
              er_fleet_ca_chain_pem = fleet_ca_cert_pem svc, er_expires_at = expires_at\<rparr>, s)))))"

definition renew_cert_on :: "'s device_store \<Rightarrow> request_env \<Rightarrow> enrollment_service \<Rightarrow> string \<Rightarrow> pem
    \<Rightarrow> 's \<Rightarrow> (dms_error, pem \<times> int) result \<times> 's" where
  "renew_cert_on S env svc device_id csr_pem s =
     try_bind (ds_get_device S 0 device_id s) (\<lambda>device s.
     if dr_status device \<noteq> ''active'' then (Err (DeviceNotActive (dr_status device)), s)
     else try_bind (map_err PkiError (sign_csr (rq_pki env) (rq_clock env 0) csr_pem
            (fleet_ca_cert_pem svc) (fleet_ca_key_pem svc) (cert_validity_days svc)), s) (\<lambda>signed s.
          (Ok (signed, cert_expires_at svc (rq_clock env 1)), s)))"

definition provision_device_on :: "'s device_store \<Rightarrow> request_env \<Rightarrow> provisioning_server \<Rightarrow> provision_request
    \<Rightarrow> 's \<Rightarrow> (status, pem) result \<times> 's" where
  "provision_device_on S env srv req s =
     (if pr_serial req = [] \<or> pr_csr_pem req = [] \<or> pr_token req = []
      then (Err (status_of InvalidArgument ''serial, csr_pem, and provision_token are required''), s)
      else
        try_bind (map_err_st (provision_map_err (rq_display env 0))
            (ds_claim_manifest_entry S 0 (pr_serial req) (pr_token req) s)) (\<lambda>model s.
        try_bind (map_err (\<lambda>e. status_of Internal (''CSR signing failed: '' @ pki_to_string e))
            (sign_csr (rq_pki env) (rq_clock env 1) (pr_csr_pem req)
               (device_ca_cert_pem srv) (device_ca_key_pem srv) 365), s) (\<lambda>device_cert_pem s.
        (Ok device_cert_pem, s))))"

definition rpc_bootstrap_enroll_on :: "'s device_store \<Rightarrow> request_env \<Rightarrow> device_management_server
    \<Rightarrow> der list option \<Rightarrow> bootstrap_request \<Rightarrow> 's \<Rightarrow> (status, bootstrap_response) result \<times> 's" where
  "rpc_bootstrap_enroll_on S env srv peer_certs req s =
     try_bind (ok_or (status_of Unauthenticated ''no peer certificate'') peer_certs, s) (\<lambda>certs s.
     try_bind (map_err_st (dms_map_err (rq_display env 0))
        (bootstrap_enroll_on S env (srv_enrollment srv) (br_serial req) (br_csr_pem req) (br_firmware req)
           certs (srv_device_ca_pem srv) s)) (\<lambda>result s.
     (Ok \<lparr>bs_device_id = er_device_id result,
          bs_operational_cert_pem = er_operational_cert_pem result,
          bs_fleet_ca_chain_pem = er_fleet_ca_chain_pem result,
          bs_cert_expires_at = Some \<lparr>ts_seconds = er_expires_at result, ts_nanos = 0\<rparr>\<rparr>, s)))"

definition rpc_renew_cert_on :: "'s device_store \<Rightarrow> request_env \<Rightarrow> device_management_server \<Rightarrow> string \<Rightarrow> pem
    \<Rightarrow> 's \<Rightarrow> (status, pem \<times> timestamp option) result \<times> 's" where
  "rpc_renew_cert_on S env srv device_id csr_pem s =
     try_bind (map_err_st (dms_map_err (rq_display env 0))
        (renew_cert_on S env (srv_enrollment srv) device_id csr_pem s)) (\<lambda>(cert_pem, expires_at) s.
     (Ok (cert_pem, Some \<lparr>ts_seconds = expires_at, ts_nanos = 0\<rparr>), s))"

definition rpc_get_device_on :: "'s device_store \<Rightarrow> request_env \<Rightarrow> string \<Rightarrow> 's \<Rightarrow> (status, device_info) result \<times> 's" where
  "rpc_get_device_on S env device_id s =
     try_bind (map_err_st (dms_map_err (rq_display env 0)) (ds_get_device S 0 device_id s)) (\<lambda>record s.
     (Ok (record_to_proto record), s))"

definition rpc_list_devices_on :: "'s device_store \<Rightarrow> request_env \<Rightarrow> list_devices_request
    \<Rightarrow> 's \<Rightarrow> (status, device_info list \<times> string) result \<times> 's" where
  "rpc_list_devices_on S env req s =
     (let limit = (if ld_limit req > 0 then ld_limit req else 50);
          model = non_empty (ld_model req);
          st = non_empty (ld_status req);
          cursor = non_empty (ld_cursor req)
      in try_bind (map_err_st (dms_map_err (rq_display env 0)) (ds_list_devices S 0 model st limit cursor s))
           (\<lambda>(records, next_cursor) s. (Ok (map record_to_proto records, unwrap_or_default next_cursor), s)))"

definition rpc_update_device_status_on :: "'s device_store \<Rightarrow> request_env \<Rightarrow> string \<Rightarrow> string \<Rightarrow> string
    \<Rightarrow> 's \<Rightarrow> (status, device_info option) result \<times> 's" where
  "rpc_update_device_status_on S env device_id st reason s =
     try_bind (map_err_st (dms_map_err (rq_display env 0)) (ds_update_status S 0 device_id st reason s)) (\<lambda>_ s.
     try_bind (map_err_st (dms_map_err (rq_display env 1)) (ds_get_device S 1 device_id s)) (\<lambda>record s.
     (Ok (Some (record_to_proto record)), s)))"

text \<open>\<open>accepts i\<close>: the receiver still takes the answer to message \<open>i\<close>; \<open>show\<close> is the text of a \<open>tonic::Status\<close>.\<close>

fun heartbeat_loop_on :: "'s device_store \<Rightarrow> (nat \<Rightarrow> bool) \<Rightarrow> string \<Rightarrow> nat \<Rightarrow> (status + heartbeat_request) list \<Rightarrow> 's
    \<Rightarrow> (heartbeat_response sent \<times> stream_end) \<times> 's" where
  "heartbeat_loop_on S accepts device_id i [] s = (([], TaskReturned), s)"
| "heartbeat_loop_on S accepts device_id i (Inl e # msgs) s = (([], TaskReturned), s)"
| "heartbeat_loop_on S accepts device_id i (Inr req # msgs) s =
     (case ds_touch_last_seen S i device_id s of
        (Inl (Fail (NotFound _)), s1) \<Rightarrow>
          ((if accepts i
            then [Inl (status_of NotFoundCode (''device '' @ device_id @ '' not found''))] else [], TaskReturned), s1)
      | (Inl Panic, s1) \<Rightarrow> (([], TaskPanicked), s1)
      | (_, s1) \<Rightarrow>
          if accepts i
          then (case heartbeat_loop_on S accepts device_id (Suc i) msgs s1 of
                  ((out, ended), s2) \<Rightarrow> ((Inr \<lparr>hr_throttle = False, hr_directive = []\<rparr> # out, ended), s2))
          else (([], TaskReturned), s1))"

fun heartbeat_handle_on :: "'s device_store \<Rightarrow> (nat \<Rightarrow> bool) \<Rightarrow> (status \<Rightarrow> string) \<Rightarrow> (status + heartbeat_request) list \<Rightarrow> 's
    \<Rightarrow> (heartbeat_response sent \<times> stream_end) \<times> 's" where
  "heartbeat_handle_on S accepts show [] s = (([], TaskReturned), s)"
| "heartbeat_handle_on S accepts show (Inl e # msgs) s =
     ((if accepts 0 then [Inl (status_of Internal (show e))] else [], TaskReturned), s)"
| "heartbeat_handle_on S accepts show (Inr first # msgs) s =
     heartbeat_loop_on S accepts (hb_device_id first) 0 (Inr first # msgs) s"

section \<open>SqliteDeviceStore\<close>

definition sqlite_store :: "(nat \<Rightarrow> engine) \<Rightarrow> string \<Rightarrow> (nat \<Rightarrow> int) \<Rightarrow> dconn device_store" where
  "sqlite_store eng uuid clock =
     \<lparr>ds_create_device = (\<lambda>i. create_device (eng i) uuid (clock i)),
      ds_get_device = (\<lambda>i. get_device (eng i)),
      ds_get_by_serial = (\<lambda>i. get_by_serial (eng i)),
      ds_update_status = (\<lambda>i. update_status (eng i)),
      ds_touch_last_seen = (\<lambda>i. touch_last_seen (eng i) (clock i)),
      ds_list_devices = (\<lambda>i. list_devices (eng i)),
      ds_register_serial = (\<lambda>i. register_serial (eng i)),
      ds_lookup_and_claim = (\<lambda>i. lookup_and_claim (eng i)),
      ds_count_devices = (\<lambda>i. count_devices (eng i)),
      ds_seed_manifest = (\<lambda>i. seed_manifest (eng i)),
      ds_claim_manifest_entry = (\<lambda>i. claim_manifest_entry (eng i) (clock i))\<rparr>"

lemma sqlite_store_sel [simp]:
  "ds_create_device (sqlite_store eng uuid clock) i = create_device (eng i) uuid (clock i)"
  "ds_get_device (sqlite_store eng uuid clock) i = get_device (eng i)"
  "ds_get_by_serial (sqlite_store eng uuid clock) i = get_by_serial (eng i)"
  "ds_update_status (sqlite_store eng uuid clock) i = update_status (eng i)"
  "ds_touch_last_seen (sqlite_store eng uuid clock) i = touch_last_seen (eng i) (clock i)"
  "ds_list_devices (sqlite_store eng uuid clock) i = list_devices (eng i)"
  "ds_register_serial (sqlite_store eng uuid clock) i = register_serial (eng i)"
  "ds_lookup_and_claim (sqlite_store eng uuid clock) i = lookup_and_claim (eng i)"
  "ds_count_devices (sqlite_store eng uuid clock) i = count_devices (eng i)"
  "ds_seed_manifest (sqlite_store eng uuid clock) i = seed_manifest (eng i)"
  "ds_claim_manifest_entry (sqlite_store eng uuid clock) i = claim_manifest_entry (eng i) (clock i)"
  by (simp_all add: sqlite_store_def)

text \<open>The environment of a request of the device-management service.\<close>

definition request_env_of :: "dms_env \<Rightarrow> request_env" where
  "request_env_of env =
     \<lparr>rq_pki = env_pki env, rq_clock = env_clock env, rq_display = (\<lambda>i. err_display (env_engine env i))\<rparr>"

lemma request_env_of_sel [simp]:
  "rq_pki (request_env_of env) = env_pki env" "rq_clock (request_env_of env) = env_clock env"
  "rq_display (request_env_of env) i = err_display (env_engine env i)"
  by (simp_all add: request_env_of_def)

lemma bootstrap_enroll_on_sqlite:
  "bootstrap_enroll_on (sqlite_store (env_engine env) (env_uuid env) (\<lambda>_. env_clock env 2)) (request_env_of env) =
     bootstrap_enroll env"
  by (intro ext) (simp add: bootstrap_enroll_on_def bootstrap_enroll_def enroll_finish_def)

lemma renew_cert_on_sqlite:
  "renew_cert_on (sqlite_store (env_engine env) uuid clock) (request_env_of env) = renew_cert env"
  by (intro ext) (simp add: renew_cert_on_def renew_cert_def cong: if_cong)

lemma provision_device_on_sqlite:
  "provision_device_on (sqlite_store (env_engine env) uuid (env_clock env)) (request_env_of env) = provision_device env"
  by (intro ext) (simp add: provision_device_on_def provision_device_def cong: if_cong)

lemma heartbeat_loop_on_sqlite:
  "heartbeat_loop_on (sqlite_store (se_engine env) uuid (se_clock env)) (se_accepts env) did i msgs c =
     heartbeat_loop env did i msgs c"
  by (induction env did i msgs c rule: heartbeat_loop.induct)
    (auto split: prod.split sum.split failure.split dms_error.split)

lemma heartbeat_handle_on_sqlite:
  "heartbeat_handle_on (sqlite_store (se_engine env) uuid (se_clock env)) (se_accepts env) (se_show_status env) msgs c =
     heartbeat_handle env msgs c"
  by (cases "(env, msgs, c)" rule: heartbeat_handle.cases)
    (simp_all add: heartbeat_loop_on_sqlite del: heartbeat_loop_on.simps heartbeat_loop.simps)

lemma rpc_bootstrap_enroll_on_sqlite:
  "rpc_bootstrap_enroll_on (sqlite_store (env_engine env) (env_uuid env) (\<lambda>_. env_clock env 2)) (request_env_of env) =
     rpc_bootstrap_enroll env"
  by (intro ext) (simp add: rpc_bootstrap_enroll_on_def rpc_bootstrap_enroll_def bootstrap_enroll_on_sqlite)

lemma rpc_renew_cert_on_sqlite:
  "rpc_renew_cert_on (sqlite_store (env_engine env) uuid clock) (request_env_of env) = rpc_renew_cert env"
  by (intro ext) (simp add: rpc_renew_cert_on_def rpc_renew_cert_def renew_cert_on_sqlite)

lemma rpc_get_device_on_sqlite:
  "rpc_get_device_on (sqlite_store (env_engine env) uuid clock) (request_env_of env) = rpc_get_device (env_engine env 0)"
  by (intro ext) (simp add: rpc_get_device_on_def rpc_get_device_def)

lemma rpc_list_devices_on_sqlite:
  "rpc_list_devices_on (sqlite_store (env_engine env) uuid clock) (request_env_of env) = rpc_list_devices (env_engine env 0)"
  by (intro ext) (simp add: rpc_list_devices_on_def rpc_list_devices_def)

lemma rpc_update_device_status_on_sqlite:
  "rpc_update_device_status_on (sqlite_store (env_engine env) uuid clock) (request_env_of env) =
     rpc_update_device_status (env_engine env)"
  by (intro ext) (simp add: rpc_update_device_status_on_def rpc_update_device_status_def)

lemmas on_sqlite = bootstrap_enroll_on_sqlite renew_cert_on_sqlite provision_device_on_sqlite heartbeat_handle_on_sqlite
  rpc_bootstrap_enroll_on_sqlite rpc_renew_cert_on_sqlite rpc_get_device_on_sqlite rpc_list_devices_on_sqlite
  rpc_update_device_status_on_sqlite

end
