(* ===== verification/Device_Directory.thy ===== *)
theory Device_Directory
  imports Device_Trait Device_Properties
begin

text \<open>
  What the device-management service promises, without a database: the directory, a store of maps
  (factory manifest, registry and devices by id and by serial) whose methods are one lookup and one
  update. A simulation between two implementations of the trait carries over to every handler and to
  every sequence of requests (locale \<open>store_simulation\<close>); \<open>SqliteDeviceStore\<close> with its tables,
  statements and transactions simulates the directory, so the service answers as the directory does.
\<close>

section \<open>The directory\<close>

record directory =
  dir_manifest :: "string \<rightharpoonup> manifest_row"
  dir_registry :: "string \<rightharpoonup> pre_row"
  dir_devices :: "string \<rightharpoonup> device_record"
  dir_serials :: "string \<rightharpoonup> device_record"

definition put_record :: "device_record \<Rightarrow> directory \<Rightarrow> directory" where
  "put_record r dir = dir\<lparr>dir_devices := (dir_devices dir)(dr_id r \<mapsto> r),
     dir_serials := (dir_serials dir)(dr_serial r \<mapsto> r)\<rparr>"

text \<open>Changing a registered device, or the answer that there is none.\<close>

definition change_record :: "string \<Rightarrow> (device_record \<Rightarrow> device_record) \<Rightarrow> directory \<Rightarrow> (dms_error, unit) result \<times> directory" where
  "change_record did f dir =
     (case dir_devices dir did of None \<Rightarrow> (Err (NotFound did), dir) | Some r \<Rightarrow> (Ok (), put_record (f r) dir))"

definition enter_serial :: "string \<Rightarrow> string \<Rightarrow> directory \<Rightarrow> directory" where
  "enter_serial serial model dir =
     (case dir_registry dir serial of
        None \<Rightarrow> dir\<lparr>dir_registry := (dir_registry dir)(serial \<mapsto> \<lparr>pe_serial = serial, pe_model = model, pe_claimed = 0\<rparr>)\<rparr>
      | Some _ \<Rightarrow> dir)"

definition dir_list :: "string option \<Rightarrow> string option \<Rightarrow> string option \<Rightarrow> directory \<Rightarrow> device_record list" where
  "dir_list model st cursor dir =
     map (\<lambda>did. the (dir_devices dir did))
       (sorted_list_of_set {did \<in> dom (dir_devices dir). device_matches model st cursor (the (dir_devices dir did))})"

definition dir_claim :: "string \<Rightarrow> directory \<Rightarrow> (dms_error, pre_enrollment_record) result \<times> directory" where
  "dir_claim serial dir =
     (case dir_registry dir serial of
        None \<Rightarrow> (Err (NotPreEnrolled serial), dir)
      | Some row \<Rightarrow>
          if pe_claimed row \<noteq> 0 then (Err (SerialAlreadyClaimed serial), dir)
          else (Ok \<lparr>per_serial = serial, per_model = pe_model row\<rparr>,
                dir\<lparr>dir_registry := (dir_registry dir)(serial \<mapsto> row\<lparr>pe_claimed := 1\<rparr>)\<rparr>))"

definition dir_claim_manifest :: "int \<Rightarrow> string \<Rightarrow> string \<Rightarrow> directory \<Rightarrow> (dms_error, string) result \<times> directory" where
  "dir_claim_manifest now serial token dir =
     (case dir_manifest dir serial of
        None \<Rightarrow> (Err (NotInManifest serial), dir)
      | Some row \<Rightarrow>
          if fm_token row \<noteq> token then (Err (InvalidProvisionToken serial), dir)
          else if fm_provisioned_at row \<noteq> None then (Err (AlreadyProvisioned serial), dir)
          else (Ok (fm_model row), enter_serial serial (fm_model row)
                 (dir\<lparr>dir_manifest := (dir_manifest dir)(serial \<mapsto> row\<lparr>fm_provisioned_at := Some now\<rparr>)\<rparr>)))"

definition directory_store :: "string \<Rightarrow> (nat \<Rightarrow> int) \<Rightarrow> directory device_store" where
  "directory_store uuid clock =
     \<lparr>ds_create_device = (\<lambda>i d dir.
        if dir_devices dir uuid \<noteq> None \<or> dir_serials dir (nd_serial d) \<noteq> None then (Err (AlreadyEnrolled (nd_serial d)), dir)
        else (Ok (new_record uuid (clock i) d), put_record (new_record uuid (clock i) d) dir)),
      ds_get_device = (\<lambda>i did dir. (ok_or (NotFound did) (dir_devices dir did), dir)),
      ds_get_by_serial = (\<lambda>i serial dir. (ok_or (NotFound serial) (dir_serials dir serial), dir)),
      ds_update_status = (\<lambda>i did st reason. change_record did (\<lambda>r. r\<lparr>dr_status := st\<rparr>)),
      ds_touch_last_seen = (\<lambda>i did. change_record did (\<lambda>r. r\<lparr>dr_last_seen_at := clock i\<rparr>)),
      ds_list_devices = (\<lambda>i model st limit cursor dir. (Ok (page_of dr_id (nat limit) (dir_list model st cursor dir)), dir)),
      ds_register_serial = (\<lambda>i serial model dir.
        (Ok (), case dir_registry dir serial of
           None \<Rightarrow> enter_serial serial model dir
         | Some row \<Rightarrow> if dir_serials dir serial \<noteq> None then dir
             else dir\<lparr>dir_registry := (dir_registry dir)(serial \<mapsto> row\<lparr>pe_claimed := 0\<rparr>)\<rparr>)),
      ds_lookup_and_claim = (\<lambda>i. dir_claim),
      ds_count_devices = (\<lambda>i dir. (Ok (i64_as_u64 (int (card (dom (dir_devices dir))))), dir)),
      ds_seed_manifest = (\<lambda>i serial model token dir.
        (Ok (), if dir_manifest dir serial \<noteq> None then dir
           else dir\<lparr>dir_manifest := (dir_manifest dir)(serial \<mapsto>
             \<lparr>fm_serial = serial, fm_model = model, fm_token = token, fm_provisioned_at = None\<rparr>)\<rparr>)),
      ds_claim_manifest_entry = (\<lambda>i. dir_claim_manifest (clock i))\<rparr>"

section \<open>Requests\<close>

datatype dms_request =
    ProvisionDevice provision_request
  | BootstrapEnroll "der list option" bootstrap_request
  | RenewCert string pem
  | GetDeviceInfo string
  | ListDeviceInfos list_devices_request
  | UpdateDeviceStatus string string string
  | StreamHeartbeat "nat \<Rightarrow> bool" "status \<Rightarrow> string" "(status + heartbeat_request) list"

datatype dms_response =
    Provisioned "(status, pem) result"
  | Bootstrapped "(status, bootstrap_response) result"
  | Renewed "(status, pem \<times> timestamp option) result"
  | DeviceInfo "(status, device_info) result"
  | DeviceInfos "(status, device_info list \<times> string) result"
  | StatusUpdated "(status, device_info option) result"
  | Heartbeats "heartbeat_response sent \<times> stream_end"

text \<open>The two gRPC services of the program over a store; the limit of a listing is an \<open>int32\<close> field.\<close>

primrec serve :: "'s device_store \<Rightarrow> request_env \<Rightarrow> device_management_server \<Rightarrow> provisioning_server \<Rightarrow> dms_request
    \<Rightarrow> 's \<Rightarrow> dms_response \<times> 's" where
  "serve S env srv psrv (ProvisionDevice req) s = map_prod Provisioned id (provision_device_on S env psrv req s)"
| "serve S env srv psrv (BootstrapEnroll certs req) s = map_prod Bootstrapped id (rpc_bootstrap_enroll_on S env srv certs req s)"
| "serve S env srv psrv (RenewCert did csr) s = map_prod Renewed id (rpc_renew_cert_on S env srv did csr s)"
| "serve S env srv psrv (GetDeviceInfo did) s = map_prod DeviceInfo id (rpc_get_device_on S env did s)"
| "serve S env srv psrv (ListDeviceInfos req) s = map_prod DeviceInfos id (rpc_list_devices_on S env req s)"
| "serve S env srv psrv (UpdateDeviceStatus did st reason) s =
     map_prod StatusUpdated id (rpc_update_device_status_on S env did st reason s)"
| "serve S env srv psrv (StreamHeartbeat accepts show msgs) s =
     map_prod Heartbeats id (heartbeat_handle_on S accepts show msgs s)"

primrec int32_request :: "dms_request \<Rightarrow> bool" where
  "int32_request (ProvisionDevice req) = True"
| "int32_request (BootstrapEnroll certs req) = True"
| "int32_request (RenewCert did csr) = True"
| "int32_request (GetDeviceInfo did) = True"
| "int32_request (ListDeviceInfos req) = (ld_limit req \<le> int i32_max)"
| "int32_request (UpdateDeviceStatus did st reason) = True"
| "int32_request (StreamHeartbeat accepts show msgs) = True"

text \<open>The \<open>n\<close>-th request runs on the \<open>n\<close>-th view of the store and in the \<open>n\<close>-th environment.\<close>

fun serve_all :: "(nat \<Rightarrow> 's device_store) \<Rightarrow> (nat \<Rightarrow> request_env) \<Rightarrow> device_management_server \<Rightarrow> provisioning_server
    \<Rightarrow> nat \<Rightarrow> dms_request list \<Rightarrow> 's \<Rightarrow> dms_response list \<times> 's" where
  "serve_all S env srv psrv n [] s = ([], s)"
| "serve_all S env srv psrv n (req # reqs) s =
     (case serve (S n) (env n) srv psrv req s of (resp, s) \<Rightarrow>
        map_prod ((#) resp) id (serve_all S env srv psrv (Suc n) reqs s))"

section \<open>Simulation\<close>

text \<open>Two calls with the same answer and related states.\<close>

definition sim :: "('s \<Rightarrow> 't \<Rightarrow> bool) \<Rightarrow> 'a \<times> 's \<Rightarrow> 'a \<times> 't \<Rightarrow> bool" where
  "sim R m n \<longleftrightarrow> fst m = fst n \<and> R (snd m) (snd n)"

lemma sim_pure: "R s t \<Longrightarrow> sim R (a, s) (a, t)"
  by (simp add: sim_def)

lemma sim_try_bind:
  assumes "sim R m n" and "\<And>a s t. R s t \<Longrightarrow> sim R (k a s) (l a t)"
  shows "sim R (try_bind m k) (try_bind n l)"
  using assms by (cases "(m, k)" rule: try_bind.cases; cases "(n, l)" rule: try_bind.cases) (auto simp: sim_def)

lemma sim_map_err: "sim R m n \<Longrightarrow> sim R (map_err_st f m) (map_err_st f n)"
  by (simp add: sim_def)

lemma sim_map_prod: "sim R m n \<Longrightarrow> sim R (map_prod f id m) (map_prod f id n)"
  by (simp add: sim_def)

lemma sim_case:
  assumes "sim R m n" and "\<And>a s t. R s t \<Longrightarrow> sim R (k a s) (l a t)"
  shows "sim R (case m of (a, s) \<Rightarrow> k a s) (case n of (a, t) \<Rightarrow> l a t)"
  using assms by (auto simp: sim_def split: prod.split)

lemma sim_if: "(b \<Longrightarrow> sim R m n) \<Longrightarrow> (\<not> b \<Longrightarrow> sim R m' n') \<Longrightarrow> sim R (if b then m else m') (if b then n else n')"
  by simp

locale store_simulation =
  fixes S :: "'s device_store" and T :: "'t device_store" and R :: "'s \<Rightarrow> 't \<Rightarrow> bool"
  assumes create_device: "R s t \<Longrightarrow> sim R (ds_create_device S i d s) (ds_create_device T i d t)"
    and get_device: "R s t \<Longrightarrow> sim R (ds_get_device S i did s) (ds_get_device T i did t)"
    and get_by_serial: "R s t \<Longrightarrow> sim R (ds_get_by_serial S i serial s) (ds_get_by_serial T i serial t)"
    and update_status: "R s t \<Longrightarrow> sim R (ds_update_status S i did st reason s) (ds_update_status T i did st reason t)"
    and touch_last_seen: "R s t \<Longrightarrow> sim R (ds_touch_last_seen S i did s) (ds_touch_last_seen T i did t)"
    and list_devices: "R s t \<Longrightarrow> 0 < limit \<Longrightarrow> limit \<le> int i32_max \<Longrightarrow>
      sim R (ds_list_devices S i m sf limit cursor s) (ds_list_devices T i m sf limit cursor t)"
    and register_serial: "R s t \<Longrightarrow> sim R (ds_register_serial S i serial model s) (ds_register_serial T i serial model t)"
    and lookup_and_claim: "R s t \<Longrightarrow> sim R (ds_lookup_and_claim S i serial s) (ds_lookup_and_claim T i serial t)"
    and count_devices: "R s t \<Longrightarrow> sim R (ds_count_devices S i s) (ds_count_devices T i t)"
    and seed_manifest: "R s t \<Longrightarrow> sim R (ds_seed_manifest S i serial model token s) (ds_seed_manifest T i serial model token t)"
    and claim_manifest_entry: "R s t \<Longrightarrow>
      sim R (ds_claim_manifest_entry S i serial token s) (ds_claim_manifest_entry T i serial token t)"
begin

lemma bootstrap_enroll_sim: "R s t \<Longrightarrow>
    sim R (bootstrap_enroll_on S env svc serial csr fw certs ca s) (bootstrap_enroll_on T env svc serial csr fw certs ca t)"
  unfolding bootstrap_enroll_on_def Let_def
  by (intro sim_try_bind sim_pure lookup_and_claim create_device)

lemma renew_cert_sim: "R s t \<Longrightarrow> sim R (renew_cert_on S env svc did csr s) (renew_cert_on T env svc did csr t)"
  unfolding renew_cert_on_def by (intro sim_try_bind sim_pure sim_if get_device)

lemma provision_device_sim: "R s t \<Longrightarrow> sim R (provision_device_on S env srv req s) (provision_device_on T env srv req t)"
  unfolding provision_device_on_def by (intro sim_try_bind sim_pure sim_if sim_map_err claim_manifest_entry)

lemma rpc_bootstrap_enroll_sim: "R s t \<Longrightarrow>
    sim R (rpc_bootstrap_enroll_on S env srv certs req s) (rpc_bootstrap_enroll_on T env srv certs req t)"
  unfolding rpc_bootstrap_enroll_on_def by (intro sim_try_bind sim_pure sim_map_err bootstrap_enroll_sim)

lemma rpc_renew_cert_sim: "R s t \<Longrightarrow> sim R (rpc_renew_cert_on S env srv did csr s) (rpc_renew_cert_on T env srv did csr t)"
  unfolding rpc_renew_cert_on_def
  by (intro sim_try_bind sim_map_err renew_cert_sim) (auto intro: sim_pure split: prod.split)

lemma rpc_get_device_sim: "R s t \<Longrightarrow> sim R (rpc_get_device_on S env did s) (rpc_get_device_on T env did t)"
  unfolding rpc_get_device_on_def by (intro sim_try_bind sim_pure sim_map_err get_device)

lemma rpc_list_devices_sim: "R s t \<Longrightarrow> ld_limit req \<le> int i32_max \<Longrightarrow>
    sim R (rpc_list_devices_on S env req s) (rpc_list_devices_on T env req t)"
  unfolding rpc_list_devices_on_def Let_def
  by (intro sim_try_bind sim_map_err list_devices) (auto intro: sim_pure simp: i32_max_def split: prod.split)

lemma rpc_update_device_status_sim: "R s t \<Longrightarrow>
    sim R (rpc_update_device_status_on S env did st reason s) (rpc_update_device_status_on T env did st reason t)"
  unfolding rpc_update_device_status_on_def by (intro sim_try_bind sim_pure sim_map_err update_status get_device)

lemma heartbeat_loop_sim: "R s t \<Longrightarrow>
    sim R (heartbeat_loop_on S accepts did i msgs s) (heartbeat_loop_on T accepts did i msgs t)"
proof (induction msgs arbitrary: i s t)
  case (Cons msg msgs)
  note beat = touch_last_seen [OF Cons.prems, of i did]
  show ?case
  proof (cases msg)
    case (Inr req)
    obtain r s1 t1 where touch: "ds_touch_last_seen S i did s = (r, s1)" "ds_touch_last_seen T i did t = (r, t1)" and rel: "R s1 t1"
      using beat by (cases "ds_touch_last_seen S i did s"; cases "ds_touch_last_seen T i did t") (simp add: sim_def)
    from Cons.IH [OF rel, of "Suc i"] rel Inr touch show ?thesis
      by (auto simp: sim_def split: sum.split failure.split dms_error.split prod.split)
  qed (use Cons.prems in \<open>simp add: sim_def\<close>)
qed (simp add: sim_def)

lemma heartbeat_handle_sim: "R s t \<Longrightarrow>
    sim R (heartbeat_handle_on S accepts show msgs s) (heartbeat_handle_on T accepts show msgs t)"
  by (cases "(S, accepts, show, msgs, s)" rule: heartbeat_handle_on.cases)
    (simp_all add: sim_pure heartbeat_loop_sim del: heartbeat_loop_on.simps)

lemma serve_sim: "R s t \<Longrightarrow> int32_request req \<Longrightarrow> sim R (serve S env srv psrv req s) (serve T env srv psrv req t)"
  by (cases req) (simp_all add: sim_map_prod provision_device_sim rpc_bootstrap_enroll_sim rpc_renew_cert_sim
      rpc_get_device_sim rpc_list_devices_sim rpc_update_device_status_sim heartbeat_handle_sim)

end

lemma serve_all_sim:
  assumes "\<And>n. store_simulation (S n) (T n) R" and "R s t" and "list_all int32_request reqs"
  shows "sim R (serve_all S env srv psrv n reqs s) (serve_all T env srv psrv n reqs t)"
  using assms(2,3)
proof (induction reqs arbitrary: n s t)
  case (Cons req reqs)
  then show ?case
    by (auto intro!: sim_case sim_map_prod store_simulation.serve_sim [OF assms(1)])
qed (simp add: sim_def)

section \<open>The tables implement the directory\<close>

definition directory_of :: "dms_tables \<Rightarrow> directory" where
  "directory_of t =
     \<lparr>dir_manifest = (\<lambda>s. row_with fm_serial s (factory_manifest t)),
      dir_registry = (\<lambda>s. row_with pe_serial s (pre_enrollment t)),
      dir_devices = (\<lambda>did. row_with dr_id did (devices t)),
      dir_serials = (\<lambda>s. row_with dr_serial s (devices t))\<rparr>"

definition implements :: "dconn \<Rightarrow> directory \<Rightarrow> bool" where
  "implements c dir \<longleftrightarrow> idle c \<and> wf_tables (tabs c) \<and> dir = directory_of (tabs c)"

lemma directory_of_sel [simp]:
  "dir_manifest (directory_of t) s = row_with fm_serial s (factory_manifest t)"
  "dir_registry (directory_of t) s = row_with pe_serial s (pre_enrollment t)"
  "dir_devices (directory_of t) did = row_with dr_id did (devices t)"
  "dir_serials (directory_of t) s = row_with dr_serial s (devices t)"
  by (simp_all add: directory_of_def)

text \<open>One step: the new tables are well-formed and stand for the new directory.\<close>

lemma implementsI:
  "idle c \<Longrightarrow> wf_tables t \<Longrightarrow> directory_of t = dir \<Longrightarrow> implements (c\<lparr>tabs := t\<rparr>) dir"
  by (simp add: implements_def idle_def)

lemma directory_put_new:
  assumes "did \<notin> dr_id ` set (devices t)" and "dr_serial r \<notin> dr_serial ` set (devices t)" and "dr_id r = did"
  shows "directory_of (t\<lparr>devices := devices t @ [r]\<rparr>) = put_record r (directory_of t)"
  using assms row_with_None [of dr_id did "devices t"] row_with_None [of dr_serial "dr_serial r" "devices t"]
  by (auto simp: directory_of_def put_record_def row_with_append fun_eq_iff split: option.split)

lemma directory_change:
  assumes "wf_tables t" and "row_with dr_id did (devices t) = Some r0"
    and "\<And>r. dr_id (f r) = dr_id r" and "\<And>r. dr_serial (f r) = dr_serial r"
  shows "directory_of (devices_update (set_rows (\<lambda>r. dr_id r = did) f) t) = put_record (f r0) (directory_of t)"
proof -
  let ?rows = "devices t" and ?upd = "\<lambda>r. if dr_id r = did then f r else r"
  have ids: "distinct (map dr_id ?rows)" and serials: "distinct (map dr_serial ?rows)"
    using assms(1) by (simp_all add: wf_tables_def)
  have r0: "r0 \<in> set ?rows" "dr_id r0 = did"
    using assms(2) by (auto dest: row_with_SomeD)
  have "map_option ?upd (row_with dr_serial s ?rows) = (if s = dr_serial r0 then Some (f r0) else row_with dr_serial s ?rows)" for s
  proof (cases "row_with dr_serial s ?rows")
    case None
    with r0(1) have "s \<noteq> dr_serial r0" by (auto simp: row_with_None)
    with None show ?thesis by simp
  next
    case (Some r)
    then have r: "r \<in> set ?rows" "dr_serial r = s" by (auto dest: row_with_SomeD)
    have "dr_id r = did \<longleftrightarrow> r = r0" "s = dr_serial r0 \<longleftrightarrow> r = r0"
      using r r0 ids serials by (auto simp: distinct_map inj_on_def)
    with Some show ?thesis by simp
  qed
  then show ?thesis
    using assms(2-4) r0 by (simp add: directory_of_def put_record_def row_with_set_rows [where key = dr_serial] row_with_set_rows_key fun_eq_iff)
qed

lemma directory_claim:
  assumes "row_with pe_serial serial (pre_enrollment t) = Some row"
  shows "directory_of (claim_serial serial t) =
    (directory_of t)\<lparr>dir_registry := (dir_registry (directory_of t))(serial \<mapsto> row\<lparr>pe_claimed := 1\<rparr>)\<rparr>"
  using assms by (simp add: directory_of_def claim_serial_def row_with_set_rows_key fun_eq_iff)

lemma directory_unclaim:
  assumes "row_with pe_serial serial (pre_enrollment t) = Some row"
  shows "directory_of (pre_enrollment_update (set_rows (\<lambda>r. pe_serial r = serial) (\<lambda>r. r\<lparr>pe_claimed := 0\<rparr>)) t) =
    (directory_of t)\<lparr>dir_registry := (dir_registry (directory_of t))(serial \<mapsto> row\<lparr>pe_claimed := 0\<rparr>)\<rparr>"
  using assms by (simp add: directory_of_def row_with_set_rows_key fun_eq_iff)

lemma directory_enter:
  assumes "row_with pe_serial serial (pre_enrollment t) = None"
  shows "directory_of (t\<lparr>pre_enrollment := pre_enrollment t @ [\<lparr>pe_serial = serial, pe_model = m, pe_claimed = 0\<rparr>]\<rparr>) =
    enter_serial serial m (directory_of t)"
  using assms by (auto simp: directory_of_def enter_serial_def row_with_append fun_eq_iff split: option.split)

lemma directory_provision:
  assumes "row_with fm_serial serial (factory_manifest t) = Some row"
  shows "directory_of (provision_serial now serial m t) = enter_serial serial m ((directory_of t)\<lparr>dir_manifest :=
    (dir_manifest (directory_of t))(serial \<mapsto> row\<lparr>fm_provisioned_at := Some now\<rparr>)\<rparr>)"
  using assms
  by (auto simp: directory_of_def enter_serial_def row_with_provision row_with_pre_provision fun_eq_iff split: option.split)

lemma directory_seed:
  "directory_of (snd (insert_manifest row t)) =
     (if row_with fm_serial (fm_serial row) (factory_manifest t) \<noteq> None then directory_of t
      else (directory_of t)\<lparr>dir_manifest := (dir_manifest (directory_of t))(fm_serial row \<mapsto> row)\<rparr>)"
  using row_with_None [of fm_serial "fm_serial row" "factory_manifest t"]
  by (auto simp: directory_of_def insert_manifest_def row_with_append fun_eq_iff split: option.split)

lemma dom_directory: "dom (dir_devices (directory_of t)) = dr_id ` set (devices t)"
  using row_with_None [of dr_id _ "devices t"] by (auto simp: dom_def)

text \<open>The listing of the tables is the sorted listing of the directory.\<close>

lemma dir_list_listing:
  assumes "wf_tables t"
  shows "dir_list model st cursor (directory_of t) = rows_after dr_id (<) cursor (device_listing model st t)"
proof -
  let ?rows = "sort_key dr_id (filter (device_matches model st cursor) (devices t))"
  have ids: "distinct (map dr_id (devices t))"
    using assms by (simp add: wf_tables_def)
  have at: "row_with dr_id (dr_id r) (devices t) = Some r" if "r \<in> set (devices t)" for r
    using ids that by (simp add: row_with_distinct)
  have "{did \<in> dom (dir_devices (directory_of t)). device_matches model st cursor (the (dir_devices (directory_of t) did))} =
      set (map dr_id ?rows)"
    by (auto simp: dom_directory at)
  moreover have "distinct (map dr_id ?rows)"
    using ids by (simp add: distinct_map inj_on_def)
  ultimately have "dir_list model st cursor (directory_of t) = map (\<lambda>did. the (row_with dr_id did (devices t))) (map dr_id ?rows)"
    unfolding dir_list_def by (simp del: set_map set_sort add: sorted_list_of_set_unique sorted_list_of_set.idem_if_sorted_distinct)
  also have "\<dots> = ?rows"
    by (auto simp: at intro!: map_idI)
  finally show ?thesis
    by (simp add: select_devices_rows_after)
qed

text \<open>A healthy engine is the reliable one up to the text of its errors.\<close>

abbreviation healthy_engine :: "(rusqlite_error \<Rightarrow> string) \<Rightarrow> engine" where
  "healthy_engine display \<equiv> reliable\<lparr>err_display := display\<rparr>"

lemma no_fault_healthy_engine [simp]: "no_fault (healthy_engine display)"
  by (simp add: no_fault_def reliable_def)

lemma no_fault_is_healthy: "no_fault eng \<Longrightarrow> eng = healthy_engine (err_display eng)"
  by (cases eng) (simp add: no_fault_def reliable_def)

lemma wf_provision_serial: "wf_tables t \<Longrightarrow> wf_tables (provision_serial now serial m t)"
  using wf_insert_pre [OF wf_update_manifest] by (simp add: provision_serial_def update_where_def)

interpretation sqlite_directory:
  store_simulation "sqlite_store (\<lambda>i. healthy_engine (display i)) uuid clock" "directory_store uuid clock" implements
  for display uuid clock
proof
  fix c :: dconn and dir and i
  assume rel: "implements c dir"
  then have c: "idle c" "wf_tables (tabs c)" and dir: "dir = directory_of (tabs c)"
    by (simp_all add: implements_def)
  let ?S = "sqlite_store (\<lambda>i. healthy_engine (display i)) uuid clock" and ?T = "directory_store uuid clock"
  show "sim implements (ds_create_device ?S i d c) (ds_create_device ?T i d dir)" for d
    using c rel
    by (auto simp: sim_def directory_store_def create_device_healthy dir row_with_None new_record_def wf_tables_def
        intro!: implementsI directory_put_new)
  show "sim implements (ds_get_device ?S i did c) (ds_get_device ?T i did dir)" for did
    using rel by (simp add: sim_def directory_store_def get_device_healthy dir)
  show "sim implements (ds_get_by_serial ?S i serial c) (ds_get_by_serial ?T i serial dir)" for serial
    using rel by (simp add: sim_def directory_store_def get_by_serial_healthy dir)
  show "sim implements (ds_update_status ?S i did st reason c) (ds_update_status ?T i did st reason dir)" for did st reason
    using c rel wf_update_devices [OF c(2)]
    by (auto simp: sim_def directory_store_def update_status_healthy change_record_def dir update_where_def split: option.split
        intro!: implementsI directory_change)
  show "sim implements (ds_touch_last_seen ?S i did c) (ds_touch_last_seen ?T i did dir)" for did
    using c rel wf_update_devices [OF c(2)]
    by (auto simp: sim_def directory_store_def touch_last_seen_healthy change_record_def dir update_where_def split: option.split
        intro!: implementsI directory_change)
  show "sim implements (ds_list_devices ?S i m sf limit cursor c) (ds_list_devices ?T i m sf limit cursor dir)"
    if "0 < limit" "limit \<le> int i32_max" for m sf limit cursor
    using that rel list_devices_healthy [of _ "nat limit" m sf cursor c]
    by (simp add: sim_def directory_store_def dir dir_list_listing c(2) nat_le_iff)
  show "sim implements (ds_register_serial ?S i serial model c) (ds_register_serial ?T i serial model dir)" for serial model
    using c rel [unfolded dir] wf_upsert_serial [OF c(2), of serial model] row_with_None [of dr_serial serial "devices (tabs c)"]
    by (auto simp: sim_def directory_store_def register_serial_healthy upsert_serial_def dir directory_enter directory_unclaim
        split: option.split intro!: implementsI)
  show "sim implements (ds_lookup_and_claim ?S i serial c) (ds_lookup_and_claim ?T i serial dir)" for serial
    using c rel wf_update_pre [OF c(2)]
    by (auto simp: sim_def directory_store_def lookup_and_claim_healthy dir_claim_def dir claim_serial_def
        split: option.split intro!: implementsI directory_claim [unfolded claim_serial_def])
  show "sim implements (ds_count_devices ?S i c) (ds_count_devices ?T i dir)"
    using rel c(2) by (simp add: sim_def directory_store_def count_devices_def db_lock_def with_lock_def query_def dir
        dom_directory wf_tables_def card_image distinct_map distinct_card)
  show "sim implements (ds_seed_manifest ?S i serial model token c) (ds_seed_manifest ?T i serial model token dir)" for serial model token
    using c wf_insert_manifest [OF c(2)]
    by (auto simp: sim_def directory_store_def seed_manifest_healthy directory_seed dir intro!: implementsI)
  show "sim implements (ds_claim_manifest_entry ?S i serial token c) (ds_claim_manifest_entry ?T i serial token dir)" for serial token
    using c rel
    by (auto simp: sim_def directory_store_def claim_manifest_entry_healthy dir_claim_manifest_def dir directory_provision
        split: option.split intro!: implementsI wf_provision_serial)
qed

section \<open>The service answers as the directory does\<close>

lemma sqlite_simulates:
  assumes "\<And>i. no_fault (eng i)"
  shows "store_simulation (sqlite_store eng uuid clock) (directory_store uuid clock) implements"
proof -
  have "eng = (\<lambda>i. healthy_engine (err_display (eng i)))"
    using assms no_fault_is_healthy by (intro ext) blast
  then show ?thesis
    using sqlite_directory.store_simulation_axioms [of "\<lambda>i. err_display (eng i)" uuid clock] by simp
qed

text \<open>
  C5. The device-management service is a directory: for every sequence of requests (provisioning,
  enrollment, renewal, lookups, listings, status changes, heartbeat streams), every clock, fresh
  ids and PKI, the handlers over \<open>SqliteDeviceStore\<close> with a working engine give exactly the answers
  the handlers give over the directory of maps, on every branch, errors included, and the tables they
  leave are those of the directory.
\<close>

theorem service_answers_as_directory:
  assumes "\<And>n i. no_fault (eng n i)" and "wf_tables t" and "list_all int32_request reqs"
  shows "fst (serve_all (\<lambda>n. sqlite_store (eng n) (uuid n) (clock n)) env srv psrv 0 reqs (open_conn t)) =
      fst (serve_all (\<lambda>n. directory_store (uuid n) (clock n)) env srv psrv 0 reqs (directory_of t)) \<and>
    directory_of (tabs (snd (serve_all (\<lambda>n. sqlite_store (eng n) (uuid n) (clock n)) env srv psrv 0 reqs (open_conn t)))) =
      snd (serve_all (\<lambda>n. directory_store (uuid n) (clock n)) env srv psrv 0 reqs (directory_of t))"
proof -
  have "implements (open_conn t) (directory_of t)"
    using assms(2) by (simp add: implements_def)
  from serve_all_sim [OF sqlite_simulates this assms(3), of eng uuid clock env srv psrv 0] assms(1)
  show ?thesis by (simp add: sim_def implements_def)
qed

definition demo_requests :: "dms_request list" where
  "demo_requests =
     [ProvisionDevice \<lparr>pr_serial = ''SN1'', pr_csr_pem = ''RSN1'', pr_token = ''tok1''\<rparr>,
      BootstrapEnroll (Some [''DEVICE/SN1'']) \<lparr>br_csr_pem = ''RSN1'', br_model = [], br_firmware = ''1.0'', br_serial = ''SN1''\<rparr>,
      BootstrapEnroll (Some [''DEVICE/SN1'']) \<lparr>br_csr_pem = ''RSN1'', br_model = [], br_firmware = ''1.0'', br_serial = ''SN1''\<rparr>,
      GetDeviceInfo ''D1'']"

theorem service_answers_as_directory_witness:
  "fst (serve_all (\<lambda>n. sqlite_store (\<lambda>_. reliable) ''D1'' (\<lambda>_. 100)) (\<lambda>n. request_env_of demo_env)
       \<lparr>srv_enrollment = demo_service, srv_device_ca_pem = ''DEVICE''\<rparr> demo_provisioning 0 demo_requests (open_conn factory_tables)) =
     [Provisioned (Ok ''DEVICE/SN1''),
      Bootstrapped (Ok \<lparr>bs_device_id = ''D1'', bs_operational_cert_pem = ''FLEET/SN1'', bs_fleet_ca_chain_pem = ''FLEET'',
        bs_cert_expires_at = Some \<lparr>ts_seconds = 31536100, ts_nanos = 0\<rparr>\<rparr>),
      Bootstrapped (Err (status_of AlreadyExists ''SN1'')),
      DeviceInfo (Ok (record_to_proto demo_device))]"
proof -
  have signed: "sign_csr demo_pki 100 ''RSN1'' ''DEVICE'' ''DEVICEKEY'' 365 = Ok ''DEVICE/SN1''"
    "sign_csr demo_pki 100 ''RSN1'' ''FLEET'' ''FLEETKEY'' 365 = Ok ''FLEET/SN1''"
    by (simp_all add: demo_sign_csr)
  have chk: "enroll_check demo_pki ''SN1'' [''DEVICE/SN1''] ''DEVICE'' = Ok ''SN1''"
    by (simp add: enroll_check_def extract_serial_def verify_signed_by_def certs_from_pem_def demo_pki_def)
  have "fst (serve_all (\<lambda>n. sqlite_store (\<lambda>_. reliable) ''D1'' (\<lambda>_. 100)) (\<lambda>n. request_env_of demo_env)
       \<lparr>srv_enrollment = demo_service, srv_device_ca_pem = ''DEVICE''\<rparr> demo_provisioning 0 demo_requests (open_conn factory_tables)) =
    fst (serve_all (\<lambda>n. directory_store ''D1'' (\<lambda>_. 100)) (\<lambda>n. request_env_of demo_env)
       \<lparr>srv_enrollment = demo_service, srv_device_ca_pem = ''DEVICE''\<rparr> demo_provisioning 0 demo_requests (directory_of factory_tables))"
    using service_answers_as_directory [of "\<lambda>_ _. reliable" factory_tables demo_requests "\<lambda>_. ''D1''" "\<lambda>_ _. 100"
        "\<lambda>_. request_env_of demo_env" "\<lparr>srv_enrollment = demo_service, srv_device_ca_pem = ''DEVICE''\<rparr>" demo_provisioning]
    by (simp add: demo_requests_def factory_tables_def wf_tables_def)
  then show ?thesis
    using signed chk
    by (simp add: demo_requests_def provision_device_on_def rpc_bootstrap_enroll_on_def bootstrap_enroll_on_def
        rpc_get_device_on_def directory_store_def dir_claim_manifest_def dir_claim_def enter_serial_def put_record_def
        new_record_def demo_defs cert_expires_at_def wrap_i64_def)
qed

end
