(* ===== verification/Device_Robustness.thy ===== *)
theory Device_Robustness
  imports Device_Directory
begin

text \<open>
  No request brings a handler of the device-management service down: whatever the database engine
  answers (failing statements, a poisoned mutex), the handlers return a value or a status. The only
  panic left is the addition of the validity to the clock in \<open>sign_csr\<close>, when the result is beyond the
  last date the \<open>time\<close> crate represents. The contract \<open>panic_free_store\<close> is stated for the trait and met by
  \<open>SqliteDeviceStore\<close> under every engine.
\<close>

section \<open>Results that are not panics\<close>

definition calm :: "('e, 'a) result \<Rightarrow> bool" where
  "calm r \<longleftrightarrow> r \<noteq> Panicked"

lemma calm_simps [simp]: "calm (Inr a)" "calm (Inl x) \<longleftrightarrow> x \<noteq> Panic" "calm (map_err f r) = calm r" "calm (ok_or e y)"
  by (auto simp: calm_def map_err_eq_Panic ok_or_def split: option.split)

lemma calm_try_bind: "calm (fst m) \<Longrightarrow> (\<And>a s. calm (fst (k a s))) \<Longrightarrow> calm (fst (try_bind m k))"
  by (cases "(m, k)" rule: try_bind.cases) auto

lemma calm_try_pure: "calm r \<Longrightarrow> (\<And>a. r = Inr a \<Longrightarrow> calm (k a)) \<Longrightarrow> calm (try_pure r k)"
  by (cases r) auto

lemma calm_collect: "list_all calm rs \<Longrightarrow> calm (collect_results rs)"
  by (induction rs) (auto intro!: calm_try_pure)

lemma calm_sql: "(\<And>t. calm (fst (stmt t))) \<Longrightarrow> calm (fst (sql eng i stmt c))"
  by (auto simp: sql_def split: option.split prod.split) (metis fst_conv)

lemma calm_transaction:
  assumes "\<And>c. calm (fst (b c))"
  shows "calm (fst (transaction eng n db b c))"
  using assms [of "c\<lparr>saved := Some (tabs c)\<rparr>"]
  by (auto simp: transaction_def begin_immediate_def commit_def intro!: calm_try_bind split: option.split prod.split sum.split)

text \<open>What the handlers rely on of the X.509 libraries: their functions return.\<close>

definition calm_pki :: "pki \<Rightarrow> bool" where
  "calm_pki pki \<longleftrightarrow>
     (\<forall>p. calm (keypair_from_pem pki p)) \<and> (\<forall>p. calm (ca_params_from_pem pki p)) \<and> (\<forall>p k. calm (ca_self_signed pki p k)) \<and>
     (\<forall>p. calm (csr_from_pem pki p)) \<and> (\<forall>p c k. calm (csr_signed_by pki p c k)) \<and> (\<forall>p. list_all calm (pem_certs pki p)) \<and>
     (\<forall>d. calm (x509_from_der pki d)) \<and> (\<forall>x. \<forall>r \<in> set (common_names pki x). calm r) \<and> (\<forall>x k. calm (verify_signature pki x k))"

lemma calm_sign_csr:
  assumes "calm_pki pki" and "now + uint days * 86400 \<le> time_max pki"
  shows "calm (sign_csr pki now csr ca key days)"
  using assms by (auto simp: sign_csr_def calm_pki_def Let_def intro!: calm_try_pure)

lemma calm_enroll_check: "calm_pki pki \<Longrightarrow> calm (enroll_check pki serial certs ca)"
  by (auto simp: enroll_check_def extract_serial_def verify_signed_by_def certs_from_pem_def calm_pki_def
      intro!: calm_try_pure calm_collect split: list.split) (metis list.set_intros(1))

section \<open>The trait\<close>

locale panic_free_store =
  fixes S :: "'s device_store"
  assumes create_device: "calm (fst (ds_create_device S i d s))"
    and get_device: "calm (fst (ds_get_device S i did s))"
    and update_status: "calm (fst (ds_update_status S i did st reason s))"
    and list_devices: "calm (fst (ds_list_devices S i m sf limit cursor s))"
    and lookup_and_claim: "calm (fst (ds_lookup_and_claim S i serial s))"
    and claim_manifest_entry: "calm (fst (ds_claim_manifest_entry S i serial token s))"
    and touch_last_seen: "calm (fst (ds_touch_last_seen S i did s))"
begin

lemma bootstrap_enroll_calm:
  assumes "calm_pki (rq_pki env)" and "rq_clock env 0 + uint (cert_validity_days svc) * 86400 \<le> time_max (rq_pki env)"
  shows "calm (fst (bootstrap_enroll_on S env svc serial csr fw certs ca s))"
  using calm_sign_csr [OF assms] calm_enroll_check [OF assms(1)]
  by (auto simp: bootstrap_enroll_on_def Let_def lookup_and_claim create_device intro!: calm_try_bind)

lemma renew_cert_calm:
  assumes "calm_pki (rq_pki env)" and "rq_clock env 0 + uint (cert_validity_days svc) * 86400 \<le> time_max (rq_pki env)"
  shows "calm (fst (renew_cert_on S env svc did csr s))"
  using calm_sign_csr [OF assms] by (auto simp: renew_cert_on_def get_device intro!: calm_try_bind)

lemma provision_device_calm:
  assumes "calm_pki (rq_pki env)" and "rq_clock env 1 + 365 * 86400 \<le> time_max (rq_pki env)"
  shows "calm (fst (provision_device_on S env srv req s))"
  using calm_sign_csr [OF assms(1), of "rq_clock env 1" 365] assms(2)
  by (auto simp: provision_device_on_def claim_manifest_entry intro!: calm_try_bind)

end

text \<open>The answers of the gRPC services that are panics.\<close>

primrec panics :: "dms_response \<Rightarrow> bool" where
  "panics (Provisioned r) = (r = Panicked)"
| "panics (Bootstrapped r) = (r = Panicked)"
| "panics (Renewed r) = (r = Panicked)"
| "panics (DeviceInfo r) = (r = Panicked)"
| "panics (DeviceInfos r) = (r = Panicked)"
| "panics (StatusUpdated r) = (r = Panicked)"
| "panics (Heartbeats out) = (snd out = TaskPanicked)"

context panic_free_store
begin

lemma heartbeat_loop_calm: "snd (fst (heartbeat_loop_on S accepts did i msgs s)) = TaskReturned"
proof (induction msgs arbitrary: i s)
  case (Cons msg msgs)
  show ?case
  proof (cases msg)
    case (Inr req)
    obtain r s1 where touch: "ds_touch_last_seen S i did s = (r, s1)" by fastforce
    then have "r \<noteq> Panicked" using touch_last_seen [of i did s] by (simp add: calm_def)
    then show ?thesis
      using Cons.IH [of "Suc i" s1] by (auto simp: Inr touch split: sum.split failure.split dms_error.split prod.split)
  qed simp
qed simp

lemma heartbeat_handle_calm: "snd (fst (heartbeat_handle_on S accepts show msgs s)) = TaskReturned"
  by (cases "(S, accepts, show, msgs, s)" rule: heartbeat_handle_on.cases)
    (simp_all add: heartbeat_loop_calm del: heartbeat_loop_on.simps)

lemma serve_calm:
  assumes "calm_pki (rq_pki env)"
    and "rq_clock env 0 + uint (cert_validity_days (srv_enrollment srv)) * 86400 \<le> time_max (rq_pki env)"
    and "rq_clock env 1 + 365 * 86400 \<le> time_max (rq_pki env)"
  shows "\<not> panics (fst (serve S env srv psrv req s))"
proof -
  have "calm (fst (rpc_bootstrap_enroll_on S env srv certs breq s))" for certs breq
    using bootstrap_enroll_calm [OF assms(1,2)] by (auto simp: rpc_bootstrap_enroll_on_def intro!: calm_try_bind)
  moreover have "calm (fst (rpc_renew_cert_on S env srv did csr s))" for did csr
    using renew_cert_calm [OF assms(1,2)] by (auto simp: rpc_renew_cert_on_def intro!: calm_try_bind)
  moreover have "calm (fst (rpc_get_device_on S env did s))" for did
    by (auto simp: rpc_get_device_on_def get_device intro!: calm_try_bind)
  moreover have "calm (fst (rpc_list_devices_on S env lreq s))" for lreq
    by (auto simp: rpc_list_devices_on_def list_devices Let_def intro!: calm_try_bind)
  moreover have "calm (fst (rpc_update_device_status_on S env did st reason s))" for did st reason
    by (auto simp: rpc_update_device_status_on_def update_status get_device intro!: calm_try_bind)
  ultimately show ?thesis
    using provision_device_calm [OF assms(1,3)] heartbeat_handle_calm by (cases req) (simp_all add: calm_def)
qed

end

interpretation sqlite_calm: panic_free_store "sqlite_store eng uuid clock" for eng uuid clock
proof
  fix i and c :: dconn
  note calm_intros = calm_try_bind calm_sql
  show "calm (fst (ds_create_device (sqlite_store eng uuid clock) i d c))" for d
    by (auto simp: create_device_def db_lock_def with_lock_def insert_device_def intro!: calm_intros)
  show "calm (fst (ds_get_device (sqlite_store eng uuid clock) i did c))" for did
    by (auto simp: get_device_def db_lock_def with_lock_def query_row_def intro!: calm_intros split: option.split)
  show "calm (fst (ds_update_status (sqlite_store eng uuid clock) i did st reason c))" for did st reason
    by (auto simp: update_status_def db_lock_def with_lock_def update_where_def intro!: calm_intros)
  show "calm (fst (ds_touch_last_seen (sqlite_store eng uuid clock) i did c))" for did
    by (auto simp: touch_last_seen_def db_lock_def with_lock_def update_where_def intro!: calm_intros)
  show "calm (fst (ds_list_devices (sqlite_store eng uuid clock) i m sf limit cursor c))" for m sf limit cursor
    by (auto simp: list_devices_def db_lock_def with_lock_def query_def Let_def intro!: calm_intros)
  have body: "calm (fst (claim_body (eng i) serial c))" "calm (fst (manifest_body (eng i) x c))" for serial x and c :: dconn
    by (auto simp: claim_body_def manifest_body_def query_row_def update_where_def insert_pre_def intro!: calm_intros
        split: option.split prod.split)
  show "calm (fst (ds_lookup_and_claim (sqlite_store eng uuid clock) i serial c))" for serial
    using body by (auto simp: lookup_and_claim_def db_lock_def with_lock_def intro: calm_transaction)
  show "calm (fst (ds_claim_manifest_entry (sqlite_store eng uuid clock) i serial token c))" for serial token
    using body by (auto simp: claim_manifest_entry_def db_lock_def with_lock_def intro: calm_transaction)
qed

section \<open>The service\<close>

text \<open>
  C13. No request to the store panics: for every provisioning, enrollment, renewal, lookup, listing, status
  change and heartbeat stream, every state of the database and every behaviour of the engine (failing
  statements at any place, a poisoned mutex, a transaction left open), the unary handlers answer with a
  value or a status and the task of the heartbeat stream returns, as long as the X.509 libraries return and
  the validity of a certificate ends within the dates that can be represented. (\<open>StreamTelemetry\<close>, which
  has no store and no PKI call, is not among these requests.)
\<close>

theorem no_request_panics:
  assumes "calm_pki (rq_pki env)"
    and "rq_clock env 0 + uint (cert_validity_days (srv_enrollment srv)) * 86400 \<le> time_max (rq_pki env)"
    and "rq_clock env 1 + 365 * 86400 \<le> time_max (rq_pki env)"
  shows "\<not> panics (fst (serve (sqlite_store eng uuid clock) env srv psrv req c))"
  using assms by (rule sqlite_calm.serve_calm)

lemma calm_demo_pki: "calm_pki demo_pki"
  by (auto simp: calm_pki_def demo_pki_def split: list.split)

theorem no_request_panics_witness:
  "\<not> panics (fst (serve (sqlite_store (\<lambda>_. failing_at 0 InvalidQuery True) ''D1'' (\<lambda>_. 100)) (request_env_of demo_env)
      \<lparr>srv_enrollment = demo_service, srv_device_ca_pem = ''DEVICE''\<rparr> demo_provisioning
      (ProvisionDevice \<lparr>pr_serial = ''SN1'', pr_csr_pem = ''RSN1'', pr_token = ''tok1''\<rparr>) (open_conn factory_tables)))"
  by (rule no_request_panics) (simp_all add: demo_env_def demo_service_def calm_demo_pki, simp_all add: demo_pki_def)

text \<open>
  The number of days is taken from the environment unchecked: when the validity ends beyond the
  last representable date, an enrollment whose certificate and serial are in order panics while
  signing, and it has spent the serial: the claim is committed and nothing of it is undone.
\<close>

theorem oversized_validity_panics:
  assumes "no_fault (env_engine env 0)" and "idle c"
    and "enroll_check (env_pki env) sreq certs ca = Ok serial"
    and "row_with pe_serial serial (pre_enrollment (tabs c)) = Some row" and "pe_claimed row = 0"
    and "keypair_from_pem (env_pki env) (fleet_ca_key_pem svc) = Ok k" and "ca_params_from_pem (env_pki env) (fleet_ca_cert_pem svc) = Ok p"
    and "ca_self_signed (env_pki env) p k = Ok ca_cert" and "csr_from_pem (env_pki env) csr = Ok csr_parsed"
    and "time_max (env_pki env) < env_clock env 0 + uint (cert_validity_days svc) * 86400"
  shows "\<exists>c'. bootstrap_enroll env svc sreq csr fw certs ca c = (Panicked, c') \<and>
    serial_claimed (committed c') serial \<and> devices (committed c') = devices (committed c)"
proof -
  define c' where "c' = c\<lparr>tabs := claim_serial serial (tabs c)\<rparr>"
  have "lookup_and_claim (env_engine env 0) serial c = (Ok \<lparr>per_serial = serial, per_model = pe_model row\<rparr>, c')"
    using assms(1,2,4,5) by (simp add: lookup_and_claim_healthy c'_def)
  moreover have "sign_csr (env_pki env) (env_clock env 0) csr (fleet_ca_cert_pem svc) (fleet_ca_key_pem svc) (cert_validity_days svc) = Panicked"
    using assms(6-10) by (simp add: sign_csr_def Let_def)
  ultimately have "bootstrap_enroll env svc sreq csr fw certs ca c = (Panicked, c')"
    using assms(3) by (simp add: bootstrap_enroll_def enroll_finish_def)
  moreover have "serial_claimed (committed c') serial"
    using assms(2,4) by (simp add: c'_def idle_def committed_def serial_claimed_claim_serial)
  moreover have "devices (committed c') = devices (committed c)"
    using assms(2) by (simp add: c'_def idle_def committed_def claim_serial_def)
  ultimately show ?thesis by blast
qed

theorem oversized_validity_panics_witness:
  "\<exists>c'. bootstrap_enroll demo_env (demo_service\<lparr>cert_validity_days := 4294967295\<rparr>) ''SN1'' ''RSN1'' ''1.0'' [''DEVICE/SN1''] ''DEVICE''
      (open_conn ready_tables) = (Panicked, c') \<and> serial_claimed (committed c') ''SN1''"
proof -
  have "enroll_check (env_pki demo_env) ''SN1'' [''DEVICE/SN1''] ''DEVICE'' = Ok ''SN1''"
    by (simp add: demo_env_def enroll_check_def extract_serial_def verify_signed_by_def certs_from_pem_def demo_pki_def)
  then have "\<exists>c'. bootstrap_enroll demo_env (demo_service\<lparr>cert_validity_days := 4294967295\<rparr>) ''SN1'' ''RSN1'' ''1.0'' [''DEVICE/SN1''] ''DEVICE''
      (open_conn ready_tables) = (Panicked, c') \<and> serial_claimed (committed c') ''SN1'' \<and>
      devices (committed c') = devices (committed (open_conn ready_tables))"
    by (intro oversized_validity_panics [where row = "\<lparr>pe_serial = ''SN1'', pe_model = ''Beta'', pe_claimed = 0\<rparr>" and k = "''FLEETKEY''"
          and p = "''FLEET''" and ca_cert = "''FLEET''" and csr_parsed = "\<lparr>csr_request = ''SN1'', not_before = 0, not_after = 0\<rparr>"])
      (simp_all add: demo_defs, simp_all add: demo_pki_def)
  then show ?thesis by blast
qed

end
