(* ===== verification/Ota_System.thy ===== *)
theory Ota_System
  imports Ota_Properties "HOL-Library.Sublist"
begin

text \<open>
  The running OTA service as a step relation. \<open>dispatch_update\<close> stores the job and then waits for the
  lock of the dispatcher (\<open>await\<close>), so other handlers run in between, and a request that is cancelled
  there has stored a job without sending its command. The steps are the store calls and the
  dispatcher calls with the handler code between them, the delivery of a command to a watching
  robot, and restarts; every interleaving of concurrent requests is a run.
\<close>

section \<open>State and steps\<close>

text \<open>
  \<open>os_tasks\<close> holds the dispatches past their store call; \<open>os_sent\<close> the commands given to the
  channels with the device, \<open>os_got\<close> what each receiver has taken from its stream.
\<close>

record 'ch ota_sys =
  os_service :: "'ch ota_state"
  os_tasks :: "nat \<Rightarrow> (dispatch_update_request \<times> job_record) option"
  os_sent :: "(string \<times> update_command) list"
  os_got :: "string \<Rightarrow> nat \<Rightarrow> update_command list"

type_synonym 'ch recv = "nat \<Rightarrow> 'ch \<Rightarrow> update_command option \<times> 'ch"

definition ota_start :: "'ch ota_sys" where
  "ota_start = \<lparr>os_service = ota_init, os_tasks = Map.empty, os_sent = [], os_got = (\<lambda>_ _. [])\<rparr>"

definition sent_to :: "string \<Rightarrow> 'ch ota_sys \<Rightarrow> update_command list" where
  "sent_to did s = map snd (filter (\<lambda>(d, _). d = did) (os_sent s))"

text \<open>The command of a dispatch.\<close>

definition task_command :: "dispatch_update_request \<times> job_record \<Rightarrow> update_command" where
  "task_command tk = job_command (snd tk) (du_apply_by (fst tk))"

fun store_event :: "ota_event \<Rightarrow> bool" where
  "store_event (Check _ _ _) = True"
| "store_event (Ack _ _ _) = True"
| "store_event (ListJobs _ _ _ _ _) = True"
| "store_event _ = False"

definition with_conn :: "oconn \<Rightarrow> 'ch ota_sys \<Rightarrow> 'ch ota_sys" where
  "with_conn c s = s\<lparr>os_service := (os_service s)\<lparr>ot_conn := c\<rparr>\<rparr>"

definition with_senders :: "'ch senders \<Rightarrow> 'ch ota_sys \<Rightarrow> 'ch ota_sys" where
  "with_senders m s = s\<lparr>os_service := (os_service s)\<lparr>ot_senders := m\<rparr>\<rparr>"

abbreviation os_conn :: "'ch ota_sys \<Rightarrow> oconn" where
  "os_conn s \<equiv> ot_conn (os_service s)"

abbreviation os_senders :: "'ch ota_sys \<Rightarrow> 'ch senders" where
  "os_senders s \<equiv> ot_senders (os_service s)"

text \<open>What a step is to the robots; the rest of the service's own steps are \<open>Other\<close>.\<close>

datatype ota_action =
    Request ota_event
  | Watched string nat
  | Received string nat update_command
  | Other

inductive ota_act :: "'ch broadcast \<Rightarrow> 'ch recv \<Rightarrow> ota_action \<Rightarrow> 'ch ota_sys \<Rightarrow> 'ch ota_sys \<Rightarrow> bool"
  for bc :: "'ch broadcast" and recv :: "'ch recv" where
  request:
    "store_event ev \<Longrightarrow> ota_act bc recv (Request ev) s (s\<lparr>os_service := ota_step bc ev (os_service s)\<rparr>)"
| watch:
    "watch_updates bc did (os_service s) = (r, st) \<Longrightarrow>
     ota_act bc recv (Watched did r) s (s\<lparr>os_service := st, os_got := (os_got s)(did := (os_got s did)(r := []))\<rparr>)"
| receive:
    "os_senders s did = Some ch \<Longrightarrow> recv r ch = (Some cmd, ch') \<Longrightarrow>
     ota_act bc recv (Received did r cmd) s (with_senders ((os_senders s)(did \<mapsto> ch'))
       (s\<lparr>os_got := (os_got s)(did := (os_got s did)(r := os_got s did r @ [cmd]))\<rparr>))"
| disconnect:
    "ota_act bc recv Other s (with_senders (unsubscribe bc did r (os_senders s)) s)"
| dispatch_stored:
    "create_job eng jid now (dispatch_new_job req) (os_conn s) = (Inr job, c') \<Longrightarrow> os_tasks s i = None \<Longrightarrow>
     ota_act bc recv Other s (with_conn c' (s\<lparr>os_tasks := (os_tasks s)(i \<mapsto> (req, job))\<rparr>))"
| dispatch_refused:
    "create_job eng jid now (dispatch_new_job req) (os_conn s) = (Inl f, c') \<Longrightarrow>
     ota_act bc recv Other s (with_conn c' s)"
| dispatch_sent:
    "os_tasks s i = Some tk \<Longrightarrow> dispatch bc (du_device_id (fst tk)) (task_command tk) (os_senders s) = (Inr n, m) \<Longrightarrow>
     ota_act bc recv Other s (with_senders m (s\<lparr>os_tasks := (os_tasks s)(i := None),
       os_sent := os_sent s @ [(du_device_id (fst tk), task_command tk)]\<rparr>))"
| dispatch_unsent:
    "os_tasks s i = Some tk \<Longrightarrow> dispatch bc (du_device_id (fst tk)) (task_command tk) (os_senders s) = (Inl f, m) \<Longrightarrow>
     ota_act bc recv Other s (with_senders m (s\<lparr>os_tasks := (os_tasks s)(i := None)\<rparr>))"
| dispatch_cancelled:
    "os_tasks s i = Some tk \<Longrightarrow> ota_act bc recv Other s (s\<lparr>os_tasks := (os_tasks s)(i := None)\<rparr>)"
| restart:
    "ota_act bc recv Other s (s\<lparr>os_service := \<lparr>ot_conn = open_conn (committed (os_conn s)), ot_senders = dispatcher_new\<rparr>,
       os_tasks := Map.empty\<rparr>)"

definition ota_trans :: "'ch broadcast \<Rightarrow> 'ch recv \<Rightarrow> 'ch ota_sys \<Rightarrow> 'ch ota_sys \<Rightarrow> bool" where
  "ota_trans bc recv s s' \<longleftrightarrow> (\<exists>a. ota_act bc recv a s s')"

lemma ota_trans_act [intro]: "ota_act bc recv a s s' \<Longrightarrow> ota_trans bc recv s s'"
  by (auto simp: ota_trans_def)

inductive ota_reachable :: "'ch broadcast \<Rightarrow> 'ch recv \<Rightarrow> 'ch ota_sys \<Rightarrow> bool"
  for bc :: "'ch broadcast" and recv :: "'ch recv" where
  start: "ota_reachable bc recv ota_start"
| step: "ota_reachable bc recv s \<Longrightarrow> ota_trans bc recv s s' \<Longrightarrow> ota_reachable bc recv s'"

text \<open>A whole \<open>dispatch_update\<close> is its two steps with nothing in between.\<close>

lemma with_simps [simp]:
  "os_service (with_conn c s) = (os_service s)\<lparr>ot_conn := c\<rparr>" "os_tasks (with_conn c s) = os_tasks s"
  "os_sent (with_conn c s) = os_sent s" "os_got (with_conn c s) = os_got s"
  "os_service (with_senders m s) = (os_service s)\<lparr>ot_senders := m\<rparr>" "os_tasks (with_senders m s) = os_tasks s"
  "os_sent (with_senders m s) = os_sent s" "os_got (with_senders m s) = os_got s"
  "sent_to did (with_conn c s) = sent_to did s" "sent_to did (with_senders m s) = sent_to did s"
  by (simp_all add: with_conn_def with_senders_def sent_to_def)

lemma dispatch_is_two_steps:
  assumes "os_tasks s i = None"
  shows "\<exists>s'. (ota_trans bc recv)\<^sup>*\<^sup>* s s' \<and> os_service s' = ota_step bc (Dispatch eng jid now req) (os_service s)"
proof -
  obtain res c where c: "create_job eng jid now (dispatch_new_job req) (os_conn s) = (res, c)" by fastforce
  show ?thesis
  proof (cases res)
    case (Inl f)
    with c have "ota_trans bc recv s (with_conn c s)" by (auto intro: ota_act.intros)
    with Inl c show ?thesis
      by (intro exI [of _ "with_conn c s"]) (auto simp: dispatch_update_def on_store_def)
  next
    case (Inr job)
    let ?s1 = "with_conn c (s\<lparr>os_tasks := (os_tasks s)(i \<mapsto> (req, job))\<rparr>)"
    have one: "ota_trans bc recv s ?s1"
      using c Inr assms by (auto intro: ota_act.intros)
    obtain r m where d: "dispatch bc (du_device_id req) (job_command job (du_apply_by req)) (os_senders s) = (r, m)" by fastforce
    have "\<exists>s'. ota_trans bc recv ?s1 s' \<and> os_service s' = (os_service s)\<lparr>ot_conn := c, ot_senders := m\<rparr>"
    proof (cases r)
      case (Inl f)
      with d ota_act.dispatch_unsent [where s = ?s1 and i = i and tk = "(req, job)" and f = f and m = m and bc = bc and recv = recv, THEN ota_trans_act]
      show ?thesis by (fastforce simp: task_command_def)
    next
      case (Inr n)
      with d ota_act.dispatch_sent [where s = ?s1 and i = i and tk = "(req, job)" and n = n and m = m and bc = bc and recv = recv, THEN ota_trans_act]
      show ?thesis by (fastforce simp: task_command_def)
    qed
    then obtain s' where "ota_trans bc recv ?s1 s'" "os_service s' = (os_service s)\<lparr>ot_conn := c, ot_senders := m\<rparr>" by blast
    moreover from this(1) one have "(ota_trans bc recv)\<^sup>*\<^sup>* s s'"
      by (meson converse_rtranclp_into_rtranclp r_into_rtranclp)
    ultimately show ?thesis
      using Inr c d by (intro exI [of _ s']) (simp add: dispatch_update_def on_store_def snd_try_bind_keep)
  qed
qed

section \<open>How the stored jobs develop\<close>

context job_writes
begin

text \<open>Across a step of the running service whose acknowledgement, if it is one, is allowed.\<close>

lemma moves_act:
  assumes "ota_act bc recv a s s'" and "idle (os_conn s)"
    and "\<And>eng now req. a = Request (Ack eng now req) \<Longrightarrow>
      W (au_update_job_id req) (if au_success req then Completed else Failed) (non_empty (au_error_message req))"
  shows "moves P (os_conn s) (os_conn s')"
  using assms(1)
proof (cases rule: ota_act.cases)
  case (request ev)
  then show ?thesis
    using assms(2,3) by (cases ev) (auto simp: ota_step_conn moves_step simp del: ota_step.simps job_step.simps)
next
  case (watch did r st)
  then show ?thesis
    using moves_refl [OF assms(2)] by (auto simp: watch_updates_def split: prod.splits)
next
  case (dispatch_stored eng jid now req job c' i)
  then show ?thesis
    using moves_create [OF assms(2), of eng jid now "dispatch_new_job req"] by simp
next
  case (dispatch_refused eng jid now req f c')
  then show ?thesis
    using moves_create [OF assms(2), of eng jid now "dispatch_new_job req"] by simp
next
  case restart
  then show ?thesis
    using assms(2) by (simp add: moves_def P_refl)
qed (use moves_refl [OF assms(2)] in simp_all)

end

context job_relation
begin

lemma moves_trans: "ota_trans bc recv s s' \<Longrightarrow> idle (os_conn s) \<Longrightarrow> moves P (os_conn s) (os_conn s')"
  unfolding ota_trans_def using moves_act finished_inactive by (metis (full_types))

end

text \<open>
  A job keeps its device, its version, its artifact and its creation time; once it is finished it is
  never active again.
\<close>

definition job_life :: "ota_tables \<Rightarrow> ota_tables \<Rightarrow> bool" where
  "job_life t t' \<longleftrightarrow>
     (\<forall>r \<in> set (update_jobs t). \<exists>r' \<in> set (update_jobs t').
        job_cols r' = job_cols r \<and> jb_created_at r' = jb_created_at r \<and>
        (active_status (jb_status r') \<longrightarrow> active_status (jb_status r)))"

interpretation life: job_relation job_life
proof
  show "job_life t t''" if "job_life t t'" "job_life t' t''" for t t' t''
    using that unfolding job_life_def by metis
  show "job_life t (update_jobs_update (set_rows (\<lambda>r. jb_id r = jid) (finish_row now st err)) t)"
    if "\<not> active_status (as_str st)" for t st jid now err
    unfolding job_life_def
  proof
    fix r assume "r \<in> set (update_jobs t)"
    then show "\<exists>r' \<in> set (update_jobs (update_jobs_update (set_rows (\<lambda>r. jb_id r = jid) (finish_row now st err)) t)).
        job_cols r' = job_cols r \<and> jb_created_at r' = jb_created_at r \<and>
        (active_status (jb_status r') \<longrightarrow> active_status (jb_status r))"
      using that by (intro bexI [of _ "if jb_id r = jid then finish_row now st err r else r"])
        (auto simp: set_set_rows finish_row_def job_cols_def)
  qed
qed (auto simp: job_life_def)

text \<open>The only states of a job are those that the handlers write: it is never in progress.\<close>

definition three_phases :: "ota_tables \<Rightarrow> bool" where
  "three_phases t \<longleftrightarrow> (\<forall>r \<in> set (update_jobs t). jb_status r \<in> {''pending'', ''completed'', ''failed''})"

lemma inactive_status: "\<not> active_status (as_str st) \<Longrightarrow> as_str st \<in> {''completed'', ''failed''}"
  by (cases st) (simp_all add: active_status_def)

interpretation phases: job_relation "\<lambda>t t'. three_phases t \<longrightarrow> three_phases t'"
proof
  show "three_phases t \<longrightarrow> three_phases (update_jobs_update (set_rows (\<lambda>r. jb_id r = jid) (finish_row now st err)) t)"
    if "\<not> active_status (as_str st)" for t st jid now err
    using inactive_status [OF that] by (auto simp: three_phases_def set_set_rows finish_row_def)
  show "three_phases t \<longrightarrow> three_phases (t\<lparr>update_jobs := update_jobs t @ [row]\<rparr>)" if "jb_status row = ''pending''" for row t
    using that by (simp add: three_phases_def)
qed blast+

section \<open>The invariant of the running service\<close>

text \<open>What the code relies on of a receiver: it takes the oldest command that waits for it.\<close>

definition recv_laws :: "'ch recv \<Rightarrow> ('ch \<Rightarrow> nat \<Rightarrow> update_command list option) \<Rightarrow> ('ch \<Rightarrow> nat) \<Rightarrow> bool" where
  "recv_laws recv queues cap \<longleftrightarrow>
     (\<forall>r ch cmd ch'. recv r ch = (Some cmd, ch') \<longrightarrow>
        (\<exists>xs. queues ch r = Some (cmd # xs) \<and> queues ch' = (queues ch)(r \<mapsto> xs) \<and> cap ch' = cap ch))"

definition task_ids :: "'ch ota_sys \<Rightarrow> nat \<Rightarrow> string option" where
  "task_ids s i = map_option (\<lambda>tk. uc_update_job_id (task_command tk)) (os_tasks s i)"

abbreviation sent_ids :: "'ch ota_sys \<Rightarrow> string list" where
  "sent_ids s \<equiv> map (\<lambda>(_, cmd). uc_update_job_id cmd) (os_sent s)"

text \<open>The stored jobs; the dispatches, sent or under way, with their own jobs; and the streams of the robots.\<close>

definition jobs_ok :: "'ch ota_sys \<Rightarrow> bool" where
  "jobs_ok s \<longleftrightarrow> idle (os_conn s) \<and> wf_jobs (tabs (os_conn s)) \<and> three_phases (tabs (os_conn s))"

definition dispatches_ok :: "'ch ota_sys \<Rightarrow> bool" where
  "dispatches_ok s \<longleftrightarrow>
     (\<forall>i tk. os_tasks s i = Some tk \<longrightarrow> job_of (tabs (os_conn s)) (du_device_id (fst tk)) (task_command tk)) \<and>
     (\<forall>did cmd. (did, cmd) \<in> set (os_sent s) \<longrightarrow> job_of (tabs (os_conn s)) did cmd) \<and>
     distinct (sent_ids s) \<and> inj_on (task_ids s) (dom (task_ids s)) \<and> ran (task_ids s) \<inter> set (sent_ids s) = {}"

definition streams_ok :: "('ch \<Rightarrow> nat \<Rightarrow> update_command list option) \<Rightarrow> 'ch ota_sys \<Rightarrow> bool" where
  "streams_ok queues s \<longleftrightarrow>
     (\<forall>did r xs. backlog queues (os_senders s) did r = Some xs \<longrightarrow> subseq (os_got s did r @ xs) (sent_to did s))"

lemma ota_start_ok: "jobs_ok ota_start" "dispatches_ok ota_start" "streams_ok queues ota_start"
  by (simp_all add: jobs_ok_def dispatches_ok_def streams_ok_def ota_start_def ota_init_def dispatcher_new_def
      three_phases_def empty_jobs_def backlog_def task_ids_def ran_def wf_jobs_def inj_on_def dom_def)

lemma wf_trans:
  assumes "ota_trans bc recv s s'" and "idle (os_conn s)" and "wf_jobs (tabs (os_conn s))"
  shows "wf_jobs (tabs (os_conn s'))"
proof -
  obtain a where act: "ota_act bc recv a s s'" using assms(1) by (auto simp: ota_trans_def)
  have wf: "conn_all wf_jobs (os_conn s)"
    using assms(2,3) by (simp add: conn_all_def idle_def)
  from act show ?thesis
  proof (cases rule: ota_act.cases)
    case (request ev)
    have "conn_all wf_jobs (fold (\<lambda>(eng, op). job_step eng op) ops c)" if "conn_all wf_jobs c" for ops c
      using that by (induction ops arbitrary: c) (auto simp: job_step_wf)
    with request wf show ?thesis by (auto simp: ota_step_conn intro: conn_all_tabs)
  next
    case (watch did r st)
    with assms(3) show ?thesis by (auto simp: watch_updates_def split: prod.splits)
  next
    case (dispatch_stored eng jid now req job c' i)
    with create_job_wf [OF wf, of eng jid now "dispatch_new_job req"] show ?thesis by (simp add: conn_all_tabs)
  next
    case (dispatch_refused eng jid now req f c')
    with create_job_wf [OF wf, of eng jid now "dispatch_new_job req"] show ?thesis by (simp add: conn_all_tabs)
  next
    case restart
    with assms(2,3) show ?thesis by simp
  qed (use assms(3) in simp_all)
qed

lemma jobs_ok_trans: "ota_trans bc recv s s' \<Longrightarrow> jobs_ok s \<Longrightarrow> jobs_ok s'"
  using phases.moves_trans [of bc recv s s'] wf_trans [of bc recv s s'] by (simp add: jobs_ok_def moves_def)

text \<open>The dispatches stay in order when only the stored jobs grow.\<close>

lemma dispatches_ok_keeps:
  assumes "dispatches_ok s" and "keeps_jobs (tabs (os_conn s)) (tabs (os_conn s'))"
    and "os_tasks s' = os_tasks s" and "os_sent s' = os_sent s"
  shows "dispatches_ok s'"
proof -
  have "task_ids s' = task_ids s" using assms(3) by (simp add: task_ids_def fun_eq_iff)
  with assms(1,3,4) show ?thesis
    by (auto simp: dispatches_ok_def intro: job_of_keeps [OF _ assms(2)])
qed

text \<open>Sending, giving up or losing a dispatch takes it off the tasks.\<close>

lemma task_ids_remove: "task_ids (s\<lparr>os_tasks := (os_tasks s)(i := None)\<rparr>) = (task_ids s)(i := None)"
  by (simp add: task_ids_def fun_eq_iff)

lemma inj_on_remove: "inj_on f (dom f) \<Longrightarrow> inj_on (f(i := None)) (dom (f(i := None)))"
  by (auto simp: inj_on_def)

lemma ran_remove: "inj_on f (dom f) \<Longrightarrow> f i = Some x \<Longrightarrow> ran (f(i := None)) = ran f - {x}"
  by (auto simp: ran_def inj_on_def dom_def split: if_splits) (metis option.inject)

lemma dispatches_ok_remove: "dispatches_ok s \<Longrightarrow> dispatches_ok (s\<lparr>os_tasks := (os_tasks s)(i := None)\<rparr>)"
  using inj_on_remove [of "task_ids s" i]
  by (auto simp: dispatches_ok_def task_ids_remove ran_def split: if_splits)

lemma dispatches_ok_sent:
  assumes "dispatches_ok s" and "os_tasks s i = Some tk"
  shows "dispatches_ok (s\<lparr>os_tasks := (os_tasks s)(i := None), os_sent := os_sent s @ [(du_device_id (fst tk), task_command tk)]\<rparr>)"
proof -
  let ?id = "uc_update_job_id (task_command tk)"
  have inj: "inj_on (task_ids s) (dom (task_ids s))" using assms(1) by (simp add: dispatches_ok_def)
  have id: "task_ids s i = Some ?id" using assms(2) by (simp add: task_ids_def)
  then have "?id \<notin> set (sent_ids s)"
    using assms(1) ranI [of "task_ids s" i, OF id] unfolding dispatches_ok_def by blast
  moreover have "task_ids (s\<lparr>os_tasks := (os_tasks s)(i := None), os_sent := os_sent s @ [(du_device_id (fst tk), task_command tk)]\<rparr>) =
      (task_ids s)(i := None)"
    by (simp add: task_ids_def fun_eq_iff)
  ultimately show ?thesis
    using assms ran_remove [OF inj id] inj_on_remove [OF inj, of i] by (cases tk) (auto simp: dispatches_ok_def)
qed

text \<open>A new dispatch has a new job.\<close>

lemma job_of_id: "job_of t did cmd \<Longrightarrow> uc_update_job_id cmd \<in> jb_id ` set (update_jobs t)"
  by (force simp: job_of_def image_iff)

lemma dispatches_ok_stored:
  assumes "dispatches_ok s" and "create_job eng jid now (dispatch_new_job req) (os_conn s) = (Inr job, c')"
    and "os_tasks s i = None"
  shows "dispatches_ok (with_conn c' (s\<lparr>os_tasks := (os_tasks s)(i \<mapsto> (req, job))\<rparr>))" (is "dispatches_ok ?s")
proof -
  note cr = create_job_Inr [OF assms(2)]
  have keeps: "keeps_jobs (tabs (os_conn s)) (tabs c')"
    using kept.P_new [of "new_job_row jid now (dispatch_new_job req)"] cr(3) by (simp add: new_job_row_def)
  have jid: "uc_update_job_id (task_command (req, job)) = jid"
    using cr(1) by (simp add: task_command_def job_command_def row_to_record_def new_job_row_def)
  have ids: "task_ids ?s = (task_ids s)(i \<mapsto> jid)"
    using jid by (simp add: task_ids_def fun_eq_iff)
  have "jid \<notin> ran (task_ids s) \<union> set (sent_ids s)"
    using assms(1) cr(4) job_of_id by (fastforce simp: dispatches_ok_def task_ids_def ran_def)
  moreover have "job_of (tabs c') (du_device_id req) (task_command (req, job))"
    using create_job_Inr_job [OF assms(2)] by (simp add: task_command_def)
  moreover have "task_ids s i = None" using assms(3) by (simp add: task_ids_def)
  ultimately show ?thesis
    using assms(1) job_of_keeps [OF _ keeps] unfolding dispatches_ok_def ids
    by (auto simp: inj_on_def ran_def dom_def split: if_splits)
qed

lemma dispatches_ok_trans:
  assumes "ota_trans bc recv s s'" and "idle (os_conn s)" and "dispatches_ok s"
  shows "dispatches_ok s'"
proof -
  obtain a where act: "ota_act bc recv a s s'" using assms(1) by (auto simp: ota_trans_def)
  have keeps: "keeps_jobs (tabs (os_conn s)) (tabs (os_conn s'))"
    using kept.moves_trans [OF assms(1,2)] by (simp add: moves_def)
  from act show ?thesis
  proof (cases rule: ota_act.cases)
    case (dispatch_stored eng jid now req job c' i)
    with dispatches_ok_stored [OF assms(3)] show ?thesis by simp
  next
    case (dispatch_sent i tk n m)
    with dispatches_ok_keeps [OF dispatches_ok_sent [OF assms(3) dispatch_sent(3)], of s'] keeps show ?thesis by simp
  next
    case (dispatch_unsent i tk f m)
    with dispatches_ok_keeps [OF dispatches_ok_remove [OF assms(3), of i], of s'] keeps show ?thesis by simp
  next
    case (dispatch_cancelled i tk)
    with dispatches_ok_remove [OF assms(3)] show ?thesis by simp
  next
    case restart
    with assms(2,3) show ?thesis
      by (simp add: dispatches_ok_def task_ids_def [abs_def] ran_def inj_on_def dom_def)
  qed (use dispatches_ok_keeps [OF assms(3) keeps] in simp_all)
qed

section \<open>What the robots receive\<close>

lemma subseq_distinct: "subseq xs ys \<Longrightarrow> distinct ys \<Longrightarrow> distinct xs"
  by (induction rule: list_emb.induct) (auto dest: list_emb_set)

lemma streams_ok_senders:
  assumes "streams_ok queues s" and "\<And>did r xs. backlog queues m did r = Some xs \<Longrightarrow> backlog queues (os_senders s) did r = Some xs"
    and "os_senders s' = m" and "os_got s' = os_got s" and "os_sent s' = os_sent s"
  shows "streams_ok queues s'"
  using assms unfolding streams_ok_def sent_to_def by simp

lemma subseq_send_queue: "subseq (got @ xs) sent \<Longrightarrow> subseq (got @ send_queue n cmd xs) (sent @ [cmd])"
proof -
  assume "subseq (got @ xs) sent"
  then have "subseq ((got @ xs) @ [cmd]) (sent @ [cmd])" by (simp only: subseq_append_iff) blast
  moreover have "subseq (got @ send_queue n cmd xs) ((got @ xs) @ [cmd])"
    unfolding send_queue_def append_assoc by (intro list_emb_append_mono subseq_order.order_refl suffix_imp_subseq suffix_drop)
  ultimately show ?thesis by (rule subseq_order.order_trans [rotated])
qed

lemma streams_ok_trans:
  assumes "broadcast_laws bc queues cap" and "recv_laws recv queues cap" and "ota_trans bc recv s s'" and "streams_ok queues s"
  shows "streams_ok queues s'"
proof -
  obtain a where "ota_act bc recv a s s'" using assms(3) by (auto simp: ota_trans_def)
  then show ?thesis
  proof (cases rule: ota_act.cases)
    case (request ev)
    then have "os_senders s' = os_senders s" by (cases ev) (simp_all add: store_steps)
    with request assms(4) show ?thesis by (intro streams_ok_senders [OF assms(4)]) auto
  next
    case (watch did r st)
    obtain m where sub: "subscribe bc did (os_senders s) = (r, m)" and st: "st = (os_service s)\<lparr>ot_senders := m\<rparr>"
      using watch(3) by (auto simp: watch_updates_def split: prod.splits)
    show ?thesis
      using assms(4) unfolding watch(2) streams_ok_def
      by (simp add: st sent_to_def backlog_subscribe(2) [OF assms(1) sub])
  next
    case (receive did ch r cmd ch')
    obtain xs where xs: "queues ch r = Some (cmd # xs)" "queues ch' = (queues ch)(r \<mapsto> xs)"
      using assms(2) receive(4) unfolding recv_laws_def by blast
    show ?thesis
      using assms(4) receive(3) unfolding receive(2) streams_ok_def
      by (auto simp: sent_to_def backlog_def xs split: if_splits option.splits)
  next
    case (disconnect did r)
    then show ?thesis
      by (intro streams_ok_senders [OF assms(4)]) (auto simp: backlog_unsubscribe [OF assms(1)] split: if_splits)
  next
    case (dispatch_sent i tk n m)
    from backlog_dispatch(1) [OF assms(1) dispatch_sent(4)] obtain ch where
      b: "\<And>d x. backlog queues m d x = (if d = du_device_id (fst tk) then map_option (send_queue (cap ch) (task_command tk))
        (backlog queues (os_senders s) d x) else backlog queues (os_senders s) d x)" by blast
    show ?thesis
      using assms(4) unfolding dispatch_sent(2) streams_ok_def
      by (auto simp: b sent_to_def intro: subseq_send_queue split: if_splits)
  next
    case (dispatch_unsent i tk f m)
    then show ?thesis
      using dispatch_Inl [OF dispatch_unsent(4)] by (intro streams_ok_senders [OF assms(4)]) auto
  next
    case restart
    then show ?thesis by (simp add: streams_ok_def dispatcher_new_def backlog_def)
  qed (use assms(4) in \<open>auto simp: streams_ok_def sent_to_def\<close>)
qed

lemma ota_reachable_ok:
  assumes "ota_reachable bc recv s"
  shows "jobs_ok s \<and> dispatches_ok s"
  using assms
proof induction
  case (step s s')
  then show ?case using jobs_ok_trans [OF step.hyps(2)] dispatches_ok_trans [OF step.hyps(2)] by (auto simp: jobs_ok_def)
qed (simp add: ota_start_ok)

lemma ota_reachable_streams:
  assumes "ota_reachable bc recv s" and "broadcast_laws bc queues cap" and "recv_laws recv queues cap"
  shows "streams_ok queues s"
  using assms(1) by induction (auto simp: ota_start_ok intro: streams_ok_trans [OF assms(2,3)])

section \<open>Properties of every interleaving\<close>

text \<open>
  C15. In every interleaving of requests, deliveries, cancellations, restarts and engine faults the
  stored jobs have unique ids, every job is pending, completed or failed (the state \<open>in_progress\<close> is never
  written), and no device has two pending jobs.
\<close>

theorem jobs_in_every_interleaving:
  assumes "ota_reachable bc recv s"
  shows "distinct (map jb_id (update_jobs (committed (os_conn s)))) \<and>
    (\<forall>r \<in> set (update_jobs (committed (os_conn s))). jb_status r \<in> {''pending'', ''completed'', ''failed''}) \<and>
    distinct (map jb_device_id (filter (\<lambda>r. jb_status r = ''pending'') (update_jobs (committed (os_conn s)))))"
proof -
  let ?t = "tabs (os_conn s)"
  from ota_reachable_ok [OF assms] have ok: "idle (os_conn s)" "wf_jobs ?t" "three_phases ?t"
    by (simp_all add: jobs_ok_def)
  have "filter (\<lambda>r. active_status (jb_status r)) (update_jobs ?t) = filter (\<lambda>r. jb_status r = ''pending'') (update_jobs ?t)"
    using ok(3) by (intro filter_cong) (auto simp: three_phases_def active_status_def)
  with ok show ?thesis by (simp add: wf_jobs_def three_phases_def)
qed

text \<open>
  C16. In every interleaving a watching robot gets the commands of its own device in the order in
  which they were dispatched and none twice: what it has received followed by what waits for it is a
  subsequence of the commands sent to its device, the job ids in it are distinct, and each belongs to
  a stored job of the device with the version, the artifact and the checksum of the command.
\<close>

theorem robots_receive_in_order:
  assumes "broadcast_laws bc queues cap" and "recv_laws recv queues cap" and "ota_reachable bc recv s"
    and "backlog queues (os_senders s) did r = Some xs"
  shows "subseq (os_got s did r @ xs) (sent_to did s) \<and>
    distinct (map uc_update_job_id (os_got s did r @ xs)) \<and>
    (\<forall>cmd \<in> set (os_got s did r @ xs). \<exists>row \<in> set (update_jobs (tabs (os_conn s))).
       jb_id row = uc_update_job_id cmd \<and> jb_device_id row = did \<and> jb_target_version row = uc_target_version cmd \<and>
       jb_artifact_url row = uc_artifact_url cmd \<and> jb_sha256 row = uc_sha256 cmd)"
proof -
  have sub: "subseq (os_got s did r @ xs) (sent_to did s)"
    using ota_reachable_streams [OF assms(3,1,2)] assms(4) by (simp add: streams_ok_def)
  have ok: "dispatches_ok s" using ota_reachable_ok [OF assms(3)] by simp
  have "subseq (map uc_update_job_id (sent_to did s)) (sent_ids s)"
    using subseq_map [OF subseq_filter_left, of "\<lambda>x. uc_update_job_id (snd x)" "\<lambda>(d, _). d = did" "os_sent s"]
    by (simp add: sent_to_def o_def case_prod_beta')
  then have "subseq (map uc_update_job_id (os_got s did r @ xs)) (sent_ids s)"
    using subseq_map [OF sub, of uc_update_job_id] subseq_order.order_trans by blast
  moreover have "distinct (sent_ids s)" using ok by (simp add: dispatches_ok_def)
  ultimately have "distinct (map uc_update_job_id (os_got s did r @ xs))" by (rule subseq_distinct)
  moreover have "job_of (tabs (os_conn s)) did cmd" if "cmd \<in> set (os_got s did r @ xs)" for cmd
  proof -
    have "cmd \<in> set (sent_to did s)" using list_emb_set [OF sub that] by auto
    with ok show ?thesis by (auto simp: sent_to_def dispatches_ok_def)
  qed
  ultimately show ?thesis
    using sub unfolding job_of_def by blast
qed

text \<open>
  C17. Jobs only move forward: along every run from a reachable state each job stays stored with its
  device, version, artifact, checksum and creation time, and a job that has ended is never active
  again.
\<close>

theorem jobs_only_finish:
  assumes "ota_reachable bc recv s" and "(ota_trans bc recv)\<^sup>*\<^sup>* s s'" and "row \<in> set (update_jobs (tabs (os_conn s)))"
  shows "\<exists>row' \<in> set (update_jobs (tabs (os_conn s'))). jb_id row' = jb_id row \<and> jb_device_id row' = jb_device_id row \<and>
    jb_target_version row' = jb_target_version row \<and> jb_artifact_url row' = jb_artifact_url row \<and>
    jb_sha256 row' = jb_sha256 row \<and> jb_created_at row' = jb_created_at row \<and>
    (active_status (jb_status row') \<longrightarrow> active_status (jb_status row))"
proof -
  from assms(2,1) have "ota_reachable bc recv s' \<and> job_life (tabs (os_conn s)) (tabs (os_conn s'))"
  proof induction
    case (step s1 s2)
    then have "idle (os_conn s1)" using ota_reachable_ok [of bc recv s1] by (simp add: jobs_ok_def)
    with step life.moves_trans [OF step.hyps(2)] life.P_trans show ?case
      by (auto simp: moves_def intro: ota_reachable.step)
  qed (simp add: life.P_refl)
  with assms(3) show ?thesis unfolding job_life_def job_cols_def by force
qed

section \<open>A concrete run\<close>

definition list_recv :: "list_channel recv" where
  "list_recv r ch = (case map_of (snd ch) r of
     Some (x # xs) \<Rightarrow> (Some x, fst ch, map (\<lambda>(q, ys). (q, if q = r then xs else ys)) (snd ch))
   | _ \<Rightarrow> (None, ch))"

lemma map_of_set_value:
  "map_of (map (\<lambda>(q, ys). (q, if q = r then z else ys)) qs) k =
     (if k = r \<and> map_of qs r \<noteq> None then Some z else map_of qs k)"
  by (induction qs) auto

lemma list_recv_laws: "recv_laws list_recv list_queues fst"
  unfolding recv_laws_def
proof (intro allI impI)
  fix r ch cmd ch'
  assume "list_recv r ch = (Some cmd, ch')"
  then obtain xs where "map_of (snd ch) r = Some (cmd # xs)"
    "ch' = (fst ch, map (\<lambda>(q, ys). (q, if q = r then xs else ys)) (snd ch))"
    by (auto simp: list_recv_def split: option.splits list.splits)
  then show "\<exists>xs. list_queues ch r = Some (cmd # xs) \<and> list_queues ch' = (list_queues ch)(r \<mapsto> xs) \<and> fst ch' = fst ch"
    by (intro exI [of _ xs]) (cases ch, auto simp: map_of_set_value)
qed

text \<open>A robot connects, a dispatch is stored and sent, and the robot receives the command.\<close>

lemma demo_acts:
  "\<exists>s1 s2 s3 s. ota_act list_broadcast list_recv (Watched ''D1'' 1) ota_start s1 \<and>
     ota_act list_broadcast list_recv Other s1 s2 \<and> ota_act list_broadcast list_recv Other s2 s3 \<and>
     ota_act list_broadcast list_recv (Received ''D1'' 1 demo_command) s3 s \<and> os_got s ''D1'' 1 = [demo_command] \<and>
     backlog list_queues (os_senders s) ''D1'' 1 = Some [] \<and>
     update_jobs (tabs (os_conn s)) = [dispatched_row ''J1'' ''t1'' demo_dispatch] \<and> idle (os_conn s)"
proof -
  let ?job = "row_to_record (dispatched_row ''J1'' ''t1'' demo_dispatch)"
  define s1 :: "list_channel ota_sys" where "s1 = ota_start\<lparr>os_service := watched\<rparr>"
  define c where "c = ot_conn (add_job (dispatched_row ''J1'' ''t1'' demo_dispatch) watched)"
  define s2 where "s2 = with_conn c (s1\<lparr>os_tasks := Map.empty(0 \<mapsto> (demo_dispatch, ?job))\<rparr>)"
  define m where "m = Map.empty(''D1'' \<mapsto> (8::nat, [(1::nat, [demo_command])]))"
  define s3 where "s3 = with_senders m (s2\<lparr>os_tasks := Map.empty, os_sent := [(''D1'', demo_command)]\<rparr>)"
  have cmd: "task_command (demo_dispatch, ?job) = demo_command"
    using demo_command_eq [of "''t1''"] by (simp add: task_command_def demo_dispatch_def)
  have "watch_updates list_broadcast ''D1'' ota_init = (1, watched)"
    by (simp add: watched_eq watch_updates_def subscribe_def list_broadcast_def channel_capacity_def ota_init_def dispatcher_new_def)
  then have a1: "ota_act list_broadcast list_recv (Watched ''D1'' 1) ota_start s1"
    using ota_act.watch [of list_broadcast "''D1''" ota_start 1 watched list_recv]
    by (simp add: s1_def ota_start_def fun_upd_def)
  have "create_job reliable ''J1'' ''t1'' (dispatch_new_job demo_dispatch) (os_conn s1) = (Inr ?job, c)"
    by (simp add: create_job_healthy s1_def watched_eq empty_jobs_def no_active_def c_def add_job_def)
  then have a2: "ota_act list_broadcast list_recv Other s1 s2"
    using ota_act.dispatch_stored [of reliable "''J1''" "''t1''" demo_dispatch s1 ?job c 0]
    by (simp add: s2_def s1_def ota_start_def)
  have "dispatch list_broadcast ''D1'' demo_command (os_senders s2) = (Inr 1, m)"
    by (simp add: s2_def s1_def watched_eq dispatch_def list_broadcast_def Let_def send_queue_def m_def)
  then have a3: "ota_act list_broadcast list_recv Other s2 s3"
    using ota_act.dispatch_sent [of s2 0 "(demo_dispatch, ?job)" list_broadcast 1 m list_recv] cmd
    by (simp add: s3_def s2_def s1_def ota_start_def demo_dispatch_def)
  define s4 where "s4 = with_senders ((os_senders s3)(''D1'' \<mapsto> (8, [(1, [])])))
      (s3\<lparr>os_got := (os_got s3)(''D1'' := (os_got s3 ''D1'')(1 := os_got s3 ''D1'' 1 @ [demo_command]))\<rparr>)"
  have a4: "ota_act list_broadcast list_recv (Received ''D1'' 1 demo_command) s3 s4"
    unfolding s4_def by (rule ota_act.receive [where ch = "(8, [(1, [demo_command])])"]) (simp_all add: s3_def m_def list_recv_def)
  show ?thesis
    by (rule exI [of _ s1], rule exI [of _ s2], rule exI [of _ s3], rule exI [of _ s4], intro conjI, rule a1, rule a2, rule a3, rule a4)
      (simp_all add: s4_def s3_def s2_def s1_def ota_start_def backlog_def c_def add_job_def watched_eq empty_jobs_def idle_def)
qed

lemma demo_interleaving:
  "\<exists>s. ota_reachable list_broadcast list_recv s \<and> os_got s ''D1'' 1 = [demo_command] \<and>
     backlog list_queues (os_senders s) ''D1'' 1 = Some [] \<and>
     update_jobs (tabs (os_conn s)) = [dispatched_row ''J1'' ''t1'' demo_dispatch] \<and> idle (os_conn s)"
  using demo_acts by (meson ota_reachable.intros ota_trans_act)

theorem jobs_in_every_interleaving_witness:
  "\<exists>s :: list_channel ota_sys. update_jobs (committed (os_conn s)) = [dispatched_row ''J1'' ''t1'' demo_dispatch] \<and>
     distinct (map jb_id (update_jobs (committed (os_conn s)))) \<and>
     distinct (map jb_device_id (filter (\<lambda>r. jb_status r = ''pending'') (update_jobs (committed (os_conn s)))))"
proof -
  obtain s where s: "ota_reachable list_broadcast list_recv s"
    "update_jobs (tabs (os_conn s)) = [dispatched_row ''J1'' ''t1'' demo_dispatch]" "idle (os_conn s)"
    using demo_interleaving by blast
  from jobs_in_every_interleaving [OF s(1)] s(2,3) show ?thesis by (intro exI [of _ s]) simp
qed

theorem robots_receive_in_order_witness:
  "\<exists>s :: list_channel ota_sys. os_got s ''D1'' 1 = [demo_command] \<and> subseq (os_got s ''D1'' 1 @ []) (sent_to ''D1'' s) \<and>
     (\<exists>row \<in> set (update_jobs (tabs (os_conn s))). jb_id row = ''J1'' \<and> jb_device_id row = ''D1'')"
proof -
  obtain s where s: "ota_reachable list_broadcast list_recv s" "os_got s ''D1'' 1 = [demo_command]"
    "backlog list_queues (os_senders s) ''D1'' 1 = Some []"
    using demo_interleaving by blast
  from robots_receive_in_order [OF list_broadcast_laws list_recv_laws s(1,3)] s(2) show ?thesis
    by (intro exI [of _ s]) (auto simp: demo_command_def)
qed

theorem jobs_only_finish_witness:
  "\<exists>s :: list_channel ota_sys. \<exists>row' \<in> set (update_jobs (tabs (os_conn s))). jb_id row' = ''J1'' \<and> jb_device_id row' = ''D1'' \<and>
     jb_target_version row' = ''2.0''"
proof -
  obtain s where s: "ota_reachable list_broadcast list_recv s"
    "update_jobs (tabs (os_conn s)) = [dispatched_row ''J1'' ''t1'' demo_dispatch]"
    using demo_interleaving by blast
  let ?row = "dispatched_row ''J1'' ''t1'' demo_dispatch"
  have "ota_trans list_broadcast list_recv s (with_senders (unsubscribe list_broadcast ''D1'' 1 (os_senders s)) s)"
    by (rule ota_trans_act, rule ota_act.disconnect)
  then have "(ota_trans list_broadcast list_recv)\<^sup>*\<^sup>* s (with_senders (unsubscribe list_broadcast ''D1'' 1 (os_senders s)) s)"
    by (rule r_into_rtranclp)
  from jobs_only_finish [OF s(1) this, of ?row] s(2) show ?thesis
    by (intro exI [of _ "with_senders (unsubscribe list_broadcast ''D1'' 1 (os_senders s)) s"])
      (auto simp: new_job_row_def dispatch_new_job_def demo_dispatch_def)
qed

section \<open>Who may acknowledge\<close>

text \<open>
  C37. An acknowledgement is not tied to the device of the job nor to its state: with a working
  engine every acknowledgement that names a stored job is accepted, from whatever device, also when
  the job has ended, and the last one decides; a second device can turn a completed job into a
  failed one.
\<close>

theorem last_acknowledgement_wins:
  assumes "no_fault eng" and "no_fault eng'" and "row_with jb_id jid (update_jobs (tabs (ot_conn st))) = Some row"
    and "au_update_job_id ack = jid" and "au_update_job_id ack' = jid"
  shows "\<exists>st1 st2. ack_update eng now ack st = (Ok True, st1) \<and> ack_update eng' now' ack' st1 = (Ok True, st2) \<and>
    row_with jb_id jid (update_jobs (tabs (ot_conn st2))) =
      Some (finish_row now' (if au_success ack' then Completed else Failed) (non_empty (au_error_message ack')) row)"
proof -
  define f where "f = finish_row now (if au_success ack then Completed else Failed) (non_empty (au_error_message ack))"
  define f' where "f' = finish_row now' (if au_success ack' then Completed else Failed) (non_empty (au_error_message ack'))"
  define upd where "upd g st = st\<lparr>ot_conn := (ot_conn st)\<lparr>tabs := update_jobs_update (set_rows (\<lambda>r. jb_id r = jid) g) (tabs (ot_conn st))\<rparr>\<rparr>"
    for g and st :: "'a ota_state"
  have f: "jb_id (f r) = jb_id r" "jb_id (f' r) = jb_id r" "f' (f r) = f' r" for r
    by (simp_all add: f_def f'_def finish_row_def)
  have row: "row_with jb_id jid (update_jobs (tabs (ot_conn (upd f st)))) = Some (f row)"
    using assms(3) f by (simp add: upd_def row_with_set_rows_key)
  have "ack_update eng now ack st = (Ok True, upd f st)"
    using assms by (simp add: ack_update_healthy upd_def f_def)
  moreover have "ack_update eng' now' ack' (upd f st) = (Ok True, upd f' (upd f st))"
    using assms row by (simp add: ack_update_healthy upd_def f'_def)
  moreover have "row_with jb_id jid (update_jobs (tabs (ot_conn (upd f' (upd f st))))) = Some (f' row)"
    using assms(3) f by (simp add: upd_def row_with_set_rows_key)
  ultimately show ?thesis unfolding f'_def by blast
qed

theorem last_acknowledgement_wins_witness:
  "\<exists>st1 st2. ack_update reliable ''t2'' (demo_ack True) (add_job (dispatched_row ''J1'' ''t1'' demo_dispatch) watched) = (Ok True, st1) \<and>
     ack_update reliable ''t3'' ((demo_ack False)\<lparr>au_device_id := ''D2''\<rparr>) st1 = (Ok True, st2) \<and>
     map_option jb_status (row_with jb_id ''J1'' (update_jobs (tabs (ot_conn st2)))) = Some ''failed''"
proof -
  let ?row = "dispatched_row ''J1'' ''t1'' demo_dispatch"
  have "row_with jb_id ''J1'' (update_jobs (tabs (ot_conn (add_job ?row watched)))) = Some ?row"
    by (simp add: add_job_def watched_eq empty_jobs_def new_job_row_def)
  from last_acknowledgement_wins [OF _ _ this, of reliable reliable "demo_ack True" "(demo_ack False)\<lparr>au_device_id := ''D2''\<rparr>" "''t2''" "''t3''"]
  show ?thesis by (force simp: demo_ack_def finish_row_def)
qed

end
