(* ===== verification/Fleet_Updates.thy ===== *)
theory Fleet_Updates
  imports Ota_System Agent_Properties
begin

text \<open>
  The OTA service and the agents of the robots as one system. The service takes its own steps
  (\<open>ota_act\<close>); a robot that watches takes the next command from its stream, runs the body of the loop
  of \<^verbatim>\<open>ota.rs\<close> on it (\<open>ota_stream\<close>) and sends the acknowledgement, which the service handles as its
  \<open>ack_update\<close>. A session may break and an agent may stop between any two steps. Acknowledgements come
  only from agents: the service itself accepts them from anybody.
\<close>

section \<open>Robots and the service\<close>

text \<open>An update that a robot has worked on: its device, the environment and the number of the round, and the command.\<close>

record install =
  in_device :: string
  in_env :: ota_agent_env
  in_round :: nat
  in_command :: update_command

text \<open>\<open>fl_acks\<close> holds the acknowledgement a session is about to send.\<close>

record 'ch fleet =
  fl_ota :: "'ch ota_sys"
  fl_acks :: "string \<Rightarrow> nat \<Rightarrow> agent_ack option"
  fl_installs :: "install list"

definition fleet_start :: "'ch fleet" where
  "fleet_start = \<lparr>fl_ota = ota_start, fl_acks = (\<lambda>_ _. None), fl_installs = []\<rparr>"

definition put_ack :: "string \<Rightarrow> nat \<Rightarrow> agent_ack option \<Rightarrow> 'ch fleet \<Rightarrow> 'ch fleet" where
  "put_ack did r a f = f\<lparr>fl_acks := (fl_acks f)(did := (fl_acks f did)(r := a))\<rparr>"

definition first_ack :: "agent_ack list \<Rightarrow> agent_ack option" where
  "first_ack answers = (case answers of [] \<Rightarrow> None | a # _ \<Rightarrow> Some a)"

definition ack_request :: "agent_ack \<Rightarrow> ack_update_request" where
  "ack_request a =
     \<lparr>au_device_id = aa_device_id a, au_update_job_id = aa_update_job_id a,
      au_success = aa_success a, au_error_message = aa_error_message a\<rparr>"

text \<open>The steps of the service that no robot takes part in.\<close>

fun without_robots :: "ota_action \<Rightarrow> bool" where
  "without_robots (Request (Ack _ _ _)) = False"
| "without_robots (Received _ _ _) = False"
| "without_robots _ = True"

inductive fleet_trans :: "'ch broadcast \<Rightarrow> 'ch recv \<Rightarrow> 'ch fleet \<Rightarrow> 'ch fleet \<Rightarrow> bool"
  for bc :: "'ch broadcast" and recv :: "'ch recv" where
  service:
    "ota_act bc recv a (fl_ota f) s \<Longrightarrow> without_robots a \<Longrightarrow> fleet_trans bc recv f (f\<lparr>fl_ota := s\<rparr>)"
| update:
    "ota_act bc recv (Received did r cmd) (fl_ota f) s \<Longrightarrow> fl_acks f did r = None \<Longrightarrow>
     ota_stream env i did [Inr cmd] [] = (answers, acts, res) \<Longrightarrow>
     fleet_trans bc recv f (put_ack did r (first_ack answers) (f\<lparr>fl_ota := s, fl_installs := fl_installs f @
       [\<lparr>in_device = did, in_env = env, in_round = i, in_command = cmd\<rparr>]\<rparr>))"
| acknowledge:
    "fl_acks f did r = Some a \<Longrightarrow> ota_act bc recv (Request (Ack eng now (ack_request a))) (fl_ota f) s \<Longrightarrow>
     fleet_trans bc recv f (put_ack did r None (f\<lparr>fl_ota := s\<rparr>))"
| session_lost:
    "fleet_trans bc recv f (put_ack did r None f)"

inductive fleet_reachable :: "'ch broadcast \<Rightarrow> 'ch recv \<Rightarrow> 'ch fleet \<Rightarrow> bool"
  for bc :: "'ch broadcast" and recv :: "'ch recv" where
  start: "fleet_reachable bc recv fleet_start"
| step: "fleet_reachable bc recv f \<Longrightarrow> fleet_trans bc recv f f' \<Longrightarrow> fleet_reachable bc recv f'"

lemma put_ack_simps [simp]:
  "fl_ota (put_ack did r a f) = fl_ota f" "fl_installs (put_ack did r a f) = fl_installs f"
  "fl_acks (put_ack did r a f) = (fl_acks f)(did := (fl_acks f did)(r := a))"
  by (simp_all add: put_ack_def)

lemma first_ack_simps [simp]: "first_ack [] = None" "first_ack (a # as) = Some a"
  by (simp_all add: first_ack_def)

text \<open>
  The loop of the agent over a stream is its rounds in turn, so a session is a sequence of \<open>update\<close> and
  \<open>acknowledge\<close> steps.
\<close>

lemma ota_stream_rounds:
  "ota_stream env i did (Inr cmd # msgs) acts =
     (case ota_stream env i did [Inr cmd] acts of
        (answers, acts1, Inr u) \<Rightarrow>
          (case ota_stream env (Suc i) did msgs acts1 of (sent, acts2, r) \<Rightarrow> (answers @ sent, acts2, r))
      | (answers, acts1, Inl e) \<Rightarrow> (answers, acts1, Inl e))"
  by (auto simp: Let_def split: sum.splits prod.splits failure.splits)

section \<open>What an update reports\<close>

abbreviation outcome :: "install \<Rightarrow> (agent_error, unit) result \<times> host_action list" where
  "outcome x \<equiv> apply_update (oe_host (in_env x) (in_round x)) (uc_artifact_url (in_command x)) (uc_sha256 (in_command x)) []"

abbreviation error_text :: "install \<Rightarrow> agent_error \<Rightarrow> string" where
  "error_text x \<equiv> agent_to_string (oe_show_status (in_env x))"

definition reported :: "install list \<Rightarrow> string \<Rightarrow> job_status \<Rightarrow> string option \<Rightarrow> bool" where
  "reported xs jid st err \<longleftrightarrow> (\<exists>x \<in> set xs. uc_update_job_id (in_command x) = jid \<and>
     (st = Completed \<and> err = None \<and> fst (outcome x) = Ok () \<or>
      st = Failed \<and> (\<exists>e. fst (outcome x) = Err e \<and> err = Some (error_text x e))))"

lemma agent_to_string_not_Nil: "agent_to_string d e \<noteq> []"
  by (cases e) simp_all

text \<open>The acknowledgement of a round is a report of its update.\<close>

lemma round_reports:
  assumes "ota_stream env i did [Inr cmd] [] = (answers, acts, res)" and "first_ack answers = Some a"
  shows "reported [\<lparr>in_device = did, in_env = env, in_round = i, in_command = cmd\<rparr>] (aa_update_job_id a)
    (if aa_success a then Completed else Failed) (non_empty (aa_error_message a))"
proof -
  obtain r acts1 where r: "apply_update (oe_host env i) (uc_artifact_url cmd) (uc_sha256 cmd) [] = (r, acts1)" by fastforce
  with assms have "r \<noteq> Panicked" and "a = ack_of env did cmd r"
    by (auto simp: Let_def split: sum.splits failure.splits prod.splits)
  with r agent_to_string_not_Nil show ?thesis
    by (auto simp: reported_def ack_of_def non_empty_def split: sum.splits failure.splits)
qed

lemma reported_mono: "reported xs jid st err \<Longrightarrow> set xs \<subseteq> set ys \<Longrightarrow> reported ys jid st err"
  by (auto simp: reported_def)

section \<open>The stored jobs tell what happened\<close>

definition truthful :: "install list \<Rightarrow> ota_tables \<Rightarrow> bool" where
  "truthful xs t \<longleftrightarrow> (\<forall>row \<in> set (update_jobs t). jb_status row \<noteq> ''pending'' \<longrightarrow>
     (\<exists>st. jb_status row = as_str st \<and> reported xs (jb_id row) st (jb_error_message row)))"

interpretation told: job_writes "reported xs" "\<lambda>t t'. truthful xs t \<longrightarrow> truthful xs t'" for xs
proof
  show "truthful xs t \<longrightarrow> truthful xs (update_jobs_update (set_rows (\<lambda>r. jb_id r = jid) (finish_row now st err)) t)"
    if "reported xs jid st err" for jid st err t now
    using that by (auto simp: truthful_def set_set_rows finish_row_def simp del: as_str.simps)
qed (auto simp: truthful_def)

lemma truthful_mono: "truthful xs t \<Longrightarrow> set xs \<subseteq> set ys \<Longrightarrow> truthful ys t"
  unfolding truthful_def by (meson reported_mono)

definition fleet_ok :: "'ch fleet \<Rightarrow> bool" where
  "fleet_ok f \<longleftrightarrow>
     truthful (fl_installs f) (tabs (os_conn (fl_ota f))) \<and>
     (\<forall>did r a. fl_acks f did r = Some a \<longrightarrow> reported (fl_installs f) (aa_update_job_id a)
        (if aa_success a then Completed else Failed) (non_empty (aa_error_message a))) \<and>
     (\<forall>x \<in> set (fl_installs f). job_of (tabs (os_conn (fl_ota f))) (in_device x) (in_command x))"

lemma fleet_ota_step: "fleet_trans bc recv f f' \<Longrightarrow> fl_ota f' = fl_ota f \<or> ota_trans bc recv (fl_ota f) (fl_ota f')"
  by (cases rule: fleet_trans.cases) auto

lemma fleet_ota_reachable: "fleet_reachable bc recv f \<Longrightarrow> ota_reachable bc recv (fl_ota f)"
proof (induction rule: fleet_reachable.induct)
  case start
  then show ?case by (simp add: fleet_start_def ota_reachable.start)
next
  case (step f f')
  then show ?case using fleet_ota_step [OF step.hyps(2)] by (auto intro: ota_reachable.step)
qed

text \<open>A command that a robot receives is that of a job of its device.\<close>

lemma received_job:
  assumes "broadcast_laws bc queues cap" and "recv_laws recv queues cap" and "ota_reachable bc recv s"
    and "ota_act bc recv (Received did r cmd) s s'"
  shows "job_of (tabs (os_conn s')) did cmd"
proof -
  have s': "ota_reachable bc recv s'" using assms(3,4) by (auto intro: ota_reachable.step)
  from assms(4) obtain ch ch' where "os_senders s did = Some ch" and get: "recv r ch = (Some cmd, ch')"
    and s'_eq: "s' = with_senders ((os_senders s)(did \<mapsto> ch'))
       (s\<lparr>os_got := (os_got s)(did := (os_got s did)(r := os_got s did r @ [cmd]))\<rparr>)"
    by (cases rule: ota_act.cases) auto
  from get assms(2) obtain xs where "queues ch' r = Some xs" unfolding recv_laws_def by fastforce
  then have "backlog queues (os_senders s') did r = Some xs" by (simp add: s'_eq backlog_def)
  with ota_reachable_streams [OF s' assms(1,2)] have "subseq (os_got s' did r @ xs) (sent_to did s')"
    by (simp add: streams_ok_def)
  then have "cmd \<in> set (sent_to did s')" by (auto simp: s'_eq dest!: list_emb_set [where x = cmd])
  with ota_reachable_ok [OF s'] show ?thesis by (auto simp: sent_to_def dispatches_ok_def)
qed

lemma fleet_ok_moves:
  assumes "fleet_ok f" and "moves (\<lambda>t t'. truthful (fl_installs f) t \<longrightarrow> truthful (fl_installs f) t') (os_conn (fl_ota f)) (os_conn s)"
    and "moves keeps_jobs (os_conn (fl_ota f)) (os_conn s)"
  shows "fleet_ok (f\<lparr>fl_ota := s\<rparr>)"
  using assms by (auto simp: fleet_ok_def moves_def intro: job_of_keeps)

lemma fleet_ok_act:
  assumes "fleet_ok f" and "idle (os_conn (fl_ota f))" and "ota_act bc recv a (fl_ota f) s"
    and "\<And>eng now req. a = Request (Ack eng now req) \<Longrightarrow> reported (fl_installs f) (au_update_job_id req)
      (if au_success req then Completed else Failed) (non_empty (au_error_message req))"
  shows "fleet_ok (f\<lparr>fl_ota := s\<rparr>)"
proof (rule fleet_ok_moves [OF assms(1)])
  show "moves (\<lambda>t t'. truthful (fl_installs f) t \<longrightarrow> truthful (fl_installs f) t') (os_conn (fl_ota f)) (os_conn s)"
    by (rule told.moves_act [OF assms(3,2)]) (rule assms(4))
  show "moves keeps_jobs (os_conn (fl_ota f)) (os_conn s)"
    by (rule kept.moves_trans [OF ota_trans_act [OF assms(3)] assms(2)])
qed

lemma fleet_ok_drop: "fleet_ok f \<Longrightarrow> fleet_ok (put_ack did r None f)"
  by (auto simp: fleet_ok_def)

lemma fleet_ok_add:
  assumes "fleet_ok f" and "job_of (tabs (os_conn (fl_ota f))) (in_device x) (in_command x)"
    and "\<And>a. b = Some a \<Longrightarrow> reported [x] (aa_update_job_id a) (if aa_success a then Completed else Failed) (non_empty (aa_error_message a))"
  shows "fleet_ok (put_ack did r b (f\<lparr>fl_installs := fl_installs f @ [x]\<rparr>))"
proof -
  have more: "set (fl_installs f) \<subseteq> set (fl_installs f @ [x])" "set [x] \<subseteq> set (fl_installs f @ [x])" by auto
  show ?thesis
    using assms truthful_mono [OF _ more(1)] reported_mono [OF _ more(1)] reported_mono [OF _ more(2)]
    by (auto simp: fleet_ok_def)
qed

lemma fleet_reachable_ok:
  assumes "fleet_reachable bc recv f" and "broadcast_laws bc queues cap" and "recv_laws recv queues cap"
  shows "fleet_ok f"
  using assms(1)
proof induction
  case start
  then show ?case
    by (simp add: fleet_ok_def truthful_def fleet_start_def ota_start_def ota_init_def empty_jobs_def)
next
  case (step f f')
  have reach: "ota_reachable bc recv (fl_ota f)" using fleet_ota_reachable [OF step.hyps(1)] .
  then have idle: "idle (os_conn (fl_ota f))" using ota_reachable_ok [OF reach] by (simp add: jobs_ok_def)
  note act = fleet_ok_act [OF step.IH idle]
  from step.hyps(2) show ?case
  proof (cases rule: fleet_trans.cases)
    case (service a s)
    have "fleet_ok (f\<lparr>fl_ota := s\<rparr>)" by (rule act [OF service(2)]) (use service(3) in auto)
    with service(1) show ?thesis by simp
  next
    case (update did r cmd s env i answers acts res)
    let ?x = "\<lparr>in_device = did, in_env = env, in_round = i, in_command = cmd\<rparr>"
    have "fleet_ok (f\<lparr>fl_ota := s\<rparr>)" by (rule act [OF update(2)]) simp
    then have "fleet_ok (put_ack did r (first_ack answers) (f\<lparr>fl_ota := s, fl_installs := fl_installs f @ [?x]\<rparr>))"
      using fleet_ok_add [of "f\<lparr>fl_ota := s\<rparr>" ?x "first_ack answers" did r] received_job [OF assms(2,3) reach update(2)]
        round_reports [OF update(4)] by simp
    with update(1) show ?thesis by simp
  next
    case (acknowledge did r a eng now s)
    then have "fleet_ok (f\<lparr>fl_ota := s\<rparr>)"
      using step.IH by (intro act [OF acknowledge(3)]) (auto simp: fleet_ok_def ack_request_def)
    with acknowledge(1) show ?thesis by (simp add: fleet_ok_drop)
  next
    case (session_lost did r)
    then show ?thesis using step.IH by (simp add: fleet_ok_drop)
  qed
qed

text \<open>
  C18. In a fleet whose acknowledgements come from its agents the stored outcomes are true, in every
  interleaving, with broken sessions, lost acknowledgements, restarts and engine faults: a job that is
  no longer pending was worked on by a robot that watched as its device, with the version, the
  artifact and the checksum of the job; if the job is completed, the robot extracted the downloaded bytes
  and their install script ended with status 0, and if it is failed, the update failed with the error
  whose text is stored.
\<close>

theorem fleet_jobs_tell_the_truth:
  assumes "broadcast_laws bc queues cap" and "recv_laws recv queues cap" and "fleet_reachable bc recv f"
    and "row \<in> set (update_jobs (committed (os_conn (fl_ota f))))" and "jb_status row \<noteq> ''pending''"
  shows "\<exists>x \<in> set (fl_installs f). in_device x = jb_device_id row \<and> uc_update_job_id (in_command x) = jb_id row \<and>
    uc_target_version (in_command x) = jb_target_version row \<and>
    (case apply_update (oe_host (in_env x) (in_round x)) (jb_artifact_url row) (jb_sha256 row) [] of (res, acts) \<Rightarrow>
       jb_status row = ''completed'' \<and> jb_error_message row = None \<and>
         (\<exists>bytes. acts = [Extracted bytes, RanInstall bytes] \<and> h_bash (oe_host (in_env x) (in_round x)) bytes = Ok (Some 0)) \<or>
       jb_status row = ''failed'' \<and>
         (\<exists>e. res = Err e \<and> jb_error_message row = Some (agent_to_string (oe_show_status (in_env x)) e)))"
proof -
  let ?t = "tabs (os_conn (fl_ota f))"
  have ok: "fleet_ok f" by (rule fleet_reachable_ok [OF assms(3,1,2)])
  have jobs: "jobs_ok (fl_ota f)" using ota_reachable_ok [OF fleet_ota_reachable [OF assms(3)]] by simp
  then have row: "row \<in> set (update_jobs ?t)" using assms(4) by (simp add: jobs_ok_def)
  with ok assms(5) obtain st x where st: "jb_status row = as_str st" and x: "x \<in> set (fl_installs f)"
      "uc_update_job_id (in_command x) = jb_id row"
    and res: "st = Completed \<and> jb_error_message row = None \<and> fst (outcome x) = Ok () \<or>
      st = Failed \<and> (\<exists>e. fst (outcome x) = Err e \<and> jb_error_message row = Some (error_text x e))"
    unfolding fleet_ok_def truthful_def reported_def by meson
  from ok x(1) obtain row' where row': "row' \<in> set (update_jobs ?t)" "jb_id row' = jb_id row" and cols:
      "jb_device_id row' = in_device x" "jb_target_version row' = uc_target_version (in_command x)"
      "jb_artifact_url row' = uc_artifact_url (in_command x)" "jb_sha256 row' = uc_sha256 (in_command x)"
    using x(2) unfolding fleet_ok_def job_of_def by metis
  have "distinct (map jb_id (update_jobs ?t))" using jobs by (simp add: jobs_ok_def wf_jobs_def)
  with row row' have "row' = row" by (auto simp: distinct_map inj_on_def)
  with cols x res st show ?thesis
    by (intro bexI [of _ x]) (auto split: prod.split dest!: apply_update_Ok)
qed

section \<open>A working robot finishes its updates\<close>

text \<open>A receiver with a waiting command gets it.\<close>

definition recv_ready :: "'ch recv \<Rightarrow> ('ch \<Rightarrow> nat \<Rightarrow> update_command list option) \<Rightarrow> bool" where
  "recv_ready recv queues \<longleftrightarrow> (\<forall>r ch cmd xs. queues ch r = Some (cmd # xs) \<longrightarrow> (\<exists>ch'. recv r ch = (Some cmd, ch')))"

definition ended :: "string \<Rightarrow> string \<Rightarrow> 'ch fleet \<Rightarrow> bool" where
  "ended did jid f \<longleftrightarrow> (\<exists>row \<in> set (update_jobs (tabs (os_conn (fl_ota f)))).
     jb_id row = jid \<and> jb_device_id row = did \<and> jb_status row \<noteq> ''pending'')"

lemma fleet_reachable_steps: "(fleet_trans bc recv)\<^sup>*\<^sup>* f f' \<Longrightarrow> fleet_reachable bc recv f \<Longrightarrow> fleet_reachable bc recv f'"
  by (induction rule: rtranclp_induct) (auto intro: fleet_reachable.step)

lemma ended_step:
  assumes "fleet_reachable bc recv f" and "fleet_trans bc recv f f'" and "ended did jid f"
  shows "ended did jid f'"
proof -
  have ok: "jobs_ok (fl_ota f)" "jobs_ok (fl_ota f')"
    using ota_reachable_ok [OF fleet_ota_reachable] assms(1) fleet_reachable.step [OF assms(1,2)] by blast+
  have "job_life (tabs (os_conn (fl_ota f))) (tabs (os_conn (fl_ota f')))"
    using fleet_ota_step [OF assms(2)] life.moves_trans [of bc recv "fl_ota f" "fl_ota f'"] ok(1)
    by (auto simp: moves_def jobs_ok_def life.P_refl)
  moreover from assms(3) obtain row where row: "row \<in> set (update_jobs (tabs (os_conn (fl_ota f))))"
    "jb_id row = jid" "jb_device_id row = did" "jb_status row \<noteq> ''pending''" by (auto simp: ended_def)
  ultimately obtain row' where row': "row' \<in> set (update_jobs (tabs (os_conn (fl_ota f'))))" "job_cols row' = job_cols row"
    "active_status (jb_status row') \<longrightarrow> active_status (jb_status row)"
    unfolding job_life_def by blast
  have "jb_status row \<in> {''completed'', ''failed''}" using ok(1) row(1,4) by (auto simp: jobs_ok_def three_phases_def)
  with row' row(2,3) show ?thesis
    by (auto simp: ended_def job_cols_def active_status_def intro!: bexI [of _ row'])
qed

lemma ended_steps:
  assumes "(fleet_trans bc recv)\<^sup>*\<^sup>* f f'" and "fleet_reachable bc recv f" and "ended did jid f"
  shows "ended did jid f'"
  using assms
proof (induction rule: rtranclp_induct)
  case (step f1 f2)
  then show ?case using ended_step [OF fleet_reachable_steps [OF step.hyps(1)]] by blast
qed

lemma ack_ends_job:
  assumes "jobs_ok s" and "job_of (tabs (os_conn s)) did cmd" and "no_fault eng" and "au_update_job_id req = uc_update_job_id cmd"
  shows "\<exists>s'. ota_act bc recv (Request (Ack eng now req)) s s' \<and> os_senders s' = os_senders s \<and>
    (\<exists>row \<in> set (update_jobs (tabs (os_conn s'))). jb_id row = uc_update_job_id cmd \<and> jb_device_id row = did \<and> jb_status row \<noteq> ''pending'')"
proof -
  from assms(2) obtain row where row: "row \<in> set (update_jobs (tabs (os_conn s)))" "jb_id row = uc_update_job_id cmd" "jb_device_id row = did"
    by (auto simp: job_of_def)
  have found: "row_with jb_id (uc_update_job_id cmd) (update_jobs (tabs (os_conn s))) = Some row"
    using row assms(1) by (simp add: row_with_distinct jobs_ok_def wf_jobs_def)
  define g where "g = finish_row now (if au_success req then Completed else Failed) (non_empty (au_error_message req))"
  define s' where "s' = s\<lparr>os_service := ota_step bc (Ack eng now req) (os_service s)\<rparr>"
  have "os_service s' = os_service s\<lparr>ot_conn := (os_conn s)\<lparr>tabs := update_jobs_update
      (set_rows (\<lambda>r. jb_id r = uc_update_job_id cmd) g) (tabs (os_conn s))\<rparr>\<rparr>"
    using found by (simp add: s'_def ack_update_healthy [OF assms(3)] assms(4) g_def)
  moreover have "ota_act bc recv (Request (Ack eng now req)) s s'"
    unfolding s'_def by (rule ota_act.request) simp
  ultimately show ?thesis
    using row by (intro exI [of _ s']) (auto simp: set_set_rows g_def finish_row_def intro!: bexI [of _ "g row"])
qed

text \<open>One round: the robot takes its next command, works on it and acknowledges it.\<close>

lemma one_round:
  fixes env :: ota_agent_env
  assumes "broadcast_laws bc queues cap" and "recv_laws recv queues cap" and "recv_ready recv queues"
    and "fleet_reachable bc recv f" and "backlog queues (os_senders (fl_ota f)) did r = Some (cmd # xs)" and "fl_acks f did r = None"
    and "no_fault eng" and "fst (apply_update (oe_host env i) (uc_artifact_url cmd) (uc_sha256 cmd) []) \<noteq> Panicked"
  shows "\<exists>f'. (fleet_trans bc recv)\<^sup>*\<^sup>* f f' \<and> backlog queues (os_senders (fl_ota f')) did r = Some xs \<and>
    fl_acks f' did r = None \<and> ended did (uc_update_job_id cmd) f'"
proof -
  let ?s = "fl_ota f"
  from assms(5) obtain ch where ch: "os_senders ?s did = Some ch" "queues ch r = Some (cmd # xs)"
    by (auto simp: backlog_def split: option.splits)
  then obtain ch' where get: "recv r ch = (Some cmd, ch')" using assms(3) unfolding recv_ready_def by blast
  then have ch': "queues ch' r = Some xs" using assms(2) ch(2) unfolding recv_laws_def by (metis fun_upd_same list.inject option.inject)
  define s1 where "s1 = with_senders ((os_senders ?s)(did \<mapsto> ch'))
       (?s\<lparr>os_got := (os_got ?s)(did := (os_got ?s did)(r := os_got ?s did r @ [cmd]))\<rparr>)"
  have act: "ota_act bc recv (Received did r cmd) ?s s1" unfolding s1_def by (rule ota_act.receive [where ch = ch]) (rule ch(1), rule get)
  obtain res acts where run: "apply_update (oe_host env i) (uc_artifact_url cmd) (uc_sha256 cmd) [] = (res, acts)" by fastforce
  define a where "a = ack_of env did cmd res"
  have "\<exists>res'. ota_stream env i did [Inr cmd] [] = ([a], acts, res')"
    using run assms(8) by (cases "oe_ack env i"; cases res) (auto simp: a_def Let_def split: failure.split)
  then obtain res' where stream: "ota_stream env i did [Inr cmd] [] = ([a], acts, res')" by blast
  define f1 where "f1 = put_ack did r (Some a) (f\<lparr>fl_ota := s1, fl_installs := fl_installs f @
       [\<lparr>in_device = did, in_env = env, in_round = i, in_command = cmd\<rparr>]\<rparr>)"
  have one: "fleet_trans bc recv f f1"
    using fleet_trans.update [OF act assms(6) stream] by (simp add: f1_def)
  have reach: "ota_reachable bc recv ?s" by (rule fleet_ota_reachable [OF assms(4)])
  have s1_ok: "jobs_ok s1" using ota_reachable_ok ota_reachable.step [OF reach ota_trans_act [OF act]] by blast
  have "job_of (tabs (os_conn s1)) did cmd" by (rule received_job [OF assms(1,2) reach act])
  moreover have "au_update_job_id (ack_request a) = uc_update_job_id cmd"
    by (simp add: a_def ack_of_def ack_request_def split: sum.split)
  ultimately obtain s2 where s2: "ota_act bc recv (Request (Ack eng [] (ack_request a))) s1 s2" "os_senders s2 = os_senders s1"
    "\<exists>row \<in> set (update_jobs (tabs (os_conn s2))). jb_id row = uc_update_job_id cmd \<and> jb_device_id row = did \<and> jb_status row \<noteq> ''pending''"
    using ack_ends_job [OF s1_ok _ assms(7)] by blast
  have "fleet_trans bc recv f1 (put_ack did r None (f1\<lparr>fl_ota := s2\<rparr>))"
    using s2(1) by (intro fleet_trans.acknowledge [where a = a]) (simp_all add: f1_def)
  with one s2(2,3) show ?thesis
    by (intro exI [of _ "put_ack did r None (f1\<lparr>fl_ota := s2\<rparr>)"]) (auto simp: s1_def backlog_def ch' ended_def)
qed

text \<open>
  C19. Nothing blocks a working robot: from every reachable state of the fleet, whatever broke before, the
  session of a robot that is not in the middle of an update can go on by itself, with a working engine
  and an agent that does not panic, until no command waits for it and all the jobs whose commands
  were waiting have ended.
\<close>

theorem robots_can_finish:
  fixes env :: ota_agent_env
  assumes "broadcast_laws bc queues cap" and "recv_laws recv queues cap" and "recv_ready recv queues"
    and "fleet_reachable bc recv f" and "backlog queues (os_senders (fl_ota f)) did r = Some cmds" and "fl_acks f did r = None"
    and "no_fault eng" and "\<And>url sha. fst (apply_update (oe_host env i) url sha []) \<noteq> Panicked"
  shows "\<exists>f'. (fleet_trans bc recv)\<^sup>*\<^sup>* f f' \<and> backlog queues (os_senders (fl_ota f')) did r = Some [] \<and>
    (\<forall>cmd \<in> set cmds. \<exists>row \<in> set (update_jobs (tabs (os_conn (fl_ota f')))).
       jb_id row = uc_update_job_id cmd \<and> jb_device_id row = did \<and> jb_status row \<in> {''completed'', ''failed''})"
proof -
  have "\<exists>f'. (fleet_trans bc recv)\<^sup>*\<^sup>* f f' \<and> backlog queues (os_senders (fl_ota f')) did r = Some [] \<and>
      (\<forall>cmd \<in> set cmds. ended did (uc_update_job_id cmd) f')"
    using assms(4-6)
  proof (induction cmds arbitrary: f)
    case (Cons cmd cmds)
    obtain f1 where f1: "(fleet_trans bc recv)\<^sup>*\<^sup>* f f1" "backlog queues (os_senders (fl_ota f1)) did r = Some cmds"
      "fl_acks f1 did r = None" "ended did (uc_update_job_id cmd) f1"
      using one_round [OF assms(1-3) Cons.prems assms(7), of env i] assms(8) by blast
    have reach: "fleet_reachable bc recv f1" by (rule fleet_reachable_steps [OF f1(1) Cons.prems(1)])
    from Cons.IH [OF this f1(2,3)] obtain f2 where f2: "(fleet_trans bc recv)\<^sup>*\<^sup>* f1 f2"
      "backlog queues (os_senders (fl_ota f2)) did r = Some []" "\<forall>cmd \<in> set cmds. ended did (uc_update_job_id cmd) f2" by blast
    with f1(1,4) ended_steps [OF f2(1) reach] show ?case by (intro exI [of _ f2]) (auto intro: rtranclp_trans)
  qed auto
  then obtain f' where f': "(fleet_trans bc recv)\<^sup>*\<^sup>* f f'" "backlog queues (os_senders (fl_ota f')) did r = Some []"
    "\<forall>cmd \<in> set cmds. ended did (uc_update_job_id cmd) f'" by blast
  have "jobs_ok (fl_ota f')"
    using ota_reachable_ok [OF fleet_ota_reachable [OF fleet_reachable_steps [OF f'(1) assms(4)]]] by simp
  with f' show ?thesis by (intro exI [of _ f']) (fastforce simp: ended_def jobs_ok_def three_phases_def)
qed

section \<open>A concrete fleet\<close>

text \<open>The run of \<open>demo_acts\<close> with the agent of the robot: it installs the update and acknowledges it.\<close>

definition demo_install :: install where
  "demo_install = \<lparr>in_device = ''D1'', in_env = demo_ota_env, in_round = 0, in_command = demo_command\<rparr>"

definition demo_agent_ack :: agent_ack where
  "demo_agent_ack = \<lparr>aa_update_job_id = ''J1'', aa_device_id = ''D1'', aa_success = True, aa_error_message = [], aa_version = ''2.0''\<rparr>"

lemma demo_round: "ota_stream demo_ota_env 0 ''D1'' [Inr demo_command] [] =
    ([demo_agent_ack], [Extracted [1, 2, 3], RanInstall [1, 2, 3]], Ok ())"
proof -
  have "apply_update demo_host [] [] [] = (Ok (), [Extracted [1, 2, 3], RanInstall [1, 2, 3]])"
    by (simp add: apply_update_def demo_host_def)
  then show ?thesis by (simp add: demo_ota_env_def demo_command_def ack_of_def demo_agent_ack_def)
qed

lemma demo_waiting:
  "\<exists>s s'. fleet_reachable list_broadcast list_recv (fleet_start\<lparr>fl_ota := s\<rparr>) \<and>
     ota_act list_broadcast list_recv (Received ''D1'' 1 demo_command) s s' \<and> backlog list_queues (os_senders s') ''D1'' 1 = Some [] \<and>
     update_jobs (tabs (os_conn s')) = [dispatched_row ''J1'' ''t1'' demo_dispatch] \<and> idle (os_conn s')"
proof -
  obtain s1 s2 s3 s where acts: "ota_act list_broadcast list_recv (Watched ''D1'' 1) ota_start s1"
    "ota_act list_broadcast list_recv Other s1 s2" "ota_act list_broadcast list_recv Other s2 s3"
    "ota_act list_broadcast list_recv (Received ''D1'' 1 demo_command) s3 s" "backlog list_queues (os_senders s) ''D1'' 1 = Some []"
    "update_jobs (tabs (os_conn s)) = [dispatched_row ''J1'' ''t1'' demo_dispatch]" "idle (os_conn s)"
    using demo_acts by blast
  let ?f = "\<lambda>s :: list_channel ota_sys. fleet_start\<lparr>fl_ota := s\<rparr>"
  have go: "fleet_reachable list_broadcast list_recv (?f s')"
    if "fleet_reachable list_broadcast list_recv (?f s)" "ota_act list_broadcast list_recv a s s'" "without_robots a" for s s' a
    using fleet_reachable.step [OF that(1) fleet_trans.service [where f = "?f s" and s = s' and a = a]] that(2,3) by simp
  have "fleet_reachable list_broadcast list_recv (?f ota_start)"
    using fleet_reachable.start [of list_broadcast list_recv] by (simp add: fleet_start_def)
  from go [OF go [OF go [OF this acts(1)] acts(2)] acts(3)] acts(4-) show ?thesis by auto
qed

lemma demo_fleet:
  "\<exists>f. fleet_reachable list_broadcast list_recv f \<and> fl_installs f = [demo_install] \<and> idle (os_conn (fl_ota f)) \<and>
     update_jobs (tabs (os_conn (fl_ota f))) = [finish_row ''t2'' Completed None (dispatched_row ''J1'' ''t1'' demo_dispatch)]"
proof -
  let ?row = "dispatched_row ''J1'' ''t1'' demo_dispatch"
  define f where "f s = fleet_start\<lparr>fl_ota := s\<rparr>" for s :: "list_channel ota_sys"
  obtain s3 s where three: "fleet_reachable list_broadcast list_recv (f s3)"
    and act: "ota_act list_broadcast list_recv (Received ''D1'' 1 demo_command) s3 s"
    and jobs: "update_jobs (tabs (os_conn s)) = [?row]" and idle: "idle (os_conn s)"
    using demo_waiting f_def by metis
  define f4 where "f4 = put_ack ''D1'' 1 (Some demo_agent_ack) (f s\<lparr>fl_installs := [demo_install]\<rparr>)"
  have "fleet_trans list_broadcast list_recv (f s3) f4"
    using fleet_trans.update [OF _ _ demo_round, of list_broadcast list_recv 1 "f s3" s] act
    by (simp add: f4_def f_def fleet_start_def demo_install_def)
  with three have four: "fleet_reachable list_broadcast list_recv f4" by (rule fleet_reachable.step)
  let ?ev = "Ack reliable ''t2'' (ack_request demo_agent_ack)"
  define s5 where "s5 = s\<lparr>os_service := ota_step list_broadcast ?ev (os_service s)\<rparr>"
  have five: "fleet_reachable list_broadcast list_recv (put_ack ''D1'' 1 None (f4\<lparr>fl_ota := s5\<rparr>))"
  proof (rule fleet_reachable.step [OF four], rule fleet_trans.acknowledge)
    show "fl_acks f4 ''D1'' 1 = Some demo_agent_ack" by (simp add: f4_def)
    show "ota_act list_broadcast list_recv (Request ?ev) (fl_ota f4) s5"
      using ota_act.request [of ?ev list_broadcast list_recv s] by (simp add: f4_def f_def s5_def)
  qed
  have "ack_update reliable ''t2'' (ack_request demo_agent_ack) (os_service s) =
      (Ok True, os_service s\<lparr>ot_conn := (os_conn s)\<lparr>tabs := update_jobs_update (\<lambda>_. [finish_row ''t2'' Completed None ?row]) (tabs (os_conn s))\<rparr>\<rparr>)"
    by (simp add: ack_update_healthy ack_request_def demo_agent_ack_def jobs new_job_row_def set_rows_def non_empty_def)
  with five idle show ?thesis
    by (intro exI [of _ "put_ack ''D1'' 1 None (f4\<lparr>fl_ota := s5\<rparr>)"]) (simp add: s5_def f4_def idle_def)
qed

theorem fleet_jobs_tell_the_truth_witness:
  "\<exists>f :: list_channel fleet. \<exists>row \<in> set (update_jobs (committed (os_conn (fl_ota f)))). jb_id row = ''J1'' \<and> jb_status row = ''completed'' \<and>
     (\<exists>x \<in> set (fl_installs f). in_device x = ''D1'' \<and> uc_update_job_id (in_command x) = ''J1'' \<and>
       (\<exists>bytes. snd (apply_update (oe_host (in_env x) (in_round x)) [] [] []) = [Extracted bytes, RanInstall bytes]))"
proof -
  let ?row = "finish_row ''t2'' Completed None (dispatched_row ''J1'' ''t1'' demo_dispatch)"
  obtain f where f: "fleet_reachable list_broadcast list_recv f" "idle (os_conn (fl_ota f))"
    "update_jobs (tabs (os_conn (fl_ota f))) = [?row]"
    using demo_fleet by blast
  then have row: "?row \<in> set (update_jobs (committed (os_conn (fl_ota f))))" by simp
  have cols: "jb_status ?row = ''completed''" "jb_id ?row = ''J1''" "jb_device_id ?row = ''D1''" "jb_artifact_url ?row = []" "jb_sha256 ?row = []"
    by (simp_all add: finish_row_def new_job_row_def dispatch_new_job_def demo_dispatch_def)
  from fleet_jobs_tell_the_truth [OF list_broadcast_laws list_recv_laws f(1) row] cols row show ?thesis
    by (intro exI [of _ f] bexI [of _ ?row]) (auto simp: case_prod_beta)
qed

lemma received_backlog:
  assumes "recv_laws recv queues cap" and "ota_act bc recv (Received did r cmd) s s'" and "backlog queues (os_senders s') did r = Some xs"
  shows "backlog queues (os_senders s) did r = Some (cmd # xs)"
  using assms(2)
proof (cases rule: ota_act.cases)
  case (receive ch ch')
  then obtain ys where "queues ch r = Some (cmd # ys)" "queues ch' = (queues ch)(r \<mapsto> ys)"
    using assms(1) unfolding recv_laws_def by blast
  with receive assms(3) show ?thesis by (simp add: backlog_def)
qed

lemma list_recv_ready: "recv_ready list_recv list_queues"
  by (auto simp: recv_ready_def list_recv_def)

theorem robots_can_finish_witness:
  "\<exists>f f' :: list_channel fleet. backlog list_queues (os_senders (fl_ota f)) ''D1'' 1 = Some [demo_command] \<and>
     (fleet_trans list_broadcast list_recv)\<^sup>*\<^sup>* f f' \<and> backlog list_queues (os_senders (fl_ota f')) ''D1'' 1 = Some [] \<and>
     (\<exists>row \<in> set (update_jobs (tabs (os_conn (fl_ota f')))). jb_id row = ''J1'' \<and> jb_device_id row = ''D1'' \<and>
        jb_status row \<in> {''completed'', ''failed''})"
proof -
  obtain s s' where s: "fleet_reachable list_broadcast list_recv (fleet_start\<lparr>fl_ota := s\<rparr>)"
    "ota_act list_broadcast list_recv (Received ''D1'' 1 demo_command) s s'" "backlog list_queues (os_senders s') ''D1'' 1 = Some []"
    using demo_waiting by blast
  let ?f = "fleet_start\<lparr>fl_ota := s\<rparr>"
  have waiting: "backlog list_queues (os_senders (fl_ota ?f)) ''D1'' 1 = Some [demo_command]"
    using received_backlog [OF list_recv_laws s(2,3)] by simp
  have none: "fl_acks ?f ''D1'' 1 = None" by (simp add: fleet_start_def)
  have host: "fst (apply_update (oe_host demo_ota_env 0) url sha []) \<noteq> Panicked" for url sha
    using demo_host_no_panic [of url sha "[]"] by (simp add: demo_ota_env_def)
  from robots_can_finish [OF list_broadcast_laws list_recv_laws list_recv_ready s(1) waiting none _ host, of reliable]
  obtain f' where f': "(fleet_trans list_broadcast list_recv)\<^sup>*\<^sup>* ?f f'" "backlog list_queues (os_senders (fl_ota f')) ''D1'' 1 = Some []"
    "\<exists>row \<in> set (update_jobs (tabs (os_conn (fl_ota f')))). jb_id row = uc_update_job_id demo_command \<and> jb_device_id row = ''D1'' \<and>
       jb_status row \<in> {''completed'', ''failed''}"
    by auto
  have "uc_update_job_id demo_command = ''J1''" by (simp add: demo_command_def)
  with f' waiting show ?thesis by metis
qed

end
