(* ===== verification/Unit_Tests.thy ===== *)
theory Unit_Tests
  imports Device_Listing Durable_Stores
begin

text \<open>
  The unit tests of the repository as programs of the model. A test is the sequence of calls and
  assertions of its source; an assertion that fails, an \<open>unwrap\<close> of an error and an \<open>unwrap_err\<close> of a
  value panic. This theory has what the tests share and the tests of the device store
  (\<^verbatim>\<open>device-management-service/src/store/mod.rs\<close>). The tests fix neither the ids the stores draw nor
  the times they read; a test environment supplies them.
\<close>

section \<open>Assertions\<close>

definition assert_st :: "bool \<Rightarrow> 's \<Rightarrow> (unit, unit) result \<times> 's" where
  "assert_st b s = (if b then Ok () else Panicked, s)"

definition unwrap_st :: "('e, 'a) result \<times> 's \<Rightarrow> (unit, 'a) result \<times> 's" where
  "unwrap_st m = (case fst m of Inr a \<Rightarrow> Ok a | Inl _ \<Rightarrow> Panicked, snd m)"

definition unwrap_err_st :: "('e, 'a) result \<times> 's \<Rightarrow> (unit, 'e) result \<times> 's" where
  "unwrap_err_st m = (case fst m of Inl (Fail e) \<Rightarrow> Ok e | _ \<Rightarrow> Panicked, snd m)"

lemma test_simps [simp]:
  "assert_st True s = (Ok (), s)" "unwrap_st (Inr a, s) = (Ok a, s)" "unwrap_err_st (Inl (Fail e), s) = (Ok e, s)"
  by (simp_all add: assert_st_def unwrap_st_def unwrap_err_st_def)

definition passes :: "(unit, unit) result \<times> 's \<Rightarrow> bool" where
  "passes m \<longleftrightarrow> fst m = Ok ()"

lemma passes_Ok [simp]: "passes (Inr (), s)"
  by (simp add: passes_def)

text \<open>The \<open>i\<close>-th id and the \<open>i\<close>-th clock reading of a test.\<close>

record test_env =
  te_engine :: engine
  te_id :: "nat \<Rightarrow> string"
  te_clock :: "nat \<Rightarrow> int"

definition sane_env :: "test_env \<Rightarrow> bool" where
  "sane_env e \<longleftrightarrow> no_fault (te_engine e) \<and> inj (te_id e) \<and> mono (te_clock e)"

lemma sane_envD:
  assumes "sane_env e"
  shows "no_fault (te_engine e)" and "te_id e i = te_id e j \<longleftrightarrow> i = j" and "i \<le> j \<Longrightarrow> te_clock e i \<le> te_clock e j"
  using assms by (auto simp: sane_env_def inj_def mono_def)

section \<open>The device store\<close>

text \<open>\<open>store()\<close> is a new database in memory.\<close>

definition test_store :: "test_env \<Rightarrow> (unit, dconn) result" where
  "test_store e = fst (unwrap_st (device_store_new (te_engine e)
     \<lparr>df_factory_manifest = None, df_devices = None, df_pre_enrollment = None\<rparr>))"

definition on_test_store :: "test_env \<Rightarrow> (dconn \<Rightarrow> (unit, unit) result \<times> dconn) \<Rightarrow> bool" where
  "on_test_store e test = (case test_store e of Inr s \<Rightarrow> passes (test s) | Inl _ \<Rightarrow> False)"

definition test_device :: "string \<Rightarrow> new_device" where
  "test_device serial =
     \<lparr>nd_serial = serial, nd_model = ''humanoid-v2'', nd_firmware = ''1.0.0'', nd_cert = ''fake-cert''\<rparr>"

definition test_create :: "test_env \<Rightarrow> nat \<Rightarrow> new_device \<Rightarrow> dconn \<Rightarrow> (unit, device_record) result \<times> dconn" where
  "test_create e i d s = unwrap_st (create_device (te_engine e) (te_id e i) (te_clock e i) d s)"

definition test_create_and_get_device :: "test_env \<Rightarrow> dconn \<Rightarrow> (unit, unit) result \<times> dconn" where
  "test_create_and_get_device e s =
     try_bind (test_create e 0 (test_device ''SN-001'') s) (\<lambda>rec s.
     try_bind (assert_st (dr_serial rec = ''SN-001'') s) (\<lambda>_ s.
     try_bind (assert_st (dr_status rec = ''active'') s) (\<lambda>_ s.
     try_bind (unwrap_st (get_device (te_engine e) (dr_id rec) s)) (\<lambda>fetched s.
     assert_st (dr_serial fetched = ''SN-001'') s))))"

definition test_get_by_serial :: "test_env \<Rightarrow> dconn \<Rightarrow> (unit, unit) result \<times> dconn" where
  "test_get_by_serial e s =
     try_bind (test_create e 0 (test_device ''SN-002'') s) (\<lambda>_ s.
     try_bind (unwrap_st (get_by_serial (te_engine e) ''SN-002'' s)) (\<lambda>rec s.
     assert_st (dr_serial rec = ''SN-002'') s))"

definition test_create_duplicate_serial :: "test_env \<Rightarrow> dconn \<Rightarrow> (unit, unit) result \<times> dconn" where
  "test_create_duplicate_serial e s =
     try_bind (test_create e 0 (test_device ''SN-003'') s) (\<lambda>_ s.
     try_bind (unwrap_err_st (create_device (te_engine e) (te_id e 1) (te_clock e 1) (test_device ''SN-003'') s)) (\<lambda>err s.
     assert_st (case err of AlreadyEnrolled _ \<Rightarrow> True | _ \<Rightarrow> False) s))"

definition test_get_not_found :: "test_env \<Rightarrow> dconn \<Rightarrow> (unit, unit) result \<times> dconn" where
  "test_get_not_found e s =
     try_bind (unwrap_err_st (get_device (te_engine e) ''no-such-id'' s)) (\<lambda>err s.
     assert_st (case err of NotFound _ \<Rightarrow> True | _ \<Rightarrow> False) s)"

definition test_update_status_and_touch :: "test_env \<Rightarrow> dconn \<Rightarrow> (unit, unit) result \<times> dconn" where
  "test_update_status_and_touch e s =
     try_bind (test_create e 0 (test_device ''SN-004'') s) (\<lambda>rec s.
     try_bind (unwrap_st (update_status (te_engine e) (dr_id rec) ''suspended'' ''maintenance'' s)) (\<lambda>_ s.
     try_bind (unwrap_st (get_device (te_engine e) (dr_id rec) s)) (\<lambda>updated s.
     try_bind (assert_st (dr_status updated = ''suspended'') s) (\<lambda>_ s.
     try_bind (unwrap_st (touch_last_seen (te_engine e) (te_clock e 1) (dr_id rec) s)) (\<lambda>_ s.
     try_bind (unwrap_st (get_device (te_engine e) (dr_id rec) s)) (\<lambda>touched s.
     assert_st (dr_last_seen_at rec \<le> dr_last_seen_at touched) s))))))"

definition test_list_devices_with_filters :: "test_env \<Rightarrow> dconn \<Rightarrow> (unit, unit) result \<times> dconn" where
  "test_list_devices_with_filters e s =
     try_bind (test_create e 0 (test_device ''SN-010'') s) (\<lambda>_ s.
     try_bind (test_create e 1 (test_device ''SN-011'') s) (\<lambda>_ s.
     try_bind (test_create e 2 \<lparr>nd_serial = ''SN-012'', nd_model = ''arm-v1'', nd_firmware = ''0.1.0'', nd_cert = ''cert''\<rparr> s) (\<lambda>_ s.
     try_bind (unwrap_st (list_devices (te_engine e) None None 10 None s)) (\<lambda>(everything, _) s.
     try_bind (assert_st (length everything = 3) s) (\<lambda>_ s.
     try_bind (unwrap_st (list_devices (te_engine e) (Some ''humanoid-v2'') None 10 None s)) (\<lambda>(filtered, _) s.
     assert_st (length filtered = 2) s))))))"

text \<open>The loop of the pagination test, whose serials end in the number with three digits.\<close>

fun test_create_all :: "test_env \<Rightarrow> nat list \<Rightarrow> dconn \<Rightarrow> (unit, unit) result \<times> dconn" where
  "test_create_all e [] s = (Ok (), s)"
| "test_create_all e (i # is) s =
     try_bind (test_create e i (test_device (''SN-PAG-00'' @ show_nat i)) s) (\<lambda>_ s. test_create_all e is s)"

definition test_list_devices_pagination :: "test_env \<Rightarrow> dconn \<Rightarrow> (unit, unit) result \<times> dconn" where
  "test_list_devices_pagination e s =
     try_bind (test_create_all e [0..<5] s) (\<lambda>_ s.
     try_bind (unwrap_st (list_devices (te_engine e) None None 3 None s)) (\<lambda>(page1, cursor) s.
     try_bind (assert_st (length page1 = 3) s) (\<lambda>_ s.
     try_bind (assert_st (cursor \<noteq> None) s) (\<lambda>_ s.
     try_bind (unwrap_st (list_devices (te_engine e) None None 3 cursor s)) (\<lambda>(page2, cursor2) s.
     try_bind (assert_st (length page2 = 2) s) (\<lambda>_ s.
     assert_st (cursor2 = None) s))))))"

definition test_register_and_claim :: "test_env \<Rightarrow> dconn \<Rightarrow> (unit, unit) result \<times> dconn" where
  "test_register_and_claim e s =
     try_bind (unwrap_st (register_serial (te_engine e) ''SN-100'' ''humanoid-v2'' s)) (\<lambda>_ s.
     try_bind (unwrap_st (lookup_and_claim (te_engine e) ''SN-100'' s)) (\<lambda>rec s.
     try_bind (assert_st (per_serial rec = ''SN-100'') s) (\<lambda>_ s.
     assert_st (per_model rec = ''humanoid-v2'') s)))"

definition test_claim_unknown :: "test_env \<Rightarrow> dconn \<Rightarrow> (unit, unit) result \<times> dconn" where
  "test_claim_unknown e s =
     try_bind (unwrap_err_st (lookup_and_claim (te_engine e) ''SN-GHOST'' s)) (\<lambda>err s.
     assert_st (case err of NotPreEnrolled _ \<Rightarrow> True | _ \<Rightarrow> False) s)"

definition test_claim_twice :: "test_env \<Rightarrow> dconn \<Rightarrow> (unit, unit) result \<times> dconn" where
  "test_claim_twice e s =
     try_bind (unwrap_st (register_serial (te_engine e) ''SN-200'' ''humanoid-v2'' s)) (\<lambda>_ s.
     try_bind (unwrap_st (lookup_and_claim (te_engine e) ''SN-200'' s)) (\<lambda>_ s.
     try_bind (unwrap_err_st (lookup_and_claim (te_engine e) ''SN-200'' s)) (\<lambda>err s.
     assert_st (case err of SerialAlreadyClaimed _ \<Rightarrow> True | _ \<Rightarrow> False) s)))"

text \<open>The two spawned claims are serialised by the mutex, in an order that does not matter to the counts.\<close>

definition test_concurrent_claim :: "test_env \<Rightarrow> dconn \<Rightarrow> (unit, unit) result \<times> dconn" where
  "test_concurrent_claim e s =
     try_bind (unwrap_st (register_serial (te_engine e) ''SN-RACE'' ''humanoid-v2'' s)) (\<lambda>_ s.
     case lookup_and_claim (te_engine e) ''SN-RACE'' s of (r1, s) \<Rightarrow>
     case lookup_and_claim (te_engine e) ''SN-RACE'' s of (r2, s) \<Rightarrow>
     try_bind (assert_st (length (filter is_ok [r1, r2]) = 1) s) (\<lambda>_ s.
     assert_st (length (filter (\<lambda>r. \<not> is_ok r) [r1, r2]) = 1) s))"

definition device_store_tests :: "test_env \<Rightarrow> bool" where
  "device_store_tests e \<longleftrightarrow>
     on_test_store e (test_create_and_get_device e) \<and> on_test_store e (test_get_by_serial e) \<and>
     on_test_store e (test_create_duplicate_serial e) \<and> on_test_store e (test_get_not_found e) \<and>
     on_test_store e (test_update_status_and_touch e) \<and> on_test_store e (test_list_devices_with_filters e) \<and>
     on_test_store e (test_list_devices_pagination e) \<and> on_test_store e (test_register_and_claim e) \<and>
     on_test_store e (test_claim_unknown e) \<and> on_test_store e (test_claim_twice e) \<and> on_test_store e (test_concurrent_claim e)"

section \<open>They pass\<close>

lemma on_test_store_run:
  assumes "sane_env e"
  shows "on_test_store e test \<longleftrightarrow> passes (test (open_conn empty_tables))"
proof -
  let ?f = "\<lparr>df_factory_manifest = None, df_devices = None, df_pre_enrollment = None\<rparr>"
  obtain c f' where o: "device_store_new (te_engine e) ?f = (Inr c, f')"
    using device_db.open_succeeds [OF sane_envD(1) [OF assms], of ?f] by (metis prod.collapse)
  then show ?thesis
    using device_db.open_shows_tables [OF o] by (simp add: on_test_store_def test_store_def dms_file_tables_def empty_tables_def)
qed

lemma device_tests_records:
  assumes "sane_env e"
  shows "on_test_store e (test_create_and_get_device e)" and "on_test_store e (test_get_by_serial e)"
    and "on_test_store e (test_create_duplicate_serial e)" and "on_test_store e (test_get_not_found e)"
  using sane_envD(1) [OF assms]
  by (simp_all add: on_test_store_run [OF assms] test_create_and_get_device_def test_get_by_serial_def
      test_create_duplicate_serial_def test_get_not_found_def test_create_def test_device_def
      create_device_healthy get_device_healthy get_by_serial_healthy empty_tables_def new_record_def)

lemma device_test_updates:
  assumes "sane_env e"
  shows "on_test_store e (test_update_status_and_touch e)"
  using sane_envD(1) [OF assms] sane_envD(3) [OF assms, of 0 1]
  by (simp add: on_test_store_run [OF assms] test_update_status_and_touch_def test_create_def test_device_def
      create_device_healthy get_device_healthy update_status_healthy touch_last_seen_healthy
      empty_tables_def new_record_def)

text \<open>A serial that was just registered, and that was just claimed.\<close>

definition one_serial :: "string \<Rightarrow> string \<Rightarrow> int \<Rightarrow> dconn" where
  "one_serial serial m claimed =
     open_conn (empty_tables\<lparr>pre_enrollment := [\<lparr>pe_serial = serial, pe_model = m, pe_claimed = claimed\<rparr>]\<rparr>)"

lemma one_serial_runs:
  assumes "no_fault eng"
  shows "register_serial eng serial m (open_conn empty_tables) = (Ok (), one_serial serial m 0)"
    and "lookup_and_claim eng serial (one_serial serial m 0) =
      (Ok \<lparr>per_serial = serial, per_model = m\<rparr>, one_serial serial m 1)"
    and "lookup_and_claim eng serial (one_serial serial m 1) = (Err (SerialAlreadyClaimed serial), one_serial serial m 1)"
    and "lookup_and_claim eng serial (open_conn empty_tables) = (Err (NotPreEnrolled serial), open_conn empty_tables)"
proof -
  have i: "idle (one_serial serial m x)" for x by (simp add: one_serial_def)
  show "register_serial eng serial m (open_conn empty_tables) = (Ok (), one_serial serial m 0)"
    using assms by (simp add: register_serial_healthy upsert_serial_def one_serial_def empty_tables_def open_conn_def)
  show "lookup_and_claim eng serial (one_serial serial m 0) =
      (Ok \<lparr>per_serial = serial, per_model = m\<rparr>, one_serial serial m 1)"
    by (subst lookup_and_claim_healthy [OF assms i]) (simp add: one_serial_def claim_serial_def open_conn_def)
  show "lookup_and_claim eng serial (one_serial serial m 1) = (Err (SerialAlreadyClaimed serial), one_serial serial m 1)"
    by (subst lookup_and_claim_healthy [OF assms i]) (simp add: one_serial_def)
  show "lookup_and_claim eng serial (open_conn empty_tables) = (Err (NotPreEnrolled serial), open_conn empty_tables)"
    by (subst lookup_and_claim_healthy [OF assms]) (simp_all add: empty_tables_def)
qed

lemma device_tests_claims:
  assumes "sane_env e"
  shows "on_test_store e (test_register_and_claim e)" and "on_test_store e (test_claim_unknown e)"
    and "on_test_store e (test_claim_twice e)" and "on_test_store e (test_concurrent_claim e)"
  by (simp_all add: on_test_store_run [OF assms] test_register_and_claim_def test_claim_unknown_def test_claim_twice_def
      test_concurrent_claim_def one_serial_runs [OF sane_envD(1) [OF assms]])

lemma show_nat_inj: "show_nat a = show_nat b \<Longrightarrow> a = b"
  by (metis digits_val_show option.inject)

lemma test_create_all_run:
  assumes "sane_env e" and "distinct is" and "set is \<inter> A = {}"
    and "te_id e ` A = dr_id ` set (devices (tabs s))"
    and "(\<lambda>i. ''SN-PAG-00'' @ show_nat i) ` A = dr_serial ` set (devices (tabs s))"
  shows "test_create_all e is s = (Ok (), s\<lparr>tabs := (tabs s)\<lparr>devices := devices (tabs s) @
    map (\<lambda>i. new_record (te_id e i) (te_clock e i) (test_device (''SN-PAG-00'' @ show_nat i))) is\<rparr>\<rparr>)"
  using assms(2-5)
proof (induction "is" arbitrary: s A)
  case (Cons i "is")
  let ?d = "new_record (te_id e i) (te_clock e i) (test_device (''SN-PAG-00'' @ show_nat i))"
  let ?s = "s\<lparr>tabs := (tabs s)\<lparr>devices := devices (tabs s) @ [?d]\<rparr>\<rparr>"
  have "te_id e i \<notin> dr_id ` set (devices (tabs s))"
    using Cons.prems(2,3) sane_envD(2) [OF assms(1)] by (auto simp flip: Cons.prems(3))
  moreover have "''SN-PAG-00'' @ show_nat i \<notin> dr_serial ` set (devices (tabs s))"
    using Cons.prems(2) show_nat_inj by (auto simp flip: Cons.prems(4))
  ultimately have "test_create e i (test_device (''SN-PAG-00'' @ show_nat i)) s = (Ok ?d, ?s)"
    using sane_envD(1) [OF assms(1)] by (simp add: test_create_def create_device_healthy test_device_def)
  moreover have "test_create_all e is ?s = (Ok (), ?s\<lparr>tabs := (tabs ?s)\<lparr>devices := devices (tabs ?s) @
    map (\<lambda>i. new_record (te_id e i) (te_clock e i) (test_device (''SN-PAG-00'' @ show_nat i))) is\<rparr>\<rparr>)"
    by (rule Cons.IH [of "insert i A"]) (use Cons.prems in \<open>auto simp: new_record_def test_device_def\<close>)
  ultimately show ?case by simp
qed simp

lemma device_test_filters:
  assumes "sane_env e"
  shows "on_test_store e (test_list_devices_with_filters e)"
  using sane_envD [OF assms] list_devices_healthy [of "te_engine e" 10]
  by (simp add: on_test_store_run [OF assms] test_list_devices_with_filters_def test_create_def test_device_def
      create_device_healthy empty_tables_def new_record_def i32_max_def rows_after_def page_of_def device_listing_def
      device_matches_def)

text \<open>Two pages of three over five rows, whatever their ids.\<close>

lemma two_pages:
  assumes "no_fault eng" and "wf_tables t" and "length (device_listing None None t) = 5"
  obtains page1 k page2 where "list_devices eng None None 3 None (open_conn t) = (Ok (page1, Some k), open_conn t)"
    and "list_devices eng None None 3 (Some k) (open_conn t) = (Ok (page2, None), open_conn t)"
    and "length page1 = 3" and "length page2 = 2"
proof -
  define l where "l = device_listing None None t"
  have len: "length l = 5" using assms(3) by (simp add: l_def)
  have "filter (\<lambda>r. dr_id (l ! 2) < dr_id r) l = drop 3 l"
    using filter_after_nth [OF device_listing_sorted [OF assms(2), of None None], of 2] len
    by (simp add: l_def numeral_3_eq_3 numeral_2_eq_2)
  then have after: "rows_after dr_id (<) (Some (dr_id (l ! 2))) l = drop 3 l" by (simp add: rows_after_def)
  note pages = list_devices_healthy [of eng 3 None None, OF assms(1)]
  have "list_devices eng None None 3 None (open_conn t) = (Ok (take 3 l, Some (dr_id (l ! 2))), open_conn t)"
    using pages [of None "open_conn t"] len
    by (simp add: i32_max_def rows_after_def page_of_def numeral_2_eq_2 l_def [symmetric])
  moreover have "list_devices eng None None 3 (Some (dr_id (l ! 2))) (open_conn t) = (Ok (drop 3 l, None), open_conn t)"
    using pages [of "Some (dr_id (l ! 2))" "open_conn t"] len
    by (simp add: i32_max_def after page_of_def l_def [symmetric])
  ultimately show ?thesis using that len by simp
qed

lemma device_test_pagination:
  assumes "sane_env e"
  shows "on_test_store e (test_list_devices_pagination e)"
proof -
  define ds where "ds = map (\<lambda>i. new_record (te_id e i) (te_clock e i) (test_device (''SN-PAG-00'' @ show_nat i))) [0..<5]"
  define t where "t = empty_tables\<lparr>devices := ds\<rparr>"
  have run: "test_create_all e [0..<5] (open_conn empty_tables) = (Ok (), open_conn t)"
    using test_create_all_run [OF assms, of "[0..<5]" "{}" "open_conn empty_tables"]
    by (simp only: t_def ds_def) (simp add: empty_tables_def open_conn_def)
  have "map dr_id ds = map (te_id e) [0..<5]" "map dr_serial ds = map (\<lambda>i. ''SN-PAG-00'' @ show_nat i) [0..<5]"
    by (simp_all add: ds_def new_record_def test_device_def)
  moreover have "inj (te_id e)" "inj (\<lambda>i. ''SN-PAG-00'' @ show_nat i)"
    using assms show_nat_inj by (auto simp: sane_env_def inj_def)
  ultimately have "distinct (map dr_id ds)" "distinct (map dr_serial ds)"
    by (simp_all only: distinct_map distinct_upt) (auto intro: inj_on_subset)
  then have "wf_tables t" by (simp add: wf_tables_def t_def empty_tables_def)
  moreover have "length (device_listing None None t) = 5"
    by (simp add: device_listing_def device_matches_def t_def ds_def)
  ultimately obtain page1 k page2 where
    "list_devices (te_engine e) None None 3 None (open_conn t) = (Ok (page1, Some k), open_conn t)"
    "list_devices (te_engine e) None None 3 (Some k) (open_conn t) = (Ok (page2, None), open_conn t)"
    "length page1 = 3" "length page2 = 2"
    by (rule two_pages [OF sane_envD(1) [OF assms]])
  then show ?thesis
    unfolding on_test_store_run [OF assms] test_list_devices_pagination_def run by simp
qed

section \<open>Properties\<close>

text \<open>
  The eleven unit tests of the device store pass on the model, whatever distinct ids and
  non-decreasing times the store draws.
\<close>

theorem device_store_tests_pass:
  assumes "sane_env e"
  shows "device_store_tests e"
  unfolding device_store_tests_def
  by (intro conjI device_tests_records [OF assms] device_test_updates [OF assms] device_tests_claims [OF assms] device_test_filters [OF assms] device_test_pagination [OF assms])

definition demo_test_env :: test_env where
  "demo_test_env = \<lparr>te_engine = reliable, te_id = show_nat, te_clock = int\<rparr>"

theorem device_store_tests_pass_witness: "device_store_tests demo_test_env"
proof (rule device_store_tests_pass)
  show "sane_env demo_test_env"
    using show_nat_inj by (auto simp: sane_env_def demo_test_env_def inj_def mono_def)
qed

end
