(* ===== verification/Unit_Tests_Ota.thy ===== *)
theory Unit_Tests_Ota
  imports Unit_Tests Ota_Dispatcher
begin

text \<open>
  The unit tests of the job store and of the dispatcher (\<^verbatim>\<open>ota-service/src/store/mod.rs\<close>,
  \<^verbatim>\<open>ota-service/src/dispatcher/mod.rs\<close>) as programs of the model.
\<close>

section \<open>The job store\<close>

record job_test_env =
  jt_engine :: engine
  jt_id :: "nat \<Rightarrow> string"
  jt_now :: "nat \<Rightarrow> string"
  jt_plan :: job_plan

definition sane_jobs :: "job_test_env \<Rightarrow> bool" where
  "sane_jobs e \<longleftrightarrow> no_fault (jt_engine e) \<and> inj (jt_id e) \<and> is_plan (jt_plan e)"

definition on_job_store :: "job_test_env \<Rightarrow> (oconn \<Rightarrow> (unit, unit) result \<times> oconn) \<Rightarrow> bool" where
  "on_job_store e test =
     (case fst (unwrap_st (job_store_new (jt_engine e) \<lparr>jf_update_jobs = None, jf_index = False\<rparr>)) of
        Inr s \<Rightarrow> passes (test s) | Inl _ \<Rightarrow> False)"

definition test_job :: "string \<Rightarrow> string \<Rightarrow> new_job" where
  "test_job device_id version =
     \<lparr>nj_device_id = device_id, nj_target_version = version, nj_artifact_url = ''http://example.com/artifact.tar.gz'',
      nj_sha256 = ''abc123'', nj_size_bytes = 1024\<rparr>"

definition test_create_job :: "job_test_env \<Rightarrow> nat \<Rightarrow> string \<Rightarrow> string \<Rightarrow> oconn \<Rightarrow> (ota_error, job_record) result \<times> oconn" where
  "test_create_job e i device_id version s = create_job (jt_engine e) (jt_id e i) (jt_now e i) (test_job device_id version) s"

definition test_finish_job :: "job_test_env \<Rightarrow> nat \<Rightarrow> string \<Rightarrow> job_status \<Rightarrow> string option \<Rightarrow> oconn \<Rightarrow> (ota_error, unit) result \<times> oconn" where
  "test_finish_job e i jid st err s = update_job_status (jt_engine e) (jt_now e i) jid st err s"

definition test_create_and_get_job :: "job_test_env \<Rightarrow> oconn \<Rightarrow> (unit, unit) result \<times> oconn" where
  "test_create_and_get_job e s =
     try_bind (unwrap_st (test_create_job e 0 ''dev-1'' ''v2.0.0'' s)) (\<lambda>job s.
     try_bind (assert_st (jr_status job = Pending) s) (\<lambda>_ s.
     try_bind (assert_st (jr_device_id job = ''dev-1'') s) (\<lambda>_ s.
     assert_st (jr_target_version job = ''v2.0.0'') s)))"

definition test_create_job_blocks_second :: "job_test_env \<Rightarrow> oconn \<Rightarrow> (unit, unit) result \<times> oconn" where
  "test_create_job_blocks_second e s =
     try_bind (unwrap_st (test_create_job e 0 ''dev-1'' ''v2.0.0'' s)) (\<lambda>_ s.
     try_bind (unwrap_err_st (test_create_job e 1 ''dev-1'' ''v2.1.0'' s)) (\<lambda>err s.
     assert_st (err = AlreadyPending) s))"

definition test_create_job_after_completion :: "job_test_env \<Rightarrow> oconn \<Rightarrow> (unit, unit) result \<times> oconn" where
  "test_create_job_after_completion e s =
     try_bind (unwrap_st (test_create_job e 0 ''dev-1'' ''v2.0.0'' s)) (\<lambda>job s.
     try_bind (unwrap_st (test_finish_job e 1 (jr_id job) Completed None s)) (\<lambda>_ s.
     try_bind (unwrap_st (test_create_job e 2 ''dev-1'' ''v2.1.0'' s)) (\<lambda>job2 s.
     assert_st (jr_target_version job2 = ''v2.1.0'') s)))"

definition test_create_job_after_failure :: "job_test_env \<Rightarrow> oconn \<Rightarrow> (unit, unit) result \<times> oconn" where
  "test_create_job_after_failure e s =
     try_bind (unwrap_st (test_create_job e 0 ''dev-1'' ''v2.0.0'' s)) (\<lambda>job s.
     try_bind (unwrap_st (test_finish_job e 1 (jr_id job) Failed (Some ''install failed'') s)) (\<lambda>_ s.
     try_bind (unwrap_st (test_create_job e 2 ''dev-1'' ''v2.1.0'' s)) (\<lambda>job2 s.
     assert_st (jr_status job2 = Pending) s)))"

definition test_get_pending_active :: "job_test_env \<Rightarrow> oconn \<Rightarrow> (unit, unit) result \<times> oconn" where
  "test_get_pending_active e s =
     try_bind (unwrap_st (test_create_job e 0 ''dev-1'' ''v2.0.0'' s)) (\<lambda>job s.
     try_bind (unwrap_st (get_pending_for_device (jt_engine e) (jt_plan e) ''dev-1'' s)) (\<lambda>pending s.
     try_bind (assert_st (pending \<noteq> None) s) (\<lambda>_ s.
     assert_st (map_option jr_id pending = Some (jr_id job)) s)))"

definition test_get_pending_completed :: "job_test_env \<Rightarrow> oconn \<Rightarrow> (unit, unit) result \<times> oconn" where
  "test_get_pending_completed e s =
     try_bind (unwrap_st (test_create_job e 0 ''dev-1'' ''v2.0.0'' s)) (\<lambda>job s.
     try_bind (unwrap_st (test_finish_job e 1 (jr_id job) Completed None s)) (\<lambda>_ s.
     try_bind (unwrap_st (get_pending_for_device (jt_engine e) (jt_plan e) ''dev-1'' s)) (\<lambda>pending s.
     assert_st (pending = None) s)))"

definition test_update_status_missing :: "job_test_env \<Rightarrow> oconn \<Rightarrow> (unit, unit) result \<times> oconn" where
  "test_update_status_missing e s =
     try_bind (unwrap_err_st (test_finish_job e 0 ''no-such-id'' Completed None s)) (\<lambda>err s.
     assert_st (case err of JobNotFound _ \<Rightarrow> True | _ \<Rightarrow> False) s)"

definition test_list_for_device :: "job_test_env \<Rightarrow> oconn \<Rightarrow> (unit, unit) result \<times> oconn" where
  "test_list_for_device e s =
     try_bind (unwrap_st (test_create_job e 0 ''dev-1'' ''v1.0.0'' s)) (\<lambda>_ s.
     try_bind (unwrap_st (test_create_job e 1 ''dev-2'' ''v2.0.0'' s)) (\<lambda>j2 s.
     try_bind (unwrap_st (list_for_device (jt_engine e) (jt_plan e) ''dev-2'' 10 None s)) (\<lambda>(jobs, cursor) s.
     try_bind (assert_st (length jobs = 1) s) (\<lambda>_ s.
     try_bind (assert_st (jr_id (jobs ! 0) = jr_id j2) s) (\<lambda>_ s.
     assert_st (cursor = None) s)))))"

definition test_pending_guard_per_device :: "job_test_env \<Rightarrow> oconn \<Rightarrow> (unit, unit) result \<times> oconn" where
  "test_pending_guard_per_device e s =
     try_bind (unwrap_st (test_create_job e 0 ''dev-1'' ''v2.0.0'' s)) (\<lambda>_ s.
     try_bind (unwrap_st (test_create_job e 1 ''dev-2'' ''v2.0.0'' s)) (\<lambda>job s.
     assert_st (jr_device_id job = ''dev-2'') s))"

definition job_store_tests :: "job_test_env \<Rightarrow> bool" where
  "job_store_tests e \<longleftrightarrow>
     on_job_store e (test_create_and_get_job e) \<and> on_job_store e (test_create_job_blocks_second e) \<and>
     on_job_store e (test_create_job_after_completion e) \<and> on_job_store e (test_create_job_after_failure e) \<and>
     on_job_store e (test_get_pending_active e) \<and> on_job_store e (test_get_pending_completed e) \<and>
     on_job_store e (test_update_status_missing e) \<and> on_job_store e (test_list_for_device e) \<and>
     on_job_store e (test_pending_guard_per_device e)"

lemma sane_jobsD:
  assumes "sane_jobs e"
  shows "no_fault (jt_engine e)" and "jt_id e i = jt_id e j \<longleftrightarrow> i = j" and "is_plan (jt_plan e)"
  using assms by (auto simp: sane_jobs_def inj_def)

lemma on_job_store_run:
  assumes "sane_jobs e"
  shows "on_job_store e test \<longleftrightarrow> passes (test (open_conn empty_jobs))"
proof -
  let ?f = "\<lparr>jf_update_jobs = None, jf_index = False\<rparr>"
  obtain c f' where o: "job_store_new (jt_engine e) ?f = (Inr c, f')"
    using job_db.open_succeeds [OF sane_jobsD(1) [OF assms], of ?f] by (metis prod.collapse)
  then show ?thesis
    using job_db.open_shows_tables [OF o] by (simp add: on_job_store_def job_file_tables_def empty_jobs_def)
qed

lemmas job_test_defs = test_create_job_def test_finish_job_def test_job_def create_job_healthy update_job_status_healthy
  empty_jobs_def no_active_def active_for_def active_status_def new_job_row_def row_to_record_def finish_row_def
  from_str_def

lemma job_tests_creation:
  assumes "sane_jobs e"
  shows "on_job_store e (test_create_and_get_job e)" and "on_job_store e (test_create_job_blocks_second e)"
    and "on_job_store e (test_update_status_missing e)" and "on_job_store e (test_pending_guard_per_device e)"
  using sane_jobsD(1,2) [OF assms]
  by (simp_all add: on_job_store_run [OF assms] test_create_and_get_job_def test_create_job_blocks_second_def
      test_update_status_missing_def test_pending_guard_per_device_def job_test_defs)

lemma job_tests_completion:
  assumes "sane_jobs e"
  shows "on_job_store e (test_create_job_after_completion e)" and "on_job_store e (test_create_job_after_failure e)"
  using sane_jobsD(1,2) [OF assms]
  by (simp_all add: on_job_store_run [OF assms] test_create_job_after_completion_def test_create_job_after_failure_def
      job_test_defs)

lemma job_tests_pending:
  assumes "sane_jobs e"
  shows "on_job_store e (test_get_pending_active e)" and "on_job_store e (test_get_pending_completed e)"
  using sane_jobsD(1,2) [OF assms] plan_single [OF sane_jobsD(3) [OF assms]] plan_nil [OF sane_jobsD(3) [OF assms]]
  by (simp_all add: on_job_store_run [OF assms] test_get_pending_active_def test_get_pending_completed_def
      get_pending_healthy order_asc_def job_test_defs)

lemma job_test_listing:
  assumes "sane_jobs e"
  shows "on_job_store e (test_list_for_device e)"
proof -
  have "wrap_i64 11 = 11" by (simp add: in_i64_def)
  then show ?thesis
  using sane_jobsD(1,2) [OF assms] plan_single [OF sane_jobsD(3) [OF assms]]
  by (simp add: on_job_store_run [OF assms] test_list_for_device_def list_for_device_def with_lock_def query_def
      select_jobs_def job_after_def limit_rows_def order_desc_def job_page_def ok_items_step_rows i64_as_u64_def
      Let_def job_test_defs)
qed

section \<open>The dispatcher\<close>

text \<open>
  \<open>recv\<close> gives the first value a receiver has still to receive; the tests call it only when there
  is one. Receivers are counted by the values of the channel (\<open>receiver_count\<close>).
\<close>

definition test_cmd :: "string \<Rightarrow> update_command" where
  "test_cmd version =
     \<lparr>uc_update_job_id = ''job-1'', uc_target_version = version, uc_artifact_url = ''http://example.com/v.tar.gz'',
      uc_sha256 = ''abc'', uc_size_bytes = 0, uc_apply_by = None\<rparr>"

lemma test_cmd_version [simp]: "uc_target_version (test_cmd version) = version"
  by (simp add: test_cmd_def)

definition test_recv :: "('ch \<Rightarrow> nat \<Rightarrow> update_command list option) \<Rightarrow> string \<Rightarrow> nat \<Rightarrow> 'ch senders
    \<Rightarrow> (unit, update_command) result \<times> 'ch senders" where
  "test_recv queues did rx m = (case backlog queues m did rx of Some (x # _) \<Rightarrow> Ok x | _ \<Rightarrow> Panicked, m)"

definition no_subscribers :: "ota_error \<Rightarrow> bool" where
  "no_subscribers err = (case err of NoActiveSubscribers _ \<Rightarrow> True | _ \<Rightarrow> False)"

definition test_subscribe_and_dispatch :: "'ch broadcast \<Rightarrow> ('ch \<Rightarrow> nat \<Rightarrow> update_command list option)
    \<Rightarrow> (unit, unit) result \<times> 'ch senders" where
  "test_subscribe_and_dispatch bc queues =
     (case subscribe bc ''dev-1'' dispatcher_new of (rx, d) \<Rightarrow>
     try_bind (unwrap_st (dispatch bc ''dev-1'' (test_cmd ''v2.0.0'') d)) (\<lambda>count d.
     try_bind (assert_st (count = 1) d) (\<lambda>_ d.
     try_bind (test_recv queues ''dev-1'' rx d) (\<lambda>received d.
     assert_st (uc_target_version received = ''v2.0.0'') d))))"

definition test_dispatch_no_subscribers :: "'ch broadcast \<Rightarrow> (unit, unit) result \<times> 'ch senders" where
  "test_dispatch_no_subscribers bc =
     try_bind (unwrap_err_st (dispatch bc ''dev-ghost'' (test_cmd ''v2.0.0'') dispatcher_new)) (\<lambda>err d.
     assert_st (no_subscribers err) d)"

definition test_dispatch_after_drop :: "'ch broadcast \<Rightarrow> (unit, unit) result \<times> 'ch senders" where
  "test_dispatch_after_drop bc =
     (case subscribe bc ''dev-1'' dispatcher_new of (rx, d) \<Rightarrow>
     try_bind (unwrap_err_st (dispatch bc ''dev-1'' (test_cmd ''v2.0.0'') (unsubscribe bc ''dev-1'' rx d))) (\<lambda>err d.
     assert_st (no_subscribers err) d))"

definition test_multiple_subscribers :: "'ch broadcast \<Rightarrow> ('ch \<Rightarrow> nat \<Rightarrow> update_command list option)
    \<Rightarrow> (unit, unit) result \<times> 'ch senders" where
  "test_multiple_subscribers bc queues =
     (case subscribe bc ''dev-1'' dispatcher_new of (rx1, d) \<Rightarrow>
     case subscribe bc ''dev-1'' d of (rx2, d) \<Rightarrow>
     try_bind (unwrap_st (dispatch bc ''dev-1'' (test_cmd ''v2.0.0'') d)) (\<lambda>count d.
     try_bind (assert_st (count = 2) d) (\<lambda>_ d.
     try_bind (test_recv queues ''dev-1'' rx1 d) (\<lambda>received d.
     try_bind (assert_st (uc_target_version received = ''v2.0.0'') d) (\<lambda>_ d.
     try_bind (test_recv queues ''dev-1'' rx2 d) (\<lambda>received d.
     assert_st (uc_target_version received = ''v2.0.0'') d))))))"

definition test_dispatch_per_device :: "'ch broadcast \<Rightarrow> ('ch \<Rightarrow> nat \<Rightarrow> update_command list option)
    \<Rightarrow> (unit, unit) result \<times> 'ch senders" where
  "test_dispatch_per_device bc queues =
     (case subscribe bc ''dev-1'' dispatcher_new of (rx1, d) \<Rightarrow>
     case subscribe bc ''dev-2'' d of (_, d) \<Rightarrow>
     try_bind (unwrap_st (dispatch bc ''dev-1'' (test_cmd ''v2.0.0'') d)) (\<lambda>_ d.
     try_bind (test_recv queues ''dev-1'' rx1 d) (\<lambda>_ d.
     try_bind (unwrap_err_st (dispatch bc ''dev-99'' (test_cmd ''v2.0.0'') d)) (\<lambda>err d.
     assert_st (no_subscribers err) d))))"

definition test_subscribe_creates_channel :: "'ch broadcast \<Rightarrow> (unit, unit) result \<times> 'ch senders" where
  "test_subscribe_creates_channel bc =
     (case subscribe bc ''new-device'' dispatcher_new of (_, d) \<Rightarrow>
     case dispatch bc ''new-device'' (test_cmd ''v1.0.0'') d of (r, d) \<Rightarrow> assert_st (is_ok r) d)"

definition dispatcher_tests :: "'ch broadcast \<Rightarrow> ('ch \<Rightarrow> nat \<Rightarrow> update_command list option) \<Rightarrow> bool" where
  "dispatcher_tests bc queues \<longleftrightarrow>
     passes (test_subscribe_and_dispatch bc queues) \<and> passes (test_dispatch_no_subscribers bc) \<and>
     passes (test_dispatch_after_drop bc) \<and> passes (test_multiple_subscribers bc queues) \<and>
     passes (test_dispatch_per_device bc queues) \<and> passes (test_subscribe_creates_channel bc)"

definition counts_receivers :: "'ch broadcast \<Rightarrow> ('ch \<Rightarrow> nat \<Rightarrow> update_command list option) \<Rightarrow> bool" where
  "counts_receivers bc queues \<longleftrightarrow> (\<forall>ch. bc_receiver_count bc ch = card (dom (queues ch)))"

text \<open>The channel after the first subscription, after a further one, and after a dispatch.\<close>

lemma subscribe_first:
  assumes "broadcast_laws bc queues cap" and "d did = None"
  obtains rx ch where "subscribe bc did d = (rx, d(did \<mapsto> ch))" and "queues ch = [rx \<mapsto> []]" and "channel_capacity \<le> cap ch"
proof -
  obtain rx ch where s: "bc_subscribe bc (bc_channel bc channel_capacity) = (rx, ch)" by fastforce
  from broadcast_lawsD(3) [OF assms(1) s] broadcast_lawsD(1,2) [OF assms(1), of channel_capacity] s assms(2)
  show ?thesis by (intro that [of rx ch]) (auto simp: subscribe_def)
qed

lemma subscribe_again:
  assumes "broadcast_laws bc queues cap" and "d did = Some ch"
  obtains rx ch' where "subscribe bc did d = (rx, d(did \<mapsto> ch'))" and "queues ch rx = None"
    and "queues ch' = (queues ch)(rx \<mapsto> [])" and "cap ch' = cap ch"
proof -
  obtain rx ch' where s: "bc_subscribe bc ch = (rx, ch')" by fastforce
  from broadcast_lawsD(3) [OF assms(1) s] s assms(2) show ?thesis by (intro that [of rx ch']) (auto simp: subscribe_def)
qed

lemma dispatch_first:
  assumes "broadcast_laws bc queues cap" and "counts_receivers bc queues" and "d did = Some ch"
    and "queues ch rx = Some []" and "channel_capacity \<le> cap ch" and "card (dom (queues ch)) = k"
  obtains ch' where "dispatch bc did cmd d = (Ok k, d(did \<mapsto> ch'))"
    and "\<And>rx. queues ch rx = Some [] \<Longrightarrow> queues ch' rx = Some [cmd]"
proof -
  have "bc_receiver_count bc ch \<noteq> 0" using assms(4) broadcast_lawsD(4) [OF assms(1), of ch] by auto
  then have "dispatch bc did cmd d = (Ok k, d(did \<mapsto> snd (bc_send bc cmd ch)))"
    using assms(2,3,6) by (simp add: dispatch_def counts_receivers_def)
  moreover have "0 < cap ch" using assms(5) by (simp add: channel_capacity_def)
  then have "queues (snd (bc_send bc cmd ch)) x = Some [cmd]" if "queues ch x = Some []" for x
    using broadcast_lawsD(5) [OF assms(1), of cmd ch x] that by (simp add: send_queue_short)
  ultimately show ?thesis by (rule that)
qed

lemma dispatcher_tests_run:
  assumes l: "broadcast_laws bc queues cap" and n: "counts_receivers bc queues"
  shows "dispatcher_tests bc queues"
proof -
  have new: "dispatcher_new did = None" for did :: string by (simp add: dispatcher_new_def)
  have none: "dispatch bc did cmd d = (Err (NoActiveSubscribers did), d)" if "d did = None" for did cmd d
    using that by (simp add: dispatch_def)
  obtain rx ch where s: "subscribe bc ''dev-1'' dispatcher_new = (rx, dispatcher_new(''dev-1'' \<mapsto> ch))"
    and q: "queues ch = [rx \<mapsto> []]" and c: "channel_capacity \<le> cap ch"
    by (rule subscribe_first [OF l new])
  have qrx: "queues ch rx = Some []" and k1: "card (dom (queues ch)) = 1" by (simp_all add: q)
  have "(dispatcher_new(''dev-1'' \<mapsto> ch)) ''dev-1'' = Some ch" by simp
  then obtain ch1 where d1: "dispatch bc ''dev-1'' (test_cmd ''v2.0.0'') (dispatcher_new(''dev-1'' \<mapsto> ch)) =
      (Ok 1, dispatcher_new(''dev-1'' \<mapsto> ch, ''dev-1'' \<mapsto> ch1))"
    and q1': "\<And>x. queues ch x = Some [] \<Longrightarrow> queues ch1 x = Some [test_cmd ''v2.0.0'']"
    by (rule dispatch_first [where d = "dispatcher_new(''dev-1'' \<mapsto> ch)" and did = "''dev-1''" and cmd = "test_cmd ''v2.0.0''", OF l n _ qrx c k1]) blast
  note q1 = q1' [OF qrx]
  have "passes (test_subscribe_and_dispatch bc queues)"
    by (simp add: test_subscribe_and_dispatch_def s d1 test_recv_def backlog_def q1)
  moreover have "passes (test_dispatch_no_subscribers bc)"
    by (simp add: test_dispatch_no_subscribers_def none new no_subscribers_def)
  moreover have "dispatch bc ''dev-1'' (test_cmd ''v2.0.0'') (unsubscribe bc ''dev-1'' rx (dispatcher_new(''dev-1'' \<mapsto> ch))) =
      (Err (NoActiveSubscribers ''dev-1''), unsubscribe bc ''dev-1'' rx (dispatcher_new(''dev-1'' \<mapsto> ch)))"
    by (rule dispatch_refused [OF l]) (simp only: backlog_unsubscribe [OF l], simp add: backlog_def q)
  then have "passes (test_dispatch_after_drop bc)"
    by (simp add: test_dispatch_after_drop_def s no_subscribers_def)
  moreover have "passes (test_multiple_subscribers bc queues)"
  proof -
    obtain rx2 ch2 where s2: "subscribe bc ''dev-1'' (dispatcher_new(''dev-1'' \<mapsto> ch)) = (rx2, dispatcher_new(''dev-1'' \<mapsto> ch2))"
      and q2: "queues ch rx2 = None" "queues ch2 = (queues ch)(rx2 \<mapsto> [])" "cap ch2 = cap ch"
      by (rule subscribe_again [OF l, of "dispatcher_new(''dev-1'' \<mapsto> ch)" "''dev-1''" ch]) (auto simp: fun_upd_upd)
    have ne: "rx2 \<noteq> rx" using q2(1) q by auto
    have rcv: "queues ch2 rx = Some []" "queues ch2 rx2 = Some []" and dom: "dom (queues ch2) = {rx, rx2}"
      using ne by (auto simp: q2 q)
    have c2: "channel_capacity \<le> cap ch2" using c q2(3) by simp
    have k2: "card (dom (queues ch2)) = 2" using ne by (simp add: dom)
    have "(dispatcher_new(''dev-1'' \<mapsto> ch2)) ''dev-1'' = Some ch2" by simp
    then obtain ch3 where d3: "dispatch bc ''dev-1'' (test_cmd ''v2.0.0'') (dispatcher_new(''dev-1'' \<mapsto> ch2)) =
        (Ok 2, dispatcher_new(''dev-1'' \<mapsto> ch2, ''dev-1'' \<mapsto> ch3))"
      and q3': "\<And>x. queues ch2 x = Some [] \<Longrightarrow> queues ch3 x = Some [test_cmd ''v2.0.0'']"
      by (rule dispatch_first [where d = "dispatcher_new(''dev-1'' \<mapsto> ch2)" and did = "''dev-1''" and cmd = "test_cmd ''v2.0.0''", OF l n _ rcv(1) c2 k2]) blast
    note q3 = q3' [OF rcv(1)] q3' [OF rcv(2)]
    show ?thesis
      by (simp add: test_multiple_subscribers_def s s2 d3 test_recv_def backlog_def q3)
  qed
  moreover have "passes (test_dispatch_per_device bc queues)"
  proof -
    obtain rx2 ch2 where s2: "subscribe bc ''dev-2'' (dispatcher_new(''dev-1'' \<mapsto> ch)) =
        (rx2, dispatcher_new(''dev-1'' \<mapsto> ch, ''dev-2'' \<mapsto> ch2))"
      by (rule subscribe_first [OF l, of "dispatcher_new(''dev-1'' \<mapsto> ch)" "''dev-2''"]) (auto simp: new)
    have "(dispatcher_new(''dev-1'' \<mapsto> ch, ''dev-2'' \<mapsto> ch2)) ''dev-1'' = Some ch" by simp
    then obtain ch3 where "dispatch bc ''dev-1'' (test_cmd ''v2.0.0'') (dispatcher_new(''dev-1'' \<mapsto> ch, ''dev-2'' \<mapsto> ch2)) =
        (Ok 1, dispatcher_new(''dev-1'' \<mapsto> ch, ''dev-2'' \<mapsto> ch2, ''dev-1'' \<mapsto> ch3))"
      and q4: "\<And>x. queues ch x = Some [] \<Longrightarrow> queues ch3 x = Some [test_cmd ''v2.0.0'']"
      by (rule dispatch_first [where d = "dispatcher_new(''dev-1'' \<mapsto> ch, ''dev-2'' \<mapsto> ch2)" and did = "''dev-1''" and cmd = "test_cmd ''v2.0.0''", OF l n _ qrx c k1]) blast
    then show ?thesis
      by (simp add: test_dispatch_per_device_def s s2 test_recv_def backlog_def none new no_subscribers_def q4 [OF qrx])
  qed
  moreover have "passes (test_subscribe_creates_channel bc)"
  proof -
    obtain rx ch where "subscribe bc ''new-device'' dispatcher_new = (rx, dispatcher_new(''new-device'' \<mapsto> ch))"
      and q: "queues ch = [rx \<mapsto> []]" and c: "channel_capacity \<le> cap ch"
      by (rule subscribe_first [OF l new])
    moreover have "(dispatcher_new(''new-device'' \<mapsto> ch)) ''new-device'' = Some ch" "queues ch rx = Some []" by (simp_all add: q)
    then obtain ch' where "dispatch bc ''new-device'' (test_cmd ''v1.0.0'') (dispatcher_new(''new-device'' \<mapsto> ch)) =
        (Ok (card (dom (queues ch))), dispatcher_new(''new-device'' \<mapsto> ch, ''new-device'' \<mapsto> ch'))"
      by (rule dispatch_first [where d = "dispatcher_new(''new-device'' \<mapsto> ch)" and did = "''new-device''" and cmd = "test_cmd ''v1.0.0''", OF l n _ _ c refl])
    ultimately show ?thesis by (simp add: test_subscribe_creates_channel_def)
  qed
  ultimately show ?thesis by (simp add: dispatcher_tests_def)
qed

section \<open>Properties\<close>

text \<open>
  The unit tests of the job store and of the dispatcher pass on the model, whatever distinct ids,
  times and query plans the store uses, and over any channels that keep the documented contract of
  \<open>tokio::sync::broadcast\<close>, receiver counts included.
\<close>

theorem ota_tests_pass:
  assumes "sane_jobs e" and "broadcast_laws bc queues cap" and "counts_receivers bc queues"
  shows "job_store_tests e \<and> dispatcher_tests bc queues"
  unfolding job_store_tests_def
  by (intro conjI job_tests_creation [OF assms(1)] job_tests_completion [OF assms(1)] job_tests_pending [OF assms(1)]
      job_test_listing [OF assms(1)] dispatcher_tests_run [OF assms(2,3)])

definition demo_job_env :: job_test_env where
  "demo_job_env = \<lparr>jt_engine = reliable, jt_id = show_nat, jt_now = show_nat, jt_plan = rev\<rparr>"

lemma list_broadcast_counts: "counts_receivers list_broadcast (\<lambda>(n, qs). map_of qs)"
  by (auto simp: counts_receivers_def list_broadcast_def dom_map_of_conv_image_fst length_remdups_card_conv)

theorem ota_tests_pass_witness: "job_store_tests demo_job_env \<and> dispatcher_tests list_broadcast (\<lambda>(n, qs). map_of qs)"
proof -
  have "inj show_nat" using show_nat_inj by (auto simp: inj_def)
  then show ?thesis
    by (intro ota_tests_pass [OF _ list_broadcast_laws list_broadcast_counts]) (simp add: sane_jobs_def demo_job_env_def)
qed

end
