(* ===== verification/Unit_Tests_Wire.thy ===== *)
theory Unit_Tests_Wire
  imports Unit_Tests Artifact_Store Agent_Telemetry Agent_Heartbeat
begin

text \<open>
  The unit tests of the artifact registry and its handlers (\<^verbatim>\<open>artifact-store/src/registry/mod.rs\<close>,
  \<^verbatim>\<open>artifact-store/src/server/mod.rs\<close>) and of the agent's decoder and readings
  (\<^verbatim>\<open>robot-agent/src/telemetry.rs\<close>, \<^verbatim>\<open>robot-agent/src/heartbeat.rs\<close>) as programs of the model.
\<close>

section \<open>The registry\<close>

definition on_registry :: "test_env \<Rightarrow> (aconn \<Rightarrow> (unit, unit) result \<times> aconn) \<Rightarrow> bool" where
  "on_registry e test =
     (case fst (unwrap_st (registry_new (te_engine e) \<lparr>rf_artifacts = None\<rparr>)) of
        Inr r \<Rightarrow> passes (test r) | Inl _ \<Rightarrow> False)"

definition test_artifact :: "string \<Rightarrow> string \<Rightarrow> new_artifact" where
  "test_artifact model version =
     \<lparr>na_model = model, na_version = version, na_sha256 = ''abc123'', na_size_bytes = 1024, na_channel = ''stable'',
      na_object_key = model @ ''/'' @ version @ ''/firmware.bin'', na_download_url = ''https://example.com/fw''\<rparr>"

definition arm_artifact :: new_artifact where
  "arm_artifact =
     \<lparr>na_model = ''arm-v1'', na_version = ''1.0.0'', na_sha256 = ''def456'', na_size_bytes = 512, na_channel = ''stable'',
      na_object_key = ''arm/1.0.0/fw'', na_download_url = ''https://example.com/arm''\<rparr>"

definition test_register :: "test_env \<Rightarrow> nat \<Rightarrow> new_artifact \<Rightarrow> aconn \<Rightarrow> (artifact_error, artifact_record) result \<times> aconn" where
  "test_register e i a r = registry_create (te_engine e) (te_id e i) (te_clock e i) a r"

definition test_registry_create_and_get :: "test_env \<Rightarrow> aconn \<Rightarrow> (unit, unit) result \<times> aconn" where
  "test_registry_create_and_get e r =
     try_bind (unwrap_st (test_register e 0 (test_artifact ''humanoid-v2'' ''1.0.0'') r)) (\<lambda>record r.
     try_bind (assert_st (ar_id record \<noteq> []) r) (\<lambda>_ r.
     try_bind (unwrap_st (registry_get (te_engine e) (ar_id record) r)) (\<lambda>fetched r.
     try_bind (assert_st (ar_version fetched = ''1.0.0'') r) (\<lambda>_ r.
     assert_st (ar_model fetched = ''humanoid-v2'') r))))"

definition test_registry_get_not_found :: "test_env \<Rightarrow> aconn \<Rightarrow> (unit, unit) result \<times> aconn" where
  "test_registry_get_not_found e r =
     try_bind (unwrap_err_st (registry_get (te_engine e) ''nonexistent-id'' r)) (\<lambda>err r.
     assert_st (case err of ArtifactNotFound _ \<Rightarrow> True | _ \<Rightarrow> False) r)"

definition test_version_conflict :: "test_env \<Rightarrow> aconn \<Rightarrow> (unit, unit) result \<times> aconn" where
  "test_version_conflict e r =
     try_bind (unwrap_st (test_register e 0 (test_artifact ''humanoid-v2'' ''1.0.0'') r)) (\<lambda>_ r.
     try_bind (unwrap_err_st (test_register e 1 (test_artifact ''humanoid-v2'' ''1.0.0'') r)) (\<lambda>err r.
     assert_st (case err of VersionConflict _ _ \<Rightarrow> True | _ \<Rightarrow> False) r))"

definition test_get_latest :: "test_env \<Rightarrow> artifact_plan \<Rightarrow> aconn \<Rightarrow> (unit, unit) result \<times> aconn" where
  "test_get_latest e plan r =
     try_bind (unwrap_st (test_register e 0 (test_artifact ''humanoid-v2'' ''1.0.0'') r)) (\<lambda>_ r.
     try_bind (unwrap_st (test_register e 1 (test_artifact ''humanoid-v2'' ''2.0.0'') r)) (\<lambda>_ r.
     try_bind (unwrap_st (registry_get_latest (te_engine e) plan ''humanoid-v2'' ''stable'' r)) (\<lambda>latest r.
     assert_st (ar_version latest = ''2.0.0'') r)))"

definition test_list_filtered :: "test_env \<Rightarrow> artifact_plan \<Rightarrow> aconn \<Rightarrow> (unit, unit) result \<times> aconn" where
  "test_list_filtered e plan r =
     try_bind (unwrap_st (test_register e 0 (test_artifact ''humanoid-v2'' ''1.0.0'') r)) (\<lambda>_ r.
     try_bind (unwrap_st (test_register e 1 (test_artifact ''humanoid-v2'' ''2.0.0'') r)) (\<lambda>_ r.
     try_bind (unwrap_st (test_register e 2 arm_artifact r)) (\<lambda>_ r.
     try_bind (unwrap_st (registry_list (te_engine e) plan ''humanoid-v2'' ''stable'' 10 r)) (\<lambda>results r.
     try_bind (assert_st (length results = 2) r) (\<lambda>_ r.
     assert_st (list_all (\<lambda>a. ar_model a = ''humanoid-v2'') results) r)))))"

section \<open>The handlers\<close>

definition test_publish_returns_meta :: "test_env \<Rightarrow> aconn \<Rightarrow> (unit, unit) result \<times> aconn" where
  "test_publish_returns_meta e r =
     try_bind (unwrap_st (publish_artifact (te_engine e) (te_id e 0) (te_clock e 0)
        \<lparr>pb_model = ''humanoid-v2'', pb_version = ''1.0.0'', pb_sha256 = ''deadbeef'', pb_size_bytes = 2048,
         pb_channel = ''stable'', pb_object_key = ''humanoid-v2/1.0.0/fw.bin''\<rparr> r)) (\<lambda>meta r.
     try_bind (assert_st (am_version meta = ''1.0.0'') r) (\<lambda>_ r.
     assert_st (am_artifact_id meta \<noteq> []) r))"

definition test_publish_rejects_empty_sha256 :: "test_env \<Rightarrow> aconn \<Rightarrow> (unit, unit) result \<times> aconn" where
  "test_publish_rejects_empty_sha256 e r =
     try_bind (unwrap_err_st (publish_artifact (te_engine e) (te_id e 0) (te_clock e 0)
        \<lparr>pb_model = ''humanoid-v2'', pb_version = ''1.0.0'', pb_sha256 = [], pb_size_bytes = 0,
         pb_channel = [], pb_object_key = []\<rparr> r)) (\<lambda>err r.
     assert_st (st_code err = InvalidArgument) r)"

text \<open>The mocked object store answers every key with the same URL.\<close>

definition mock_url :: string where
  "mock_url = ''https://minio.example.com/presigned''"

definition str_contains :: "string \<Rightarrow> string \<Rightarrow> bool" where
  "str_contains s pat = list_ex (starts_with pat) (map (\<lambda>i. drop i s) [0..<Suc (length s)])"

definition test_generate_upload_url :: "test_env \<Rightarrow> aconn \<Rightarrow> (unit, unit) result \<times> aconn" where
  "test_generate_upload_url e r =
     try_bind (unwrap_st (generate_upload_url (\<lambda>_ _. Ok mock_url) (err_display (te_engine e)) ''humanoid-v2'' ''2.0.0'', r))
       (\<lambda>(upload_url, _) r. assert_st (str_contains upload_url ''presigned'') r)"

definition artifact_tests :: "test_env \<Rightarrow> artifact_plan \<Rightarrow> bool" where
  "artifact_tests e plan \<longleftrightarrow>
     on_registry e (test_registry_create_and_get e) \<and> on_registry e (test_registry_get_not_found e) \<and>
     on_registry e (test_version_conflict e) \<and> on_registry e (test_get_latest e plan) \<and>
     on_registry e (test_list_filtered e plan) \<and> on_registry e (test_publish_returns_meta e) \<and>
     on_registry e (test_publish_rejects_empty_sha256 e) \<and> on_registry e (test_generate_upload_url e)"

lemma on_registry_run:
  assumes "sane_env e"
  shows "on_registry e test \<longleftrightarrow> passes (test (open_conn empty_artifacts))"
proof -
  let ?f = "\<lparr>rf_artifacts = None\<rparr>"
  obtain c f' where o: "registry_new (te_engine e) ?f = (Inr c, f')"
    using registry_db.open_succeeds [OF sane_envD(1) [OF assms], of ?f] by (metis prod.collapse)
  then show ?thesis
    using registry_db.open_shows_tables [OF o] by (simp add: on_registry_def registry_file_tables_def empty_artifacts_def)
qed

lemma plan_pair:
  assumes "is_plan plan"
  shows "plan [a, b] = [a, b] \<or> plan [a, b] = [b, a]"
proof -
  have "length (plan [a, b]) = 2" using assms by (simp add: length_plan)
  then obtain x y where xy: "plan [a, b] = [x, y]" by (auto simp: numeral_2_eq_2 length_Suc_conv)
  have "mset (plan [a, b]) = mset [a, b]" using assms by (simp add: is_plan_def)
  then show ?thesis by (auto simp: xy add_eq_conv_ex)
qed

lemmas artifact_test_defs = test_register_def test_artifact_def arm_artifact_def registry_create_healthy
  empty_artifacts_def artifact_of_def

lemma artifact_tests_simple:
  assumes "sane_env e" and "te_id e 0 \<noteq> []"
  shows "on_registry e (test_registry_create_and_get e)" and "on_registry e (test_registry_get_not_found e)"
    and "on_registry e (test_version_conflict e)" and "on_registry e (test_publish_returns_meta e)"
    and "on_registry e (test_publish_rejects_empty_sha256 e)" and "on_registry e (test_generate_upload_url e)"
  using sane_envD(1,2) [OF assms(1)] assms(2)
  by (simp_all add: on_registry_run [OF assms(1)] test_registry_create_and_get_def test_registry_get_not_found_def
      test_version_conflict_def test_publish_returns_meta_def test_publish_rejects_empty_sha256_def
      test_generate_upload_url_def publish_artifact_def new_artifact_of_def artifact_to_proto_def registry_get_healthy
      generate_upload_url_def Let_def mock_url_def str_contains_def starts_with_def artifact_test_defs)

lemma artifact_tests_listing:
  assumes "sane_env e" and "te_clock e 0 < te_clock e 1" and "is_plan plan"
  shows "on_registry e (test_get_latest e plan)" and "on_registry e (test_list_filtered e plan)"
proof -
  let ?a = "\<lambda>i v. artifact_of (te_id e i) (te_clock e i) (test_artifact ''humanoid-v2'' v)"
  let ?r1 = "?a 0 ''1.0.0''" and ?r2 = "?a 1 ''2.0.0''"
  have order: "order_desc plan ar_created_at [?r1, ?r2] = [?r2, ?r1]"
    using plan_pair [OF assms(3), of ?r1 ?r2] assms(2) by (auto simp: order_desc_def sort_key_def artifact_of_def)
  show "on_registry e (test_get_latest e plan)"
    using sane_envD(1,2) [OF assms(1)] order
    by (simp add: on_registry_run [OF assms(1)] test_get_latest_def registry_get_latest_healthy newest_first_def
        in_channel_def artifact_test_defs)
  show "on_registry e (test_list_filtered e plan)"
    using sane_envD(1,2) [OF assms(1)] order
    by (simp add: on_registry_run [OF assms(1)] test_list_filtered_def registry_list_healthy newest_first_def
        in_channel_def limit_rows_def artifact_test_defs)
qed

section \<open>The decoder of telemetry frames\<close>

text \<open>Lists of \<open>f64\<close> literals are the bit patterns of their rounded values.\<close>

definition f64s :: "rat list \<Rightarrow> u64 list" where
  "f64s xs = map f64_bits xs"

definition close_to :: "u64 \<Rightarrow> rat \<Rightarrow> bool" where
  "close_to bits x \<longleftrightarrow> \<bar>f64_sub (f64_value bits) (f64_round x)\<bar> < f64_round (1 / 10 ^ 9)"

definition test_parse_frame_round_trip :: bool where
  "test_parse_frame_round_trip =
     (case parse_frame ''dev-001'' (encode_frame 1700000000000000000
          (f64s [1 / 10, 2 / 10, 3 / 10, 4 / 10, 5 / 10, 6 / 10]) (f64s [1, 2, 3, 4, 5, 6])) of
        Inr (Some frame) \<Rightarrow>
          af_device_id frame = ''dev-001'' \<and> length (af_joints frame) = 6 \<and>
          close_to (js_position_rad (af_joints frame ! 0)) (1 / 10) \<and>
          close_to (js_torque_nm (af_joints frame ! 0)) 1 \<and>
          close_to (js_position_rad (af_joints frame ! 5)) (6 / 10)
      | _ \<Rightarrow> False)"

definition test_parse_frame_timestamp :: bool where
  "test_parse_frame_timestamp =
     (case parse_frame ''dev'' (encode_frame 1700000001500000000 (f64s (replicate 6 0)) (f64s (replicate 6 0))) of
        Inr (Some frame) \<Rightarrow>
          (case af_recorded_at frame of
             Some recorded \<Rightarrow> ts_seconds recorded = 1700000001 \<and> ts_nanos recorded = 500000000
           | None \<Rightarrow> False)
      | _ \<Rightarrow> False)"

definition test_parse_frame_truncated :: bool where
  "test_parse_frame_truncated \<longleftrightarrow> parse_frame ''dev'' (replicate 5 0) = Ok None"

definition test_parse_frame_joint_count :: bool where
  "test_parse_frame_joint_count =
     (let payload = encode_frame 0 (f64s (replicate 3 0)) (f64s (replicate 3 0));
          bad = take 8 payload @ be_bytes 4 6 @ drop 12 payload
      in parse_frame ''dev'' bad = Ok None)"

definition test_joint_names :: bool where
  "test_joint_names =
     (case parse_frame ''dev'' (encode_frame 0 (f64s (replicate 6 0)) (f64s (replicate 6 0))) of
        Inr (Some frame) \<Rightarrow>
          js_name (af_joints frame ! 0) = ''panda_joint1'' \<and> js_name (af_joints frame ! 5) = ''panda_joint6''
      | _ \<Rightarrow> False)"

lemma close_to_bits:
  assumes "\<bar>x\<bar> < 2 ^ 1000"
  shows "close_to (f64_bits x) x"
proof -
  have "0 < f64_round (1 / 10 ^ 9)" by code_simp
  then show ?thesis using f64_value_bits [OF assms] by (simp add: close_to_def f64_sub_def)
qed

lemma decoder_tests_frames:
  "test_parse_frame_round_trip" "test_parse_frame_timestamp" "test_joint_names"
proof -
  have t: "in_i64 1700000000000000000" "in_i64 1700000001500000000" "in_i64 0" by (simp_all add: in_i64_def)
  have c: "close_to (f64_bits (1 / 10)) (1 / 10)" "close_to (f64_bits 1) 1" "close_to (f64_bits (6 / 10)) (6 / 10)"
    by (rule close_to_bits, simp)+
  show test_parse_frame_round_trip
    using c t by (simp add: test_parse_frame_round_trip_def f64s_def parse_encode frame_of_def upt_rec)
  show test_parse_frame_timestamp
    using t by (simp add: test_parse_frame_timestamp_def f64s_def parse_encode frame_of_def frame_time_def)
  show test_joint_names
    using t by (simp add: test_joint_names_def f64s_def parse_encode frame_of_def joint_name_def joint_names_def)
qed

lemma decoder_tests_rejected: "test_parse_frame_truncated" "test_parse_frame_joint_count"
proof -
  show test_parse_frame_truncated by (simp add: test_parse_frame_truncated_def parse_frame_def)
  let ?p = "encode_frame 0 (f64s (replicate 3 0)) (f64s (replicate 3 0))"
  let ?bad = "take 8 ?p @ be_bytes 4 6 @ drop 12 ?p"
  have len: "length ?p = 60" by (simp add: length_encode_frame f64s_def)
  have "unat (6 :: u32) = 6" by simp
  then have "unat (u32_from_be (take 4 (drop 8 ?bad))) = 6"
    using u32_be_round_trip [of 6] len by simp
  then show test_parse_frame_joint_count
    unfolding test_parse_frame_joint_count_def Let_def parse_frame_cases using len by simp
qed

section \<open>The readings\<close>

definition test_cpu_usage :: "io \<Rightarrow> fs \<Rightarrow> bool" where
  "test_cpu_usage io f \<longleftrightarrow> fp_le (Fin 0) (read_cpu_usage io 0 f) \<and> fp_le (read_cpu_usage io 0 f) (Fin 100)"

definition test_memory_usage :: "io \<Rightarrow> fs \<Rightarrow> bool" where
  "test_memory_usage io f \<longleftrightarrow> fp_le (Fin 0) (read_memory_usage io 0 f) \<and> fp_le (read_memory_usage io 0 f) (Fin 100)"

definition test_cpu_usage_nonnegative :: "io \<Rightarrow> fs \<Rightarrow> bool" where
  "test_cpu_usage_nonnegative io f \<longleftrightarrow> fp_le (Fin 0) (read_cpu_usage io 0 f)"

definition agent_tests :: "io \<Rightarrow> fs \<Rightarrow> bool" where
  "agent_tests io f \<longleftrightarrow>
     test_parse_frame_round_trip \<and> test_parse_frame_timestamp \<and> test_parse_frame_truncated \<and>
     test_parse_frame_joint_count \<and> test_joint_names \<and> test_cpu_usage io f \<and> test_memory_usage io f \<and>
     test_cpu_usage_nonnegative io f"

section \<open>Properties\<close>

text \<open>
  The unit tests of the artifact registry and its handlers pass on the model, whatever distinct
  ids the registry draws, for every query plan, when the second artifact is registered in a later
  second; and those of the agent pass on every machine whose \<^verbatim>\<open>/proc\<close> files have counters that do
  not overflow and no more memory available than there is.
\<close>

theorem artifact_and_agent_tests_pass:
  assumes "sane_env e" and "te_id e 0 \<noteq> []" and "te_clock e 0 < te_clock e 1" and "is_plan plan"
    and "\<And>stat. fs_read_to_string io 0 ''/proc/stat'' f = Ok stat \<Longrightarrow> sum_list (map unat (cpu_numbers stat)) < 2 ^ 64"
    and "\<And>info. fs_read_to_string io 0 ''/proc/meminfo'' f = Ok info \<Longrightarrow>
      snd (meminfo_loop (str_lines info) (0, 0)) \<le> fst (meminfo_loop (str_lines info) (0, 0))"
  shows "artifact_tests e plan \<and> agent_tests io f"
proof -
  have "artifact_tests e plan"
    unfolding artifact_tests_def
    by (intro conjI artifact_tests_simple [OF assms(1,2)] artifact_tests_listing [OF assms(1,3,4)])
  moreover have "in_range 100 (read_cpu_usage io 0 f)" by (rule cpu_usage_range [OF assms(5)])
  moreover have "in_range 100 (read_memory_usage io 0 f)" by (rule memory_usage_range [OF assms(6)])
  ultimately show ?thesis
    by (auto simp: agent_tests_def decoder_tests_frames decoder_tests_rejected test_cpu_usage_def test_memory_usage_def
        test_cpu_usage_nonnegative_def in_range_def)
qed

theorem artifact_and_agent_tests_pass_witness: "artifact_tests demo_test_env rev \<and> agent_tests io_reliable Map.empty"
proof (rule artifact_and_agent_tests_pass)
  show "sane_env demo_test_env"
    using show_nat_inj by (auto simp: sane_env_def demo_test_env_def inj_def mono_def)
qed (simp_all add: demo_test_env_def fs_read_to_string_def fs_read_def)

end
