(* ===== verification/Unit_Tests_Pki.thy ===== *)
theory Unit_Tests_Pki
  imports Unit_Tests_Wire
begin

text \<open>
  The unit tests of the crate \<open>pki\<close> (\<^verbatim>\<open>pki/src/csr.rs\<close>, \<^verbatim>\<open>pki/src/mtls.rs\<close>) as programs of the model. They
  make certificates with \<open>rcgen\<close>; the calls that only tests make are the record \<open>test_rcgen\<close>, and what the
  tests rely on is the contract \<open>rcgen_works\<close>, which a small concrete library meets.
\<close>

section \<open>Certificates made by the tests\<close>

definition unwrap :: "('e, 'a) result \<Rightarrow> (unit, 'a) result" where
  "unwrap r = (case r of Inr a \<Rightarrow> Ok a | Inl _ \<Rightarrow> Panicked)"

lemma unwrap_Ok [simp]: "unwrap (Inr a) = Inr a"
  by (simp add: unwrap_def)

lemma unwrap_const: "is_ok r \<Longrightarrow> try_pure (unwrap r) (\<lambda>_. k) = k"
  by (auto simp: is_ok_iff)

definition assert :: "bool \<Rightarrow> (unit, unit) result" where
  "assert b = (if b then Ok () else Panicked)"

lemma assert_True [simp]: "assert True = Ok ()"
  by (simp add: assert_def)

text \<open>
  Certificate parameters: of a CA with its common name if one is set, and of a leaf with its alternative
  names and its common name; \<open>CertificateParams::signed_by\<close>; and \<open>serialize_request\<close> of parameters with
  alternative names.
\<close>

record test_rcgen =
  tr_ca_params :: "string option \<Rightarrow> ca_params"
  tr_leaf_params :: "string list \<Rightarrow> string \<Rightarrow> ca_params"
  tr_signed_by :: "ca_params \<Rightarrow> key_pair \<Rightarrow> certificate \<Rightarrow> key_pair \<Rightarrow> (string, certificate) result"
  tr_request :: "string list \<Rightarrow> key_pair \<Rightarrow> (string, string) result"

record test_ca =
  ca_cert :: certificate
  ca_key :: key_pair

definition make_ca :: "pki \<Rightarrow> test_rcgen \<Rightarrow> nat \<Rightarrow> string option \<Rightarrow> (unit, test_ca) result" where
  "make_ca pki rc i cn =
     try_pure (unwrap (generate_keypair pki i)) (\<lambda>key.
     try_pure (unwrap (ca_self_signed pki (tr_ca_params rc cn) key)) (\<lambda>cert.
     Ok \<lparr>ca_cert = cert, ca_key = key\<rparr>))"

definition make_leaf :: "pki \<Rightarrow> test_rcgen \<Rightarrow> nat \<Rightarrow> string list \<Rightarrow> string \<Rightarrow> test_ca \<Rightarrow> (unit, pem \<times> pem) result" where
  "make_leaf pki rc i sans cn ca =
     try_pure (unwrap (generate_keypair pki i)) (\<lambda>leaf_key.
     try_pure (unwrap (tr_signed_by rc (tr_leaf_params rc sans cn) leaf_key (ca_cert ca) (ca_key ca))) (\<lambda>leaf_cert.
     Ok (cert_to_pem pki leaf_cert, serialize_key pki leaf_key)))"

section \<open>What the tests rely on\<close>

text \<open>
  \<open>key i\<close> is the \<open>i\<close>-th generated key, all different; \<open>root cn i\<close> and \<open>leaf cn i\<close> are the self-signed and the
  issued certificate under that key, \<open>der\<close> and \<open>parsed\<close> their encodings.
\<close>

locale rcgen_works =
  fixes pki :: pki and rc :: test_rcgen and key :: "nat \<Rightarrow> key_pair"
    and root :: "string option \<Rightarrow> nat \<Rightarrow> certificate" and leaf :: "string \<Rightarrow> nat \<Rightarrow> certificate"
    and der :: "certificate \<Rightarrow> der" and parsed :: "certificate \<Rightarrow> x509"
  assumes generates: "generate_keypair pki i = Ok (key i)"
    and key_round_trip: "keypair_from_pem pki (serialize_key pki (key i)) = Ok (key i)"
      "pem_private_key pki (serialize_key pki (key i)) = Ok (Some (key i))"
    and self_signs: "ca_self_signed pki (tr_ca_params rc cn) (key i) = Ok (root cn i)"
    and reloads: "\<exists>params ca. ca_params_from_pem pki (cert_to_pem pki (root cn i)) = Ok params \<and>
      ca_self_signed pki params (key i) = Ok ca"
    and issues: "tr_signed_by rc (tr_leaf_params rc sans name) (key j) (root cn i) (key i) = Ok (leaf name i)"
    and encodes: "pem_certs pki (cert_to_pem pki (root cn i)) = [Ok (der (root cn i))]"
      "pem_certs pki (cert_to_pem pki (leaf name i)) = [Ok (der (leaf name i))]"
    and parses: "x509_from_der pki (der (root cn i)) = Ok (parsed (root cn i))"
      "x509_from_der pki (der (leaf name i)) = Ok (parsed (leaf name i))"
    and names: "common_names pki (parsed (leaf name i)) = [Ok name]"
    and verifies: "verify_signature pki (parsed (leaf name i)) (x509_public_key pki (parsed (root cn j))) =
      (if i = j then Ok () else Err ''bad signature'')"
    and requests: "\<exists>rq. serialize_request pki name (key i) = Ok rq \<and> (\<exists>p. request_pem pki rq = Ok p \<and> p \<noteq> [] \<and> is_ok (csr_from_pem pki p))"
      "\<exists>rq. tr_request rc sans (key i) = Ok rq \<and> (\<exists>p. request_pem pki rq = Ok p \<and> p \<noteq> [] \<and> is_ok (csr_from_pem pki p))"
    and signs_requests: "csr_from_pem pki p = Ok csr \<Longrightarrow> \<exists>cert. csr_signed_by pki (csr\<lparr>not_before := a, not_after := b\<rparr>) ca k = Ok cert \<and>
      str_contains (cert_to_pem pki cert) ''BEGIN CERTIFICATE''"
    and tls: "root_add pki d = Ok d" "tls13_versions pki = Ok ()" "ds \<noteq> [] \<Longrightarrow> client_verifier pki ds = Ok ()"
      "single_cert pki ds k = Ok ()"
begin

lemma make_ca_works: "make_ca pki rc i cn = Ok \<lparr>ca_cert = root cn i, ca_key = key i\<rparr>"
  by (simp add: make_ca_def generates self_signs)

lemma make_leaf_works:
  "make_leaf pki rc j sans name \<lparr>ca_cert = root cn i, ca_key = key i\<rparr> =
     Ok (cert_to_pem pki (leaf name i), serialize_key pki (key j))"
  by (simp add: make_leaf_def generates issues)

lemma certs_of:
  "certs_from_pem pki (cert_to_pem pki (root cn i)) = Ok [der (root cn i)]"
  "certs_from_pem pki (cert_to_pem pki (leaf name i)) = Ok [der (leaf name i)]"
  by (simp_all add: certs_from_pem_def encodes)

lemma extract_works: "extract_serial pki [der (leaf name i)] = Ok name"
  by (simp add: extract_serial_def parses names)

lemma verify_works:
  "verify_signed_by pki [der (leaf name i)] (cert_to_pem pki (root cn j)) =
     (if i = j then Ok () else Err (PkiCertVerification ''bad signature''))"
  by (simp add: verify_signed_by_def certs_of parses verifies)

lemma tls_works:
  "is_ok (server_tls_config pki (cert_to_pem pki (leaf name i)) (serialize_key pki (key j)) (cert_to_pem pki (root cn l)))"
  "is_ok (client_tls_config pki (cert_to_pem pki (leaf name i)) (serialize_key pki (key j)) (cert_to_pem pki (root cn l)))"
  by (simp_all add: server_tls_config_def client_tls_config_def certs_of private_key_from_pem_def key_round_trip
      root_store_from_pem_def tls)

lemma sign_works:
  assumes "is_ok (csr_from_pem pki p)" and "now + uint days * 86400 \<le> time_max pki"
  shows "\<exists>cert. sign_csr pki now p (cert_to_pem pki (root cn i)) (serialize_key pki (key i)) days = Ok cert \<and>
    str_contains cert ''BEGIN CERTIFICATE''"
proof -
  obtain params ca csr where "ca_params_from_pem pki (cert_to_pem pki (root cn i)) = Ok params"
    "ca_self_signed pki params (key i) = Ok ca" and csr: "csr_from_pem pki p = Ok csr"
    using reloads [of cn i] assms(1) by (auto simp: is_ok_iff)
  with assms(2) signs_requests [OF csr, where a = now and b = "now + uint days * 86400" and ca = ca and k = "key i"] show ?thesis
    by (auto simp: sign_csr_def Let_def key_round_trip)
qed

end

section \<open>csr.rs\<close>

text \<open>\<open>f\<close> is the disk with the fresh temporary directory \<open>dir\<close>; the mode is compared under \<open>0o777\<close>.\<close>

definition test_generate_csr_mode :: "pki \<Rightarrow> string \<Rightarrow> fs \<Rightarrow> (unit, unit) result" where
  "test_generate_csr_mode pki dir f =
     (let key_path = join_path dir ''operational.key'' in
      case generate_csr pki io_reliable 0 ''robot-agent'' key_path f of (csr_pem, f) \<Rightarrow>
        try_pure (unwrap csr_pem) (\<lambda>csr_pem.
        try_pure (assert (csr_pem \<noteq> [])) (\<lambda>_.
        try_pure (unwrap (ok_or () (f key_path))) (\<lambda>entry.
        assert (file_mode entry mod 512 = 384)))))"

definition test_sign_csr_round_trip :: "pki \<Rightarrow> test_rcgen \<Rightarrow> int \<Rightarrow> string \<Rightarrow> fs \<Rightarrow> (unit, unit) result" where
  "test_sign_csr_round_trip pki rc now dir f =
     try_pure (make_ca pki rc 0 (Some ''Test CA'')) (\<lambda>ca.
     try_pure (unwrap (fst (generate_csr pki io_reliable 1 ''SN-DEMO-001'' (join_path dir ''op.key'') f))) (\<lambda>csr_pem.
     try_pure (unwrap (sign_csr pki now csr_pem (cert_to_pem pki (ca_cert ca)) (serialize_key pki (ca_key ca)) 30)) (\<lambda>cert_pem.
     assert (str_contains cert_pem ''BEGIN CERTIFICATE''))))"

section \<open>mtls.rs\<close>

definition test_tls_configs_build :: "pki \<Rightarrow> test_rcgen \<Rightarrow> (unit, unit) result" where
  "test_tls_configs_build pki rc =
     try_pure (make_ca pki rc 0 (Some ''Test Fleet CA'')) (\<lambda>ca.
     try_pure (make_leaf pki rc 1 [] ''fleet-server'' ca) (\<lambda>(server_cert_pem, server_key_pem).
     try_pure (make_leaf pki rc 2 [] ''robot-001'' ca) (\<lambda>(client_cert_pem, client_key_pem).
     try_pure (unwrap (server_tls_config pki server_cert_pem server_key_pem (cert_to_pem pki (ca_cert ca)))) (\<lambda>_.
     try_pure (unwrap (client_tls_config pki client_cert_pem client_key_pem (cert_to_pem pki (ca_cert ca)))) (\<lambda>_.
     Ok ())))))"

definition test_extract_serial :: "pki \<Rightarrow> test_rcgen \<Rightarrow> (unit, unit) result" where
  "test_extract_serial pki rc =
     try_pure (make_ca pki rc 0 (Some ''Test CA'')) (\<lambda>ca.
     try_pure (make_leaf pki rc 1 [] ''SN-ROBOT-42'' ca) (\<lambda>(leaf_pem, _).
     try_pure (unwrap (certs_from_pem pki leaf_pem)) (\<lambda>der.
     try_pure (unwrap (extract_serial pki der)) (\<lambda>serial.
     assert (serial = ''SN-ROBOT-42'')))))"

definition test_verify_accepts :: "pki \<Rightarrow> test_rcgen \<Rightarrow> (unit, unit) result" where
  "test_verify_accepts pki rc =
     try_pure (make_ca pki rc 0 (Some ''Good CA'')) (\<lambda>ca.
     try_pure (make_leaf pki rc 1 [] ''robot'' ca) (\<lambda>(leaf_pem, _).
     try_pure (unwrap (certs_from_pem pki leaf_pem)) (\<lambda>der.
     unwrap (verify_signed_by pki der (cert_to_pem pki (ca_cert ca))))))"

definition test_verify_rejects :: "pki \<Rightarrow> test_rcgen \<Rightarrow> (unit, unit) result" where
  "test_verify_rejects pki rc =
     try_pure (make_ca pki rc 0 (Some ''CA One'')) (\<lambda>ca1.
     try_pure (make_ca pki rc 1 (Some ''CA Two'')) (\<lambda>ca2.
     try_pure (make_leaf pki rc 2 [] ''robot'' ca1) (\<lambda>(leaf_pem, _).
     try_pure (unwrap (certs_from_pem pki leaf_pem)) (\<lambda>der.
     assert (\<not> is_ok (verify_signed_by pki der (cert_to_pem pki (ca_cert ca2))))))))"

definition pki_tests :: "pki \<Rightarrow> test_rcgen \<Rightarrow> int \<Rightarrow> string \<Rightarrow> fs \<Rightarrow> bool" where
  "pki_tests pki rc now dir f \<longleftrightarrow>
     test_generate_csr_mode pki dir f = Ok () \<and> test_sign_csr_round_trip pki rc now dir f = Ok () \<and>
     test_tls_configs_build pki rc = Ok () \<and> test_extract_serial pki rc = Ok () \<and>
     test_verify_accepts pki rc = Ok () \<and> test_verify_rejects pki rc = Ok ()"

context rcgen_works
begin

lemma pki_tests_work:
  assumes "now + 30 * 86400 \<le> time_max pki" and "f (join_path dir ''operational.key'') = None"
  shows "pki_tests pki rc now dir f"
proof -
  obtain rq p where rq: "serialize_request pki ''robot-agent'' (key 0) = Ok rq" "request_pem pki rq = Ok p" "p \<noteq> []"
    using requests(1) by blast
  obtain rq' p' where rq': "serialize_request pki ''SN-DEMO-001'' (key 1) = Ok rq'" "request_pem pki rq' = Ok p'"
    and csr: "is_ok (csr_from_pem pki p')"
    using requests(1) by blast
  obtain cert where cert: "sign_csr pki now p' (cert_to_pem pki (root (Some ''Test CA'') 0)) (serialize_key pki (key 0)) 30 = Ok cert"
    "str_contains cert ''BEGIN CERTIFICATE''"
    using sign_works [OF csr, of now 30 "Some ''Test CA''" 0] assms(1) by auto
  have "test_generate_csr_mode pki dir f = Ok ()"
    using assms(2) rq generates
    by (simp add: test_generate_csr_mode_def generate_csr_reliable put_file_def Let_def)
  moreover have "test_sign_csr_round_trip pki rc now dir f = Ok ()"
    using cert rq' generates by (simp add: test_sign_csr_round_trip_def make_ca_works generate_csr_reliable)
  ultimately show ?thesis
    by (simp add: tls_works unwrap_const pki_tests_def test_tls_configs_build_def test_extract_serial_def test_verify_accepts_def test_verify_rejects_def
        make_ca_works make_leaf_works certs_of extract_works verify_works)
qed

end

section \<open>A concrete library\<close>

text \<open>
  Key \<open>i\<close> is the letter \<open>K\<close> and the number; a certificate is the name of the signing key, a slash and
  the common name; a PEM file is a certificate after its header.
\<close>

definition lab_key :: "nat \<Rightarrow> string" where
  "lab_key i = CHR ''K'' # show_nat i"

definition lab_pki :: pki where
  "lab_pki = demo_pki
     \<lparr>generate_keypair := (\<lambda>i. Ok (lab_key i)),
      ca_params_from_pem := (\<lambda>p. Ok (drop 17 p)),
      ca_self_signed := (\<lambda>p k. Ok (k @ CHR ''/'' # p)),
      cert_to_pem := (\<lambda>c. ''BEGIN CERTIFICATE'' @ c),
      pem_certs := (\<lambda>p. [Ok (drop 17 p)])\<rparr>"

definition lab_rcgen :: test_rcgen where
  "lab_rcgen =
     \<lparr>tr_ca_params = (\<lambda>cn. case cn of None \<Rightarrow> [] | Some n \<Rightarrow> n),
      tr_leaf_params = (\<lambda>sans cn. cn),
      tr_signed_by = (\<lambda>params key ca ca_key. Ok (ca_key @ CHR ''/'' # params)),
      tr_request = (\<lambda>sans key. Ok (concat sans))\<rparr>"

lemma lab_key_chars: "CHR ''/'' \<notin> set (lab_key i)"
proof
  assume "CHR ''/'' \<in> set (lab_key i)"
  then obtain d where "d < 10" "CHR ''/'' = digit_char d" using set_show_nat [of _ i] by (auto simp: lab_key_def)
  then have "(of_char (CHR ''/'') :: nat) = 48 + d" by simp
  then show False by simp
qed

lemma str_contains_prefix: "str_contains (p @ s) p"
  by (auto simp: str_contains_def list_ex_iff starts_with_def intro!: bexI [of _ 0])

interpretation lab: rcgen_works lab_pki lab_rcgen lab_key
  "\<lambda>cn i. lab_key i @ CHR ''/'' # (case cn of None \<Rightarrow> [] | Some n \<Rightarrow> n)" "\<lambda>name i. lab_key i @ CHR ''/'' # name" "\<lambda>c. c" "\<lambda>c. c"
proof
  show "common_names lab_pki (lab_key i @ CHR ''/'' # name) = [Ok name]" for i name
    using lab_key_chars [of i] by (simp add: lab_pki_def demo_pki_def takeWhile_append_stop)
  show "verify_signature lab_pki (lab_key i @ CHR ''/'' # name)
      (x509_public_key lab_pki (lab_key j @ CHR ''/'' # (case cn of None \<Rightarrow> [] | Some n \<Rightarrow> n))) =
    (if i = j then Ok () else Err ''bad signature'')" for i j name cn
    using lab_key_chars [of i] lab_key_chars [of j] show_nat_inj
    by (auto simp: lab_pki_def demo_pki_def takeWhile_append_stop lab_key_def)
  show "\<exists>cert. csr_signed_by lab_pki (csr\<lparr>not_before := a, not_after := b\<rparr>) ca k = Ok cert \<and>
      str_contains (cert_to_pem lab_pki cert) ''BEGIN CERTIFICATE''" for csr a b ca k
    using str_contains_prefix [of "''BEGIN CERTIFICATE''"] by (simp add: lab_pki_def demo_pki_def)
qed (simp_all add: lab_pki_def demo_pki_def lab_rcgen_def)

text \<open>
  The unit tests of the crate \<open>pki\<close> pass on the model with every library that keeps the contract of
  \<open>rcgen\<close>: keys are written with mode \<open>0600\<close>, CSRs are signed, the TLS configurations build, the serial is
  the common name, and signatures of another CA are rejected.
\<close>

theorem pki_tests_pass:
  assumes "rcgen_works pki rc keys roots leaves enc dec" and "now + 30 * 86400 \<le> time_max pki"
    and "f (join_path dir ''operational.key'') = None"
  shows "pki_tests pki rc now dir f"
  using assms(2,3) by (rule rcgen_works.pki_tests_work [OF assms(1)])

theorem pki_tests_pass_witness: "pki_tests lab_pki lab_rcgen 0 ''/tmp/t'' Map.empty"
  by (rule pki_tests_pass [OF lab.rcgen_works_axioms]) (simp_all add: lab_pki_def demo_pki_def)

end
