(* ===== verification/Unit_Tests_Mock.thy ===== *)
theory Unit_Tests_Mock
  imports Unit_Tests_Pki Device_Trait
begin

text \<open>
  The unit tests of the device-management service that run on a mocked store
  (\<^verbatim>\<open>enrollment/mod.rs\<close>, \<^verbatim>\<open>server/mod.rs\<close>, \<^verbatim>\<open>heartbeat/mod.rs\<close> of device-management-service) as programs of the
  model: the generic services on a store that panics at every call without an expectation. The state
  of the mock is the list of the methods called.
\<close>

section \<open>MockDeviceStore\<close>

definition unexpected :: "string \<Rightarrow> string list \<Rightarrow> (dms_error, 'a) result \<times> string list" where
  "unexpected method calls = (Panicked, calls @ [method])"

definition returning :: "string \<Rightarrow> (dms_error, 'a) result \<Rightarrow> string list \<Rightarrow> (dms_error, 'a) result \<times> string list" where
  "returning method r calls = (r, calls @ [method])"

definition mock_new :: "string list device_store" where
  "mock_new =
     \<lparr>ds_create_device = (\<lambda>i d. unexpected ''create_device''),
      ds_get_device = (\<lambda>i did. unexpected ''get_device''),
      ds_get_by_serial = (\<lambda>i serial. unexpected ''get_by_serial''),
      ds_update_status = (\<lambda>i did st reason. unexpected ''update_status''),
      ds_touch_last_seen = (\<lambda>i did. unexpected ''touch_last_seen''),
      ds_list_devices = (\<lambda>i model st limit cursor. unexpected ''list_devices''),
      ds_register_serial = (\<lambda>i serial model. unexpected ''register_serial''),
      ds_lookup_and_claim = (\<lambda>i serial. unexpected ''lookup_and_claim''),
      ds_count_devices = (\<lambda>i. unexpected ''count_devices''),
      ds_seed_manifest = (\<lambda>i serial model token. unexpected ''seed_manifest''),
      ds_claim_manifest_entry = (\<lambda>i serial token. unexpected ''claim_manifest_entry'')\<rparr>"

definition unwrap_err :: "('e, 'a) result \<Rightarrow> (unit, 'e) result" where
  "unwrap_err r = (case r of Inl (Fail e) \<Rightarrow> Ok e | _ \<Rightarrow> Panicked)"

lemma unwrap_err_Err [simp]: "unwrap_err (Inl (Fail e)) = Inr e"
  by (simp add: unwrap_err_def)

section \<open>server/mod.rs\<close>

definition make_fleet_ca :: "pki \<Rightarrow> test_rcgen \<Rightarrow> nat \<Rightarrow> (unit, pem \<times> pem) result" where
  "make_fleet_ca pki rc i =
     try_pure (make_ca pki rc i None) (\<lambda>ca. Ok (cert_to_pem pki (ca_cert ca), serialize_key pki (ca_key ca)))"

definition make_server :: "pki \<Rightarrow> test_rcgen \<Rightarrow> (unit, device_management_server) result" where
  "make_server pki rc =
     try_pure (make_fleet_ca pki rc 0) (\<lambda>(fleet_ca_pem, fleet_ca_key).
     Ok \<lparr>srv_enrollment = \<lparr>fleet_ca_cert_pem = fleet_ca_pem, fleet_ca_key_pem = fleet_ca_key, cert_validity_days = 30\<rparr>,
         srv_device_ca_pem = ''fake-device-ca''\<rparr>)"

definition sample_record :: "string \<Rightarrow> device_record" where
  "sample_record did = \<lparr>dr_id = did, dr_serial = ''SN-TEST'', dr_model = ''humanoid-v2'', dr_firmware = ''1.0.0'',
     dr_status = ''active'', dr_cert = ''cert'', dr_enrolled_at = 0, dr_last_seen_at = 0\<rparr>"

definition test_server_get_device :: "test_rcgen \<Rightarrow> request_env \<Rightarrow> (unit, unit) result" where
  "test_server_get_device rc env =
     (let mock = mock_new\<lparr>ds_get_device := \<lambda>i did. returning ''get_device'' (Ok (sample_record did))\<rparr> in
      try_pure (make_server (rq_pki env) rc) (\<lambda>server.
      try_pure (unwrap (fst (rpc_get_device_on mock env ''dev-abc'' []))) (\<lambda>resp.
      try_pure (assert (di_device_id resp = ''dev-abc'')) (\<lambda>_.
      assert (di_status resp = ''active'')))))"

definition test_server_get_not_found :: "test_rcgen \<Rightarrow> request_env \<Rightarrow> (unit, unit) result" where
  "test_server_get_not_found rc env =
     (let mock = mock_new\<lparr>ds_get_device := \<lambda>i did. returning ''get_device'' (Err (NotFound did))\<rparr> in
      try_pure (make_server (rq_pki env) rc) (\<lambda>server.
      try_pure (unwrap_err (fst (rpc_get_device_on mock env ''ghost'' []))) (\<lambda>err.
      assert (st_code err = NotFoundCode))))"

definition test_server_update_status :: "test_rcgen \<Rightarrow> request_env \<Rightarrow> (unit, unit) result" where
  "test_server_update_status rc env =
     (let mock = mock_new\<lparr>ds_update_status := \<lambda>i did st reason. returning ''update_status'' (Ok ()),
            ds_get_device := \<lambda>i did. returning ''get_device'' (Ok ((sample_record did)\<lparr>dr_status := ''suspended''\<rparr>))\<rparr> in
      try_pure (make_server (rq_pki env) rc) (\<lambda>server.
      try_pure (unwrap (fst (rpc_update_device_status_on mock env ''dev-1'' ''suspended'' ''maintenance'' []))) (\<lambda>resp.
      try_pure (unwrap (ok_or () resp)) (\<lambda>device.
      assert (di_status device = ''suspended'')))))"

definition test_server_list_devices :: "test_rcgen \<Rightarrow> request_env \<Rightarrow> (unit, unit) result" where
  "test_server_list_devices rc env =
     (let mock = mock_new\<lparr>ds_list_devices := \<lambda>i model st limit cursor.
            returning ''list_devices'' (Ok ([sample_record ''d1'', sample_record ''d2''], None))\<rparr> in
      try_pure (make_server (rq_pki env) rc) (\<lambda>server.
      try_pure (unwrap (fst (rpc_list_devices_on mock env \<lparr>ld_model = [], ld_status = [], ld_limit = 10, ld_cursor = []\<rparr> []))) (\<lambda>resp.
      assert (length (fst resp) = 2))))"

section \<open>heartbeat/mod.rs\<close>

definition make_request :: "rat \<Rightarrow> heartbeat_request" where
  "make_request cpu = \<lparr>hb_device_id = ''dev-1'', hb_recorded_at = None, hb_cpu_percent = f64_bits cpu,
     hb_memory_percent = f64_bits 40, hb_battery_percent = f64_bits 80, hb_operational_status = ''ok''\<rparr>"

text \<open>The channel takes eight answers; \<open>times(3)\<close> is checked on the calls when the mock is dropped.\<close>

definition test_heartbeat_touches :: "(status \<Rightarrow> string) \<Rightarrow> (unit, unit) result" where
  "test_heartbeat_touches show =
     (let mock = mock_new\<lparr>ds_touch_last_seen := \<lambda>i did. returning ''touch_last_seen'' (Ok ())\<rparr> in
      case heartbeat_handle_on mock (\<lambda>i. i < 8) show [Inr (make_request 10), Inr (make_request 20), Inr (make_request 30)] [] of
        ((responses, _), calls) \<Rightarrow>
          try_pure (assert (length responses = 3)) (\<lambda>_.
          try_pure (assert (list_all (\<lambda>r. case r of Inr _ \<Rightarrow> True | Inl _ \<Rightarrow> False) responses)) (\<lambda>_.
          assert (calls = replicate 3 ''touch_last_seen''))))"

definition test_heartbeat_not_found :: "(status \<Rightarrow> string) \<Rightarrow> (unit, unit) result" where
  "test_heartbeat_not_found show =
     (let mock = mock_new\<lparr>ds_touch_last_seen := \<lambda>i did. returning ''touch_last_seen'' (Err (NotFound did))\<rparr> in
      case fst (fst (heartbeat_handle_on mock (\<lambda>i. i < 8) show [Inr (make_request 50)] [])) of
        Inl err # _ \<Rightarrow> assert (st_code err = NotFoundCode)
      | _ \<Rightarrow> Panicked)"

section \<open>enrollment/mod.rs\<close>

definition make_device_ca_and_leaf :: "pki \<Rightarrow> test_rcgen \<Rightarrow> string \<Rightarrow> (unit, pem \<times> pem \<times> pem) result" where
  "make_device_ca_and_leaf pki rc serial =
     try_pure (make_ca pki rc 0 None) (\<lambda>ca.
     try_pure (make_leaf pki rc 1 [serial] serial ca) (\<lambda>(leaf_pem, leaf_key).
     Ok (cert_to_pem pki (ca_cert ca), leaf_pem, leaf_key)))"

definition make_csr :: "pki \<Rightarrow> test_rcgen \<Rightarrow> nat \<Rightarrow> (unit, pem) result" where
  "make_csr pki rc i =
     try_pure (unwrap (generate_keypair pki i)) (\<lambda>key.
     try_pure (unwrap (tr_request rc [''test-device''] key)) (\<lambda>csr.
     unwrap (request_pem pki csr)))"

definition leaf_der :: "pki \<Rightarrow> pem \<Rightarrow> (unit, der list) result" where
  "leaf_der pki leaf_pem = unwrap (collect_results (pem_certs pki leaf_pem))"

definition test_enroll_success :: "test_rcgen \<Rightarrow> request_env \<Rightarrow> (unit, unit) result" where
  "test_enroll_success rc env =
     (let pki = rq_pki env;
          mock = mock_new\<lparr>
            ds_lookup_and_claim := \<lambda>i s. returning ''lookup_and_claim'' (Ok \<lparr>per_serial = s, per_model = ''humanoid-v2''\<rparr>),
            ds_create_device := \<lambda>i d. returning ''create_device'' (Ok
              \<lparr>dr_id = ''dev-uuid-1'', dr_serial = nd_serial d, dr_model = nd_model d, dr_firmware = nd_firmware d,
               dr_status = ''active'', dr_cert = nd_cert d, dr_enrolled_at = 0, dr_last_seen_at = 0\<rparr>)\<rparr> in
      try_pure (make_device_ca_and_leaf pki rc ''SN-ENROLL-001'') (\<lambda>(device_ca_pem, leaf_pem, _).
      try_pure (make_fleet_ca pki rc 2) (\<lambda>(fleet_ca_pem, fleet_ca_key).
      try_pure (make_csr pki rc 3) (\<lambda>csr.
      try_pure (leaf_der pki leaf_pem) (\<lambda>certs.
      try_pure (unwrap (fst (bootstrap_enroll_on mock env
          \<lparr>fleet_ca_cert_pem = fleet_ca_pem, fleet_ca_key_pem = fleet_ca_key, cert_validity_days = 30\<rparr>
          [] csr ''1.0.0'' certs device_ca_pem []))) (\<lambda>result.
      try_pure (assert (er_device_id result = ''dev-uuid-1'')) (\<lambda>_.
      assert (str_contains (er_operational_cert_pem result) ''CERTIFICATE''))))))))"

definition test_enroll_serial_mismatch :: "test_rcgen \<Rightarrow> request_env \<Rightarrow> (unit, unit) result" where
  "test_enroll_serial_mismatch rc env =
     (let pki = rq_pki env in
      try_pure (make_device_ca_and_leaf pki rc ''SN-REAL'') (\<lambda>(device_ca_pem, leaf_pem, _).
      try_pure (make_fleet_ca pki rc 2) (\<lambda>(fleet_ca_pem, fleet_ca_key).
      try_pure (make_csr pki rc 3) (\<lambda>csr.
      try_pure (leaf_der pki leaf_pem) (\<lambda>certs.
      try_pure (unwrap_err (fst (bootstrap_enroll_on mock_new env
          \<lparr>fleet_ca_cert_pem = fleet_ca_pem, fleet_ca_key_pem = fleet_ca_key, cert_validity_days = 30\<rparr>
          ''SN-WRONG'' csr ''1.0.0'' certs device_ca_pem []))) (\<lambda>err.
      assert (case err of SerialMismatch _ _ \<Rightarrow> True | _ \<Rightarrow> False)))))))"

definition test_enroll_wrong_ca :: "test_rcgen \<Rightarrow> request_env \<Rightarrow> (unit, unit) result" where
  "test_enroll_wrong_ca rc env =
     (let pki = rq_pki env in
      try_pure (make_device_ca_and_leaf pki rc ''SN-WRONGCA'') (\<lambda>(_, leaf_pem, _).
      try_pure (make_fleet_ca pki rc 2) (\<lambda>(wrong_ca_pem, _).
      try_pure (make_fleet_ca pki rc 3) (\<lambda>(fleet_ca_pem, fleet_ca_key).
      try_pure (make_csr pki rc 4) (\<lambda>csr.
      try_pure (leaf_der pki leaf_pem) (\<lambda>certs.
      try_pure (unwrap_err (fst (bootstrap_enroll_on mock_new env
          \<lparr>fleet_ca_cert_pem = fleet_ca_pem, fleet_ca_key_pem = fleet_ca_key, cert_validity_days = 30\<rparr>
          [] csr ''1.0.0'' certs wrong_ca_pem []))) (\<lambda>err.
      assert (case err of CertVerification _ \<Rightarrow> True | _ \<Rightarrow> False))))))))"

definition test_renew_inactive :: "test_rcgen \<Rightarrow> request_env \<Rightarrow> (unit, unit) result" where
  "test_renew_inactive rc env =
     (let pki = rq_pki env;
          mock = mock_new\<lparr>ds_get_device := \<lambda>i did. returning ''get_device'' (Ok ((sample_record did)
            \<lparr>dr_serial := ''SN-X'', dr_status := ''suspended''\<rparr>))\<rparr> in
      try_pure (make_fleet_ca pki rc 0) (\<lambda>(fleet_ca_pem, fleet_ca_key).
      try_pure (make_csr pki rc 1) (\<lambda>csr.
      try_pure (unwrap_err (fst (renew_cert_on mock env
          \<lparr>fleet_ca_cert_pem = fleet_ca_pem, fleet_ca_key_pem = fleet_ca_key, cert_validity_days = 30\<rparr> ''dev-id'' csr []))) (\<lambda>err.
      assert (case err of DeviceNotActive _ \<Rightarrow> True | _ \<Rightarrow> False)))))"

section \<open>The tests pass\<close>

definition mock_tests :: "test_rcgen \<Rightarrow> request_env \<Rightarrow> (status \<Rightarrow> string) \<Rightarrow> bool" where
  "mock_tests rc env show \<longleftrightarrow>
     test_server_get_device rc env = Ok () \<and> test_server_get_not_found rc env = Ok () \<and>
     test_server_update_status rc env = Ok () \<and> test_server_list_devices rc env = Ok () \<and>
     test_heartbeat_touches show = Ok () \<and> test_heartbeat_not_found show = Ok () \<and>
     test_enroll_success rc env = Ok () \<and> test_enroll_serial_mismatch rc env = Ok () \<and>
     test_enroll_wrong_ca rc env = Ok () \<and> test_renew_inactive rc env = Ok ()"

lemmas mock_defs = mock_new_def returning_def sample_record_def

lemma heartbeat_tests_work: "test_heartbeat_touches show = Ok ()" "test_heartbeat_not_found show = Ok ()"
  by (simp_all add: test_heartbeat_touches_def test_heartbeat_not_found_def make_request_def mock_defs eval_nat_numeral)

lemma str_contains_iff: "str_contains s pat \<longleftrightarrow> (\<exists>a b. s = a @ pat @ b)"
proof
  assume "str_contains s pat"
  then obtain i where "take (length pat) (drop i s) = pat" by (auto simp: str_contains_def list_ex_iff starts_with_def)
  then have "drop i s = pat @ drop (length pat) (drop i s)" by (metis append_take_drop_id)
  then show "\<exists>a b. s = a @ pat @ b" by (metis append_take_drop_id)
next
  assume "\<exists>a b. s = a @ pat @ b"
  then obtain a b where "s = a @ pat @ b" by blast
  then show "str_contains s pat"
    by (auto simp: str_contains_def list_ex_iff starts_with_def intro!: bexI [of _ "length a"])
qed

lemma contains_part: "str_contains s (p @ q) \<Longrightarrow> str_contains s q"
  unfolding str_contains_iff by (metis append.assoc)

context rcgen_works
begin

lemma make_fleet_ca_works: "make_fleet_ca pki rc i = Ok (cert_to_pem pki (root None i), serialize_key pki (key i))"
  by (simp add: make_fleet_ca_def make_ca_works)

lemma make_device_works:
  "make_device_ca_and_leaf pki rc serial =
     Ok (cert_to_pem pki (root None 0), cert_to_pem pki (leaf serial 0), serialize_key pki (key 1))"
  by (simp add: make_device_ca_and_leaf_def make_ca_works make_leaf_works)

lemma leaf_der_works: "leaf_der pki (cert_to_pem pki (leaf name i)) = Ok [der (leaf name i)]"
  by (simp add: leaf_der_def encodes)

lemma make_csr_works: "\<exists>p. make_csr pki rc i = Ok p \<and> is_ok (csr_from_pem pki p)"
  using requests(2) [of "[''test-device'']" i] by (auto simp: make_csr_def generates)

lemma server_tests_work:
  assumes "rq_pki env = pki"
  shows "test_server_get_device rc env = Ok ()" "test_server_get_not_found rc env = Ok ()"
    "test_server_update_status rc env = Ok ()" "test_server_list_devices rc env = Ok ()"
  using assms
  by (simp_all add: test_server_get_device_def test_server_get_not_found_def test_server_update_status_def
      test_server_list_devices_def make_server_def make_fleet_ca_works rpc_get_device_on_def rpc_update_device_status_on_def
      rpc_list_devices_on_def record_to_proto_def mock_defs)

lemma enroll_tests_work:
  assumes "rq_pki env = pki" and "rq_clock env 0 + 30 * 86400 \<le> time_max pki"
  shows "test_enroll_success rc env = Ok ()" "test_enroll_serial_mismatch rc env = Ok ()"
    "test_enroll_wrong_ca rc env = Ok ()" "test_renew_inactive rc env = Ok ()"
proof -
  obtain csr where csr: "make_csr pki rc 3 = Ok csr" "is_ok (csr_from_pem pki csr)" using make_csr_works by blast
  obtain csr4 where csr4: "make_csr pki rc 4 = Ok csr4" using make_csr_works by blast
  obtain csr1 where csr1: "make_csr pki rc 1 = Ok csr1" using make_csr_works by blast
  obtain cert where cert: "sign_csr pki (rq_clock env 0) csr (cert_to_pem pki (root None 2)) (serialize_key pki (key 2)) 30 = Ok cert"
    and "str_contains cert ''BEGIN CERTIFICATE''"
    using sign_works [OF csr(2), of "rq_clock env 0" 30 None 2] assms(2) by auto
  then have contains: "str_contains cert ''CERTIFICATE''" using contains_part [of cert "''BEGIN ''" "''CERTIFICATE''"] by simp
  note works = make_device_works make_fleet_ca_works leaf_der_works enroll_check_def extract_works verify_works
    bootstrap_enroll_on_def mock_defs
  show "test_enroll_success rc env = Ok ()"
    using assms(1) csr cert contains by (simp add: test_enroll_success_def works)
  show "test_enroll_serial_mismatch rc env = Ok ()"
    using assms(1) csr by (simp add: test_enroll_serial_mismatch_def works)
  show "test_enroll_wrong_ca rc env = Ok ()"
    using assms(1) csr4 by (simp add: test_enroll_wrong_ca_def works)
  show "test_renew_inactive rc env = Ok ()"
    using assms(1) csr1 by (simp add: test_renew_inactive_def make_fleet_ca_works renew_cert_on_def mock_defs)
qed

end

text \<open>
  The unit tests that mock the store pass on the model, for every library that keeps the contract
  of \<open>rcgen\<close>: the handlers translate what the store answers, a heartbeat stream touches the device once
  per message, and an enrollment with a wrong serial or a certificate of another CA is refused before
  the store is called (a call would panic).
\<close>

theorem mock_tests_pass:
  assumes "rcgen_works (rq_pki env) rc keys roots leaves enc dec" and "rq_clock env 0 + 30 * 86400 \<le> time_max (rq_pki env)"
  shows "mock_tests rc env show"
  unfolding mock_tests_def
  by (intro conjI heartbeat_tests_work rcgen_works.server_tests_work [OF assms(1)] rcgen_works.enroll_tests_work [OF assms(1)]
      refl assms(2))

theorem mock_tests_pass_witness:
  "mock_tests lab_rcgen \<lparr>rq_pki = lab_pki, rq_clock = (\<lambda>_. 0), rq_display = (\<lambda>_ _. [])\<rparr> (\<lambda>_. [])"
  by (rule mock_tests_pass) (use lab.rcgen_works_axioms in \<open>simp_all add: lab_pki_def demo_pki_def\<close>)

end
