(* ===== verification/Unit_Tests_Agent.thy ===== *)
theory Unit_Tests_Agent
  imports Unit_Tests_Mock Agent_Loops
begin

text \<open>
  The unit tests of the agent's updates (\<^verbatim>\<open>robot-agent/src/ota.rs\<close>) as programs of the model. The last of
  them is named after a behaviour of \<open>apply_update\<close> but does not call it; what its name promises is a
  theorem here.
\<close>

section \<open>ota.rs\<close>

definition test_checksum_message :: "(status \<Rightarrow> string) \<Rightarrow> (unit, unit) result" where
  "test_checksum_message d =
     (let err = AgChecksum ''aabb'' ''ccdd''; msg = agent_to_string d err in
      try_pure (assert (str_contains msg ''aabb'')) (\<lambda>_. assert (str_contains msg ''ccdd'')))"

definition test_install_message :: "(status \<Rightarrow> string) \<Rightarrow> (unit, unit) result" where
  "test_install_message d =
     (let err = AgInstall ''install.sh not found in artifact'' in
      assert (str_contains (agent_to_string d err) ''install.sh''))"

text \<open>
  What the last test asks of its host: the temporary directory, \<open>tar\<close>, which writes the archive named in its
  arguments, and \<open>create_dir_all\<close>. Directories have no entry of their own on the disk of the model.
\<close>

record test_host =
  th_temp_dir :: "(string, string) result"
  th_tar :: "string list \<Rightarrow> fs \<Rightarrow> (string, unit) result \<times> fs"
  th_create_dir_all :: "string \<Rightarrow> (string, unit) result"

definition test_missing_install_script :: "(status \<Rightarrow> string) \<Rightarrow> test_host \<Rightarrow> fs \<Rightarrow> (unit, unit) result" where
  "test_missing_install_script d h f =
     try_pure (unwrap (th_temp_dir h)) (\<lambda>tmp.
     let archive = join_path tmp ''empty.tar.gz'' in
     case th_tar h [''-czf'', archive, ''--files-from'', ''/dev/null''] f of (status, f) \<Rightarrow>
     try_pure (unwrap status) (\<lambda>_.
     let staging = join_path tmp ''staging'' in
     try_pure (unwrap (th_create_dir_all h staging)) (\<lambda>_.
     try_pure (assert (\<not> fs_exists (join_path staging ''install.sh'') f)) (\<lambda>_.
     let err = AgInstall ''install.sh not found in artifact'' in
     assert (str_contains (agent_to_string d err) ''install.sh'')))))"

definition update_tests :: "(status \<Rightarrow> string) \<Rightarrow> test_host \<Rightarrow> fs \<Rightarrow> bool" where
  "update_tests d h f \<longleftrightarrow>
     test_checksum_message d = Ok () \<and> test_install_message d = Ok () \<and> test_missing_install_script d h f = Ok ()"

section \<open>The tests pass\<close>

text \<open>A host on which the commands of the test succeed, in a fresh directory; \<open>tar\<close> only writes its archive.\<close>

definition host_works :: "test_host \<Rightarrow> string \<Rightarrow> fs \<Rightarrow> bool" where
  "host_works h tmp f \<longleftrightarrow> th_temp_dir h = Ok tmp \<and> (\<forall>dir. th_create_dir_all h dir = Ok ()) \<and>
     (\<forall>name. f (join_path (join_path tmp ''staging'') name) = None) \<and>
     (\<forall>archive args. is_ok (fst (th_tar h (''-czf'' # archive # args) f)) \<and>
        (\<forall>p. p \<noteq> archive \<longrightarrow> snd (th_tar h (''-czf'' # archive # args) f) p = f p))"

lemma install_message: "str_contains (agent_to_string d (AgInstall (''install.sh'' @ s))) ''install.sh''"
  unfolding str_contains_iff by (rule exI [of _ "''install script failed: ''"], rule exI [of _ s]) simp

lemma checksum_message:
  "str_contains (agent_to_string d (AgChecksum e a)) e" "str_contains (agent_to_string d (AgChecksum e a)) a"
  unfolding str_contains_iff
  by (rule exI [of _ "''checksum mismatch: expected ''"], rule exI [of _ "'', got '' @ a"], simp,
      rule exI [of _ "''checksum mismatch: expected '' @ e @ '', got ''"], rule exI [of _ "[]"], simp)

lemma missing_install_script_works:
  assumes "host_works h tmp f"
  shows "test_missing_install_script d h f = Ok ()"
proof -
  let ?archive = "join_path tmp ''empty.tar.gz''" and ?script = "join_path (join_path tmp ''staging'') ''install.sh''"
  obtain status f' where tar: "th_tar h [''-czf'', ?archive, ''--files-from'', ''/dev/null''] f = (status, f')" by fastforce
  with assms have status: "is_ok status" and other: "\<And>p. p \<noteq> ?archive \<Longrightarrow> f' p = f p"
    unfolding host_works_def by (metis fst_conv, metis snd_conv)
  have "?script \<noteq> ?archive" by (simp add: join_path_def)
  then have "f' ?script = None" using other assms by (simp add: host_works_def)
  with assms tar status install_message [of d "'' not found in artifact''"] show ?thesis
    by (auto simp: test_missing_install_script_def host_works_def fs_exists_def is_ok_iff Let_def)
qed

text \<open>
  The unit tests of \<^verbatim>\<open>ota.rs\<close> pass: the text of a checksum error names both checksums, that of a failed
  installation what was missing.
\<close>

theorem update_tests_pass:
  assumes "host_works h tmp f"
  shows "update_tests d h f"
  using missing_install_script_works [OF assms] install_message [of d "'' not found in artifact''"]
    checksum_message [of d "''aabb''" "''ccdd''"]
  by (simp add: update_tests_def test_checksum_message_def test_install_message_def Let_def)

theorem update_tests_pass_witness:
  "update_tests st_message \<lparr>th_temp_dir = Ok ''/tmp/t'', th_tar = (\<lambda>args f. (Ok (), f(args ! 1 \<mapsto> \<lparr>contents = [], file_mode = 420\<rparr>))),
     th_create_dir_all = (\<lambda>_. Ok ())\<rparr> Map.empty"
  by (rule update_tests_pass [where tmp = "''/tmp/t''"]) (simp add: host_works_def)

text \<open>
  What the name of the last test promises: an artifact without \<open>install.sh\<close>, downloaded with the right
  checksum or none and extracted, is refused with that error, after the extraction and before any script runs.
\<close>

theorem missing_install_script_is_refused:
  assumes "h_temp_dir h = Ok ()" and "h_get h url = Ok ()" and "h_body h url = Ok bytes"
    and "sha = [] \<or> h_sha256_hex h bytes = sha" and "h_write_archive h bytes = Ok ()" and "h_create_staging h = Ok ()"
    and "h_tar h bytes = Ok True" and "\<not> h_install_script h bytes"
  shows "apply_update h url sha [] = (Err (AgInstall ''install.sh not found in artifact''), [Extracted bytes])"
  using assms by (auto simp: apply_update_def Let_def)

theorem missing_install_script_is_refused_witness:
  "apply_update \<lparr>h_temp_dir = Ok (), h_get = (\<lambda>_. Ok ()), h_body = (\<lambda>_. Ok [1]), h_sha256_hex = (\<lambda>_. ''ab''),
      h_write_archive = (\<lambda>_. Ok ()), h_create_staging = Ok (), h_tar = (\<lambda>_. Ok True), h_install_script = (\<lambda>_. False),
      h_bash = (\<lambda>_. Ok (Some 0))\<rparr> ''u'' ''ab'' [] = (Err (AgInstall ''install.sh not found in artifact''), [Extracted [1]])"
  by (rule missing_install_script_is_refused) simp_all

end
