(* ===== verification/Spec2Isabelle.thy ===== *)
theory Spec2Isabelle
  imports Agent_Task_Properties Service_Properties Device_Lifecycle Device_Robustness Fleet_Updates
    Unit_Tests_Ota Unit_Tests_Agent
begin

text \<open>
  A verification development for robot-fleet: services that bring robots from the factory into
  a fleet, keep track of them and update them, and the agent that runs on a robot.

  \<^bold>\<open>The program.\<close> device-management-service keeps a SQLite database with the factory manifest,
  the pre-enrollment registry and the devices. In Phase 1 a robot trades a one-time token for a
  Device CA certificate (\<open>provision_device\<close>); in Phase 2 it trades that certificate for an
  operational certificate of the Fleet CA (\<open>bootstrap_enroll\<close>); in Phase 3 it sends heartbeats and
  telemetry. ota-service stores update jobs and broadcasts their commands to connected robots;
  artifact-store registers firmware artifacts and hands out upload URLs; the crate \<open>pki\<close> signs and
  checks certificates; robot-agent provisions and enrolls itself, then runs heartbeat, telemetry
  and the installation of updates.

  \<^bold>\<open>The theories.\<close>
  \<^item> \<open>Fleet_Prelude\<close>: results with errors and panics, the question-mark operator, machine integers,
    status values, tables as lists with a key.
  \<^item> \<open>Sqlite_Model\<close>: the connection with its transaction and the engine, a parameter that may fail
    any statement; query plans; the contracts of transaction bodies (\<open>tx_body\<close>), of stores that keep
    their schema (\<open>schema_store\<close>) and of one-shot claims (\<open>one_shot\<close>). \<open>Keyset_Pages\<close>: the contract of
    cursor pagination. \<open>Host_Fs\<close>: files with modes and failing writes. \<open>Rust_Strings\<close>: the string
    functions of the standard library, numbers in decimal, UTF-8. \<open>F64\<close>: IEEE binary64 with rounding to
    nearest even on rational numbers, and its bit patterns.
  \<^item> \<open>Pki\<close> (\<^verbatim>\<open>pki/src\<close>): \<open>generate_csr\<close>, \<open>sign_csr\<close>, \<open>extract_serial\<close>, \<open>verify_signed_by\<close> and the TLS
    configurations over the X.509 libraries, the record \<open>pki\<close>.
  \<^item> \<open>Device_Store\<close>, \<open>Device_Listing\<close> (\<^verbatim>\<open>store/mod.rs\<close>), \<open>Device_Enrollment\<close>
    (\<^verbatim>\<open>enrollment/mod.rs\<close>, \<^verbatim>\<open>provisioning/mod.rs\<close>), \<open>Device_Server\<close> (\<^verbatim>\<open>server/mod.rs\<close>,
    \<^verbatim>\<open>heartbeat/mod.rs\<close>, \<^verbatim>\<open>telemetry.rs\<close>), \<open>Device_Startup\<close> (the manifest in \<^verbatim>\<open>main.rs\<close>): the
    device-management service, one definition per method, handler and loop. \<open>Device_System\<close>: the
    running service as the step relation \<open>dms_trans\<close>, whose runs are all interleavings of concurrent
    handlers. \<open>Device_Lifecycle\<close>: the abstract machine that knows one stage per serial, which the
    running service implements. \<open>Device_Properties\<close>: what the service guarantees.
    \<open>Device_Trait\<close>: the trait \<open>DeviceStore\<close> as a record of operations and the handlers over any store, of which
    the handlers on SQLite are an instance. \<open>Device_Directory\<close>: a store made of three maps, and that the
    service on SQLite answers every sequence of requests as the service on the maps does.
    \<open>Device_Robustness\<close>: no request makes a handler panic.
  \<^item> \<open>Ota_Store\<close>, \<open>Ota_Dispatcher\<close>, \<open>Ota_Server\<close>, \<open>Ota_Properties\<close>: ota-service in the same way; a run is
    a sequence of requests, connections and disconnections (\<open>ota_run\<close>). The channels of tokio are
    the record \<open>broadcast\<close> with the laws \<open>broadcast_laws\<close>. \<open>Ota_System\<close>: the running service as the step
    relation \<open>ota_act\<close>, in which storing a job and sending its command are two steps between which
    other handlers run.
  \<^item> \<open>Artifact_Store\<close>, \<open>Artifact_Properties\<close>: artifact-store.
  \<^item> \<open>Durable_Stores\<close>: the constructors of the three stores with their migrations, the contract of a
    store that survives stops at any moment (\<open>durable_store\<close>, \<open>durable_schema\<close>, \<open>restartable_claim\<close>).
    \<open>Service_Startup\<close>: the \<open>main\<close> functions of the three services. \<open>Service_Properties\<close>: ports, restarts
    and failed starts.
  \<^item> \<open>Agent_Identity\<close> (\<^verbatim>\<open>provisioning.rs\<close>, \<^verbatim>\<open>enrollment.rs\<close>, \<^verbatim>\<open>main.rs\<close>), \<open>Agent_Telemetry\<close>
    (the decoder in \<^verbatim>\<open>telemetry.rs\<close>), \<open>Agent_Codec\<close> (the wire format as a specification),
    \<open>Agent_Loops\<close> (\<^verbatim>\<open>ota.rs\<close>, the reconnect loops), \<open>Agent_Heartbeat\<close> (\<^verbatim>\<open>heartbeat.rs\<close>),
    \<open>Agent_Sources\<close> (the two sources of \<^verbatim>\<open>telemetry.rs\<close>), \<open>Agent_Tasks\<close> (the end of \<^verbatim>\<open>main.rs\<close>),
    \<open>Agent_Properties\<close>, \<open>Agent_Task_Properties\<close>: the robot agent.
  \<^item> \<open>Fleet_Updates\<close>: the OTA service and the agents of the robots as one step relation, \<open>fleet_trans\<close>.
  \<^item> \<open>Unit_Tests\<close>, \<open>Unit_Tests_Ota\<close>, \<open>Unit_Tests_Wire\<close>, \<open>Unit_Tests_Pki\<close>, \<open>Unit_Tests_Mock\<close>, \<open>Unit_Tests_Agent\<close>:
    the unit tests of the three stores, the dispatcher, the artifact handlers, the decoder, the readings,
    the updates, the crate \<open>pki\<close> and the handlers over mocked stores as programs of the model, and that all of
    them pass for every environment in which they are meant to run.
  \<^item> This theory: properties that span the agent and the services.

  \<^bold>\<open>How state and effects are modelled.\<close> A store operation holds its mutex throughout, so it is a
  function on the connection; the numbered call sites of its statements may each fail, with or
  without a rollback by the engine. Clocks, fresh identifiers, key generation, files, HTTP and the
  outcome of RPCs are arguments. A stream is the list of its items until it ends. Arithmetic on
  64-bit integers wraps as in a release build; floating-point readings are rational numbers rounded
  after every operation, sent as their bit patterns. Rows of a table are typed by its schema, so
  reading a column never fails. A database file outlives its service: what was committed when the
  service stopped is what the next start finds.

  \<^bold>\<open>What is shown.\<close> For the stores: the schema and the one-active-job rule survive any operations
  under any faults and any restarts, claims are atomic and succeed at most once per key, listings
  return every row once, reads return what was written. For the service: in every interleaving the
  device table is the list of successful enrollments, every device can be traced to the operator or
  to a spent manifest token, and every step is a step of the abstract life of a robot; its answers
  are those of a directory of three maps, and no request makes it panic. For the updates: in every
  interleaving a device has at most one active job, a robot receives its commands in the order
  in which they were sent, a job that has ended is never active again; in a fleet of agents the stored outcome of a job is what
  happened on a robot of its device, and a working robot can finish all that waits for it. For the
  starts: data is kept, a second start changes nothing, each port trusts its own CA. For the agent:
  its codec round-trips and agrees with the wire format, its reader ends on every input, its readings
  are percentages, its updates are checked, its restarts are harmless. Together: a fresh robot comes up
  enrolled, and an update cycle ends with the outcome the robot reports. Several theorems state
  where the code falls short of its intent: tokens and claims spent by failures, the unchecked
  subject of a CSR, commands without a checksum, jobs that block a
  device or are lost in a restart, listings that skip jobs of the same second, renewals on the
  bootstrap port, acknowledgements of a job by any device, a configured validity that makes every
  enrollment panic, a socket that is never opened, an agent that ends without a trace, a memory
  reading that wraps around.

  \<^bold>\<open>Bounds and fuel.\<close> \<open>drain\<close> follows cursors for a given number of requests; more requests than rows
  are enough, as its theorems state. Loops over streams recurse on the list of items; the socket
  reader recurses on the remaining bytes, and the round-by-round reader is given its number of rounds,
  of which a fifth of the bytes and one more are enough. Page sizes are those of an \<open>int32\<close> field; frames are
  bounded by the million bytes the reader accepts.

  \<^bold>\<open>Not modelled.\<close> TLS handshakes and the transport below the handlers, log lines (but for those the
  theorems speak of), the generated protocol code, the simulator and the demo scripts, and the tests that start
  a server, a container or a TLS session. The syntax of
  socket addresses and URIs, the TLS configuration, the S3 client and the sine and cosine of the
  mathematical library are parameters.
\<close>

section \<open>The robot and the device-management service\<close>

text \<open>
  C7. From the factory to the fleet: a robot with an empty data directory, its token and
  working services runs through provisioning and enrollment in one start of the agent and
  comes up with the device id under which the service has registered its serial, with the
  model of the factory manifest (not the one it is configured with) and the certificate the
  Fleet CA signed; the private keys on its disk are readable by their owner only.
\<close>

theorem fresh_robot_comes_up:
  assumes "faithful_issuer (env_pki env) csr_cn (device_ca_cert_pem psrv) (device_ca_key_pem psrv)"
    and "\<And>i. no_fault (env_engine env i)" and "idle (w_net w)"
    and "vars ''DEVICE_SERIAL'' = Some serial" and "vars ''PROVISION_TOKEN'' = Some token"
    and "vars ''FLEET_CA_CERT_PEM'' = Some ca_path" and "fs_exists ca_path (w_fs w)"
    and "\<forall>s \<in> {contents (the (w_fs w ca_path)), serialize_key (env_pki env) k1, device_cert,
           serialize_key (env_pki env) k2, fleet_cert, env_uuid env}. utf8_valid s"
    and "vars ''PROVISIONING_ADDR'' = Some a1" and "vars ''BOOTSTRAP_ADDR'' = Some a2"
    and "vars ''FLEET_SERVICE_ADDR'' = Some a3"
    and "\<And>name. w_fs w (join_path (em_cert_dir (manager_of vars serial)) name) = None"
    and "row_with fm_serial serial (factory_manifest (tabs (w_net w))) = Some row"
    and "fm_token row = token" and "fm_provisioned_at row = None"
    and "row_with pe_serial serial (pre_enrollment (tabs (w_net w))) = None"
    and "serial \<notin> dr_serial ` set (devices (tabs (w_net w)))" and "env_uuid env \<notin> dr_id ` set (devices (tabs (w_net w)))"
    and "serial \<noteq> []" and "token \<noteq> []"
    and "generate_keypair (env_pki env) 2 = Ok k1" and "serialize_request (env_pki env) serial k1 = Ok q1"
    and "request_pem (env_pki env) q1 = Ok csr1" and "csr1 \<noteq> []" and "csr_cn csr1 = Some serial"
    and "generate_keypair (env_pki env) 8 = Ok k2" and "serialize_request (env_pki env) serial k2 = Ok q2"
    and "request_pem (env_pki env) q2 = Ok csr2"
    and "sign_csr (env_pki env) (env_clock env 1) csr1 (device_ca_cert_pem psrv) (device_ca_key_pem psrv) 365 = Ok device_cert"
    and "certs_from_pem (env_pki env) device_cert = Ok certs"
    and "srv_device_ca_pem srv = device_ca_cert_pem psrv"
    and "sign_csr (env_pki env) (env_clock env 0) csr2 (fleet_ca_cert_pem (srv_enrollment srv))
           (fleet_ca_key_pem (srv_enrollment srv)) (cert_validity_days (srv_enrollment srv)) = Ok fleet_cert"
  shows "\<exists>w' ident d. agent_main (env_pki env) io_reliable vars (dms_net env srv psrv) w = (Ok ident, w') \<and>
    get_by_serial (env_engine env 3) serial (w_net w') = (Ok d, w_net w') \<and>
    id_device_id ident = dr_id d \<and> dr_model d = fm_model row \<and> dr_status d = ''active'' \<and>
    id_op_cert ident = fleet_cert \<and>
    map_option file_mode (w_fs w' (device_key_path (manager_of vars serial))) = Some 384 \<and>
    map_option file_mode (w_fs w' (operational_key_path (manager_of vars serial))) = Some 384"
proof -
  let ?m = "manager_of vars serial" and ?net = "dms_net env srv psrv" and ?pki = "env_pki env"
  let ?dir = "em_cert_dir ?m" and ?ca = "contents (the (w_fs w ca_path))"
  let ?req = "\<lparr>pr_serial = serial, pr_csr_pem = csr1, pr_token = token\<rparr>"
  obtain c1 c2 r d where prov: "provision_device env psrv ?req (w_net w) = (Ok device_cert, c1)"
    and enr: "bootstrap_enroll env (srv_enrollment srv) serial csr2 (em_firmware ?m) certs (device_ca_cert_pem psrv) c1 = (Ok r, c2)"
    and r: "er_operational_cert_pem r = fleet_cert"
    and get: "get_by_serial (env_engine env 3) serial c2 = (Ok d, c2)"
    and d: "dr_id d = er_device_id r" "dr_model d = fm_model row" "dr_status d = ''active''"
    using provision_enroll_run [of env csr_cn psrv "w_net w" ?req row device_cert certs csr2 "srv_enrollment srv" fleet_cert "em_firmware ?m"]
      assms by (auto simp: case_prod_beta)
  have "er_device_id r = env_uuid env"
    using enr by (auto simp: bootstrap_enroll_def try_bind_eq_Inr elim!: enroll_finish_Inr)
  then have utf: "utf8_valid ?ca" "utf8_valid (serialize_key ?pki k1)" "utf8_valid device_cert"
    "utf8_valid (serialize_key ?pki k2)" "utf8_valid fleet_cert" "utf8_valid (er_device_id r)"
    using assms(8) by simp_all
  have m: "em_serial ?m = serial" by (simp add: manager_of_def)
  let ?f1 = "put_file 384 (device_key_path ?m) (serialize_key ?pki k1) (w_fs w)"
  let ?f2 = "put_file 420 (device_cert_path ?m) device_cert ?f1"
  let ?f3 = "put_file 384 (operational_key_path ?m) (serialize_key ?pki k2) ?f2"
  let ?f4 = "put_file 420 (operational_cert_path ?m) fleet_cert ?f3"
  let ?f5 = "put_file 420 (fleet_ca_path ?m) (er_fleet_ca_chain_pem r) ?f4"
  let ?f6 = "put_file 420 (device_id_path ?m) (er_device_id r) ?f5"
  have none: "\<not> fs_exists (join_path ?dir name) (w_fs w)" for name using assms(12) by (simp add: fs_exists_def)
  have p1: "agent_phase1 ?pki io_reliable vars ?net ?ca ?m w = (Ok (), w\<lparr>w_fs := ?f2, w_net := c1\<rparr>)"
    using none prov generate_csr_reliable [OF assms(21-23)] assms(5,9) m
    by (simp add: agent_phase1_def is_provisioned_def env_required_def provision_def Let_def on_fs_def on_net_def
        dms_net_def path_defs)
  have p2: "agent_phase2 ?pki io_reliable vars ?net ?ca ?m (w\<lparr>w_fs := ?f2, w_net := c1\<rparr>) =
      (Ok (), w\<lparr>w_fs := ?f6, w_net := c2\<rparr>)"
    using none enr r utf generate_csr_reliable [OF assms(26-28)] assms(10,30,31) m
    by (simp add: agent_phase2_def is_enrolled_def env_required_def enroll_def on_fs_def on_net_def
        dms_net_def path_defs load_device_cert_def load_pair_def open_channel_def rpc_bootstrap_enroll_def)
  have p3: "agent_phase3 io_reliable vars ?net ?ca ?m (w\<lparr>w_fs := ?f6, w_net := c2\<rparr>) =
      (Ok \<lparr>id_device_id = er_device_id r, id_op_cert = fleet_cert, id_op_key = serialize_key ?pki k2\<rparr>,
       w\<lparr>w_fs := ?f6, w_net := c2\<rparr>)"
    using assms(11) utf
    by (simp add: agent_phase3_def env_required_def dms_net_def path_defs load_operational_creds_def load_pair_def
        load_device_id_def open_channel_def)
  have main: "agent_main ?pki io_reliable vars ?net w =
      (Ok \<lparr>id_device_id = er_device_id r, id_op_cert = fleet_cert, id_op_key = serialize_key ?pki k2\<rparr>,
       w\<lparr>w_fs := ?f6, w_net := c2\<rparr>)"
    by (simp add: main_on_reliable_disk [OF assms(4,6,7) utf(1)] p1 p2 p3 Let_def)
  have modes: "map_option file_mode (?f6 (device_key_path ?m)) = Some 384"
    "map_option file_mode (?f6 (operational_key_path ?m)) = Some 384"
    using assms(12) by (simp_all add: path_defs) (simp_all add: put_file_def)
  show ?thesis
    using main get d modes by auto
qed

theorem fresh_robot_comes_up_witness:
  "\<exists>w' ident d. agent_main demo_pki io_reliable demo_vars (dms_net demo_env demo_server demo_provisioning)
      \<lparr>w_fs = fresh_disk, w_net = open_conn factory_tables\<rparr> = (Ok ident, w') \<and>
    get_by_serial reliable ''SN1'' (w_net w') = (Ok d, w_net w') \<and> id_device_id ident = dr_id d \<and> dr_model d = ''Beta''"
proof -
  let ?w = "\<lparr>w_fs = fresh_disk, w_net = open_conn factory_tables\<rparr>"
  let ?row = "\<lparr>fm_serial = ''SN1'', fm_model = ''Beta'', fm_token = ''tok1'', fm_provisioned_at = None\<rparr>"
  have env: "env_pki demo_env = demo_pki" "\<And>i. env_engine demo_env i = reliable" "\<And>i. env_clock demo_env i = 100"
    "env_uuid demo_env = ''D1''"
    by (simp_all add: demo_env_def)
  have dev: "sign_csr demo_pki 100 ''RSN1'' ''DEVICE'' ''DEVICEKEY'' 365 = Ok ''DEVICE/SN1''"
    and flt: "sign_csr demo_pki 100 ''RSN1'' ''FLEET'' ''FLEETKEY'' 365 = Ok ''FLEET/SN1''"
    by (simp_all add: demo_sign_csr)
  have dir: "w_fs ?w (join_path (em_cert_dir (manager_of demo_vars ''SN1'')) name) = None" for name
    by (simp add: demo_manager join_path_def fresh_disk_def)
  have "\<exists>w' ident d. agent_main (env_pki demo_env) io_reliable demo_vars (dms_net demo_env demo_server demo_provisioning) ?w =
      (Ok ident, w') \<and> get_by_serial (env_engine demo_env 3) ''SN1'' (w_net w') = (Ok d, w_net w') \<and>
    id_device_id ident = dr_id d \<and> dr_model d = fm_model ?row \<and> dr_status d = ''active'' \<and>
    id_op_cert ident = ''FLEET/SN1'' \<and>
    map_option file_mode (w_fs w' (device_key_path (manager_of demo_vars ''SN1''))) = Some 384 \<and>
    map_option file_mode (w_fs w' (operational_key_path (manager_of demo_vars ''SN1''))) = Some 384"
    by (rule fresh_robot_comes_up [where csr_cn = demo_csr_cn and ca_path = "''/ca''" and token = "''tok1''"
          and ?a1.0 = "''p''" and ?a2.0 = "''b''" and ?a3.0 = "''f''" and ?k1.0 = "''KEY''" and ?k2.0 = "''KEY''"
          and ?q1.0 = "''SN1''" and ?q2.0 = "''SN1''" and ?csr1.0 = "''RSN1''" and ?csr2.0 = "''RSN1''"
          and device_cert = "''DEVICE/SN1''" and certs = "[''DEVICE/SN1'']" and row = ?row])
      (use dir in \<open>simp_all add: env demo_faithful dev flt demo_server_def demo_provisioning_def demo_service_def
        demo_vars_def fresh_disk_def fs_exists_def factory_tables_def demo_csr_cn_def\<close>,
       simp_all add: demo_pki_def certs_from_pem_def)
  then show ?thesis by (auto simp: env)
qed

text \<open>What a provisioning request that was answered has done to the manifest, under any faults.\<close>

lemma provision_device_spends:
  assumes "provision_device env srv req c = (Inr cert, c1)"
  obtains row where "idle c1" "pr_serial req \<noteq> []" "pr_token req \<noteq> []"
    "row_with fm_serial (pr_serial req) (factory_manifest (tabs c1)) = Some row"
    "fm_token row = pr_token req" "fm_provisioned_at row \<noteq> None"
proof -
  from assms obtain m where ne: "pr_serial req \<noteq> []" "pr_token req \<noteq> []"
    and claim: "claim_manifest_entry (env_engine env 0) (env_clock env 0) (pr_serial req) (pr_token req) c = (Inr m, c1)"
    by (auto simp: provision_device_def try_bind_eq_Inr map_err_st_Inr split: if_splits)
  from claim obtain row where "idle c" and row: "row_with fm_serial (pr_serial req) (factory_manifest (tabs c)) = Some row"
    "fm_token row = pr_token req"
    and c1: "c1 = c\<lparr>tabs := provision_serial (env_clock env 0) (pr_serial req) (fm_model row) (tabs c)\<rparr>"
    by (rule claim_manifest_entry_Inr)
  then show ?thesis
    using that [of "row\<lparr>fm_provisioned_at := Some (env_clock env 0)\<rparr>"] ne by (simp add: row_with_provision idle_def)
qed

text \<open>A start of a robot whose token is spent and that has no device certificate, with everything working.\<close>

lemma start_with_spent_token:
  assumes "\<And>i. no_fault (env_engine env i)" and "idle (w_net w)"
    and "vars ''DEVICE_SERIAL'' = Some serial" and "vars ''PROVISION_TOKEN'' = Some token"
    and "vars ''FLEET_CA_CERT_PEM'' = Some ca_path" and "fs_exists ca_path (w_fs w)"
    and "utf8_valid (contents (the (w_fs w ca_path)))" and "vars ''PROVISIONING_ADDR'' = Some addr"
    and "\<not> is_provisioned (manager_of vars serial) (w_fs w)"
    and "serial \<noteq> []" and "token \<noteq> []"
    and "row_with fm_serial serial (factory_manifest (tabs (w_net w))) = Some row" and "fm_token row = token"
    and "fm_provisioned_at row \<noteq> None"
    and "generate_keypair (env_pki env) 2 = Ok k" and "serialize_request (env_pki env) serial k = Ok q"
    and "request_pem (env_pki env) q = Ok csr" and "csr \<noteq> []"
  shows "agent_main (env_pki env) io_reliable vars (dms_net env srv psrv) w =
      (Err (MainAgent (AgGrpc (status_of AlreadyExists serial))),
       w\<lparr>w_fs := put_file 384 (device_key_path (manager_of vars serial)) (serialize_key (env_pki env) k) (w_fs w)\<rparr>)"
proof -
  let ?m = "manager_of vars serial"
  have m: "em_serial ?m = serial" by (simp add: manager_of_def)
  have "claim_manifest_entry (env_engine env 0) (env_clock env 0) serial token (w_net w) =
      (Err (AlreadyProvisioned serial), w_net w)"
    using assms(1,2,12-14) by (simp add: claim_manifest_entry_healthy)
  then have prov: "provision_device env psrv \<lparr>pr_serial = serial, pr_csr_pem = csr, pr_token = token\<rparr> (w_net w) =
      (Err (status_of AlreadyExists serial), w_net w)"
    using assms(10,11,18) by (simp add: provision_device_def)
  have "agent_phase1 (env_pki env) io_reliable vars (dms_net env srv psrv) (contents (the (w_fs w ca_path))) ?m w =
      (Err (MainAgent (AgGrpc (status_of AlreadyExists serial))),
       w\<lparr>w_fs := put_file 384 (device_key_path ?m) (serialize_key (env_pki env) k) (w_fs w)\<rparr>)"
    using prov generate_csr_reliable [OF assms(15-17)] assms(4,8,9) m
    by (simp add: agent_phase1_def env_required_def provision_def Let_def on_fs_def on_net_def dms_net_def path_defs)
  then show ?thesis
    by (simp add: main_on_reliable_disk [OF assms(3,5,6,7)] Let_def)
qed

text \<open>
  A network that carries the provisioning request to the service and loses the answer: the agent sees
  the status \<open>st\<close>. And the state after \<open>n\<close> starts of the agent, the \<open>i\<close>-th in environment \<open>envs i\<close>, with the
  network and the disk working.
\<close>

definition losing_answer :: "status \<Rightarrow> 's agent_net \<Rightarrow> 's agent_net" where
  "losing_answer st net = net\<lparr>net_provision := \<lambda>req s. (Err st, snd (net_provision net req s))\<rparr>"

primrec agent_starts :: "(nat \<Rightarrow> dms_env) \<Rightarrow> (string \<Rightarrow> string option) \<Rightarrow> device_management_server \<Rightarrow> provisioning_server
    \<Rightarrow> nat \<Rightarrow> dconn world \<Rightarrow> dconn world" where
  "agent_starts envs vars srv psrv 0 w = w"
| "agent_starts envs vars srv psrv (Suc n) w =
     snd (agent_main (env_pki (envs n)) io_reliable vars (dms_net (envs n) srv psrv) (agent_starts envs vars srv psrv n w))"

text \<open>
  C36. The token is spent when the service answers, not when the robot has its certificate. A robot
  that is not provisioned starts, the service answers its provisioning request with a certificate, and the
  answer is lost: the start fails, with the service in the state after its answer. Every later start, the
  first, the second and so on, with disk, network and database working, is then refused as already provisioned,
  leaves the service as it was and the robot without a certificate.
\<close>

theorem lost_provisioning_answer_is_final:
  assumes "vars ''DEVICE_SERIAL'' = Some serial" and "vars ''PROVISION_TOKEN'' = Some token"
    and "vars ''FLEET_CA_CERT_PEM'' = Some ca_path" and "fs_exists ca_path (w_fs w)"
    and "utf8_valid (contents (the (w_fs w ca_path)))" and "vars ''PROVISIONING_ADDR'' = Some addr"
    and "ca_path \<noteq> device_key_path (manager_of vars serial)" and "\<not> is_provisioned (manager_of vars serial) (w_fs w)"
    and "generate_keypair (env_pki env) 2 = Ok k" and "serialize_request (env_pki env) serial k = Ok q"
    and "request_pem (env_pki env) q = Ok csr"
    and "provision_device env psrv \<lparr>pr_serial = serial, pr_csr_pem = csr, pr_token = token\<rparr> (w_net w) = (Ok cert, c1)"
    and "\<And>n i. no_fault (env_engine (envs n) i)"
    and "\<And>n. \<exists>k q csr. generate_keypair (env_pki (envs n)) 2 = Ok k \<and> serialize_request (env_pki (envs n)) serial k = Ok q \<and>
      request_pem (env_pki (envs n)) q = Ok csr \<and> csr \<noteq> []"
  shows "\<exists>w1. agent_main (env_pki env) io_reliable vars (losing_answer st (dms_net env srv psrv)) w =
      (Err (MainAgent (AgGrpc st)), w1) \<and> w_net w1 = c1 \<and>
    (\<forall>n. let wn = agent_starts envs vars srv psrv n w1 in
       fst (agent_main (env_pki (envs n)) io_reliable vars (dms_net (envs n) srv psrv) wn) =
         Err (MainAgent (AgGrpc (status_of AlreadyExists serial))) \<and>
       w_net wn = c1 \<and> \<not> is_provisioned (manager_of vars serial) (w_fs wn))"
proof -
  let ?m = "manager_of vars serial"
  have m: "em_serial ?m = serial" by (simp add: manager_of_def)
  define w1 where "w1 = w\<lparr>w_fs := put_file 384 (device_key_path ?m) (serialize_key (env_pki env) k) (w_fs w), w_net := c1\<rparr>"
  have "agent_phase1 (env_pki env) io_reliable vars (losing_answer st (dms_net env srv psrv)) (contents (the (w_fs w ca_path))) ?m w =
      (Err (MainAgent (AgGrpc st)), w1)"
    using assms(2,6,8,12) generate_csr_reliable [OF assms(9-11)] m
    by (simp add: agent_phase1_def env_required_def provision_def Let_def on_fs_def on_net_def dms_net_def losing_answer_def
        path_defs w1_def)
  then have first: "agent_main (env_pki env) io_reliable vars (losing_answer st (dms_net env srv psrv)) w = (Err (MainAgent (AgGrpc st)), w1)"
    by (simp add: main_on_reliable_disk [OF assms(1,3-5)] Let_def)
  from provision_device_spends [OF assms(12)] obtain row where spent: "idle c1" "serial \<noteq> []" "token \<noteq> []"
    "row_with fm_serial serial (factory_manifest (tabs c1)) = Some row" "fm_token row = token" "fm_provisioned_at row \<noteq> None"
    by auto
  define stuck where "stuck = (\<lambda>wn :: dconn world. w_net wn = c1 \<and> \<not> is_provisioned ?m (w_fs wn) \<and> w_fs wn ca_path = w_fs w ca_path)"
  have step: "\<exists>f. agent_main (env_pki (envs n)) io_reliable vars (dms_net (envs n) srv psrv) wn =
      (Err (MainAgent (AgGrpc (status_of AlreadyExists serial))), wn\<lparr>w_fs := f\<rparr>) \<and> stuck (wn\<lparr>w_fs := f\<rparr>)"
    if wn: "stuck wn" for n wn
  proof -
    obtain k' q' csr' where key: "generate_keypair (env_pki (envs n)) 2 = Ok k'" "serialize_request (env_pki (envs n)) serial k' = Ok q'"
      "request_pem (env_pki (envs n)) q' = Ok csr'" "csr' \<noteq> []" using assms(14) by blast
    have ca: "fs_exists ca_path (w_fs wn)" "utf8_valid (contents (the (w_fs wn ca_path)))"
      using wn assms(4,5) by (simp_all add: stuck_def fs_exists_def)
    have "stuck (wn\<lparr>w_fs := put_file 384 (device_key_path ?m) (serialize_key (env_pki (envs n)) k') (w_fs wn)\<rparr>)"
      using wn assms(7) by (simp add: stuck_def is_provisioned_def path_defs)
    moreover have "agent_main (env_pki (envs n)) io_reliable vars (dms_net (envs n) srv psrv) wn =
      (Err (MainAgent (AgGrpc (status_of AlreadyExists serial))),
       wn\<lparr>w_fs := put_file 384 (device_key_path ?m) (serialize_key (env_pki (envs n)) k') (w_fs wn)\<rparr>)"
      using wn spent by (intro start_with_spent_token [OF assms(13) _ assms(1-3) ca assms(6) _ spent(2,3) _ _ spent(6) key])
        (simp_all add: stuck_def)
    ultimately show ?thesis by blast
  qed
  have "stuck w1" using assms(7,8) by (simp add: stuck_def w1_def is_provisioned_def path_defs)
  then have "stuck (agent_starts envs vars srv psrv n w1)" for n
  proof (induction n)
    case (Suc n)
    then show ?case using step [of "agent_starts envs vars srv psrv n w1" n] by auto
  qed simp
  then have "\<forall>n. let wn = agent_starts envs vars srv psrv n w1 in
      fst (agent_main (env_pki (envs n)) io_reliable vars (dms_net (envs n) srv psrv) wn) =
        Err (MainAgent (AgGrpc (status_of AlreadyExists serial))) \<and> w_net wn = c1 \<and> \<not> is_provisioned ?m (w_fs wn)"
    using step by (metis fst_conv stuck_def)
  with first show ?thesis by (intro exI [of _ w1]) (simp add: w1_def)
qed

text \<open>A fresh robot of the manifest whose first answer is lost, and its next start.\<close>

theorem lost_provisioning_answer_is_final_witness:
  "\<exists>w1. agent_main demo_pki io_reliable demo_vars
      (losing_answer (status_of Unavailable ''broken pipe'') (dms_net demo_env demo_server demo_provisioning))
      \<lparr>w_fs = fresh_disk, w_net = open_conn factory_tables\<rparr> =
      (Err (MainAgent (AgGrpc (status_of Unavailable ''broken pipe''))), w1) \<and>
    fst (agent_main demo_pki io_reliable demo_vars (dms_net demo_env demo_server demo_provisioning) w1) =
      Err (MainAgent (AgGrpc (status_of AlreadyExists ''SN1'')))"
proof -
  let ?w = "\<lparr>w_fs = fresh_disk, w_net = open_conn factory_tables\<rparr>" and ?net = "dms_net demo_env demo_server demo_provisioning"
    and ?st = "status_of Unavailable ''broken pipe''"
  have env: "env_pki demo_env = demo_pki" by (simp add: demo_env_def)
  have "sign_csr demo_pki 100 ''RSN1'' ''DEVICE'' ''DEVICEKEY'' 365 = Ok ''DEVICE/SN1''" by (simp add: demo_sign_csr)
  then obtain c1 where c1: "provision_device demo_env demo_provisioning \<lparr>pr_serial = ''SN1'', pr_csr_pem = ''RSN1'', pr_token = ''tok1''\<rparr>
      (w_net ?w) = (Ok ''DEVICE/SN1'', c1)"
    by (simp add: provision_device_def claim_manifest_entry_healthy demo_env_def demo_provisioning_def factory_tables_def)
  have key: "generate_keypair demo_pki 2 = Ok ''KEY''" "serialize_request demo_pki ''SN1'' ''KEY'' = Ok ''SN1''"
    "request_pem demo_pki ''SN1'' = Ok ''RSN1''" by (simp_all add: demo_pki_def)
  have "\<exists>w1. agent_main (env_pki demo_env) io_reliable demo_vars (losing_answer ?st ?net) ?w = (Err (MainAgent (AgGrpc ?st)), w1) \<and>
    w_net w1 = c1 \<and> (\<forall>n. let wn = agent_starts (\<lambda>_. demo_env) demo_vars demo_server demo_provisioning n w1 in
       fst (agent_main (env_pki demo_env) io_reliable demo_vars ?net wn) = Err (MainAgent (AgGrpc (status_of AlreadyExists ''SN1''))) \<and>
       w_net wn = c1 \<and> \<not> is_provisioned (manager_of demo_vars ''SN1'') (w_fs wn))"
    by (rule lost_provisioning_answer_is_final [OF _ _ _ _ _ _ _ _ _ _ _ c1, where ca_path = "''/ca''" and addr = "''p''"
          and k = "''KEY''" and q = "''SN1''"])
      (use key in \<open>simp_all add: env demo_vars_def fresh_disk_def fs_exists_def is_provisioned_def\<close>,
       simp_all add: demo_env_def path_defs join_path_def manager_of_def env_or_def)
  then obtain w1 where w1: "agent_main demo_pki io_reliable demo_vars (losing_answer ?st ?net) ?w = (Err (MainAgent (AgGrpc ?st)), w1)"
    and later: "\<And>n. fst (agent_main demo_pki io_reliable demo_vars ?net
      (agent_starts (\<lambda>_. demo_env) demo_vars demo_server demo_provisioning n w1)) = Err (MainAgent (AgGrpc (status_of AlreadyExists ''SN1'')))"
    by (auto simp: env Let_def)
  show ?thesis using w1 later [of 0] by (intro exI [of _ w1]) simp
qed

section \<open>The robot and the OTA service\<close>

text \<open>
  C38. The service stores neither artifact nor checksum for a dispatched job, so every command a
  robot can receive, in any state the service reaches, has an empty checksum and an empty URL,
  and the agent, for which an empty checksum means no check, would extract and run whatever
  bytes it got for it without ever reporting a mismatch.
\<close>

theorem dispatched_updates_are_unverified:
  assumes "broadcast_laws bc queues cap"
    and "backlog queues (ot_senders (ota_run bc evs)) did r = Some xs" and "cmd \<in> set xs"
  shows "uc_sha256 cmd = [] \<and> uc_artifact_url cmd = [] \<and>
    (\<forall>h acts e a. fst (apply_update h (uc_artifact_url cmd) (uc_sha256 cmd) acts) \<noteq> Err (AgChecksum e a))"
proof -
  from ota_inv_run [OF assms(1), of evs] assms(2,3) have "job_of (tabs (ot_conn (ota_run bc evs))) did cmd"
    unfolding ota_inv_def by blast
  moreover have "no_artifact (tabs (ot_conn (ota_run bc evs)))"
    by (rule conn_all_tabs [OF no_artifact_run])
  ultimately have sha: "uc_sha256 cmd = []" "uc_artifact_url cmd = []"
    by (auto simp: job_of_def no_artifact_def)
  have "fst (apply_update h url [] acts) \<noteq> Err (AgChecksum e a)" for h url acts e a
    using apply_update_checksum [of h url "[]" acts e a] by (metis prod.collapse)
  with sha show ?thesis by simp
qed

theorem dispatched_updates_are_unverified_witness:
  "uc_sha256 demo_command = [] \<and> fst (apply_update demo_host (uc_artifact_url demo_command) (uc_sha256 demo_command) []) \<noteq>
     Err (AgChecksum [] ''hash...'')"
proof -
  have "backlog list_queues (ot_senders (ota_run list_broadcast
      [Watch ''D1'', Dispatch reliable ''J1'' ''t1'' demo_dispatch])) ''D1'' 1 = Some [demo_command]"
    by (simp add: demo_run backlog_def)
  from dispatched_updates_are_unverified [OF list_broadcast_laws this, of demo_command] show ?thesis by auto
qed

text \<open>
  C21. The cycle of an update: a robot that receives the command of the active job of its device
  and acknowledges it with what it sent frees the device, and the job ends as completed
  exactly when the update was applied, as failed with the agent's error text otherwise.
\<close>

theorem update_cycle:
  assumes "no_fault eng" and "wf_jobs (tabs (ot_conn st))"
    and "row \<in> set (update_jobs (tabs (ot_conn st)))" and "active_for did row" and "jb_id row = uc_update_job_id cmd"
    and "ota_stream aenv 0 did [Inr cmd] [] = ([ack], acts, r)"
  shows "\<exists>st' row'. ack_update eng now \<lparr>au_device_id = aa_device_id ack, au_update_job_id = aa_update_job_id ack,
        au_success = aa_success ack, au_error_message = aa_error_message ack\<rparr> st = (Ok True, st') \<and>
    no_active did (tabs (ot_conn st')) \<and>
    row_with jb_id (uc_update_job_id cmd) (update_jobs (tabs (ot_conn st'))) = Some row' \<and>
    (jb_status row' = ''completed'' \<longleftrightarrow> is_ok (fst (apply_update (oe_host aenv 0) (uc_artifact_url cmd) (uc_sha256 cmd) []))) \<and>
    (jb_status row' = ''failed'' \<longrightarrow> jb_error_message row' = non_empty (aa_error_message ack))"
proof -
  obtain res acts1 where a: "apply_update (oe_host aenv 0) (uc_artifact_url cmd) (uc_sha256 cmd) [] = (res, acts1)" by fastforce
  have ack: "ack = ack_of aenv did cmd res"
    using assms(6) by (cases res rule: sum.exhaust)
      (auto simp: a Let_def split: failure.splits sum.splits)
  have jid: "jb_id row = au_update_job_id \<lparr>au_device_id = aa_device_id ack, au_update_job_id = aa_update_job_id ack,
        au_success = aa_success ack, au_error_message = aa_error_message ack\<rparr>" and ok: "aa_success ack = is_ok res"
    using assms(5) by (simp_all add: ack ack_of_def split: sum.split)
  from ack_run [OF assms(1-4) jid, of now] jid ok a show ?thesis
    by (auto simp: finish_row_def assms(5))
qed

theorem update_cycle_witness:
  "\<exists>st' row'. ack_update reliable ''t2'' \<lparr>au_device_id = ''D1'', au_update_job_id = ''J1'', au_success = True,
        au_error_message = []\<rparr> (add_job (dispatched_row ''J1'' ''t1'' demo_dispatch) watched) = (Ok True, st') \<and>
    row_with jb_id ''J1'' (update_jobs (tabs (ot_conn st'))) = Some row' \<and> jb_status row' = ''completed''"
proof -
  let ?st = "add_job (dispatched_row ''J1'' ''t1'' demo_dispatch) watched"
  let ?row = "dispatched_row ''J1'' ''t1'' demo_dispatch"
  let ?ack = "\<lparr>aa_update_job_id = ''J1'', aa_device_id = ''D1'', aa_success = True, aa_error_message = [], aa_version = ''2.0''\<rparr>"
  have j: "update_jobs (tabs (ot_conn ?st)) = [?row]"
    by (simp add: add_job_def watched_eq empty_jobs_def)
  have wf: "wf_jobs (tabs (ot_conn ?st))"
    unfolding wf_jobs_def j by (simp add: new_job_row_def from_str_def)
  have act: "active_for ''D1'' ?row" and jid: "jb_id ?row = uc_update_job_id demo_command"
    by (simp_all add: active_for_def active_status_def new_job_row_def dispatch_new_job_def demo_dispatch_def demo_command_def)
  have ok: "apply_update demo_host [] [] [] = (Ok (), [Extracted [1, 2, 3], RanInstall [1, 2, 3]])"
    by (simp add: apply_update_def demo_host_def)
  have run: "ota_stream demo_ota_env 0 ''D1'' [Inr demo_command] [] = ([?ack], [Extracted [1, 2, 3], RanInstall [1, 2, 3]], Ok ())"
    using ok by (simp add: demo_ota_env_def demo_command_def ack_of_def)
  have "?row \<in> set (update_jobs (tabs (ot_conn ?st)))" by (simp add: j)
  from update_cycle [OF _ wf this act jid run, of reliable "''t2''"] show ?thesis
    by (auto simp: demo_ota_env_def demo_command_def ok)
qed

end
